(* ===== verification/Krpc_Prelude.thy ===== *)
theory Krpc_Prelude
  imports Main "HOL-Library.Word"
begin

text \<open>
  Shared vocabulary of the development: how a C++ function ends (value, process exit,
  exception, undefined behaviour), the operations of \<^verbatim>\<open>std::string\<close> the sources use, C strings,
  \<^verbatim>\<open>atoi\<close> and the \<^verbatim>\<open>%d\<close> conversion, and the insertion of the standard maps.
  A \<^verbatim>\<open>std::string\<close> and a byte buffer are both a list of \<open>char\<close> (one \<open>char\<close> is one byte).
\<close>

section \<open>Ends of a computation\<close>

datatype fault =
    ExitFailure
  | OutOfRange
  | RuntimeError string
  | Undefined string
  | Killed

type_synonym 'a res = "fault + 'a"

definition res_bind :: "'a res \<Rightarrow> ('a \<Rightarrow> 'b res) \<Rightarrow> 'b res" where
  "res_bind r f = (case r of Inl e \<Rightarrow> Inl e | Inr x \<Rightarrow> f x)"

named_theorems cpp_eval \<open>equations that run the modelled C++ library operations\<close>

lemma res_bind_Inr [simp]: "res_bind (Inr x) f = f x"
  by (simp add: res_bind_def)

lemma res_bind_Inl [simp]: "res_bind (Inl e) f = Inl e"
  by (simp add: res_bind_def)

lemma res_bind_eq_Inr:
  "res_bind r f = Inr y \<longleftrightarrow> (\<exists>x. r = Inr x \<and> f x = Inr y)"
  by (cases r) auto

section \<open>Characters\<close>

abbreviation SP :: char where "SP \<equiv> CHR '' ''"
abbreviation LF :: char where "LF \<equiv> CHR 0x0A"
abbreviation NUL :: char where "NUL \<equiv> CHR 0x00"

section \<open>Operations of std::string\<close>

text \<open>
  Positions are C \<open>int\<close>s in the sources: \<^verbatim>\<open>std::string::npos\<close> becomes \<open>-1\<close>, and an \<open>int\<close> passed
  for a \<^verbatim>\<open>size_t\<close> is taken modulo \<open>2 ^ 64\<close>.  Every string searched is shorter than
  \<open>2 ^ 31\<close> bytes (a 1024 byte line, a 64 byte node), so no position is truncated.
\<close>

definition size_of_int :: "int \<Rightarrow> nat" where
  "size_of_int i = (if 0 \<le> i then nat i else nat (i + 2 ^ 64))"

definition str_find :: "char \<Rightarrow> int \<Rightarrow> string \<Rightarrow> int" where
  "str_find c pos s =
     (let p = size_of_int pos;
          n = p + length (takeWhile (\<lambda>x. x \<noteq> c) (drop p s))
      in if n < length s then int n else -1)"

definition find_first_not_of :: "char \<Rightarrow> string \<Rightarrow> int" where
  "find_first_not_of c s =
     (let n = length (takeWhile (\<lambda>x. x = c) s) in if n < length s then int n else -1)"

definition find_last_not_of :: "char \<Rightarrow> string \<Rightarrow> int" where
  "find_last_not_of c s =
     (let n = length (takeWhile (\<lambda>x. x = c) (rev s))
      in if n < length s then int (length s - 1 - n) else -1)"

definition substr :: "string \<Rightarrow> int \<Rightarrow> int \<Rightarrow> string res" where
  "substr s pos n =
     (if size_of_int pos > length s then Inl OutOfRange
      else Inr (take (size_of_int n) (drop (size_of_int pos) s)))"

definition str_at :: "string \<Rightarrow> nat \<Rightarrow> char" where
  \<comment> \<open>\<open>s[i]\<close> for \<open>i \<le> s.size()\<close>: the terminator is readable\<close>
  "str_at s i = (if i < length s then s ! i else NUL)"

definition c_str_to_string :: "string \<Rightarrow> string" where
  \<comment> \<open>\<open>std::string(buf)\<close> of a terminated buffer\<close>
  "c_str_to_string buf = takeWhile (\<lambda>c. c \<noteq> NUL) buf"

lemma size_of_int_nat [simp]: "size_of_int (int n) = n"
  by (simp add: size_of_int_def)

lemma size_of_int_0 [simp]: "size_of_int 0 = 0"
  by (simp add: size_of_int_def)

lemma size_of_int_Suc [simp]: "size_of_int (int n + 1) = Suc n"
  by (simp add: size_of_int_def)

lemma size_of_int_diff [simp]: "b \<le> a \<Longrightarrow> size_of_int (int a - int b) = a - b"
  by (simp add: size_of_int_def nat_diff_distrib')

lemma size_of_int_neg: "- (2 ^ 31) \<le> i \<Longrightarrow> i < 0 \<Longrightarrow> 2 ^ 63 \<le> size_of_int i"
  by (simp add: size_of_int_def)

lemma takeWhile_neq_append:
  "c \<notin> set a \<Longrightarrow> takeWhile (\<lambda>x. x \<noteq> c) (a @ b) = a @ takeWhile (\<lambda>x. x \<noteq> c) b"
  by (induction a) auto

lemma takeWhile_neq_all: "c \<notin> set a \<Longrightarrow> takeWhile (\<lambda>x. x \<noteq> c) a = a"
  by (induction a) auto

lemma str_find_hit [cpp_eval]: "c \<notin> set a \<Longrightarrow> str_find c 0 (a @ c # b) = int (length a)"
  by (simp add: str_find_def takeWhile_neq_append)

lemma str_find_miss [cpp_eval]:
  assumes "c \<notin> set s"
  shows "str_find c pos s = -1"
proof -
  have "c \<notin> set (drop (size_of_int pos) s)" using assms by (auto dest: in_set_dropD)
  then have "takeWhile (\<lambda>x. x \<noteq> c) (drop (size_of_int pos) s) = drop (size_of_int pos) s"
    by (rule takeWhile_neq_all)
  then show ?thesis
    by (auto simp: str_find_def Let_def simp del: takeWhile_eq_all_conv)
qed

lemma str_find_from [cpp_eval]:
  "c \<notin> set b \<Longrightarrow> str_find c (int (length a)) (a @ b @ c # d) = int (length a + length b)"
  by (simp add: str_find_def takeWhile_neq_append)

lemma str_find_from_miss [cpp_eval]:
  "c \<notin> set b \<Longrightarrow> str_find c (int (length a)) (a @ b) = -1"
  using takeWhile_neq_all [of c b]
  by (simp add: str_find_def Let_def del: takeWhile_eq_all_conv)

lemma substr_prefix [cpp_eval]: "substr (a @ b) 0 (int (length a)) = Inr a"
  by (simp add: substr_def)

lemma substr_mid [cpp_eval]:
  "substr (a @ b @ c) (int (length a)) (int (length b)) = Inr b"
  by (simp add: substr_def)

lemma str_at_Nil [simp]: "str_at [] i = NUL"
  by (simp add: str_at_def)

lemma str_at_Cons_0 [simp]: "str_at (c # s) 0 = c"
  by (simp add: str_at_def)

lemma c_str_id [cpp_eval]: "NUL \<notin> set s \<Longrightarrow> c_str_to_string s = s"
  by (auto simp: c_str_to_string_def takeWhile_eq_all_conv)

section \<open>atoi and the decimal conversion of sprintf\<close>

definition digit_char :: "nat \<Rightarrow> char" where
  "digit_char d = char_of (48 + d)"

definition is_digit :: "char \<Rightarrow> bool" where
  "is_digit c \<longleftrightarrow> 48 \<le> (of_char c :: nat) \<and> (of_char c :: nat) \<le> 57"

definition is_space :: "char \<Rightarrow> bool" where
  "is_space c \<longleftrightarrow> c = SP \<or> (9 \<le> (of_char c :: nat) \<and> (of_char c :: nat) \<le> 13)"

fun show_nat :: "nat \<Rightarrow> string" where
  "show_nat n = (if n < 10 then [digit_char n] else show_nat (n div 10) @ [digit_char (n mod 10)])"

declare show_nat.simps [simp del]

definition show_int :: "int \<Rightarrow> string" where
  "show_int i = (if i < 0 then CHR ''-'' # show_nat (nat (- i)) else show_nat (nat i))"

fun atoi_digits :: "int \<Rightarrow> string \<Rightarrow> int" where
  "atoi_digits acc [] = acc"
| "atoi_digits acc (c # cs) =
     (if is_digit c then atoi_digits (acc * 10 + int (of_char c) - 48) cs else acc)"

definition atoi :: "string \<Rightarrow> int" where
  "atoi s =
     (case dropWhile is_space s of
        [] \<Rightarrow> 0
      | c # cs \<Rightarrow>
          if c = CHR ''-'' then - atoi_digits 0 cs
          else if c = CHR ''+'' then atoi_digits 0 cs
          else atoi_digits 0 (c # cs))"

lemma of_char_digit: "d < 10 \<Longrightarrow> of_char (digit_char d) = (48 + d :: nat)"
  by (simp add: digit_char_def of_char_of)

lemma is_digit_digit_char [simp]: "d < 10 \<Longrightarrow> is_digit (digit_char d)"
  by (simp add: is_digit_def of_char_digit)

lemma show_nat_digits: "c \<in> set (show_nat n) \<Longrightarrow> is_digit c"
proof (induction n rule: show_nat.induct)
  case (1 n)
  then show ?case
    by (cases "n < 10") (auto simp: show_nat.simps [of n])
qed

lemma show_nat_ne [simp]: "show_nat n \<noteq> []"
  by (subst show_nat.simps) simp

lemma atoi_digits_append:
  "(\<And>c. c \<in> set a \<Longrightarrow> is_digit c) \<Longrightarrow>
   atoi_digits acc (a @ b) = atoi_digits (atoi_digits acc a) b"
  by (induction a arbitrary: acc) auto

lemma atoi_digits_show_nat: "atoi_digits 0 (show_nat n) = int n"
proof (induction n rule: show_nat.induct)
  case (1 n)
  show ?case
  proof (cases "n < 10")
    case True
    then show ?thesis by (simp add: show_nat.simps [of n] of_char_digit)
  next
    case False
    then have "atoi_digits 0 (show_nat n) =
        atoi_digits (atoi_digits 0 (show_nat (n div 10))) [digit_char (n mod 10)]"
      by (simp add: show_nat.simps [of n] atoi_digits_append show_nat_digits)
    also have "\<dots> = int (n div 10) * 10 + int (n mod 10)"
      using 1 False by (simp add: of_char_digit)
    finally show ?thesis by (simp add: zdiv_int zmod_int)
  qed
qed

lemma is_digit_not [simp]:
  "\<not> is_digit CHR ''-''" "\<not> is_digit CHR ''+''" "\<not> is_digit CHR '':''" "\<not> is_digit NUL"
  "\<not> is_digit LF" "\<not> is_digit CHR ''/''"
  by (simp_all add: is_digit_def)

lemma is_digit_not_space: "is_digit c \<Longrightarrow> \<not> is_space c"
  by (auto simp: is_digit_def is_space_def)

lemma atoi_show_int [cpp_eval]: "atoi (show_int i) = i"
proof (cases "i < 0")
  case True
  have "\<not> is_space CHR ''-''" by (simp add: is_space_def)
  with True show ?thesis by (simp add: atoi_def show_int_def atoi_digits_show_nat)
next
  case False
  obtain c cs where s: "show_nat (nat i) = c # cs"
    by (cases "show_nat (nat i)") auto
  then have d: "is_digit c" using show_nat_digits [of c "nat i"] by simp
  then have "c \<noteq> CHR ''-''" "c \<noteq> CHR ''+''" by auto
  with False s d show ?thesis
    using atoi_digits_show_nat [of "nat i"]
    by (simp add: atoi_def show_int_def is_digit_not_space)
qed

lemma show_int_chars: "c \<in> set (show_int i) \<Longrightarrow> is_digit c \<or> c = CHR ''-''"
  by (auto simp: show_int_def split: if_splits dest: show_nat_digits)

lemma show_int_free:
  "CHR '':'' \<notin> set (show_int i)" "NUL \<notin> set (show_int i)" "LF \<notin> set (show_int i)"
  using show_int_chars by fastforce+

section \<open>Insertion into a standard map\<close>

text \<open>\<^verbatim>\<open>insert\<close> and \<^verbatim>\<open>emplace\<close> leave an existing entry alone.\<close>

definition map_emplace :: "'k \<Rightarrow> 'v \<Rightarrow> ('k \<rightharpoonup> 'v) \<Rightarrow> ('k \<rightharpoonup> 'v)" where
  "map_emplace k v m = (case m k of None \<Rightarrow> m(k \<mapsto> v) | Some _ \<Rightarrow> m)"

lemma map_emplace_apply:
  "map_emplace k v m x = (if m x = None \<and> x = k then Some v else m x)"
  by (auto simp: map_emplace_def split: option.splits)

lemma map_emplace_keeps: "m x = Some w \<Longrightarrow> map_emplace k v m x = Some w"
  by (simp add: map_emplace_apply)

lemma map_emplace_add: "map_emplace k v m = [k \<mapsto> v] ++ m"
  by (rule ext) (auto simp: map_emplace_apply map_add_def split: option.splits)

lemma foldl_emplace_map_of:
  "foldl (\<lambda>m (k, v). map_emplace k v m) m xs = map_of xs ++ m"
proof (induction xs arbitrary: m)
  case Nil
  then show ?case by simp
next
  case (Cons p xs)
  then show ?case
    by (cases p) (auto simp: map_emplace_apply fun_eq_iff map_add_def split: option.splits)
qed

end
