(* ===== verification/Protobuf_Api.thy ===== *)
theory Protobuf_Api
  imports Krpc_Prelude
begin

text \<open>
  The protobuf runtime is not part of the repository.  The calls the sources make into it are the
  fields of two records, \<open>pb_io\<close> (coded streams) and \<open>pb_wire\<close> (the helpers the generated message
  code calls), and every definition that uses them takes them as an argument.  What the sources
  rely on, the documented wire format, is the locales \<open>coded_stream\<close> and \<open>wire_format\<close>.
  The base-128 instance at the end shows that the laws can hold.
\<close>

section \<open>Coded streams\<close>

record ('s, 'l) pb_io =
  WriteVarint32 :: "32 word \<Rightarrow> string"
  WriteString :: "string \<Rightarrow> string"
  OpenStream :: "string \<Rightarrow> 's"
  ReadVarint32 :: "'s \<Rightarrow> bool \<times> 32 word \<times> 's"
  PushLimit :: "int \<Rightarrow> 's \<Rightarrow> 'l \<times> 's"
  ReadString :: "int \<Rightarrow> 's \<Rightarrow> bool \<times> string \<times> 's"
  PopLimit :: "'l \<Rightarrow> 's \<Rightarrow> 's"

text \<open>
  \<open>pending s\<close> are the bytes a stream can still deliver.  \<open>limited_read\<close> is the sequence push
  limit, read exactly that many bytes, pop limit; \<open>short_read\<close> is a read past the end.
\<close>

locale coded_stream =
  fixes io :: "('s, 'l) pb_io" and pending :: "'s \<Rightarrow> string"
  assumes write_string: "WriteString io bs = bs"
    and open_pending: "pending (OpenStream io bs) = bs"
    and read_written_varint: "pending s = WriteVarint32 io v @ rest \<Longrightarrow>
      \<exists>s'. ReadVarint32 io s = (True, v, s') \<and> pending s' = rest"
    and limited_read: "n \<le> length (pending s) \<Longrightarrow> n < 2 ^ 31 \<Longrightarrow>
      PushLimit io (int n) s = (l, s1) \<Longrightarrow> ReadString io (int n) s1 = (ok, x, s2) \<Longrightarrow>
      ok \<and> x = take n (pending s) \<and> pending (PopLimit io l s2) = drop n (pending s)"
    and read_string: "n \<le> length (pending s) \<Longrightarrow> n < 2 ^ 31 \<Longrightarrow>
      \<exists>s'. ReadString io (int n) s = (True, take n (pending s), s') \<and> pending s' = drop n (pending s)"
    and short_read: "int (length (pending s)) < i \<Longrightarrow> \<not> fst (ReadString io i s)"
    and negative_read: "i < 0 \<Longrightarrow> \<not> fst (ReadString io i s)"

section \<open>Helpers of the generated code\<close>

record 'u pb_wire =
  WriteBytesMaybeAliased :: "nat \<Rightarrow> string \<Rightarrow> string"
  WriteUInt32ToArray :: "nat \<Rightarrow> 32 word \<Rightarrow> string"
  WriteInt32ToArray :: "nat \<Rightarrow> 32 word \<Rightarrow> string"
  WriteBoolToArray :: "nat \<Rightarrow> bool \<Rightarrow> string"
  InternalWriteMessage :: "nat \<Rightarrow> nat \<Rightarrow> string \<Rightarrow> string"
  BytesSize :: "string \<Rightarrow> nat"
  UInt32Size :: "32 word \<Rightarrow> nat"
  Int32Size :: "32 word \<Rightarrow> nat"
  MessageSize :: "nat \<Rightarrow> nat"
  ReadTag :: "string \<Rightarrow> (32 word \<times> string) option"
  InlineGreedyStringParser :: "string \<Rightarrow> (string \<times> string) option"
  WireReadVarint32 :: "string \<Rightarrow> (32 word \<times> string) option"
  ReadVarint64 :: "string \<Rightarrow> (64 word \<times> string) option"
  ReadSizeAndPushLimit :: "string \<Rightarrow> (string \<times> string) option"
  UnknownFieldParse :: "32 word \<Rightarrow> 'u \<Rightarrow> string \<Rightarrow> ('u \<times> string) option"
  EmptyUnknown :: 'u
  HaveUnknown :: "'u \<Rightarrow> bool"
  MergeUnknown :: "'u \<Rightarrow> 'u \<Rightarrow> 'u"
  SerializeUnknown :: "'u \<Rightarrow> string"
  ComputeUnknownFieldsSize :: "'u \<Rightarrow> nat \<Rightarrow> nat"
  ParseAccepts :: "32 word option \<Rightarrow> bool"
  SerializeAccepts :: "nat \<Rightarrow> bool"

text \<open>
  A read of the parser is \<open>None\<close> when the C++ helper returns a null pointer.  \<open>InternalWriteMessage\<close>
  takes the cached size and the bytes of the embedded message; \<open>ReadSizeAndPushLimit\<close> gives the bytes
  within the limit it sets and those after it.  An \<open>int32\<close> is its 32 bits.  \<open>ParseAccepts\<close> is the
  verdict of \<^verbatim>\<open>MessageLite::ParseFromString\<close> once the generated loop ended, at the end of the
  input (\<open>None\<close>) or at an end-group or zero tag; \<open>SerializeAccepts\<close> that of
  \<^verbatim>\<open>SerializeToString\<close> for a message of the given size.
\<close>

definition field_tag :: "nat \<Rightarrow> nat \<Rightarrow> 32 word" where
  "field_tag f wire_type = word_of_nat (8 * f + wire_type)"

locale wire_format =
  fixes w :: "'u pb_wire"
  assumes read_bytes: "0 < f \<Longrightarrow> f < 16 \<Longrightarrow> length b < 2 ^ 31 \<Longrightarrow>
      \<exists>p. ReadTag w (WriteBytesMaybeAliased w f b @ r) = Some (field_tag f 2, p) \<and>
          InlineGreedyStringParser w p = Some (b, r)"
    and read_uint32: "0 < f \<Longrightarrow> f < 16 \<Longrightarrow>
      \<exists>p. ReadTag w (WriteUInt32ToArray w f v @ r) = Some (field_tag f 0, p) \<and>
          WireReadVarint32 w p = Some (v, r)"
    and bytes_size_ge: "length b \<le> BytesSize w b"
    and bytes_size: "0 < f \<Longrightarrow> f < 16 \<Longrightarrow> length (WriteBytesMaybeAliased w f b) = 1 + BytesSize w b"
    and uint32_size: "0 < f \<Longrightarrow> f < 16 \<Longrightarrow> length (WriteUInt32ToArray w f v) = 1 + UInt32Size w v"
    and tag_progress: "ReadTag w p = Some (t, p') \<Longrightarrow> length p' < length p"
    and string_progress: "InlineGreedyStringParser w p = Some (b, p') \<Longrightarrow> length p' \<le> length p"
    and varint_progress: "WireReadVarint32 w p = Some (v, p') \<Longrightarrow> length p' \<le> length p"
    and unknown_progress: "UnknownFieldParse w t u p = Some (u', p') \<Longrightarrow> length p' \<le> length p"
    and no_unknown: "\<not> HaveUnknown w (EmptyUnknown w)"
    and merge_empty: "MergeUnknown w (EmptyUnknown w) u = u"
    and unknown_size: "ComputeUnknownFieldsSize w u n = n + length (SerializeUnknown w u)"
    and accept_end: "ParseAccepts w None"
    and reject_tag: "\<not> ParseAccepts w (Some t)"
    and accept_size: "n < 2 ^ 31 \<Longrightarrow> SerializeAccepts w n"

text \<open>The helpers only the messages of the user service call.\<close>

locale message_format = wire_format +
  assumes read_int32: "0 < f \<Longrightarrow> f < 16 \<Longrightarrow>
      \<exists>p x. ReadTag w (WriteInt32ToArray w f v @ r) = Some (field_tag f 0, p) \<and>
          ReadVarint64 w p = Some (x, r) \<and> ucast x = v"
    and read_bool: "0 < f \<Longrightarrow> f < 16 \<Longrightarrow>
      \<exists>p x. ReadTag w (WriteBoolToArray w f t @ r) = Some (field_tag f 0, p) \<and>
          ReadVarint64 w p = Some (x, r) \<and> (x \<noteq> 0 \<longleftrightarrow> t)"
    and read_message: "0 < f \<Longrightarrow> f < 16 \<Longrightarrow> length b < 2 ^ 31 \<Longrightarrow>
      \<exists>p. ReadTag w (InternalWriteMessage w f (length b) b @ r) = Some (field_tag f 2, p) \<and>
          ReadSizeAndPushLimit w p = Some (b, r)"
    and int32_size: "0 < f \<Longrightarrow> f < 16 \<Longrightarrow> length (WriteInt32ToArray w f v) = 1 + Int32Size w v"
    and bool_size: "0 < f \<Longrightarrow> f < 16 \<Longrightarrow> length (WriteBoolToArray w f t) = 1 + 1"
    and message_size: "0 < f \<Longrightarrow> f < 16 \<Longrightarrow>
      length (InternalWriteMessage w f (length b) b) = 1 + MessageSize w (length b)"
    and int32_size_le: "Int32Size w v \<le> 10"
    and message_size_le: "n < 2 ^ 31 \<Longrightarrow> MessageSize w n \<le> n + 5"
    and message_size_ge: "n \<le> MessageSize w n"
    and varint64_progress: "ReadVarint64 w p = Some (x, p') \<Longrightarrow> length p' \<le> length p"
    and frame_progress: "ReadSizeAndPushLimit w p = Some (b, p') \<Longrightarrow> length p' \<le> length p"

section \<open>The base-128 instance\<close>

fun varint :: "nat \<Rightarrow> string" where
  "varint n = (if n < 128 then [char_of n] else char_of (128 + n mod 128) # varint (n div 128))"

declare varint.simps [simp del]

lemma length_varint_small: "n < 128 \<Longrightarrow> length (varint n) = 1"
  by (simp add: varint.simps [of n])

lemma length_varint: "0 < k \<Longrightarrow> n < 128 ^ k \<Longrightarrow> length (varint n) \<le> k"
proof (induction k arbitrary: n)
  case (Suc k)
  show ?case
  proof (cases "n < 128")
    case False
    then have "0 < k" using Suc.prems by (cases k) auto
    moreover have "n div 128 < 128 ^ k" using Suc.prems by (simp add: less_mult_imp_div_less mult.commute)
    ultimately show ?thesis using Suc.IH [of "n div 128"] False by (simp add: varint.simps [of n])
  qed (simp add: varint.simps [of n])
qed simp

lemma varint_word: "length (varint (unat (v :: 32 word))) \<le> 5"
proof -
  have "unat v < 2 ^ LENGTH(32)" by (rule unsigned_less)
  then show ?thesis by (intro length_varint) simp_all
qed

fun unvarint :: "string \<Rightarrow> (nat \<times> string) option" where
  "unvarint [] = None"
| "unvarint (c # cs) =
     (if (of_char c :: nat) < 128 then Some (of_char c, cs)
      else case unvarint cs of
        None \<Rightarrow> None
      | Some (n, r) \<Rightarrow> Some (of_char c - 128 + 128 * n, r))"

lemma unvarint_varint [simp]: "unvarint (varint n @ r) = Some (n, r)"
proof (induction n rule: varint.induct)
  case (1 n)
  show ?case
  proof (cases "n < 128")
    case True
    then show ?thesis by (simp add: varint.simps [of n] of_char_of)
  next
    case False
    have "of_char (char_of (128 + n mod 128) :: char) = 128 + n mod 128"
      by (simp add: of_char_of)
    with False 1 show ?thesis by (simp add: varint.simps [of n])
  qed
qed

lemma unvarint_shorter: "unvarint p = Some (n, r) \<Longrightarrow> length r < length p"
  by (induction p arbitrary: n r) (auto split: if_splits option.splits)

definition read_u32 :: "string \<Rightarrow> (32 word \<times> string) option" where
  "read_u32 p = map_option (\<lambda>(n, r). (word_of_nat n, r)) (unvarint p)"

lemma read_u32_varint [simp]: "read_u32 (varint (unat v) @ r) = Some (v, r)"
  by (simp add: read_u32_def)

lemma read_u32_shorter: "read_u32 p = Some (v, r) \<Longrightarrow> length r < length p"
  by (auto simp: read_u32_def dest: unvarint_shorter)

definition read_u64 :: "string \<Rightarrow> (64 word \<times> string) option" where
  "read_u64 p = map_option (\<lambda>(n, r). (word_of_nat n, r)) (unvarint p)"

lemma read_u64_varint [simp]: "read_u64 (varint n @ r) = Some (word_of_nat n, r)"
  by (simp add: read_u64_def)

lemma read_u64_shorter: "read_u64 p = Some (v, r) \<Longrightarrow> length r < length p"
  by (auto simp: read_u64_def dest: unvarint_shorter)

lemma ucast_sign_extended: "(ucast (scast v :: 64 word) :: 32 word) = (v :: 32 word)"
  by (rule bit_eqI) (simp add: bit_simps)

definition read_len :: "string \<Rightarrow> (string \<times> string) option" where
  "read_len p =
     (case unvarint p of
        None \<Rightarrow> None
      | Some (n, r) \<Rightarrow> if n \<le> length r then Some (take n r, drop n r) else None)"

lemma read_len_write [simp]: "read_len (varint (length b) @ b @ r) = Some (b, r)"
  by (simp add: read_len_def)

lemma read_len_shorter: "read_len p = Some (b, r) \<Longrightarrow> length r \<le> length p"
  by (auto simp: read_len_def split: option.splits if_splits dest!: unvarint_shorter)

definition skip_field :: "32 word \<Rightarrow> string \<Rightarrow> string \<Rightarrow> (string \<times> string) option" where
  "skip_field t u p =
     (let keep = (\<lambda>r. Some (u @ varint (unat t) @ take (length p - length r) p, r));
          ty = unat t mod 8
      in if ty = 0 then (case unvarint p of None \<Rightarrow> None | Some (n, r) \<Rightarrow> keep r)
         else if ty = 1 then (if 8 \<le> length p then keep (drop 8 p) else None)
         else if ty = 2 then (case read_len p of None \<Rightarrow> None | Some (b, r) \<Rightarrow> keep r)
         else if ty = 5 then (if 4 \<le> length p then keep (drop 4 p) else None)
         else None)"

definition std_tag :: "nat \<Rightarrow> nat \<Rightarrow> string" where
  "std_tag f t = varint (8 * f + t)"

lemma read_std_tag [simp]: "read_u32 (std_tag f t @ p) = Some (field_tag f t, p)"
  by (simp add: read_u32_def field_tag_def std_tag_def)

lemma length_std_tag: "f < 16 \<Longrightarrow> t < 8 \<Longrightarrow> length (std_tag f t) = 1"
  by (simp add: std_tag_def varint.simps [of "8 * f + t"])

definition std_wire :: "string pb_wire" where
  "std_wire =
     \<lparr>WriteBytesMaybeAliased = (\<lambda>f b. std_tag f 2 @ varint (length b) @ b),
      WriteUInt32ToArray = (\<lambda>f v. std_tag f 0 @ varint (unat v)),
      WriteInt32ToArray = (\<lambda>f v. std_tag f 0 @ varint (unat (scast v :: 64 word))),
      WriteBoolToArray = (\<lambda>f t. std_tag f 0 @ varint (if t then 1 else 0)),
      InternalWriteMessage = (\<lambda>f n b. std_tag f 2 @ varint n @ b),
      BytesSize = (\<lambda>b. length (varint (length b)) + length b),
      UInt32Size = (\<lambda>v. length (varint (unat v))),
      Int32Size = (\<lambda>v. length (varint (unat (scast v :: 64 word)))),
      MessageSize = (\<lambda>n. length (varint n) + n),
      ReadTag = read_u32, InlineGreedyStringParser = read_len, WireReadVarint32 = read_u32,
      ReadVarint64 = read_u64, ReadSizeAndPushLimit = read_len,
      UnknownFieldParse = skip_field, EmptyUnknown = [], HaveUnknown = (\<lambda>u. u \<noteq> []),
      MergeUnknown = (\<lambda>u v. u @ v), SerializeUnknown = (\<lambda>u. u),
      ComputeUnknownFieldsSize = (\<lambda>u n. n + length u),
      ParseAccepts = (\<lambda>t. t = None), SerializeAccepts = (\<lambda>n. n < 2 ^ 31)\<rparr>"

lemma std_wire_run [cpp_eval]:
  "WriteBytesMaybeAliased std_wire f b = std_tag f 2 @ varint (length b) @ b"
  "WriteUInt32ToArray std_wire f v = std_tag f 0 @ varint (unat v)"
  "WriteInt32ToArray std_wire f v = std_tag f 0 @ varint (unat (scast v :: 64 word))"
  "WriteBoolToArray std_wire f t = std_tag f 0 @ varint (if t then 1 else 0)"
  "InternalWriteMessage std_wire f n b = std_tag f 2 @ varint n @ b"
  "BytesSize std_wire b = length (varint (length b)) + length b"
  "UInt32Size std_wire v = length (varint (unat v))"
  "Int32Size std_wire v = length (varint (unat (scast v :: 64 word)))"
  "MessageSize std_wire n = length (varint n) + n"
  "EmptyUnknown std_wire = []" "HaveUnknown std_wire u \<longleftrightarrow> u \<noteq> []" "MergeUnknown std_wire u u' = u @ u'"
  "SerializeAccepts std_wire n \<longleftrightarrow> n < 2 ^ 31"
  by (simp_all add: std_wire_def)

interpretation std_wire: wire_format std_wire
proof unfold_locales
  show "UnknownFieldParse std_wire t u p = Some (u', p') \<Longrightarrow> length p' \<le> length p" for t u p u' p'
    by (auto simp: std_wire_def skip_field_def Let_def split: if_splits option.splits
        dest!: unvarint_shorter read_len_shorter)
  show "ReadTag std_wire p = Some (t, p') \<Longrightarrow> length p' < length p" for p t p'
    by (simp add: std_wire_def read_u32_shorter)
  show "WireReadVarint32 std_wire p = Some (v, p') \<Longrightarrow> length p' \<le> length p" for p v p'
    using read_u32_shorter [of p v p'] by (simp add: std_wire_def)
  show "InlineGreedyStringParser std_wire p = Some (b, p') \<Longrightarrow> length p' \<le> length p" for p b p'
    by (simp add: std_wire_def read_len_shorter)
qed (auto simp: std_wire_def length_std_tag)

interpretation std_message: message_format std_wire
proof unfold_locales
  show "ReadVarint64 std_wire p = Some (x, p') \<Longrightarrow> length p' \<le> length p" for p x p'
    using read_u64_shorter [of p x p'] by (simp add: std_wire_def)
  show "Int32Size std_wire v \<le> 10" for v
  proof -
    have "unat (scast v :: 64 word) < 2 ^ LENGTH(64)" by (rule unsigned_less)
    then show ?thesis using length_varint [of 10 "unat (scast v :: 64 word)"] by (simp add: std_wire_run)
  qed
  show "n < 2 ^ 31 \<Longrightarrow> MessageSize std_wire n \<le> n + 5" for n
    using length_varint [of 5 n] by (simp add: std_wire_run)
  show "ReadSizeAndPushLimit std_wire p = Some (b, p') \<Longrightarrow> length p' \<le> length p" for p b p'
    by (simp add: std_wire_def read_len_shorter)
qed (auto simp: std_wire_def length_std_tag ucast_sign_extended length_varint_small)

text \<open>Streams: the bytes, the position and the absolute read limit.\<close>

type_synonym std_stream = "string \<times> nat \<times> nat"

definition std_pending :: "std_stream \<Rightarrow> string" where
  "std_pending s = (case s of (bs, pos, lim) \<Rightarrow> drop pos (take lim bs))"

definition std_read_string :: "int \<Rightarrow> std_stream \<Rightarrow> bool \<times> string \<times> std_stream" where
  "std_read_string i s =
     (case s of (bs, pos, lim) \<Rightarrow>
      if i < 0 then (False, [], s)
      else if nat i \<le> length (std_pending s)
      then (True, take (nat i) (std_pending s), (bs, pos + nat i, lim))
      else (False, std_pending s, (bs, pos + length (std_pending s), lim)))"

definition std_io :: "(std_stream, nat) pb_io" where
  "std_io =
     \<lparr>WriteVarint32 = (\<lambda>n. varint (unat n)), WriteString = (\<lambda>s. s),
      OpenStream = (\<lambda>bs. (bs, 0, length bs)),
      ReadVarint32 = (\<lambda>s. case s of (bs, pos, lim) \<Rightarrow>
        (case unvarint (std_pending s) of
           None \<Rightarrow> (False, 0, s)
         | Some (n, r) \<Rightarrow> (True, word_of_nat n, (bs, pos + (length (std_pending s) - length r), lim)))),
      PushLimit = (\<lambda>i s. case s of (bs, pos, lim) \<Rightarrow>
        (lim, (bs, pos, if 0 \<le> i then min lim (pos + nat i) else lim))),
      ReadString = std_read_string,
      PopLimit = (\<lambda>l s. case s of (bs, pos, lim) \<Rightarrow> (bs, pos, l))\<rparr>"

interpretation std_io: coded_stream std_io std_pending
proof unfold_locales
  fix s :: std_stream and n rest
  assume p: "std_pending s = WriteVarint32 std_io n @ rest"
  obtain bs pos lim where s: "s = (bs, pos, lim)" by (cases s)
  have "drop (length (varint (unat n))) (drop pos (take lim bs)) = rest"
    using p s by (simp add: std_pending_def std_io_def)
  then show "\<exists>s'. ReadVarint32 std_io s = (True, n, s') \<and> std_pending s' = rest"
    using p s by (simp add: std_io_def) (simp add: std_pending_def add.commute)
next
  fix n and s s1 s2 :: std_stream and l ok x
  assume n: "n \<le> length (std_pending s)" "PushLimit std_io (int n) s = (l, s1)"
    "ReadString std_io (int n) s1 = (ok, x, s2)"
  obtain bs pos lim where s: "s = (bs, pos, lim)" by (cases s)
  have s1: "s1 = (bs, pos, min lim (pos + n))" "l = lim" using n(2) s by (auto simp: std_io_def)
  have "std_pending s1 = take n (std_pending s)"
    using s s1 by (simp only: std_pending_def prod.case take_drop take_take)
      (simp add: min.commute add.commute)
  then show "ok \<and> x = take n (std_pending s) \<and> std_pending (PopLimit std_io l s2) = drop n (std_pending s)"
    using n s s1 by (auto simp: std_io_def std_read_string_def std_pending_def add.commute)
qed (auto simp: std_io_def std_read_string_def std_pending_def add.commute split: prod.splits)

end
