(* ===== verification/Krpc_Controller.thy ===== *)
theory Krpc_Controller
  imports Krpc_Prelude
begin

text \<open>
  The per-call controller of the Krpc client, \<^verbatim>\<open>src/src/Krpccontroller.cc\<close>, and the interface both
  controllers of the repository implement, as the locale \<open>rpc_controller\<close>.
  A cancel callback is an opaque closure of type \<open>'cb\<close>; \<open>StartCancel\<close> returns the closures it runs.
\<close>

section \<open>The controller interface\<close>

locale rpc_controller =
  fixes Reset :: "'c \<Rightarrow> 'c"
    and SetFailed :: "string \<Rightarrow> 'c \<Rightarrow> 'c"
    and StartCancel :: "'c \<Rightarrow> 'c \<times> 'cb list"
    and SetCallback :: "'cb \<Rightarrow> 'c \<Rightarrow> 'c"
    and Failed :: "'c \<Rightarrow> bool"
    and ErrorText :: "'c \<Rightarrow> string"
    and IsCanceled :: "'c \<Rightarrow> bool"
  assumes Reset_clears: "\<not> Failed (Reset c) \<and> ErrorText (Reset c) = '''' \<and> \<not> IsCanceled (Reset c)"
    and SetFailed_sets: "Failed (SetFailed e c) \<and> ErrorText (SetFailed e c) = e \<and>
      IsCanceled (SetFailed e c) = IsCanceled c"
    and StartCancel_sets: "IsCanceled (fst (StartCancel c)) \<and>
      Failed (fst (StartCancel c)) = Failed c \<and> ErrorText (fst (StartCancel c)) = ErrorText c"
    and SetCallback_frame: "Failed (SetCallback cb c) = Failed c \<and>
      ErrorText (SetCallback cb c) = ErrorText c \<and> IsCanceled (SetCallback cb c) = IsCanceled c"
    and callback_runs: "snd (StartCancel (SetCallback cb c)) = [cb]"
begin

lemma failure_survives_cancel:
  "Failed (fst (StartCancel (SetFailed e c))) \<and> ErrorText (fst (StartCancel (SetFailed e c))) = e"
  using StartCancel_sets SetFailed_sets by simp

lemma cancel_lost_on_reset: "\<not> IsCanceled (Reset (fst (StartCancel c)))"
  using Reset_clears by simp

lemma last_failure_wins: "ErrorText (SetFailed e2 (SetFailed e1 c)) = e2"
  using SetFailed_sets by simp

lemma fresh_call:
  "\<not> Failed (SetCallback cb (Reset c)) \<and> \<not> IsCanceled (SetCallback cb (Reset c)) \<and>
   snd (StartCancel (SetCallback cb (Reset c))) = [cb]"
  using Reset_clears SetCallback_frame callback_runs by simp

end

section \<open>KrpcController\<close>

record 'cb krpc_controller =
  m_failed :: bool
  m_errText :: string
  m_is_canceled :: bool
  m_is_timedout :: bool
  m_timeout_ms :: int
  m_cancelCallback :: "'cb option"

definition KrpcController_new :: "'cb krpc_controller" where
  "KrpcController_new =
     \<lparr>m_failed = False, m_errText = '''', m_is_canceled = False, m_is_timedout = False,
      m_timeout_ms = 5000, m_cancelCallback = None\<rparr>"

definition KrpcController_Reset :: "'cb krpc_controller \<Rightarrow> 'cb krpc_controller" where
  "KrpcController_Reset c =
     c\<lparr>m_failed := False, m_errText := '''', m_is_canceled := False, m_is_timedout := False\<rparr>"

definition KrpcController_Failed :: "'cb krpc_controller \<Rightarrow> bool" where
  "KrpcController_Failed c = m_failed c"

definition KrpcController_ErrorText :: "'cb krpc_controller \<Rightarrow> string" where
  "KrpcController_ErrorText c = m_errText c"

definition KrpcController_SetFailed :: "string \<Rightarrow> 'cb krpc_controller \<Rightarrow> 'cb krpc_controller" where
  "KrpcController_SetFailed reason c = c\<lparr>m_failed := True, m_errText := reason\<rparr>"

definition KrpcController_StartCancel ::
    "'cb krpc_controller \<Rightarrow> 'cb krpc_controller \<times> 'cb list" where
  "KrpcController_StartCancel c =
     (c\<lparr>m_is_canceled := True\<rparr>,
      case m_cancelCallback c of None \<Rightarrow> [] | Some cb \<Rightarrow> [cb])"

definition KrpcController_IsCanceled :: "'cb krpc_controller \<Rightarrow> bool" where
  "KrpcController_IsCanceled c = m_is_canceled c"

definition KrpcController_NotifyOnCancel ::
    "'cb option \<Rightarrow> 'cb krpc_controller \<Rightarrow> 'cb krpc_controller" where
  "KrpcController_NotifyOnCancel cb c = c\<lparr>m_cancelCallback := cb\<rparr>"

definition KrpcController_SetTimeout :: "int \<Rightarrow> 'cb krpc_controller \<Rightarrow> 'cb krpc_controller" where
  "KrpcController_SetTimeout t c = c\<lparr>m_timeout_ms := t\<rparr>"

definition KrpcController_GetTimeout :: "'cb krpc_controller \<Rightarrow> int" where
  "KrpcController_GetTimeout c = m_timeout_ms c"

definition KrpcController_IsTimedOut :: "'cb krpc_controller \<Rightarrow> bool" where
  "KrpcController_IsTimedOut c = m_is_timedout c"

definition KrpcController_SetTimedOut :: "'cb krpc_controller \<Rightarrow> 'cb krpc_controller" where
  "KrpcController_SetTimedOut c =
     KrpcController_SetFailed ''RPC call timed out'' (c\<lparr>m_is_timedout := True\<rparr>)"

lemmas KrpcController_defs =
  KrpcController_new_def KrpcController_Reset_def KrpcController_Failed_def
  KrpcController_ErrorText_def KrpcController_SetFailed_def KrpcController_StartCancel_def
  KrpcController_IsCanceled_def KrpcController_NotifyOnCancel_def KrpcController_SetTimeout_def
  KrpcController_GetTimeout_def KrpcController_IsTimedOut_def KrpcController_SetTimedOut_def

interpretation kctl: rpc_controller KrpcController_Reset KrpcController_SetFailed
    KrpcController_StartCancel "\<lambda>cb. KrpcController_NotifyOnCancel (Some cb)"
    KrpcController_Failed KrpcController_ErrorText KrpcController_IsCanceled
  by unfold_locales (simp_all add: KrpcController_defs)

section \<open>Sequences of calls on one controller\<close>

datatype 'cb controller_op =
    OpReset
  | OpSetFailed string
  | OpStartCancel
  | OpNotifyOnCancel "'cb option"
  | OpSetTimeout int
  | OpSetTimedOut

fun controller_step :: "'cb krpc_controller \<Rightarrow> 'cb controller_op \<Rightarrow> 'cb krpc_controller \<times> 'cb list" where
  "controller_step c OpReset = (KrpcController_Reset c, [])"
| "controller_step c (OpSetFailed e) = (KrpcController_SetFailed e c, [])"
| "controller_step c OpStartCancel = KrpcController_StartCancel c"
| "controller_step c (OpNotifyOnCancel cb) = (KrpcController_NotifyOnCancel cb c, [])"
| "controller_step c (OpSetTimeout t) = (KrpcController_SetTimeout t c, [])"
| "controller_step c OpSetTimedOut = (KrpcController_SetTimedOut c, [])"

fun controller_run :: "'cb krpc_controller \<Rightarrow> 'cb controller_op list \<Rightarrow> 'cb krpc_controller \<times> 'cb list" where
  "controller_run c [] = (c, [])"
| "controller_run c (x # xs) =
     (let (c1, r1) = controller_step c x; (c2, r2) = controller_run c1 xs in (c2, r1 @ r2))"

definition controller_inv :: "'cb krpc_controller \<Rightarrow> bool" where
  "controller_inv c \<longleftrightarrow>
     (m_is_timedout c \<longrightarrow> m_failed c) \<and> (m_errText c \<noteq> '''' \<longrightarrow> m_failed c)"

lemma controller_step_inv:
  "controller_inv c \<Longrightarrow> controller_inv (fst (controller_step c x))"
  by (cases x) (auto simp: controller_inv_def KrpcController_defs)

lemma controller_run_state:
  "fst (controller_run c (x # xs)) = fst (controller_run (fst (controller_step c x)) xs)"
  by (simp add: Let_def split: prod.splits)

lemma controller_run_inv: "controller_inv c \<Longrightarrow> controller_inv (fst (controller_run c xs))"
proof (induction xs arbitrary: c)
  case (Cons x xs)
  then show ?case
    by (simp only: controller_run_state controller_step_inv)
qed simp

definition last_timeout :: "int \<Rightarrow> 'cb controller_op list \<Rightarrow> int" where
  "last_timeout t xs = fold (\<lambda>x t. case x of OpSetTimeout n \<Rightarrow> n | _ \<Rightarrow> t) xs t"

lemma controller_step_timeout:
  "m_timeout_ms (fst (controller_step c x)) =
     (case x of OpSetTimeout n \<Rightarrow> n | _ \<Rightarrow> m_timeout_ms c)"
  by (cases x) (auto simp: KrpcController_defs)

lemma controller_run_timeout:
  "m_timeout_ms (fst (controller_run c xs)) = last_timeout (m_timeout_ms c) xs"
proof (induction xs arbitrary: c)
  case (Cons x xs)
  then show ?case
    by (simp only: controller_run_state controller_step_timeout) (simp add: last_timeout_def)
qed (simp add: last_timeout_def)

section \<open>Properties\<close>

text \<open>C40: Whatever sequence of calls a controller goes through, a controller that reports a timeout or
  has an error text reports failure, and its timeout is the last one set (5000 ms before any):
  no other call, \<open>Reset\<close> included, changes it.\<close>

theorem controller_history:
  "case controller_run KrpcController_new xs of (c, cbs) \<Rightarrow>
   (KrpcController_IsTimedOut c \<or> KrpcController_ErrorText c \<noteq> '''' \<longrightarrow> KrpcController_Failed c) \<and>
   KrpcController_GetTimeout c = last_timeout 5000 xs"
proof -
  have "controller_inv KrpcController_new" by (simp add: controller_inv_def KrpcController_new_def)
  then have "controller_inv (fst (controller_run KrpcController_new xs))" by (rule controller_run_inv)
  moreover have "m_timeout_ms (fst (controller_run KrpcController_new xs)) = last_timeout 5000 xs"
    by (simp add: controller_run_timeout) (simp add: KrpcController_new_def)
  ultimately show ?thesis
    by (cases "controller_run KrpcController_new xs") (auto simp: controller_inv_def KrpcController_defs)
qed

theorem controller_history_witness:
  "(case controller_run KrpcController_new [OpSetTimeout 100, OpSetTimedOut, OpReset :: nat controller_op]
    of (c, cbs) \<Rightarrow> KrpcController_GetTimeout c = 100)"
  using controller_history [of "[OpSetTimeout 100, OpSetTimedOut, OpReset :: nat controller_op]"]
  by (auto simp: last_timeout_def split: prod.splits)

text \<open>A cancel callback outlives \<open>Reset\<close>: on a controller reset for a second call, \<open>StartCancel\<close>
  still runs the callback installed for the first, whatever happened in between that does not
  install another.\<close>

theorem stale_callback_runs:
  assumes "\<forall>x \<in> set xs. \<forall>other. x \<noteq> OpNotifyOnCancel other"
  shows "snd (KrpcController_StartCancel
      (fst (controller_run (KrpcController_NotifyOnCancel (Some cb) c) (xs @ [OpReset])))) = [cb]"
proof -
  have step: "m_cancelCallback (fst (controller_step c x)) = m_cancelCallback c"
    if "\<forall>other. x \<noteq> OpNotifyOnCancel other" for c :: "'a krpc_controller" and x
    using that by (cases x) (auto simp: KrpcController_defs)
  have "m_cancelCallback (fst (controller_run c ys)) = m_cancelCallback c"
    if "\<forall>x \<in> set ys. \<forall>other. x \<noteq> OpNotifyOnCancel other" for c :: "'a krpc_controller" and ys
    using that by (induction ys arbitrary: c) (simp_all only: controller_run_state, simp_all add: step)
  from this [of "xs @ [OpReset]"] assms show ?thesis
    by (simp add: KrpcController_defs)
qed

theorem stale_callback_runs_witness:
  "snd (KrpcController_StartCancel (fst (controller_run
     (KrpcController_NotifyOnCancel (Some (7::nat)) KrpcController_new) [OpSetFailed ''x'', OpReset]))) = [7]"
  using stale_callback_runs [of "[OpSetFailed ''x'']" "7::nat" KrpcController_new] by simp

end
