(* ===== verification/Drpc_Controller.thy ===== *)
theory Drpc_Controller
  imports Krpc_Controller
begin

text \<open>
  The controller of the Drpc library, \<^verbatim>\<open>src/Drpc/src/DrpcController.cpp\<close>.  It meets the same
  interface as the Krpc controller; its \<open>Reset\<close> also drops the cancel callback.
\<close>

record 'cb drpc_controller =
  d_failed :: bool
  d_errorText :: string
  d_isCanceled :: bool
  d_cancelCallback :: "'cb option"

definition DrpcController_new :: "'cb drpc_controller" where
  "DrpcController_new =
     \<lparr>d_failed = False, d_errorText = '''', d_isCanceled = False, d_cancelCallback = None\<rparr>"

definition DrpcController_Invoke :: "string \<Rightarrow> string \<Rightarrow> string" where
  \<comment> \<open>the value stored in \<open>response\<close>\<close>
  "DrpcController_Invoke procedure request = ''Response from '' @ procedure"

definition DrpcController_Reset :: "'cb drpc_controller \<Rightarrow> 'cb drpc_controller" where
  "DrpcController_Reset c =
     c\<lparr>d_failed := False, d_errorText := '''', d_isCanceled := False, d_cancelCallback := None\<rparr>"

definition DrpcController_Failed :: "'cb drpc_controller \<Rightarrow> bool" where
  "DrpcController_Failed c = d_failed c"

definition DrpcController_ErrorText :: "'cb drpc_controller \<Rightarrow> string" where
  "DrpcController_ErrorText c = d_errorText c"

definition DrpcController_SetFailed :: "string \<Rightarrow> 'cb drpc_controller \<Rightarrow> 'cb drpc_controller" where
  "DrpcController_SetFailed reason c = c\<lparr>d_failed := True, d_errorText := reason\<rparr>"

definition DrpcController_StartCancel ::
    "'cb drpc_controller \<Rightarrow> 'cb drpc_controller \<times> 'cb list" where
  "DrpcController_StartCancel c =
     (c\<lparr>d_isCanceled := True\<rparr>,
      case d_cancelCallback c of None \<Rightarrow> [] | Some cb \<Rightarrow> [cb])"

definition DrpcController_IsCanceled :: "'cb drpc_controller \<Rightarrow> bool" where
  "DrpcController_IsCanceled c = d_isCanceled c"

definition DrpcController_SetCancelCallback ::
    "'cb \<Rightarrow> 'cb drpc_controller \<Rightarrow> 'cb drpc_controller" where
  "DrpcController_SetCancelCallback cb c = c\<lparr>d_cancelCallback := Some cb\<rparr>"

lemmas DrpcController_defs =
  DrpcController_new_def DrpcController_Reset_def DrpcController_Failed_def
  DrpcController_ErrorText_def DrpcController_SetFailed_def DrpcController_StartCancel_def
  DrpcController_IsCanceled_def DrpcController_SetCancelCallback_def

interpretation dctl: rpc_controller DrpcController_Reset DrpcController_SetFailed
    DrpcController_StartCancel DrpcController_SetCancelCallback
    DrpcController_Failed DrpcController_ErrorText DrpcController_IsCanceled
  by unfold_locales (simp_all add: DrpcController_defs)

lemma DrpcController_reset_is_new: "DrpcController_Reset c = DrpcController_new"
  by (simp add: DrpcController_defs)

end
