(* ===== verification/Drpc_Service.thy ===== *)
theory Drpc_Service
  imports Drpc_Controller
begin

text \<open>
  The service side of Drpc: the message interface of \<^verbatim>\<open>src/Drpc/include/DrpcService.h\<close> as the locale
  \<open>message_codec\<close>, and the greeter service of \<^verbatim>\<open>src/Drpc/drpc_example/example_service.h\<close>.
\<close>

section \<open>Messages\<close>

text \<open>\<open>valid\<close> are the messages the round trip is promised for.\<close>

locale message_codec =
  fixes SerializeToString :: "'m \<Rightarrow> string option"
    and ParseFromString :: "string \<Rightarrow> 'm \<Rightarrow> bool \<times> 'm"
    and valid :: "'m \<Rightarrow> bool"
  assumes parse_serialized: "valid m \<Longrightarrow> SerializeToString m = Some s \<Longrightarrow> ParseFromString s m0 = (True, m)"
begin

lemma serialized_inj:
  "valid m \<Longrightarrow> valid m' \<Longrightarrow> SerializeToString m = Some s \<Longrightarrow> SerializeToString m' = Some s \<Longrightarrow> m = m'"
  using parse_serialized [of m s m] parse_serialized [of m' s m] by simp

end

record hello_request = name :: string

record hello_response = greeting :: string

definition HelloRequest_SerializeToString :: "hello_request \<Rightarrow> string option" where
  "HelloRequest_SerializeToString m = Some (name m)"

definition HelloRequest_ParseFromString :: "string \<Rightarrow> hello_request \<Rightarrow> bool \<times> hello_request" where
  "HelloRequest_ParseFromString s m = (True, m\<lparr>name := s\<rparr>)"

definition HelloResponse_SerializeToString :: "hello_response \<Rightarrow> string option" where
  "HelloResponse_SerializeToString m = Some (greeting m)"

definition HelloResponse_ParseFromString :: "string \<Rightarrow> hello_response \<Rightarrow> bool \<times> hello_response" where
  "HelloResponse_ParseFromString s m = (True, m\<lparr>greeting := s\<rparr>)"

interpretation hello_request: message_codec HelloRequest_SerializeToString HelloRequest_ParseFromString "\<lambda>_. True"
  by unfold_locales (auto simp: HelloRequest_SerializeToString_def HelloRequest_ParseFromString_def)

interpretation hello_response: message_codec HelloResponse_SerializeToString HelloResponse_ParseFromString "\<lambda>_. True"
  by unfold_locales (auto simp: HelloResponse_SerializeToString_def HelloResponse_ParseFromString_def)

section \<open>The greeter service\<close>

record drpc_method_descriptor =
  dm_service_name :: string
  dm_method_name :: string
  dm_request_type :: string
  dm_response_type :: string

definition GreeterService_GetMethodDescriptor :: "string \<Rightarrow> drpc_method_descriptor option" where
  "GreeterService_GetMethodDescriptor m =
     (if m = ''SayHello'' then
        Some \<lparr>dm_service_name = ''GreeterService'', dm_method_name = ''SayHello'',
              dm_request_type = ''HelloRequest'', dm_response_type = ''HelloResponse''\<rparr>
      else None)"

text \<open>A call returns the response and the arguments \<open>done\<close> was invoked with.\<close>

definition GreeterServiceImpl_SayHello ::
    "hello_request \<Rightarrow> hello_response \<Rightarrow> hello_response \<times> bool list" where
  "GreeterServiceImpl_SayHello request response =
     (response\<lparr>greeting := ''Hello, '' @ name request @ ''!''\<rparr>, [True])"

definition GreeterService_CallMethod ::
    "drpc_method_descriptor \<Rightarrow> hello_request \<Rightarrow> hello_response \<Rightarrow> hello_response \<times> bool list" where
  "GreeterService_CallMethod method request response =
     (if dm_method_name method = ''SayHello'' then GreeterServiceImpl_SayHello request response
      else (response, []))"

lemma greeter_descriptor_dispatches:
  assumes "GreeterService_GetMethodDescriptor m = Some d"
  shows "GreeterService_CallMethod d req resp =
    (resp\<lparr>greeting := ''Hello, '' @ name req @ ''!''\<rparr>, [True])"
  using assms
  by (auto simp: GreeterService_GetMethodDescriptor_def GreeterService_CallMethod_def
      GreeterServiceImpl_SayHello_def split: if_splits)

end
