(* ===== verification/Pb_Messages.thy ===== *)
theory Pb_Messages
  imports Protobuf_Api Drpc_Service
begin

text \<open>
  What the generated message classes have in common, \<^verbatim>\<open>src/src/Krpcheader.pb.cc\<close> and
  \<^verbatim>\<open>src/example/user.pb.cc\<close>: the base class with the unknown fields, the parse loop around the
  switch of each class, and the two \<^verbatim>\<open>MessageLite\<close> calls the rest of the sources makes.  The locale
  \<open>generated_message\<close> is what the operations of one class promise each other.
\<close>

section \<open>The base class and the parse loop\<close>

record 'u pb_message =
  msg_unknown :: 'u

text \<open>One turn of the loop after the tag was read: go on, stop at an end tag, or fail.\<close>

datatype 'h field_outcome = FieldOk 'h string | FieldEnd "32 word" | FieldFail

text \<open>The loop: the message and the last tag at the end, or \<open>ParseNull\<close> for a null pointer.\<close>

datatype 'h parse_outcome = ParseNull | Parsed 'h "32 word option"

text \<open>\<open>None\<close> is a turn, or a loop, that does not return.\<close>

type_synonym 'h switch = "32 word \<Rightarrow> string \<Rightarrow> 'h \<Rightarrow> 'h field_outcome option"

definition handle_unusual :: "'u pb_wire \<Rightarrow> ('u, 'a) pb_message_scheme switch" where
  "handle_unusual w tag ptr m =
     (if unat tag mod 8 = 4 \<or> tag = 0 then Some (FieldEnd tag)
      else case UnknownFieldParse w tag (msg_unknown m) ptr of
        None \<Rightarrow> Some FieldFail
      | Some (u, ptr) \<Rightarrow> Some (FieldOk (m\<lparr>msg_unknown := u\<rparr>) ptr))"

definition field_read :: "('v \<times> string) option \<Rightarrow> ('v \<Rightarrow> 'h) \<Rightarrow> 'h field_outcome option" where
  "field_read r assign =
     (case r of
        None \<Rightarrow> Some FieldFail
      | Some (v, ptr) \<Rightarrow> Some (FieldOk (assign v) ptr))"

definition ParseMessage ::
    "'u pb_wire \<Rightarrow> (string \<Rightarrow> 'm \<Rightarrow> 'm parse_outcome option) \<Rightarrow> 'm \<Rightarrow> string \<Rightarrow> ('m \<Rightarrow> 'h)
     \<Rightarrow> 'h field_outcome option" where
  "ParseMessage w parse sub ptr assign =
     (case ReadSizeAndPushLimit w ptr of
        None \<Rightarrow> Some FieldFail
      | Some (bytes, ptr) \<Rightarrow>
          (case parse bytes sub of
             None \<Rightarrow> None
           | Some ParseNull \<Rightarrow> Some FieldFail
           | Some (Parsed m t) \<Rightarrow>
               Some (if ParseAccepts w t then FieldOk (assign m) ptr else FieldFail)))"

partial_function (option) parse_loop ::
    "'u pb_wire \<Rightarrow> 'h switch \<Rightarrow> string \<Rightarrow> 'h \<Rightarrow> 'h parse_outcome option" where
  "parse_loop w field ptr m =
     (if ptr = [] then Some (Parsed m None)
      else case ReadTag w ptr of
        None \<Rightarrow> Some ParseNull
      | Some (tag, ptr) \<Rightarrow>
          Option.bind (field tag ptr m) (\<lambda>turn.
            case turn of
              FieldOk m ptr \<Rightarrow> parse_loop w field ptr m
            | FieldEnd tag \<Rightarrow> Some (Parsed m (Some tag))
            | FieldFail \<Rightarrow> Some ParseNull))"

text \<open>
  \<^verbatim>\<open>ParseFromString\<close> clears the object and runs the loop.  After a failure protobuf leaves the
  object in no specified state and no caller reads it; the model gives it back as it was.
\<close>

definition pb_ParseFromString ::
    "'u pb_wire \<Rightarrow> ('m \<Rightarrow> 'm) \<Rightarrow> (string \<Rightarrow> 'm \<Rightarrow> 'm parse_outcome option) \<Rightarrow> string \<Rightarrow> 'm
     \<Rightarrow> (bool \<times> 'm) option" where
  "pb_ParseFromString w clear parse s m =
     (case parse s (clear m) of
        None \<Rightarrow> None
      | Some ParseNull \<Rightarrow> Some (False, m)
      | Some (Parsed m' t) \<Rightarrow> Some (ParseAccepts w t, m'))"

definition pb_SerializeToString ::
    "'u pb_wire \<Rightarrow> ('m \<Rightarrow> nat) \<Rightarrow> ('m \<Rightarrow> string) \<Rightarrow> 'm \<Rightarrow> string option" where
  "pb_SerializeToString w byte_size serialize m =
     (if SerializeAccepts w (byte_size m) then Some (serialize m) else None)"

definition write_unknown :: "'u pb_wire \<Rightarrow> ('u, 'a) pb_message_scheme \<Rightarrow> string" where
  "write_unknown w m = (if HaveUnknown w (msg_unknown m) then SerializeUnknown w (msg_unknown m) else [])"

definition size_unknown :: "'u pb_wire \<Rightarrow> ('u, 'a) pb_message_scheme \<Rightarrow> nat \<Rightarrow> nat" where
  "size_unknown w m total_size =
     (if HaveUnknown w (msg_unknown m)
      then ComputeUnknownFieldsSize w (msg_unknown m) total_size else total_size)"

definition merge_unknown ::
    "'u pb_wire \<Rightarrow> ('u, 'b) pb_message_scheme \<Rightarrow> ('u, 'a) pb_message_scheme \<Rightarrow> ('u, 'a) pb_message_scheme" where
  "merge_unknown w src this = this\<lparr>msg_unknown := MergeUnknown w (msg_unknown this) (msg_unknown src)\<rparr>"

text \<open>A message whose unknown fields are empty, as every message is that the sources build.\<close>

definition no_unknown_fields :: "'u pb_wire \<Rightarrow> ('u, 'a) pb_message_scheme \<Rightarrow> bool" where
  "no_unknown_fields w m \<longleftrightarrow> msg_unknown m = EmptyUnknown w"

named_theorems pb_message \<open>definitions the operations of a generated message share\<close>

declare handle_unusual_def [pb_message] field_read_def [pb_message] ParseMessage_def [pb_message]
  write_unknown_def [pb_message] size_unknown_def [pb_message] merge_unknown_def [pb_message]
  no_unknown_fields_def [pb_message]

section \<open>What the wire format gives the loop\<close>

lemma parse_loop_Nil [simp]: "parse_loop w field [] m = Some (Parsed m None)"
  by (simp add: parse_loop.simps)

lemma unusual_returns: "handle_unusual w t p m = None \<longleftrightarrow> False"
  by (simp add: handle_unusual_def split: option.split)

lemma field_read_returns: "field_read r g = None \<longleftrightarrow> False"
  by (simp add: field_read_def split: option.split)

lemma field_read_ok: "field_read r g = Some (FieldOk m p) \<longleftrightarrow> (\<exists>v. r = Some (v, p) \<and> m = g v)"
  by (auto simp: field_read_def split: option.split)

lemma ParseMessage_returns:
  "(\<And>p m. parse p m \<noteq> None) \<Longrightarrow> ParseMessage w parse sub p g = None \<longleftrightarrow> False"
  by (simp add: ParseMessage_def split: option.split parse_outcome.split del: not_None_eq)

lemmas turn_returns = unusual_returns field_read_returns

context wire_format
begin

lemma parse_turn:
  assumes "ReadTag w s = Some (tag, p)" "field tag p m = Some (FieldOk m' r)"
  shows "parse_loop w field s m = parse_loop w field r m'"
proof -
  have "s \<noteq> []" using tag_progress [OF assms(1)] by auto
  with assms show ?thesis by (simp add: parse_loop.simps [of w field s])
qed

text \<open>A field that was written, or left out because it has its default value, is one turn.\<close>

lemma parse_bytes:
  assumes "\<And>p m. field (field_tag f 2) p m = field_read (InlineGreedyStringParser w p) (g m)"
    and "0 < f" "f < 16" "length b < 2 ^ 31"
  shows "parse_loop w field ((if c then WriteBytesMaybeAliased w f b else []) @ r) m =
    parse_loop w field r (if c then g m b else m)"
proof -
  obtain p where "ReadTag w (WriteBytesMaybeAliased w f b @ r) = Some (field_tag f 2, p)"
    "InlineGreedyStringParser w p = Some (b, r)"
    using read_bytes [OF assms(2-4)] by blast
  then show ?thesis using parse_turn [of _ _ p field m "g m b" r] by (simp add: assms(1) field_read_def)
qed

lemma parse_uint32:
  assumes "\<And>p m. field (field_tag f 0) p m = field_read (WireReadVarint32 w p) (g m)"
    and "0 < f" "f < 16"
  shows "parse_loop w field ((if c then WriteUInt32ToArray w f v else []) @ r) m =
    parse_loop w field r (if c then g m v else m)"
proof -
  obtain p where "ReadTag w (WriteUInt32ToArray w f v @ r) = Some (field_tag f 0, p)"
    "WireReadVarint32 w p = Some (v, r)"
    using read_uint32 [OF assms(2,3)] by blast
  then show ?thesis using parse_turn [of _ _ p field m "g m v" r] by (simp add: assms(1) field_read_def)
qed

lemma bytes_small:
  "0 < f \<Longrightarrow> f < 16 \<Longrightarrow> length (WriteBytesMaybeAliased w f b) < n \<Longrightarrow> length b < n"
  using bytes_size [of f b] bytes_size_ge [of b] by simp

lemma unusual_progress:
  "handle_unusual w t p m = Some (FieldOk m' p') \<Longrightarrow> length p' \<le> length p"
  by (auto simp: handle_unusual_def split: if_splits option.splits dest: unknown_progress)

lemma loop_returns:
  assumes "\<And>t p m. field t p m \<noteq> None"
    and "\<And>t p m m' p'. field t p m = Some (FieldOk m' p') \<Longrightarrow> length p' \<le> length p"
  shows "parse_loop w field p m \<noteq> None"
proof (induction "length p" arbitrary: p m rule: less_induct)
  case less
  show ?case
  proof (cases "ReadTag w p")
    case None
    then show ?thesis by (simp add: parse_loop.simps [of w field p])
  next
    case (Some tp)
    obtain t q where tp: "tp = (t, q)" by (cases tp)
    then have q: "length q < length p" using Some tag_progress by blast
    obtain turn where turn: "field t q m = Some turn" using assms(1) by blast
    show ?thesis
    proof (cases turn)
      case (FieldOk m' q')
      then have "length q' < length p" using assms(2) turn q by fastforce
      then have "parse_loop w field q' m' \<noteq> None" by (rule less.hyps)
      then show ?thesis using Some tp turn FieldOk by (simp add: parse_loop.simps [of w field p])
    qed (use Some tp turn in \<open>simp_all add: parse_loop.simps [of w field p]\<close>)
  qed
qed

end

context message_format
begin

lemma parse_int32:
  assumes "\<And>p m. field (field_tag f 0) p m = field_read (ReadVarint64 w p) (\<lambda>x. g m (ucast x))"
    and "0 < f" "f < 16"
  shows "parse_loop w field ((if c then WriteInt32ToArray w f v else []) @ r) m =
    parse_loop w field r (if c then g m v else m)"
proof -
  obtain p x where "ReadTag w (WriteInt32ToArray w f v @ r) = Some (field_tag f 0, p)"
    "ReadVarint64 w p = Some (x, r)" "ucast x = v"
    using read_int32 [OF assms(2,3)] by blast
  then show ?thesis using parse_turn [of _ _ p field m "g m v" r] by (simp add: assms(1) field_read_def)
qed

lemma parse_bool:
  assumes "\<And>p m. field (field_tag f 0) p m = field_read (ReadVarint64 w p) (\<lambda>x. g m (x \<noteq> 0))"
    and "0 < f" "f < 16"
  shows "parse_loop w field ((if c then WriteBoolToArray w f v else []) @ r) m =
    parse_loop w field r (if c then g m v else m)"
proof -
  obtain p x where "ReadTag w (WriteBoolToArray w f v @ r) = Some (field_tag f 0, p)"
    "ReadVarint64 w p = Some (x, r)" "(x \<noteq> 0) = v"
    using read_bool [OF assms(2,3)] by blast
  then show ?thesis using parse_turn [of _ _ p field m "g m v" r] by (simp add: assms(1) field_read_def)
qed

lemma parse_message:
  assumes "\<And>p m. field (field_tag f 2) p m = ParseMessage w parse (sub m) p (g m)"
    and "0 < f" "f < 16" "length b < 2 ^ 31" "parse b (sub m) = Some (Parsed x None)"
  shows "parse_loop w field (InternalWriteMessage w f (length b) b @ r) m = parse_loop w field r (g m x)"
proof -
  obtain p where "ReadTag w (InternalWriteMessage w f (length b) b @ r) = Some (field_tag f 2, p)"
    "ReadSizeAndPushLimit w p = Some (b, r)"
    using read_message [OF assms(2-4)] by blast
  then show ?thesis
    using parse_turn [of _ _ p field m "g m x" r] assms(5) by (simp add: assms(1) ParseMessage_def accept_end)
qed

lemma ParseMessage_progress:
  "ParseMessage w parse sub p g = Some (FieldOk m p') \<Longrightarrow> length p' \<le> length p"
  by (auto simp: ParseMessage_def split: option.splits parse_outcome.splits if_splits dest: frame_progress)

lemma message_small:
  "0 < f \<Longrightarrow> f < 16 \<Longrightarrow> length (InternalWriteMessage w f (length b) b) < n \<Longrightarrow> length b < n"
  using message_size [of f b] message_size_ge [of "length b"] by simp

end

section \<open>The contract of a generated class\<close>

text \<open>\<open>known\<close> are the messages without unknown fields, those of embedded messages included.\<close>

locale generated_message = wire_format w for w :: "'u pb_wire" +
  fixes field :: "'m switch" and clear :: "'m \<Rightarrow> 'm" and serialize :: "'m \<Rightarrow> string"
    and byte_size :: "'m \<Rightarrow> nat" and merge :: "'m \<Rightarrow> 'm \<Rightarrow> 'm" and known :: "'m \<Rightarrow> bool"
  assumes field_returns: "field t p m \<noteq> None"
    and field_progress: "field t p m = Some (FieldOk m' p') \<Longrightarrow> length p' \<le> length p"
    and parse_written: "known m \<Longrightarrow> known m0 \<Longrightarrow> length (serialize m) < 2 ^ 31 \<Longrightarrow>
      parse_loop w field (serialize m @ r) m0 = parse_loop w field r (merge m m0)"
    and merge_clear: "merge m (clear m0) = m"
    and clear_known: "known (clear m0)"
    and size_written: "byte_size m = length (serialize m)"
begin

lemma parse_returns: "parse_loop w field p m \<noteq> None"
  by (rule loop_returns [OF field_returns field_progress])

lemma returns: "\<exists>verdict. pb_ParseFromString w clear (parse_loop w field) s m = Some verdict"
  using parse_returns [of s "clear m"]
  by (auto simp: pb_ParseFromString_def split: option.split parse_outcome.split)

lemma roundtrip:
  assumes "known m" "length (serialize m) < 2 ^ 31"
  shows "pb_ParseFromString w clear (parse_loop w field) (serialize m) m0 = Some (True, m)"
  using parse_written [OF assms(1) clear_known assms(2), of "[]"]
  by (simp add: pb_ParseFromString_def merge_clear accept_end)

lemma concatenation:
  assumes "known m1" "length (serialize m1) < 2 ^ 31" "known m2" "length (serialize m2) < 2 ^ 31"
  shows "pb_ParseFromString w clear (parse_loop w field) (serialize m1 @ serialize m2) m0 =
    Some (True, merge m2 m1)"
  using parse_written [OF assms(1) clear_known assms(2), of "serialize m2"]
    parse_written [OF assms(3,1,4), of "[]"]
  by (simp add: pb_ParseFromString_def merge_clear accept_end)

lemma serialized:
  "known m \<Longrightarrow> byte_size m < 2 ^ 31 \<Longrightarrow> \<exists>s. pb_SerializeToString w byte_size serialize m = Some s \<and>
    length s = byte_size m \<and> pb_ParseFromString w clear (parse_loop w field) s m0 = Some (True, m)"
  using roundtrip [of m m0] accept_size [of "byte_size m"] by (simp add: pb_SerializeToString_def size_written)

end

sublocale generated_message \<subseteq> codec: message_codec "pb_SerializeToString w byte_size serialize"
    "\<lambda>s m. the (pb_ParseFromString w clear (parse_loop w field) s m)" "\<lambda>m. known m \<and> byte_size m < 2 ^ 31"
  by unfold_locales (use serialized in fastforce)

end
