(* ===== verification/Rpc_Header.thy ===== *)
theory Rpc_Header
  imports Pb_Messages
begin

text \<open>
  The request header \<open>Krpc.RpcHeader\<close> as the code generated from \<^verbatim>\<open>src/src/Krpcheader.proto\<close>
  handles it (\<^verbatim>\<open>src/src/Krpcheader.pb.cc\<close>): clearing, merging, the field-by-field parser, the
  serializer and the size computation, over the wire helpers of \<open>Protobuf_Api\<close>.
\<close>

record 'u rpc_header = "'u pb_message" +
  hdr_service_name :: string
  hdr_method_name :: string
  hdr_args_size :: "32 word"

definition RpcHeader_SharedCtor :: "'u pb_wire \<Rightarrow> 'u rpc_header" where
  "RpcHeader_SharedCtor w =
     \<lparr>msg_unknown = EmptyUnknown w, hdr_service_name = [], hdr_method_name = [], hdr_args_size = 0\<rparr>"

definition RpcHeader_Clear :: "'u pb_wire \<Rightarrow> 'u rpc_header \<Rightarrow> 'u rpc_header" where
  "RpcHeader_Clear w h =
     h\<lparr>hdr_service_name := [], hdr_method_name := [], hdr_args_size := 0,
       msg_unknown := EmptyUnknown w\<rparr>"

section \<open>Parsing\<close>

definition RpcHeader_field :: "'u pb_wire \<Rightarrow> 'u rpc_header switch" where
  "RpcHeader_field w tag ptr h =
     (if drop_bit 3 tag = 1 then
        (if (ucast tag :: 8 word) = 10
         then field_read (InlineGreedyStringParser w ptr) (\<lambda>str. h\<lparr>hdr_service_name := str\<rparr>)
         else handle_unusual w tag ptr h)
      else if drop_bit 3 tag = 2 then
        (if (ucast tag :: 8 word) = 18
         then field_read (InlineGreedyStringParser w ptr) (\<lambda>str. h\<lparr>hdr_method_name := str\<rparr>)
         else handle_unusual w tag ptr h)
      else if drop_bit 3 tag = 3 then
        (if (ucast tag :: 8 word) = 24
         then field_read (WireReadVarint32 w ptr) (\<lambda>v. h\<lparr>hdr_args_size := v\<rparr>)
         else handle_unusual w tag ptr h)
      else handle_unusual w tag ptr h)"

definition RpcHeader_InternalParse ::
    "'u pb_wire \<Rightarrow> string \<Rightarrow> 'u rpc_header \<Rightarrow> 'u rpc_header parse_outcome option" where
  "RpcHeader_InternalParse w = parse_loop w (RpcHeader_field w)"

definition RpcHeader_ParseFromString ::
    "'u pb_wire \<Rightarrow> string \<Rightarrow> 'u rpc_header \<Rightarrow> (bool \<times> 'u rpc_header) option" where
  "RpcHeader_ParseFromString w = pb_ParseFromString w (RpcHeader_Clear w) (RpcHeader_InternalParse w)"

section \<open>Serialization\<close>

definition RpcHeader_InternalSerialize :: "'u pb_wire \<Rightarrow> 'u rpc_header \<Rightarrow> string" where
  "RpcHeader_InternalSerialize w h =
     (if 0 < length (hdr_service_name h) then WriteBytesMaybeAliased w 1 (hdr_service_name h) else []) @
     (if 0 < length (hdr_method_name h) then WriteBytesMaybeAliased w 2 (hdr_method_name h) else []) @
     (if hdr_args_size h \<noteq> 0 then WriteUInt32ToArray w 3 (hdr_args_size h) else []) @
     write_unknown w h"

definition RpcHeader_ByteSizeLong :: "'u pb_wire \<Rightarrow> 'u rpc_header \<Rightarrow> nat" where
  "RpcHeader_ByteSizeLong w h =
     (let total_size = 0;
          total_size = (if 0 < length (hdr_service_name h)
            then total_size + (1 + BytesSize w (hdr_service_name h)) else total_size);
          total_size = (if 0 < length (hdr_method_name h)
            then total_size + (1 + BytesSize w (hdr_method_name h)) else total_size);
          total_size = (if hdr_args_size h \<noteq> 0
            then total_size + (1 + UInt32Size w (hdr_args_size h)) else total_size)
      in size_unknown w h total_size)"

definition RpcHeader_SerializeToString :: "'u pb_wire \<Rightarrow> 'u rpc_header \<Rightarrow> string option" where
  "RpcHeader_SerializeToString w =
     pb_SerializeToString w (RpcHeader_ByteSizeLong w) (RpcHeader_InternalSerialize w)"

section \<open>Merging and copying\<close>

definition RpcHeader_MergeFrom :: "'u pb_wire \<Rightarrow> 'u rpc_header \<Rightarrow> 'u rpc_header \<Rightarrow> 'u rpc_header" where
  "RpcHeader_MergeFrom w from this =
     (let this = merge_unknown w from this;
          this = (if 0 < length (hdr_service_name from)
            then this\<lparr>hdr_service_name := hdr_service_name from\<rparr> else this);
          this = (if 0 < length (hdr_method_name from)
            then this\<lparr>hdr_method_name := hdr_method_name from\<rparr> else this)
      in if hdr_args_size from \<noteq> 0 then this\<lparr>hdr_args_size := hdr_args_size from\<rparr> else this)"

definition RpcHeader_CopyFrom ::
    "'u pb_wire \<Rightarrow> bool \<Rightarrow> 'u rpc_header \<Rightarrow> 'u rpc_header \<Rightarrow> 'u rpc_header" where
  \<comment> \<open>the flag is the test \<open>&from == this\<close>\<close>
  "RpcHeader_CopyFrom w same from this =
     (if same then this else RpcHeader_MergeFrom w from (RpcHeader_Clear w this))"

definition RpcHeader_InternalSwap :: "'u rpc_header \<Rightarrow> 'u rpc_header \<Rightarrow> 'u rpc_header \<times> 'u rpc_header" where
  "RpcHeader_InternalSwap this other =
     (this\<lparr>msg_unknown := msg_unknown other, hdr_service_name := hdr_service_name other,
           hdr_method_name := hdr_method_name other, hdr_args_size := hdr_args_size other\<rparr>,
      other\<lparr>msg_unknown := msg_unknown this, hdr_service_name := hdr_service_name this,
           hdr_method_name := hdr_method_name this, hdr_args_size := hdr_args_size this\<rparr>)"

lemma RpcHeader_swap: "RpcHeader_InternalSwap a b = (b, a)"
  by (simp add: RpcHeader_InternalSwap_def)

section \<open>The contract\<close>

lemma header_fields:
  "RpcHeader_field w (field_tag 1 2) p h =
     field_read (InlineGreedyStringParser w p) (\<lambda>str. h\<lparr>hdr_service_name := str\<rparr>)"
  "RpcHeader_field w (field_tag 2 2) p h =
     field_read (InlineGreedyStringParser w p) (\<lambda>str. h\<lparr>hdr_method_name := str\<rparr>)"
  "RpcHeader_field w (field_tag 3 0) p h =
     field_read (WireReadVarint32 w p) (\<lambda>v. h\<lparr>hdr_args_size := v\<rparr>)"
  by (simp_all add: RpcHeader_field_def field_tag_def)

context wire_format
begin

lemma header_small:
  assumes "length (RpcHeader_InternalSerialize w h) < n"
  shows "length (hdr_service_name h) < n" "length (hdr_method_name h) < n"
  using assms bytes_small [of 1 "hdr_service_name h" n] bytes_small [of 2 "hdr_method_name h" n]
  by (auto simp: RpcHeader_InternalSerialize_def split: if_splits)

lemmas header_turns =
  parse_bytes [where field = "RpcHeader_field w" and f = 1 and g = "\<lambda>h str. h\<lparr>hdr_service_name := str\<rparr>",
    OF header_fields(1), simplified]
  parse_bytes [where field = "RpcHeader_field w" and f = 2 and g = "\<lambda>h str. h\<lparr>hdr_method_name := str\<rparr>",
    OF header_fields(2), simplified]
  parse_uint32 [where field = "RpcHeader_field w" and f = 3 and g = "\<lambda>h v. h\<lparr>hdr_args_size := v\<rparr>",
    OF header_fields(3), simplified]

lemma parse_header_then:
  assumes "no_unknown_fields w h" "no_unknown_fields w h0" "length (RpcHeader_InternalSerialize w h) < 2 ^ 31"
  shows "parse_loop w (RpcHeader_field w) (RpcHeader_InternalSerialize w h @ r) h0 =
    parse_loop w (RpcHeader_field w) r (RpcHeader_MergeFrom w h h0)"
proof -
  have u: "\<not> HaveUnknown w (msg_unknown h)" "msg_unknown h0 = EmptyUnknown w" "msg_unknown h = EmptyUnknown w"
    using assms no_unknown by (simp_all add: no_unknown_fields_def)
  show ?thesis
    unfolding RpcHeader_InternalSerialize_def append_assoc
    using u header_small [OF assms(3)]
    by (cases h0) (simp add: header_turns RpcHeader_MergeFrom_def Let_def merge_empty pb_message)
qed

end

sublocale wire_format \<subseteq> header: generated_message w "RpcHeader_field w" "RpcHeader_Clear w"
    "RpcHeader_InternalSerialize w" "RpcHeader_ByteSizeLong w" "RpcHeader_MergeFrom w" "no_unknown_fields w"
proof unfold_locales
  fix t p m m' p'
  show "RpcHeader_field w t p m \<noteq> None"
    by (simp add: RpcHeader_field_def turn_returns del: not_None_eq)
  show "RpcHeader_field w t p m = Some (FieldOk m' p') \<Longrightarrow> length p' \<le> length p"
    by (auto simp: RpcHeader_field_def field_read_ok split: if_splits
        dest: string_progress varint_progress unusual_progress)
  show "RpcHeader_MergeFrom w m (RpcHeader_Clear w p) = m" for p
    by (cases m) (simp add: RpcHeader_MergeFrom_def RpcHeader_Clear_def merge_empty Let_def pb_message)
  show "RpcHeader_ByteSizeLong w m = length (RpcHeader_InternalSerialize w m)"
    by (simp add: RpcHeader_ByteSizeLong_def RpcHeader_InternalSerialize_def Let_def
        bytes_size uint32_size unknown_size pb_message)
qed (simp_all add: parse_header_then, simp_all add: RpcHeader_Clear_def pb_message)

lemmas RpcHeader_parsing = RpcHeader_ParseFromString_def RpcHeader_InternalParse_def

context wire_format
begin

lemma header_roundtrip:
  "no_unknown_fields w h \<Longrightarrow> length (RpcHeader_InternalSerialize w h) < 2 ^ 31 \<Longrightarrow>
   RpcHeader_ParseFromString w (RpcHeader_InternalSerialize w h) h0 = Some (True, h)"
  unfolding RpcHeader_parsing by (rule header.roundtrip)

lemmas header_returns = header.returns
lemmas header_serialized = header.serialized
lemmas header_concatenation = header.concatenation

lemma header_size: "RpcHeader_ByteSizeLong w h = length (RpcHeader_InternalSerialize w h)"
  by (rule header.size_written)

lemma copy_is_copy: "RpcHeader_CopyFrom w False src this = src"
  by (simp add: RpcHeader_CopyFrom_def header.merge_clear)

end

section \<open>Properties\<close>

text \<open>C21: Over any runtime that keeps the wire format, a header that was serialized parses back, into any
  object, as the same header, and the size computed beforehand is the number of bytes written.\<close>

theorem header_survives_wire:
  assumes "wire_format w" "no_unknown_fields w h" "RpcHeader_ByteSizeLong w h < 2 ^ 31"
  shows "\<exists>s. RpcHeader_SerializeToString w h = Some s \<and> length s = RpcHeader_ByteSizeLong w h \<and>
    RpcHeader_ParseFromString w s h0 = Some (True, h)"
  unfolding RpcHeader_SerializeToString_def RpcHeader_parsing
  by (rule wire_format.header_serialized [OF assms])

definition example_header :: "string rpc_header" where
  "example_header = \<lparr>msg_unknown = '''', hdr_service_name = ''UserServiceRpc'',
     hdr_method_name = ''Login'', hdr_args_size = 18\<rparr>"

theorem header_survives_wire_witness:
  "\<exists>s. RpcHeader_SerializeToString std_wire example_header = Some s \<and> length s = 25 \<and>
    RpcHeader_ParseFromString std_wire s (RpcHeader_SharedCtor std_wire) = Some (True, example_header)"
proof -
  have u: "no_unknown_fields std_wire example_header"
    by (simp add: no_unknown_fields_def example_header_def std_wire_def)
  have n: "RpcHeader_ByteSizeLong std_wire example_header = 25"
    by (simp add: RpcHeader_ByteSizeLong_def size_unknown_def example_header_def std_wire_def varint.simps)
  show ?thesis
    using header_survives_wire [OF std_wire.wire_format_axioms u, of "RpcHeader_SharedCtor std_wire"] n by simp
qed

text \<open>On any bytes whatever the header parser returns: its loop ends, with a verdict.\<close>

theorem header_parse_returns:
  assumes "wire_format w"
  shows "\<exists>verdict. RpcHeader_ParseFromString w bytes h = Some verdict"
  unfolding RpcHeader_parsing by (rule wire_format.header_returns [OF assms])

theorem header_parse_returns_witness:
  "\<exists>verdict. RpcHeader_ParseFromString std_wire [char_of (10::nat), char_of (200::nat)] (RpcHeader_SharedCtor std_wire) = Some verdict"
  by (rule header_parse_returns [OF std_wire.wire_format_axioms])

text \<open>C37: Parsing the bytes of one header followed by those of another gives the first with the second
  merged into it: the fields the second sets win, the others stay.\<close>

theorem parse_concatenation_merges:
  assumes "wire_format w"
    and "no_unknown_fields w h1" "length (RpcHeader_InternalSerialize w h1) < 2 ^ 31"
    and "no_unknown_fields w h2" "length (RpcHeader_InternalSerialize w h2) < 2 ^ 31"
  shows "RpcHeader_ParseFromString w (RpcHeader_InternalSerialize w h1 @ RpcHeader_InternalSerialize w h2) h0 =
    Some (True, RpcHeader_MergeFrom w h2 h1)"
  unfolding RpcHeader_parsing by (rule wire_format.header_concatenation [OF assms])

theorem parse_concatenation_merges_witness:
  "RpcHeader_ParseFromString std_wire (RpcHeader_InternalSerialize std_wire example_header @
     RpcHeader_InternalSerialize std_wire (example_header\<lparr>hdr_method_name := ''Add'', hdr_args_size := 0\<rparr>))
     (RpcHeader_SharedCtor std_wire) =
   Some (True, example_header\<lparr>hdr_method_name := ''Add''\<rparr>)"
proof -
  let ?h2 = "example_header\<lparr>hdr_method_name := ''Add'', hdr_args_size := 0\<rparr>"
  have known: "no_unknown_fields std_wire example_header" "no_unknown_fields std_wire ?h2"
    by (simp_all add: no_unknown_fields_def example_header_def std_wire_def)
  have small: "length (RpcHeader_InternalSerialize std_wire example_header) < 2 ^ 31"
    "length (RpcHeader_InternalSerialize std_wire ?h2) < 2 ^ 31"
    by (simp_all add: RpcHeader_InternalSerialize_def example_header_def std_wire_def std_tag_def
        write_unknown_def varint.simps)
  show ?thesis
    using parse_concatenation_merges [OF std_wire.wire_format_axioms known(1) small(1) known(2) small(2),
        of "RpcHeader_SharedCtor std_wire"]
    by (simp add: RpcHeader_MergeFrom_def merge_unknown_def example_header_def std_wire_def)
qed

end
