(* ===== verification/Krpc_Config.thy ===== *)
theory Krpc_Config
  imports Krpc_Prelude
begin

text \<open>
  The configuration file reader, \<^verbatim>\<open>src/src/Krpcconfig.cc\<close>, with the contract of a loader of such
  files as the locale \<open>config_loader\<close>.  The file is its text (\<open>None\<close>: \<^verbatim>\<open>fopen\<close> fails); \<^verbatim>\<open>fgets\<close> with
  its 1024 byte buffer cuts it into the lines the loop sees.
\<close>

section \<open>The code\<close>

definition fgets :: "nat \<Rightarrow> string \<Rightarrow> (string \<times> string) option" where
  "fgets n f =
     (if f = [] then None
      else let body = takeWhile (\<lambda>c. c \<noteq> LF) f;
               line = (if length body < length f then body @ [LF] else body);
               chunk = take (n - 1) line
           in Some (chunk, drop (length chunk) f))"

definition Krpcconfig_Trim :: "string \<Rightarrow> string res" where
  "Krpcconfig_Trim s =
     (let i = find_first_not_of SP s in
      res_bind (if i \<noteq> -1 then substr s i (int (length s) - i) else Inr s) (\<lambda>s.
      let j = find_last_not_of SP s in
      if j \<noteq> -1 then substr s 0 (j + 1) else Inr s))"

definition Krpcconfig_line :: "string \<Rightarrow> (string \<rightharpoonup> string) \<Rightarrow> (string \<rightharpoonup> string) res" where
  "Krpcconfig_line buf m =
     res_bind (Krpcconfig_Trim (c_str_to_string buf)) (\<lambda>read_buf.
     if str_at read_buf 0 = CHR ''#'' \<or> read_buf = [] then Inr m
     else let index = str_find CHR ''='' 0 read_buf in
     if index = -1 then Inr m
     else
       res_bind (substr read_buf 0 index) (\<lambda>key0.
       res_bind (Krpcconfig_Trim key0) (\<lambda>key.
       let endindex = str_find LF index read_buf in
       res_bind (substr read_buf (index + 1) (endindex - index - 1)) (\<lambda>value0.
       res_bind (Krpcconfig_Trim value0) (\<lambda>value.
       Inr (map_emplace key value m))))))"

function Krpcconfig_read :: "string \<Rightarrow> (string \<rightharpoonup> string) \<Rightarrow> (string \<rightharpoonup> string) res" where
  "Krpcconfig_read f m =
     (case fgets 1024 f of
        None \<Rightarrow> Inr m
      | Some (buf, rest) \<Rightarrow>
          (case Krpcconfig_line buf m of
             Inl e \<Rightarrow> Inl e
           | Inr m' \<Rightarrow> Krpcconfig_read rest m'))"
  by pat_completeness auto
termination
  by (relation "measure (\<lambda>(f, m). length f)")
    (auto simp: fgets_def Let_def neq_Nil_conv split: if_splits)

declare Krpcconfig_read.simps [simp del]

definition Krpcconfig_LoadConfigFile ::
    "string option \<Rightarrow> (string \<rightharpoonup> string) \<Rightarrow> (string \<rightharpoonup> string) res" where
  "Krpcconfig_LoadConfigFile file m =
     (case file of None \<Rightarrow> Inl ExitFailure | Some text \<Rightarrow> Krpcconfig_read text m)"

definition Krpcconfig_Load :: "(string \<rightharpoonup> string) \<Rightarrow> string \<Rightarrow> string" where
  "Krpcconfig_Load m key = (case m key of None \<Rightarrow> '''' | Some v \<Rightarrow> v)"

section \<open>Trim\<close>

definition strip :: "string \<Rightarrow> string" where
  "strip s = rev (dropWhile (\<lambda>c. c = SP) (rev (dropWhile (\<lambda>c. c = SP) s)))"

definition blank :: "string \<Rightarrow> bool" where
  "blank s \<longleftrightarrow> list_all (\<lambda>c. c = SP) s"

lemma blank_iff: "blank s \<longleftrightarrow> (\<forall>c \<in> set s. c = SP)"
  by (simp add: blank_def list_all_iff)

lemma find_first_not_of_blank: "blank s \<Longrightarrow> find_first_not_of SP s = -1"
  by (simp add: blank_iff find_first_not_of_def takeWhile_eq_all_conv [THEN iffD2])

lemma find_last_not_of_blank: "blank s \<Longrightarrow> find_last_not_of SP s = -1"
  by (simp add: blank_iff find_last_not_of_def takeWhile_eq_all_conv [THEN iffD2])

lemma takeWhile_shorter: "\<not> blank s \<Longrightarrow> length (takeWhile (\<lambda>c. c = SP) s) < length s"
  by (induction s) (auto simp: blank_iff)

lemma trim_front:
  assumes "\<not> blank s"
  shows "find_first_not_of SP s \<noteq> -1"
    and "substr s (find_first_not_of SP s) (int (length s) - find_first_not_of SP s)
         = Inr (dropWhile (\<lambda>c. c = SP) s)"
proof -
  let ?n = "length (takeWhile (\<lambda>c. c = SP) s)"
  have n: "?n < length s" using assms by (rule takeWhile_shorter)
  then have f: "find_first_not_of SP s = int ?n" by (simp add: find_first_not_of_def)
  then show "find_first_not_of SP s \<noteq> -1" by simp
  show "substr s (find_first_not_of SP s) (int (length s) - find_first_not_of SP s)
         = Inr (dropWhile (\<lambda>c. c = SP) s)"
    using n f less_imp_le [OF n] by (simp add: substr_def dropWhile_eq_drop)
qed

lemma trim_back:
  assumes "\<not> blank s"
  shows "find_last_not_of SP s \<noteq> -1"
    and "substr s 0 (find_last_not_of SP s + 1) = Inr (rev (dropWhile (\<lambda>c. c = SP) (rev s)))"
proof -
  let ?n = "length (takeWhile (\<lambda>c. c = SP) (rev s))"
  have "\<not> blank (rev s)" using assms by (simp add: blank_iff)
  then have n: "?n < length s" using takeWhile_shorter [of "rev s"] by simp
  then have f: "find_last_not_of SP s = int (length s - 1 - ?n)"
    by (simp add: find_last_not_of_def)
  then show "find_last_not_of SP s \<noteq> -1" by simp
  have "find_last_not_of SP s + 1 = int (length s - ?n)" using n f by simp
  then have "substr s 0 (find_last_not_of SP s + 1) = Inr (take (length s - ?n) s)"
    by (simp add: substr_def del: of_nat_diff)
  also have "take (length s - ?n) s = rev (drop ?n (rev s))" by (simp add: rev_drop)
  finally show "substr s 0 (find_last_not_of SP s + 1)
      = Inr (rev (dropWhile (\<lambda>c. c = SP) (rev s)))"
    by (simp add: dropWhile_eq_drop)
qed

lemma dropWhile_not_blank: "\<not> blank s \<Longrightarrow> \<not> blank (dropWhile (\<lambda>c. c = SP) s)"
  by (induction s) (auto simp: blank_iff)

lemma dropWhile_padding:
  "s = replicate (length s - length (dropWhile (\<lambda>c. c = SP) s)) SP @ dropWhile (\<lambda>c. c = SP) s"
proof -
  have "takeWhile (\<lambda>c. c = SP) s = replicate (length (takeWhile (\<lambda>c. c = SP) s)) SP"
    by (induction s) auto
  moreover have "length (takeWhile (\<lambda>c. c = SP) s) = length s - length (dropWhile (\<lambda>c. c = SP) s)"
    by (metis add_diff_cancel_right' length_append takeWhile_dropWhile_id)
  ultimately show ?thesis by (metis takeWhile_dropWhile_id)
qed

lemma Trim_eq: "Krpcconfig_Trim s = Inr (if blank s then s else strip s)"
proof (cases "blank s")
  case True
  then show ?thesis
    by (simp add: Krpcconfig_Trim_def find_first_not_of_blank find_last_not_of_blank)
next
  case False
  then show ?thesis
    by (simp add: Krpcconfig_Trim_def Let_def trim_front trim_back dropWhile_not_blank strip_def)
qed

lemma strip_pad:
  assumes "k \<noteq> []" "hd k \<noteq> SP" "last k \<noteq> SP"
  shows "strip (replicate a SP @ k @ replicate b SP) = k"
proof -
  have front: "dropWhile (\<lambda>c. c = SP) (replicate n SP @ x) = x" if "x \<noteq> []" "hd x \<noteq> SP" for n x
    using that by (induction n) (cases x; simp)+
  have "dropWhile (\<lambda>c. c = SP) (replicate a SP @ k @ replicate b SP) = k @ replicate b SP"
    using assms by (intro front) auto
  moreover have "dropWhile (\<lambda>c. c = SP) (replicate b SP @ rev k) = rev k"
    using assms by (intro front) (auto simp: hd_rev)
  ultimately show ?thesis by (simp add: strip_def)
qed

lemma not_blankI: "k \<noteq> [] \<Longrightarrow> hd k \<noteq> SP \<Longrightarrow> \<not> blank (x @ k @ y)"
  by (cases k) (auto simp: blank_iff)

lemma Trim_pad:
  assumes "k \<noteq> []" "hd k \<noteq> SP" "last k \<noteq> SP"
  shows "Krpcconfig_Trim (replicate a SP @ k @ replicate b SP) = Inr k"
  using assms by (simp add: Trim_eq strip_pad not_blankI)

lemma set_strip: "set (strip s) \<subseteq> set s"
  by (auto simp: strip_def dest!: set_dropWhileD)


section \<open>Lines of a configuration file\<close>

text \<open>
  The lines the format provides for, with their padding: \<open>Entry a k b c v d\<close> is key \<open>k\<close> and
  value \<open>v\<close> with the blanks around each.
\<close>

datatype cfg_line =
    Junk string
  | Comment nat string
  | Entry nat string nat nat string nat

fun line_text :: "cfg_line \<Rightarrow> string" where
  "line_text (Junk s) = s"
| "line_text (Comment a s) = replicate a SP @ CHR ''#'' # s"
| "line_text (Entry a k b c v d) =
     replicate a SP @ k @ replicate b SP @ CHR ''='' # replicate c SP @ v @ replicate d SP"

fun line_wf :: "cfg_line \<Rightarrow> bool" where
  "line_wf (Junk s) \<longleftrightarrow> CHR ''='' \<notin> set s"
| "line_wf (Comment a s) \<longleftrightarrow> True"
| "line_wf (Entry a k b c v d) \<longleftrightarrow>
     k \<noteq> [] \<and> hd k \<noteq> SP \<and> last k \<noteq> SP \<and> hd k \<noteq> CHR ''#'' \<and> CHR ''='' \<notin> set k \<and>
     (if v = [] then c = 0 \<and> d = 0 else hd v \<noteq> SP \<and> last v \<noteq> SP)"

fun line_entries :: "cfg_line \<Rightarrow> (string \<times> string) list" where
  "line_entries (Entry a k b c v d) = [(k, v)]"
| "line_entries _ = []"

definition line_ok :: "cfg_line \<Rightarrow> bool" where
  "line_ok l \<longleftrightarrow> line_wf l \<and> LF \<notin> set (line_text l) \<and> NUL \<notin> set (line_text l) \<and>
     length (line_text l) \<le> 1022"

text \<open>A file: terminated lines, and possibly a last line without its line feed.\<close>

definition render_file :: "cfg_line list \<Rightarrow> cfg_line option \<Rightarrow> string" where
  "render_file ls last_line =
     concat (map (\<lambda>l. line_text l @ [LF]) ls) @
     (case last_line of None \<Rightarrow> [] | Some l \<Rightarrow> line_text l)"

definition file_entries :: "cfg_line list \<Rightarrow> cfg_line option \<Rightarrow> (string \<times> string) list" where
  "file_entries ls last_line =
     concat (map line_entries ls) @ (case last_line of None \<Rightarrow> [] | Some l \<Rightarrow> line_entries l)"

definition file_ok :: "cfg_line list \<Rightarrow> cfg_line option \<Rightarrow> bool" where
  "file_ok ls last_line \<longleftrightarrow> list_all line_ok ls \<and> (\<forall>l \<in> set_option last_line. line_ok l)"

definition insert_all :: "(string \<times> string) list \<Rightarrow> (string \<rightharpoonup> string) \<Rightarrow> (string \<rightharpoonup> string)" where
  "insert_all es m = foldl (\<lambda>m (k, v). map_emplace k v m) m es"

lemma insert_all_eq: "insert_all es m = map_of es ++ m"
  by (simp add: insert_all_def foldl_emplace_map_of)

lemma insert_all_append: "insert_all (xs @ ys) m = insert_all ys (insert_all xs m)"
  by (simp add: insert_all_def)

lemma insert_all_Nil [simp]: "insert_all [] m = m"
  by (simp add: insert_all_def)

lemma fgets_line:
  "LF \<notin> set t \<Longrightarrow> length t \<le> 1022 \<Longrightarrow> fgets 1024 (t @ LF # r) = Some (t @ [LF], r)"
  by (simp add: fgets_def takeWhile_neq_append)

lemma fgets_last:
  "LF \<notin> set t \<Longrightarrow> t \<noteq> [] \<Longrightarrow> length t \<le> 1022 \<Longrightarrow> fgets 1024 t = Some (t, [])"
  using takeWhile_neq_all [of LF t] by (simp add: fgets_def del: takeWhile_eq_all_conv)

lemma fgets_Nil [simp]: "fgets n [] = None"
  by (simp add: fgets_def)

lemma Trim_eqE:
  obtains t where "Krpcconfig_Trim s = Inr t" "set t \<subseteq> set s"
  using set_strip by (auto simp: Trim_eq)

lemma line_no_eq:
  assumes "CHR ''='' \<notin> set (c_str_to_string buf)"
  shows "Krpcconfig_line buf m = Inr m"
proof -
  obtain t where t: "Krpcconfig_Trim (c_str_to_string buf) = Inr t" "set t \<subseteq> set (c_str_to_string buf)"
    by (rule Trim_eqE)
  with assms have "CHR ''='' \<notin> set t" by auto
  then show ?thesis using t(1) by (simp add: Krpcconfig_line_def str_find_miss)
qed

text \<open>The end of line that \<^verbatim>\<open>fgets\<close> leaves in the buffer: a line feed, or nothing on the last line.\<close>

definition eol :: "bool \<Rightarrow> string" where
  "eol nl = (if nl then [LF] else [])"

lemma dropWhile_SP_replicate: "x \<noteq> [] \<Longrightarrow> hd x \<noteq> SP \<Longrightarrow> dropWhile (\<lambda>c. c = SP) (replicate n SP @ x) = x"
  by (induction n) (cases x; simp)+

definition rstrip :: "string \<Rightarrow> string" where
  "rstrip s = rev (dropWhile (\<lambda>c. c = SP) (rev s))"

lemma strip_Cons:
  assumes "x \<noteq> SP"
  shows "strip (replicate a SP @ x # y) = x # rstrip y"
proof -
  have "dropWhile (\<lambda>c. c = SP) (replicate a SP @ x # y) = x # y"
    using assms by (simp add: dropWhile_SP_replicate)
  then show ?thesis using assms by (simp add: strip_def rstrip_def dropWhile_append3)
qed

lemma rstrip_mid: "x \<noteq> SP \<Longrightarrow> rstrip (a @ x # y) = a @ x # rstrip y"
  by (simp add: rstrip_def dropWhile_append3)

lemma rstrip_LF [simp]: "rstrip (a @ [LF]) = a @ [LF]"
  by (simp add: rstrip_def)

lemma rstrip_SP [simp]: "rstrip (a @ replicate n SP) = rstrip a"
  using dropWhile_append2 [of "replicate n SP" "\<lambda>c. c = SP" "rev a"] by (simp add: rstrip_def)

lemma rstrip_last: "v \<noteq> [] \<Longrightarrow> last v \<noteq> SP \<Longrightarrow> rstrip (a @ v) = a @ v"
  by (cases v rule: rev_cases) (simp_all add: rstrip_def)

lemma line_comment:
  assumes "NUL \<notin> set s"
  shows "Krpcconfig_line (replicate a SP @ CHR ''#'' # s @ eol nl) m = Inr m"
proof -
  let ?x = "CHR ''#'' # s @ eol nl"
  have "NUL \<notin> set (replicate a SP @ ?x)" using assms by (auto simp: eol_def)
  then have c: "c_str_to_string (replicate a SP @ ?x) = replicate a SP @ ?x" by (rule c_str_id)
  have nb: "\<not> blank (replicate a SP @ ?x)" by (simp add: blank_iff)
  then show ?thesis using c by (simp add: Krpcconfig_line_def Trim_eq strip_Cons)
qed

lemma line_core:
  assumes trim: "Krpcconfig_Trim (c_str_to_string buf) = Inr (K @ CHR ''='' # V @ eol nl)"
    and K: "K \<noteq> []" "hd K \<noteq> CHR ''#''" "CHR ''='' \<notin> set K" "Krpcconfig_Trim K = Inr k"
    and V: "LF \<notin> set V" "Krpcconfig_Trim V = Inr v" "length K + length V < 2 ^ 30"
  shows "Krpcconfig_line buf m = Inr (map_emplace k v m)"
proof -
  let ?r = "K @ CHR ''='' # V @ eol nl"
  have hash: "str_at ?r 0 \<noteq> CHR ''#''" using K(1,2) by (cases K) (auto simp: str_at_def)
  have idx: "str_find CHR ''='' 0 ?r = int (length K)" by (rule str_find_hit [OF K(3)])
  have key: "substr ?r 0 (int (length K)) = Inr K" by (rule substr_prefix)
  have end_nl: "str_find LF (int (length K)) (K @ (CHR ''='' # V) @ LF # []) =
      int (length K + length (CHR ''='' # V))"
    using V(1) by (intro str_find_from) auto
  have end_eof: "str_find LF (int (length K)) (K @ CHR ''='' # V) = -1"
    using V(1) by (intro str_find_from_miss) auto
  let ?e = "str_find LF (int (length K)) ?r"
  have val: "substr ?r (int (length K) + 1) (?e - int (length K) - 1) = Inr V"
  proof (cases nl)
    case True
    then have "?e = int (length K + length (CHR ''='' # V))" using end_nl by (simp add: eol_def)
    then have "?e - int (length K) - 1 = int (length V)" by simp
    then show ?thesis by (simp add: substr_def)
  next
    case False
    then have e: "?e = -1" using end_eof by (simp add: eol_def)
    have "2 ^ 63 \<le> size_of_int (-1 - int (length K) - 1)"
      using V(3) by (intro size_of_int_neg) auto
    then have "length V \<le> size_of_int (-1 - int (length K) - 1)" using V(3) by simp
    then show ?thesis using e False by (simp add: substr_def eol_def)
  qed
  show ?thesis
    using trim hash idx key val K V by (simp add: Krpcconfig_line_def Let_def)
qed


lemma line_entry:
  assumes ok: "line_ok (Entry a k b c v d)"
  shows "Krpcconfig_line (line_text (Entry a k b c v d) @ eol nl) m = Inr (map_emplace k v m)"
proof -
  let ?t = "line_text (Entry a k b c v d)"
  let ?K = "k @ replicate b SP"
  let ?W = "replicate c SP @ v @ replicate d SP"
  let ?V = "if nl then ?W else rstrip ?W"
  from ok have k: "k \<noteq> []" "hd k \<noteq> SP" "last k \<noteq> SP" "hd k \<noteq> CHR ''#''" "CHR ''='' \<notin> set k"
    and chars: "LF \<notin> set ?t" "NUL \<notin> set ?t" and len: "length ?t \<le> 1022"
    by (auto simp: line_ok_def)
  have v: "v = [] \<Longrightarrow> c = 0 \<and> d = 0" "v \<noteq> [] \<Longrightarrow> hd v \<noteq> SP \<and> last v \<noteq> SP"
    using ok by (auto simp: line_ok_def)
  obtain k1 k2 where k12: "k = k1 # k2" "k1 \<noteq> SP" using k by (cases k) auto
  have "NUL \<notin> set (?t @ eol nl)" using chars by (auto simp: eol_def)
  then have cstr: "c_str_to_string (?t @ eol nl) = ?t @ eol nl" by (rule c_str_id)
  have nb: "\<not> blank (?t @ eol nl)" using k12 by (simp add: blank_iff)
  have tail: "rstrip (?W @ eol nl) = ?V @ eol nl"
    by (simp add: eol_def) (metis append_assoc rstrip_LF)
  have "strip (?t @ eol nl) = k1 # rstrip ((k2 @ replicate b SP) @ CHR ''='' # ?W @ eol nl)"
    using k12 strip_Cons [of k1 a] by simp
  also have "\<dots> = ?K @ CHR ''='' # ?V @ eol nl"
    using tail k12 rstrip_mid [of "CHR ''=''" "k2 @ replicate b SP" "?W @ eol nl"]
    by (simp del: append_assoc add: append_assoc [symmetric])
  finally have trim: "Krpcconfig_Trim (c_str_to_string (?t @ eol nl)) = Inr (?K @ CHR ''='' # ?V @ eol nl)"
    using nb cstr by (simp add: Trim_eq)
  have W: "rstrip ?W = (if v = [] then [] else replicate c SP @ v)"
    using v rstrip_last [of v "replicate c SP"] rstrip_SP [of "replicate c SP @ v" d]
    by (simp add: rstrip_def)
  have trimV: "Krpcconfig_Trim ?V = Inr v"
  proof (cases "v = []")
    case True
    then show ?thesis using v W by (simp add: Trim_eq blank_iff)
  next
    case False
    then show ?thesis using v W Trim_pad [of v c d] Trim_pad [of v c 0] by simp
  qed
  show ?thesis
  proof (rule line_core [OF trim])
    show "Krpcconfig_Trim ?K = Inr k" using k Trim_pad [of k 0 b] by simp
    show "LF \<notin> set ?V" using chars W by auto
    show "length ?K + length ?V < 2 ^ 30" using len W by auto
  qed (use k trimV in auto)
qed

lemma line_step:
  assumes "line_ok l"
  shows "Krpcconfig_line (line_text l @ eol nl) m = Inr (insert_all (line_entries l) m)"
proof (cases l)
  case (Junk s)
  have "CHR ''='' \<notin> set (c_str_to_string (s @ eol nl))"
    using assms Junk by (auto simp: line_ok_def eol_def c_str_to_string_def dest!: set_takeWhileD)
  then show ?thesis using Junk by (simp add: line_no_eq)
next
  case (Comment a s)
  then show ?thesis using assms line_comment [of s a nl m] by (auto simp: line_ok_def)
next
  case (Entry a k b c v d)
  then show ?thesis using assms line_entry [of a k b c v d nl m] by (simp add: insert_all_def)
qed

section \<open>Whole files\<close>

lemma read_last:
  assumes "\<forall>l \<in> set_option last_line. line_ok l"
  shows "Krpcconfig_read (render_file [] last_line) m = Inr (insert_all (file_entries [] last_line) m)"
proof (cases last_line)
  case None
  then show ?thesis
    by (simp add: render_file_def file_entries_def Krpcconfig_read.simps [of "[]"])
next
  case (Some l)
  then have l: "line_ok l" using assms by simp
  show ?thesis
  proof (cases "line_text l = []")
    case True
    then have "line_entries l = []" using l by (cases l) auto
    with True Some show ?thesis
      by (simp add: render_file_def file_entries_def Krpcconfig_read.simps [of "[]"])
  next
    case False
    then have "fgets 1024 (line_text l) = Some (line_text l, [])"
      using l by (intro fgets_last) (auto simp: line_ok_def)
    with Some line_step [OF l, of False m] show ?thesis
      by (simp add: render_file_def file_entries_def eol_def Krpcconfig_read.simps [of "line_text l"]
        Krpcconfig_read.simps [of "[]"])
  qed
qed

lemma read_render:
  assumes "file_ok ls last_line"
  shows "Krpcconfig_read (render_file ls last_line) m = Inr (insert_all (file_entries ls last_line) m)"
  using assms
proof (induction ls arbitrary: m)
  case Nil
  then show ?case by (simp add: file_ok_def read_last)
next
  case (Cons l ls)
  then have l: "line_ok l" and IH: "\<And>m. Krpcconfig_read (render_file ls last_line) m =
      Inr (insert_all (file_entries ls last_line) m)"
    by (auto simp: file_ok_def)
  have f: "render_file (l # ls) last_line = line_text l @ LF # render_file ls last_line"
    by (simp add: render_file_def)
  have "fgets 1024 (line_text l @ LF # render_file ls last_line) =
      Some (line_text l @ [LF], render_file ls last_line)"
    using l by (intro fgets_line) (auto simp: line_ok_def)
  then show ?case
    using line_step [OF l, of True m] IH
    by (subst f, subst Krpcconfig_read.simps)
      (simp add: eol_def file_entries_def insert_all_append)
qed


text \<open>Whatever the text, the loop ends, no \<^verbatim>\<open>substr\<close> throws, and no earlier key is overwritten.\<close>

lemma str_find_bounds: "str_find c pos s = -1 \<or> (0 \<le> str_find c pos s \<and> str_find c pos s < int (length s))"
  by (simp add: str_find_def Let_def)

lemma substr_ok: "0 \<le> p \<Longrightarrow> p \<le> int (length s) \<Longrightarrow> \<exists>t. substr s p n = Inr t"
  by (simp add: substr_def size_of_int_def nat_le_iff)

lemma line_total:
  "\<exists>m'. Krpcconfig_line buf m = Inr m' \<and> m \<subseteq>\<^sub>m m'"
proof -
  obtain r where r: "Krpcconfig_Trim (c_str_to_string buf) = Inr r" by (rule Trim_eqE)
  let ?i = "str_find CHR ''='' 0 r"
  show ?thesis
  proof (cases "str_at r 0 = CHR ''#'' \<or> r = [] \<or> ?i = -1")
    case True
    then show ?thesis using r by (auto simp: Krpcconfig_line_def Let_def)
  next
    case False
    then have i: "0 \<le> ?i" "?i < int (length r)" using str_find_bounds [of "CHR ''=''" 0 r] by auto
    obtain K where K: "substr r 0 ?i = Inr K" using substr_ok [of 0 r] by auto
    obtain k where k: "Krpcconfig_Trim K = Inr k" by (rule Trim_eqE)
    obtain V where V: "substr r (?i + 1) (str_find LF ?i r - ?i - 1) = Inr V"
      using substr_ok [of "?i + 1" r] i by auto
    obtain v where v: "Krpcconfig_Trim V = Inr v" by (rule Trim_eqE)
    have "Krpcconfig_line buf m = Inr (map_emplace k v m)"
      using False r K k V v by (simp add: Krpcconfig_line_def Let_def)
    then show ?thesis by (auto simp: map_le_def map_emplace_apply)
  qed
qed

lemma read_total: "\<exists>m'. Krpcconfig_read f m = Inr m' \<and> m \<subseteq>\<^sub>m m'"
proof (induction f m rule: Krpcconfig_read.induct)
  case (1 f m)
  show ?case
  proof (cases "fgets 1024 f")
    case None
    then show ?thesis by (simp add: Krpcconfig_read.simps [of f m])
  next
    case (Some p)
    obtain buf rest where p: "p = (buf, rest)" by (cases p)
    obtain m1 where m1: "Krpcconfig_line buf m = Inr m1" "m \<subseteq>\<^sub>m m1" using line_total by blast
    obtain m2 where "Krpcconfig_read rest m1 = Inr m2" "m1 \<subseteq>\<^sub>m m2"
      using "1.IH" [OF Some p [symmetric] m1(1)] p by auto
    with Some p m1 show ?thesis
      by (auto simp: Krpcconfig_read.simps [of f m] intro: map_le_trans)
  qed
qed

section \<open>The contract of a configuration loader\<close>

locale config_loader =
  fixes load_file :: "string option \<Rightarrow> 'c \<Rightarrow> 'c res"
    and contents :: "'c \<Rightarrow> string \<rightharpoonup> string"
  assumes missing_file: "load_file None c = Inl ExitFailure"
    and rendered_file: "file_ok ls l \<Longrightarrow>
      \<exists>c'. load_file (Some (render_file ls l)) c = Inr c' \<and>
           contents c' = map_of (file_entries ls l) ++ contents c"
    and any_file: "\<exists>c'. load_file (Some body) c = Inr c' \<and> contents c \<subseteq>\<^sub>m contents c'"
begin

lemma loaded_value:
  assumes "file_ok ls l" "load_file (Some (render_file ls l)) c = Inr c'" "contents c = Map.empty"
  shows "contents c' k = map_of (file_entries ls l) k"
  using rendered_file [OF assms(1), of c] assms(2,3) by auto

lemma layout_irrelevant:
  assumes "file_ok ls l" "file_ok ls' l'" "file_entries ls l = file_entries ls' l'"
    and "load_file (Some (render_file ls l)) c = Inr c1"
    and "load_file (Some (render_file ls' l')) c = Inr c2"
  shows "contents c1 = contents c2"
  using rendered_file [OF assms(1), of c] rendered_file [OF assms(2), of c] assms(3-5) by auto

lemma reload_keeps:
  assumes "load_file (Some body) c = Inr c'" "contents c k = Some v"
  shows "contents c' k = Some v"
  using any_file [of body c] assms by (auto simp: map_le_def dom_def)

lemma load_fails_iff: "load_file f c = Inl e \<longleftrightarrow> f = None \<and> e = ExitFailure"
  using missing_file any_file by (cases f) (metis Inl_inject, metis Inl_Inr_False option.distinct(1))

end

interpretation krpc_config: config_loader Krpcconfig_LoadConfigFile "\<lambda>m. m"
proof unfold_locales
  show "Krpcconfig_LoadConfigFile None c = Inl ExitFailure" for c
    by (simp add: Krpcconfig_LoadConfigFile_def)
  show "file_ok ls l \<Longrightarrow> \<exists>c'. Krpcconfig_LoadConfigFile (Some (render_file ls l)) c = Inr c' \<and>
      c' = map_of (file_entries ls l) ++ c" for ls l c
    by (simp add: Krpcconfig_LoadConfigFile_def read_render insert_all_eq)
  show "\<exists>c'. Krpcconfig_LoadConfigFile (Some body) c = Inr c' \<and> c \<subseteq>\<^sub>m c'" for body c
    using read_total by (simp add: Krpcconfig_LoadConfigFile_def)
qed

lemmas config_facts = krpc_config.rendered_file krpc_config.reload_keeps krpc_config.load_fails_iff

section \<open>Properties\<close>



text \<open>The loader is total: the process exits exactly when the file cannot be opened, and
  otherwise, whatever bytes the file holds, no \<open>substr\<close> throws, the loop ends, and every key set
  before the load keeps its value.\<close>

theorem config_load_total:
  "(file = None \<and> Krpcconfig_LoadConfigFile file m = Inl ExitFailure) \<or>
   (\<exists>body m'. file = Some body \<and> Krpcconfig_LoadConfigFile file m = Inr m' \<and> m \<subseteq>\<^sub>m m')"
  using krpc_config.any_file krpc_config.missing_file by (cases "file") auto

text \<open>\<open>Trim\<close> never throws; it returns a text of blanks unchanged, and otherwise the text without
  its leading and trailing blanks, which starts and ends with a character that is not a blank.\<close>

theorem Trim_cuts_blanks:
  "\<exists>t. Krpcconfig_Trim s = Inr t \<and>
    (if blank s then t = s
     else t \<noteq> [] \<and> hd t \<noteq> SP \<and> last t \<noteq> SP \<and>
          (\<exists>a b. s = replicate a SP @ t @ replicate b SP))"
proof (cases "blank s")
  case False
  define u where "u = dropWhile (\<lambda>c. c = SP) s"
  have u: "\<not> blank u" "hd u \<noteq> SP" "s = replicate (length s - length u) SP @ u" "u \<noteq> []"
    using dropWhile_not_blank [OF False] dropWhile_padding [of s] False hd_dropWhile [of "\<lambda>c. c = SP" s]
    by (auto simp: u_def blank_iff)
  define v where "v = dropWhile (\<lambda>c. c = SP) (rev u)"
  have v: "v \<noteq> []" "hd v \<noteq> SP" "rev u = replicate (length u - length v) SP @ v"
    using dropWhile_padding [of "rev u"] dropWhile_not_blank [of "rev u"] u(1) hd_dropWhile [of "\<lambda>c. c = SP" "rev u"]
    by (auto simp: v_def blank_iff)
  have uv: "u = rev v @ replicate (length u - length v) SP"
    using v(3) by (metis rev_append rev_replicate rev_rev_ident)
  have "hd u = hd (rev v)" using v(1) by (subst uv) simp
  then have "hd (rev v) \<noteq> SP" using u(2) by simp
  moreover have "last (rev v) \<noteq> SP" using v by (simp add: last_rev)
  moreover have "s = replicate (length s - length u) SP @ rev v @ replicate (length u - length v) SP"
    using u(3) uv by simp
  moreover have "Krpcconfig_Trim s = Inr (rev v)"
    using False by (simp add: Trim_eq strip_def v_def u_def)
  ultimately show ?thesis using False v(1) by auto
qed (simp add: Trim_eq)

end
