(* ===== verification/Zk_Client.thy ===== *)
theory Zk_Client
  imports Krpc_Config
begin

text \<open>
  The ZooKeeper wrapper, \<^verbatim>\<open>src/src/zookeeperutil.cc\<close>.  The ZooKeeper C client is outside the
  repository: its calls are the fields of \<open>zk_api\<close>, and what the wrapper relies on is the locale
  \<open>zookeeper_store\<close>.  The locale \<open>service_registry\<close> is what the provider and the channel use of the
  wrapper; the wrapper over any store that meets \<open>zookeeper_store\<close> provides it.
\<close>

section \<open>The client library\<close>

record 'z zk_api =
  zoo_exists :: "'z \<Rightarrow> string \<Rightarrow> int"
  zoo_create :: "string \<Rightarrow> string \<Rightarrow> int \<Rightarrow> 'z \<Rightarrow> int \<times> 'z"
  zoo_get :: "'z \<Rightarrow> string \<Rightarrow> nat \<Rightarrow> int \<times> string"
  zoo_get_children :: "'z \<Rightarrow> string \<Rightarrow> int \<times> string list"

abbreviation (input) ZOK :: int where "ZOK \<equiv> 0"
abbreviation (input) ZNONODE :: int where "ZNONODE \<equiv> -101"
abbreviation (input) ZCONNECTIONLOSS :: int where "ZCONNECTIONLOSS \<equiv> -4"
abbreviation (input) ZOO_EPHEMERAL :: int where "ZOO_EPHEMERAL \<equiv> 1"
abbreviation (input) ZOO_SESSION_EVENT :: int where "ZOO_SESSION_EVENT \<equiv> -1"
abbreviation (input) ZOO_CONNECTED_STATE :: int where "ZOO_CONNECTED_STATE \<equiv> 3"

section \<open>Connecting\<close>

text \<open>The global flag \<open>is_connected\<close> and the watcher that sets it.\<close>

definition global_watcher :: "int \<times> int \<Rightarrow> bool \<Rightarrow> bool" where
  "global_watcher ev is_connected =
     (case ev of (type, status) \<Rightarrow>
      if type = ZOO_SESSION_EVENT then
        (if status = ZOO_CONNECTED_STATE then True else is_connected)
      else is_connected)"

text \<open>\<open>cv.wait\<close> against the events delivered meanwhile; \<open>None\<close>: still waiting after the last.\<close>

fun wait_connected :: "(int \<times> int) list \<Rightarrow> bool \<Rightarrow> bool option" where
  "wait_connected evs is_connected =
     (if is_connected then Some is_connected
      else case evs of [] \<Rightarrow> None | e # es \<Rightarrow> wait_connected es (global_watcher e is_connected))"

declare wait_connected.simps [simp del]

definition ZkClient_connstr :: "(string \<rightharpoonup> string) \<Rightarrow> string" where
  "ZkClient_connstr cfg =
     Krpcconfig_Load cfg ''zookeeperip'' @ '':'' @ Krpcconfig_Load cfg ''zookeeperport''"

text \<open>\<open>init\<close> is \<^verbatim>\<open>zookeeper_init\<close>, \<open>None\<close> for a null handle; the result is the handle and the flag.\<close>

definition ZkClient_Start ::
    "(string \<rightharpoonup> string) \<Rightarrow> (string \<Rightarrow> 'h option) \<Rightarrow> (int \<times> int) list \<Rightarrow> bool \<Rightarrow> ('h \<times> bool) res option" where
  "ZkClient_Start cfg init evs is_connected =
     (case init (ZkClient_connstr cfg) of
        None \<Rightarrow> Some (Inl ExitFailure)
      | Some zh \<Rightarrow> map_option (\<lambda>b. Inr (zh, b)) (wait_connected evs is_connected))"

lemma wait_connected_simps [simp]:
  "wait_connected evs True = Some True"
  "wait_connected [] False = None"
  "wait_connected (e # es) False = wait_connected es (e = (ZOO_SESSION_EVENT, ZOO_CONNECTED_STATE))"
  by (subst wait_connected.simps; cases e; simp add: global_watcher_def)+

lemma wait_connected_iff:
  "wait_connected evs c = None \<longleftrightarrow> \<not> c \<and> (ZOO_SESSION_EVENT, ZOO_CONNECTED_STATE) \<notin> set evs"
proof (induction evs arbitrary: c)
  case Nil
  show ?case by (cases c) simp_all
next
  case (Cons e es)
  show ?case
    by (cases c; cases "e = (ZOO_SESSION_EVENT, ZOO_CONNECTED_STATE)") (simp_all add: Cons)
qed

section \<open>Nodes\<close>

definition ZkClient_Create ::
    "'z zk_api \<Rightarrow> string \<Rightarrow> string \<Rightarrow> nat \<Rightarrow> int \<Rightarrow> 'z \<Rightarrow> 'z res" where
  "ZkClient_Create zk path data datalen state z =
     (if zoo_exists zk z path = ZNONODE then
        (case zoo_create zk path (take datalen data) state z of
           (flag, z') \<Rightarrow> if flag = ZOK then Inr z' else Inl ExitFailure)
      else Inr z)"

text \<open>
  \<open>buf\<close> is what the 64 bytes on the stack held before the call.  \<^verbatim>\<open>zoo_get\<close> writes the data over its
  front and no terminator; \<^verbatim>\<open>return buf\<close> reads on to the first NUL.
\<close>

definition overlay :: "string \<Rightarrow> string \<Rightarrow> string" where
  "overlay d buf = d @ drop (length d) buf"

definition ZkClient_GetData :: "'z zk_api \<Rightarrow> string \<Rightarrow> 'z \<Rightarrow> string \<Rightarrow> string res" where
  "ZkClient_GetData zk buf z path =
     (let exist_flag = zoo_exists zk z path in
      if exist_flag = ZNONODE then Inr ''''
      else if exist_flag \<noteq> ZOK then Inr ''''
      else case zoo_get zk z path 64 of (flag, d) \<Rightarrow>
        if flag \<noteq> ZOK then Inr ''''
        else if NUL \<in> set (overlay d buf) then Inr (c_str_to_string (overlay d buf))
        else Inl (Undefined ''read past buf''))"

definition ZkClient_GetChildren :: "'z zk_api \<Rightarrow> 'z \<Rightarrow> string \<Rightarrow> string list" where
  "ZkClient_GetChildren zk z path =
     (let exist_flag = zoo_exists zk z path in
      if exist_flag = ZNONODE then []
      else if exist_flag \<noteq> ZOK then []
      else case zoo_get_children zk z path of (flag, nodes) \<Rightarrow>
        if flag \<noteq> ZOK then [] else nodes)"

fun children_data :: "'z zk_api \<Rightarrow> (string \<Rightarrow> string) \<Rightarrow> 'z \<Rightarrow> string \<Rightarrow> string list \<Rightarrow> string list res" where
  "children_data zk buf z path [] = Inr []"
| "children_data zk buf z path (child # cs) =
     (let child_path = path @ ''/'' @ child in
      res_bind (ZkClient_GetData zk (buf child_path) z child_path) (\<lambda>d.
      res_bind (children_data zk buf z path cs) (\<lambda>ds.
      Inr (if d \<noteq> '''' then d # ds else ds))))"

definition ZkClient_GetChildrenData ::
    "'z zk_api \<Rightarrow> (string \<Rightarrow> string) \<Rightarrow> 'z \<Rightarrow> string \<Rightarrow> string list res" where
  "ZkClient_GetChildrenData zk buf z path =
     (let children = ZkClient_GetChildren zk z path in
      if children = [] then Inr [] else children_data zk buf z path children)"

section \<open>What the client library promises\<close>

definition parent_path :: "string \<Rightarrow> string" where
  "parent_path p = rev (tl (dropWhile (\<lambda>c. c \<noteq> CHR ''/'') (rev p)))"

lemma parent_path_append: "CHR ''/'' \<notin> set m \<Longrightarrow> parent_path (a @ CHR ''/'' # m) = a"
proof -
  assume "CHR ''/'' \<notin> set m"
  then have "dropWhile (\<lambda>c. c \<noteq> CHR ''/'') (rev m @ CHR ''/'' # rev a) = CHR ''/'' # rev a"
    by (subst dropWhile_append2) auto
  then show ?thesis by (simp add: parent_path_def)
qed

text \<open>A node can be created under the root or under an existing node that is not ephemeral.\<close>

definition parent_ok :: "(string \<rightharpoonup> string \<times> bool) \<Rightarrow> string \<Rightarrow> bool" where
  "parent_ok nodes p \<longleftrightarrow>
     p \<noteq> [] \<and> hd p = CHR ''/'' \<and>
     (parent_path p = [] \<or> (case nodes (parent_path p) of Some (d, e) \<Rightarrow> \<not> e | None \<Rightarrow> False))"

locale zookeeper_store =
  fixes zk :: "'z zk_api"
    and nodes :: "'z \<Rightarrow> string \<rightharpoonup> string \<times> bool"
    and up :: "'z \<Rightarrow> bool"
  assumes exists_code: "up z \<Longrightarrow> zoo_exists zk z p = (if nodes z p = None then ZNONODE else ZOK)"
    and create_absent: "up z \<Longrightarrow> nodes z p = None \<Longrightarrow> parent_ok (nodes z) p \<Longrightarrow>
      \<exists>z'. zoo_create zk p d st z = (ZOK, z') \<and> up z' \<and>
           nodes z' = (nodes z)(p \<mapsto> (d, st = ZOO_EPHEMERAL))"
    and get_present: "up z \<Longrightarrow> nodes z p = Some (d, e) \<Longrightarrow> zoo_get zk z p cap = (ZOK, take cap d)"
    and get_children: "up z \<Longrightarrow> nodes z p \<noteq> None \<Longrightarrow>
      \<exists>cs. zoo_get_children zk z p = (ZOK, cs) \<and> distinct cs \<and>
        set cs = {c. CHR ''/'' \<notin> set c \<and> nodes z (p @ CHR ''/'' # c) \<noteq> None}"

section \<open>A registry of service addresses\<close>

locale service_registry =
  fixes register :: "string \<Rightarrow> string \<Rightarrow> nat \<Rightarrow> int \<Rightarrow> 'z \<Rightarrow> 'z res"
    and lookup_addr :: "string \<Rightarrow> 'z \<Rightarrow> string \<Rightarrow> string res"
    and entries :: "'z \<Rightarrow> string \<rightharpoonup> string \<times> bool"
    and live :: "'z \<Rightarrow> bool"
  assumes register_absent: "live z \<Longrightarrow> entries z p = None \<Longrightarrow> parent_ok (entries z) p \<Longrightarrow>
      \<exists>z'. register p d n st z = Inr z' \<and> live z' \<and>
           entries z' = (entries z)(p \<mapsto> (take n d, st = ZOO_EPHEMERAL))"
    and register_present: "live z \<Longrightarrow> entries z p = Some x \<Longrightarrow> register p d n st z = Inr z"
    and lookup_absent: "live z \<Longrightarrow> entries z p = None \<Longrightarrow> lookup_addr buf z p = Inr ''''"
    and lookup_present: "live z \<Longrightarrow> entries z p = Some (d, e) \<Longrightarrow> length d < 64 \<Longrightarrow> NUL \<notin> set d \<Longrightarrow>
      length buf = 64 \<Longrightarrow> buf ! length d = NUL \<Longrightarrow> lookup_addr buf z p = Inr d"
begin

text \<open>Whether or not the node was there, it is there afterwards, and no other node changed.\<close>

lemma register_spec:
  assumes "live z" "parent_ok (entries z) p"
  shows "\<exists>z'. register p d n st z = Inr z' \<and> live z' \<and>
    entries z' = map_emplace p (take n d, st = ZOO_EPHEMERAL) (entries z)"
  using register_absent [OF assms(1) _ assms(2), of d n st] register_present [OF assms(1), of p]
  by (cases "entries z p") (auto simp: map_emplace_def assms(1))

lemma register_keeps:
  assumes "live z" "parent_ok (entries z) p" "register p d n st z = Inr z'" "entries z q = Some x"
  shows "entries z' q = Some x"
  using register_spec [OF assms(1,2), of d n st] assms(3,4) by (auto simp: map_emplace_keeps)

lemma registered_found:
  assumes "live z" "entries z p = None" "parent_ok (entries z) p"
    and "register p d (length d) st z = Inr z'"
    and "length d < 64" "NUL \<notin> set d" "length buf = 64" "buf ! length d = NUL"
  shows "lookup_addr buf z' p = Inr d"
proof -
  have "live z' \<and> entries z' p = Some (d, st = ZOO_EPHEMERAL)"
    using register_absent [OF assms(1-3), of d "length d" st] assms(4) by auto
  then show ?thesis using lookup_present assms(5-8) by blast
qed

end

lemma overlay_read:
  assumes "NUL \<notin> set d" "length d < length buf" "buf ! length d = NUL"
  shows "NUL \<in> set (overlay d buf) \<and> c_str_to_string (overlay d buf) = d"
proof -
  have "drop (length d) buf = NUL # drop (Suc (length d)) buf"
    using assms(2,3) by (metis Cons_nth_drop_Suc)
  then show ?thesis using assms(1)
    by (simp add: overlay_def c_str_to_string_def takeWhile_neq_append)
qed

sublocale zookeeper_store \<subseteq> service_registry "ZkClient_Create zk" "ZkClient_GetData zk" nodes up
proof unfold_locales
  show "up z \<Longrightarrow> nodes z p = None \<Longrightarrow> parent_ok (nodes z) p \<Longrightarrow>
      \<exists>z'. ZkClient_Create zk p d n st z = Inr z' \<and> up z' \<and>
        nodes z' = (nodes z)(p \<mapsto> (take n d, st = ZOO_EPHEMERAL))" for z p d n st
    using create_absent [of z p "take n d" st]
    by (auto simp: ZkClient_Create_def exists_code split: prod.splits)
  show "up z \<Longrightarrow> nodes z p = Some x \<Longrightarrow> ZkClient_Create zk p d n st z = Inr z" for z p x d n st
    by (simp add: ZkClient_Create_def exists_code)
  show "up z \<Longrightarrow> nodes z p = None \<Longrightarrow> ZkClient_GetData zk buf z p = Inr ''''" for z p buf
    by (simp add: ZkClient_GetData_def exists_code)
  show "up z \<Longrightarrow> nodes z p = Some (d, e) \<Longrightarrow> length d < 64 \<Longrightarrow> NUL \<notin> set d \<Longrightarrow> length buf = 64 \<Longrightarrow>
      buf ! length d = NUL \<Longrightarrow> ZkClient_GetData zk buf z p = Inr d" for z p d e buf
    using overlay_read [of d buf]
    by (simp add: ZkClient_GetData_def exists_code get_present Let_def)
qed

context zookeeper_store
begin

lemmas create_spec = register_spec

end

section \<open>A store in memory\<close>

text \<open>An instance of the laws: the nodes in creation order, and whether the session is connected.\<close>

record zstore =
  znodes :: "(string \<times> string \<times> bool) list"
  zup :: bool

definition zstore_nodes :: "zstore \<Rightarrow> string \<rightharpoonup> string \<times> bool" where
  "zstore_nodes z = map_of (znodes z)"

definition zstore_child :: "string \<Rightarrow> string \<Rightarrow> string option" where
  "zstore_child p q =
     (let c = drop (Suc (length p)) q
      in if q = p @ CHR ''/'' # c \<and> CHR ''/'' \<notin> set c then Some c else None)"

lemma zstore_child_iff:
  "zstore_child p q = Some c \<longleftrightarrow> q = p @ CHR ''/'' # c \<and> CHR ''/'' \<notin> set c"
  by (auto simp: zstore_child_def Let_def)

lemma set_map_filter_Some: "set (List.map_filter f xs) = {y. \<exists>x\<in>set xs. f x = Some y}"
  by (induction xs) (auto simp: List.map_filter_simps split: option.splits)

definition zstore_api :: "zstore zk_api" where
  "zstore_api =
     \<lparr>zoo_exists = (\<lambda>z p. if \<not> zup z then ZCONNECTIONLOSS
        else if zstore_nodes z p = None then ZNONODE else ZOK),
      zoo_create = (\<lambda>p d st z. if \<not> zup z then (ZCONNECTIONLOSS, z)
        else if zstore_nodes z p \<noteq> None then (-110, z)
        else if \<not> parent_ok (zstore_nodes z) p then (ZNONODE, z)
        else (ZOK, z\<lparr>znodes := (p, d, st = ZOO_EPHEMERAL) # znodes z\<rparr>)),
      zoo_get = (\<lambda>z p cap. if \<not> zup z then (ZCONNECTIONLOSS, [])
        else case zstore_nodes z p of None \<Rightarrow> (ZNONODE, []) | Some (d, e) \<Rightarrow> (ZOK, take cap d)),
      zoo_get_children = (\<lambda>z p. if \<not> zup z then (ZCONNECTIONLOSS, [])
        else (ZOK, remdups (List.map_filter (\<lambda>(q, _). zstore_child p q) (znodes z))))\<rparr>"

lemma zstore_children:
  "set (List.map_filter (\<lambda>(q, _). zstore_child p q) (znodes z)) =
   {c. CHR ''/'' \<notin> set c \<and> zstore_nodes z (p @ CHR ''/'' # c) \<noteq> None}"
proof (rule set_eqI)
  fix c
  have "c \<in> set (List.map_filter (\<lambda>(q, _). zstore_child p q) (znodes z)) \<longleftrightarrow>
      CHR ''/'' \<notin> set c \<and> p @ CHR ''/'' # c \<in> fst ` set (znodes z)"
    by (force simp: set_map_filter_Some zstore_child_iff)
  then show "c \<in> set (List.map_filter (\<lambda>(q, _). zstore_child p q) (znodes z)) \<longleftrightarrow>
      c \<in> {c. CHR ''/'' \<notin> set c \<and> zstore_nodes z (p @ CHR ''/'' # c) \<noteq> None}"
    by (simp add: zstore_nodes_def map_of_eq_None_iff)
qed

interpretation zstore: zookeeper_store zstore_api zstore_nodes zup
proof unfold_locales
  fix z p
  show "zup z \<Longrightarrow> zstore_nodes z p \<noteq> None \<Longrightarrow>
      \<exists>cs. zoo_get_children zstore_api z p = (ZOK, cs) \<and> distinct cs \<and>
        set cs = {c. CHR ''/'' \<notin> set c \<and> zstore_nodes z (p @ CHR ''/'' # c) \<noteq> None}"
    using zstore_children [of p z] by (simp add: zstore_api_def)
qed (auto simp: zstore_api_def zstore_nodes_def)

section \<open>Properties\<close>

text \<open>\<open>Start\<close> ends the process when the client library gives no handle; otherwise it returns as soon as
  the global flag is set, that is when a session-connected event arrives or, for every later client
  of the process, at once, whether or not its own session was ever connected; with neither it waits.\<close>

theorem Start_outcome:
  "ZkClient_Start cfg init evs is_connected =
   (case init (ZkClient_connstr cfg) of
      None \<Rightarrow> Some (Inl ExitFailure)
    | Some zh \<Rightarrow>
        if is_connected \<or> (ZOO_SESSION_EVENT, ZOO_CONNECTED_STATE) \<in> set evs
        then Some (Inr (zh, True)) else None)"
proof -
  have "wait_connected evs c \<noteq> Some False" for c
  proof (induction evs arbitrary: c)
    case Nil
    show ?case by (cases c) simp_all
  next
    case (Cons e es)
    then show ?case by (cases c) simp_all
  qed
  from this [of is_connected] have "wait_connected evs is_connected =
      (if is_connected \<or> (ZOO_SESSION_EVENT, ZOO_CONNECTED_STATE) \<in> set evs then Some True else None)"
    using wait_connected_iff [of evs is_connected]
    by (cases "wait_connected evs is_connected"; cases "the (wait_connected evs is_connected)") auto
  then show ?thesis by (simp add: ZkClient_Start_def split: option.split)
qed

text \<open>C36: Over any store that keeps ZooKeeper's laws, \<open>GetData\<close> of a node with \<open>d\<close>, shorter than its
  buffer, returns \<open>d\<close> followed by whatever the uninitialised buffer held up to its first NUL after
  the end of \<open>d\<close>: it returns \<open>d\<close> itself exactly when the byte after \<open>d\<close> happened to be NUL.\<close>

theorem GetData_reads_stack:
  assumes "zookeeper_store zk nodes up" "up z" "nodes z p = Some (d, e)"
    and "length d < 64" "NUL \<notin> set d" "length buf = 64" "NUL \<in> set (drop (length d) buf)"
  shows "ZkClient_GetData zk buf z p = Inr (d @ takeWhile (\<lambda>c. c \<noteq> NUL) (drop (length d) buf)) \<and>
    (ZkClient_GetData zk buf z p = Inr d \<longleftrightarrow> buf ! length d = NUL)"
proof -
  have "drop (length d) buf \<noteq> [] \<and> hd (drop (length d) buf) = buf ! length d"
    using assms(4,6) by (simp add: hd_drop_conv_nth)
  then have "takeWhile (\<lambda>c. c \<noteq> NUL) (drop (length d) buf) = [] \<longleftrightarrow> buf ! length d = NUL"
    by (cases "drop (length d) buf") auto
  moreover have "ZkClient_GetData zk buf z p = Inr (d @ takeWhile (\<lambda>c. c \<noteq> NUL) (drop (length d) buf))"
    using assms zookeeper_store.exists_code [OF assms(1,2), of p]
      zookeeper_store.get_present [OF assms(1-3), of 64]
    by (simp add: ZkClient_GetData_def Let_def overlay_def c_str_to_string_def takeWhile_neq_append)
  ultimately show ?thesis by simp
qed

theorem GetData_reads_stack_witness:
  "ZkClient_GetData zstore_api (replicate 60 CHR ''x'' @ replicate 4 NUL)
     \<lparr>znodes = [(''/s'', ''10.0.0.1:80'', True)], zup = True\<rparr> ''/s'' =
   Inr (''10.0.0.1:80'' @ replicate 49 CHR ''x'')"
proof -
  let ?z = "\<lparr>znodes = [(''/s'', ''10.0.0.1:80'', True)], zup = True\<rparr>"
  let ?buf = "replicate 60 CHR ''x'' @ replicate 4 NUL"
  have d: "drop (length ''10.0.0.1:80'') ?buf = replicate 49 CHR ''x'' @ replicate 4 NUL" by simp
  have n: "zstore_nodes ?z ''/s'' = Some (''10.0.0.1:80'', True)" by (simp add: zstore_nodes_def)
  have t: "takeWhile (\<lambda>c. c \<noteq> NUL) (replicate 49 CHR ''x'' @ replicate 4 NUL) = replicate 49 CHR ''x''"
    by code_simp
  have "zup ?z" "length ''10.0.0.1:80'' < 64" "NUL \<notin> set ''10.0.0.1:80''" "length ?buf = 64"
    "NUL \<in> set (drop (length ''10.0.0.1:80'') ?buf)"
    by simp_all
  then show ?thesis
    using GetData_reads_stack [of zstore_api zstore_nodes zup ?z "''/s''" "''10.0.0.1:80''" True ?buf]
      zstore.zookeeper_store_axioms n unfolding d t by blast
qed

text \<open>\<open>Create\<close> under an existing parent always returns with the node in place, but a node that was
  there keeps its old data and its old kind, whatever is being registered; no other node changes.\<close>

theorem Create_keeps_existing:
  assumes "zookeeper_store zk nodes up" "up z" "parent_ok (nodes z) p"
  shows "\<exists>z'. ZkClient_Create zk p d n st z = Inr z' \<and> up z' \<and>
    nodes z' p = (case nodes z p of Some old \<Rightarrow> Some old | None \<Rightarrow> Some (take n d, st = ZOO_EPHEMERAL)) \<and>
    (\<forall>q. q \<noteq> p \<longrightarrow> nodes z' q = nodes z q)"
  using zookeeper_store.create_spec [OF assms, of d n st]
  by (auto simp: map_emplace_apply split: option.split)

theorem Create_keeps_existing_witness:
  "\<exists>z'. ZkClient_Create zstore_api ''/s'' ''new'' 3 1 \<lparr>znodes = [(''/s'', ''old'', False)], zup = True\<rparr> = Inr z' \<and>
    zstore_nodes z' ''/s'' = Some (''old'', False)"
proof -
  let ?z = "\<lparr>znodes = [(''/s'', ''old'', False)], zup = True\<rparr>"
  have "zup ?z" "parent_ok (zstore_nodes ?z) ''/s''" by (simp, code_simp)
  then show ?thesis
    using Create_keeps_existing [of zstore_api zstore_nodes zup ?z "''/s''" "''new''" 3 1]
      zstore.zookeeper_store_axioms by (auto simp: zstore_nodes_def)
qed

end
