(* ===== verification/Krpc_Provider.thy ===== *)
theory Krpc_Provider
  imports Rpc_Header Zk_Client
begin

text \<open>
  The server of the Krpc framework, \<^verbatim>\<open>src/src/Krpcprovider.cc\<close>: the tables of published services,
  their registration in ZooKeeper and the dispatch of a request.  What a service object does is the
  business of the code generated for it: a service is the record \<open>pb_service\<close> of what the provider
  calls.
\<close>

section \<open>Services\<close>

record method_desc =
  md_name :: string
  md_index :: nat

text \<open>How a service method ends: \<open>done\<close> run on a response, \<open>done\<close> never run, or a crash.\<close>

datatype 'p call_result = CallDone 'p | CallNoReply | CallCrash fault

record ('q, 'p) pb_service =
  sd_name :: string
  sd_methods :: "method_desc list"
  req_parse :: "method_desc \<Rightarrow> string \<Rightarrow> 'q option"
  svc_call :: "method_desc \<Rightarrow> 'q \<Rightarrow> 'p call_result"
  resp_ser :: "'p \<Rightarrow> string option"

record ('q, 'p) service_info =
  si_service :: "('q, 'p) pb_service"
  si_method_map :: "string \<rightharpoonup> method_desc"

type_synonym ('q, 'p) service_table = "string \<rightharpoonup> ('q, 'p) service_info"

section \<open>Publishing\<close>

definition KrpcProvider_NotifyService ::
    "('q, 'p) pb_service \<Rightarrow> ('q, 'p) service_table \<Rightarrow> ('q, 'p) service_table" where
  "KrpcProvider_NotifyService service service_map =
     (let method_map = foldl (\<lambda>m pmd. map_emplace (md_name pmd) pmd m) Map.empty (sd_methods service)
      in map_emplace (sd_name service) \<lparr>si_service = service, si_method_map = method_map\<rparr> service_map)"

definition publish_all :: "('q, 'p) pb_service list \<Rightarrow> ('q, 'p) service_table" where
  "publish_all services = foldl (\<lambda>m s. KrpcProvider_NotifyService s m) Map.empty services"

lemma map_of_find:
  "map_of (map (\<lambda>x. (f x, g x)) xs) k = map_option g (List.find (\<lambda>x. f x = k) xs)"
  by (induction xs) auto

lemma method_table:
  "foldl (\<lambda>m pmd. map_emplace (md_name pmd) pmd m) Map.empty ds =
   (\<lambda>k. List.find (\<lambda>d. md_name d = k) ds)"
proof -
  have "foldl (\<lambda>m pmd. map_emplace (md_name pmd) pmd m) m0 ds =
      foldl (\<lambda>m (k, v). map_emplace k v m) m0 (map (\<lambda>d. (md_name d, d)) ds)" for m0
    by (induction ds arbitrary: m0) simp_all
  then show ?thesis by (simp add: foldl_emplace_map_of fun_eq_iff map_of_find option.map_ident)
qed

text \<open>Each table holds the first of its name.\<close>

lemma publish_all_lookup:
  "publish_all services s =
   map_option (\<lambda>svc. \<lparr>si_service = svc,
       si_method_map = (\<lambda>m. List.find (\<lambda>d. md_name d = m) (sd_methods svc))\<rparr>)
     (List.find (\<lambda>svc. sd_name svc = s) services)"
proof -
  let ?info = "\<lambda>svc. \<lparr>si_service = svc,
       si_method_map = (\<lambda>m. List.find (\<lambda>d. md_name d = m) (sd_methods svc))\<rparr>"
  have one: "KrpcProvider_NotifyService svc m = map_emplace (sd_name svc) (?info svc) m" for svc m
    by (simp add: KrpcProvider_NotifyService_def method_table)
  have "publish_all services =
      foldl (\<lambda>m (k, v). map_emplace k v m) Map.empty (map (\<lambda>svc. (sd_name svc, ?info svc)) services)"
    unfolding publish_all_def one by (simp add: foldl_map)
  then show ?thesis by (simp add: foldl_emplace_map_of map_of_find)
qed

section \<open>Registration\<close>

text \<open>
  \<open>sprintf\<close> into \<open>method_path_data\<close>: a text of 128 bytes or more overruns the buffer.
\<close>

definition method_data :: "string \<Rightarrow> int \<Rightarrow> string res" where
  "method_data ip port =
     (let s = c_str_to_string ip @ '':'' @ show_int port
      in if length s < 128 then Inr s else Inl (Undefined ''method_path_data overrun''))"

fun register_methods ::
    "'z zk_api \<Rightarrow> string \<Rightarrow> int \<Rightarrow> string \<Rightarrow> string list \<Rightarrow> 'z \<Rightarrow> 'z res" where
  "register_methods zk ip port service_path [] z = Inr z"
| "register_methods zk ip port service_path (m # ms) z =
     (let method_path = service_path @ ''/'' @ m in
      res_bind (method_data ip port) (\<lambda>d.
      res_bind (ZkClient_Create zk (c_str_to_string method_path) d (length d) ZOO_EPHEMERAL z)
        (register_methods zk ip port service_path ms)))"

text \<open>
  The loop over the two hash tables.  Their order is the library's: \<open>order\<close> is the sequence of
  services and, for each, of methods in which the loops visit them.
\<close>

fun register_services ::
    "'z zk_api \<Rightarrow> string \<Rightarrow> int \<Rightarrow> (string \<times> string list) list \<Rightarrow> 'z \<Rightarrow> 'z res" where
  "register_services zk ip port [] z = Inr z"
| "register_services zk ip port ((s, ms) # order) z =
     (let service_path = ''/'' @ s in
      res_bind (ZkClient_Create zk (c_str_to_string service_path) [] 0 0 z) (\<lambda>z.
      res_bind (register_methods zk ip port service_path ms z)
        (register_services zk ip port order)))"

definition visits :: "('q, 'p) service_table \<Rightarrow> (string \<times> string list) list \<Rightarrow> bool" where
  "visits service_map order \<longleftrightarrow>
     distinct (map fst order) \<and> set (map fst order) = dom service_map \<and>
     (\<forall>(s, ms) \<in> set order. distinct ms \<and>
        (\<exists>info. service_map s = Some info \<and> set ms = dom (si_method_map info)))"

record 'z serving =
  srv_ip :: string
  srv_port :: "16 word"
  srv_reuse_port :: bool
  srv_threads :: nat
  srv_registry :: 'z

text \<open>
  \<open>Run\<close> up to the event loop, which does not return: the address it listens on, the threads it
  serves with and the state of ZooKeeper.  The \<open>None\<close> of \<open>Start\<close> is a wait that has not ended.
\<close>

definition KrpcProvider_Run ::
    "'z zk_api \<Rightarrow> (string \<Rightarrow> 'h option) \<Rightarrow> (int \<times> int) list \<Rightarrow> bool \<Rightarrow> (string \<rightharpoonup> string)
     \<Rightarrow> (string \<times> string list) list \<Rightarrow> 'z \<Rightarrow> 'z serving res option" where
  "KrpcProvider_Run zk init evs is_connected cfg order z =
     (let ip = Krpcconfig_Load cfg ''rpcserverip'';
          port = atoi (c_str_to_string (Krpcconfig_Load cfg ''rpcserverport''))
      in case ZkClient_Start cfg init evs is_connected of
           None \<Rightarrow> None
         | Some started \<Rightarrow>
             Some (res_bind started (\<lambda>_.
                   res_bind (register_services zk ip port order z) (\<lambda>z.
                   Inr \<lparr>srv_ip = ip, srv_port = word_of_int port, srv_reuse_port = True, srv_threads = 10,
                        srv_registry = z\<rparr>))))"

section \<open>Connections\<close>

text \<open>Whether the callback shuts the connection down.\<close>

definition KrpcProvider_OnConnection :: "bool \<Rightarrow> bool" where
  "KrpcProvider_OnConnection connected = (\<not> connected)"

section \<open>Requests\<close>

text \<open>What a buffer handed to \<open>OnMessage\<close> leads to, one constructor per way out.\<close>

datatype reply =
    HeaderError
  | ArgsError
  | NoService string
  | NoMethod string string
  | RequestError string string
  | SerializeError
  | NoReply
  | Sent string
  | Crashed fault

definition KrpcProvider_SendRpcResponse :: "('p \<Rightarrow> string option) \<Rightarrow> 'p \<Rightarrow> reply" where
  "KrpcProvider_SendRpcResponse ser response =
     (case ser response of Some response_str \<Rightarrow> Sent response_str | None \<Rightarrow> SerializeError)"

definition KrpcProvider_OnMessage ::
    "('s, 'l) pb_io \<Rightarrow> 'u pb_wire \<Rightarrow> ('q, 'p) service_table \<Rightarrow> string \<Rightarrow> reply option" where
  \<comment> \<open>\<open>None\<close> would be a header parse that does not return\<close>
  "KrpcProvider_OnMessage io w service_map recv_buf =
     (let (ok, header_size, st) = ReadVarint32 io (OpenStream io recv_buf);
          (msg_limit, st) = PushLimit io (sint header_size) st;
          (ok, rpc_header_str, st) = ReadString io (sint header_size) st;
          st = PopLimit io msg_limit st
      in case RpcHeader_ParseFromString w rpc_header_str (RpcHeader_SharedCtor w) of
           None \<Rightarrow> None
         | Some (False, krpcHeader) \<Rightarrow> Some HeaderError
         | Some (True, krpcHeader) \<Rightarrow>
           (let service_name = hdr_service_name krpcHeader;
                method_name = hdr_method_name krpcHeader;
                args_size = hdr_args_size krpcHeader;
                (read_args_success, args_str, st) = ReadString io (sint args_size) st
            in if \<not> read_args_success then Some ArgsError
               else case service_map service_name of
                 None \<Rightarrow> Some (NoService service_name)
               | Some info \<Rightarrow>
                 (case si_method_map info method_name of
                    None \<Rightarrow> Some (NoMethod service_name method_name)
                  | Some pmd \<Rightarrow>
                    (let service = si_service info in
                     case req_parse service pmd args_str of
                       None \<Rightarrow> Some (RequestError service_name method_name)
                     | Some request \<Rightarrow>
                       (case svc_call service pmd request of
                          CallDone response \<Rightarrow>
                            Some (KrpcProvider_SendRpcResponse (resp_ser service) response)
                        | CallNoReply \<Rightarrow> Some NoReply
                        | CallCrash e \<Rightarrow> Some (Crashed e))))))"

section \<open>What registration leaves in ZooKeeper\<close>

definition add_missing :: "'k set \<Rightarrow> 'v \<Rightarrow> ('k \<rightharpoonup> 'v) \<Rightarrow> ('k \<rightharpoonup> 'v)" where
  "add_missing A v m = (\<lambda>k. if m k = None \<and> k \<in> A then Some v else m k)"

lemma add_missing_emplace: "map_emplace k v m = add_missing {k} v m"
  by (auto simp: add_missing_def map_emplace_apply)

lemma add_missing_empty [simp]: "add_missing {} v m = m"
  by (simp add: add_missing_def)

lemma add_missing_union: "add_missing A v (add_missing B v m) = add_missing (A \<union> B) v m"
  by (auto simp: add_missing_def)

lemma add_missing_commute:
  "A \<inter> B = {} \<Longrightarrow> add_missing A v (add_missing B u m) = add_missing B u (add_missing A v m)"
  by (auto simp: add_missing_def fun_eq_iff)

lemma add_missing_keeps: "m k = Some x \<Longrightarrow> add_missing A v m k = Some x"
  by (simp add: add_missing_def)

definition service_paths :: "(string \<times> string list) list \<Rightarrow> string set" where
  "service_paths order = (\<lambda>(s, ms). CHR ''/'' # s) ` set order"

definition method_paths :: "(string \<times> string list) list \<Rightarrow> string set" where
  "method_paths order = (\<Union>(s, ms) \<in> set order. (\<lambda>m. CHR ''/'' # s @ CHR ''/'' # m) ` set ms)"

text \<open>Names that can be path components.\<close>

definition path_name :: "string \<Rightarrow> bool" where
  "path_name s \<longleftrightarrow> CHR ''/'' \<notin> set s \<and> NUL \<notin> set s"

definition path_names :: "(string \<times> string list) list \<Rightarrow> bool" where
  "path_names order \<longleftrightarrow> (\<forall>(s, ms) \<in> set order. path_name s \<and> list_all path_name ms)"

lemma path_names_Cons [simp]:
  "path_names ((s, ms) # order) \<longleftrightarrow> path_name s \<and> list_all path_name ms \<and> path_names order"
  by (auto simp: path_names_def)

lemma paths_Cons [simp]:
  "service_paths ((s, ms) # order) = insert (CHR ''/'' # s) (service_paths order)"
  "method_paths ((s, ms) # order) =
     (\<lambda>m. CHR ''/'' # s @ CHR ''/'' # m) ` set ms \<union> method_paths order"
  by (simp_all add: service_paths_def method_paths_def)

lemma paths_Nil [simp]: "service_paths [] = {}" "method_paths [] = {}"
  by (simp_all add: service_paths_def method_paths_def)

lemma service_path_one_slash:
  "path_names order \<Longrightarrow> CHR ''/'' # s @ CHR ''/'' # m \<notin> service_paths order"
  by (induction order) (auto simp: path_name_def)

context zookeeper_store
begin

lemma register_methods_spec:
  assumes "up z" "nodes z (CHR ''/'' # s) = Some (x, False)" "path_name s" "list_all path_name ms"
    and "method_data ip port = Inr d"
  shows "\<exists>z'. register_methods zk ip port (CHR ''/'' # s) ms z = Inr z' \<and> up z' \<and>
    nodes z' = add_missing ((\<lambda>m. CHR ''/'' # s @ CHR ''/'' # m) ` set ms) (d, True) (nodes z)"
  using assms(1,2,4)
proof (induction ms arbitrary: z)
  case Nil
  then show ?case by simp
next
  case (Cons m ms)
  let ?p = "CHR ''/'' # s @ CHR ''/'' # m"
  have p: "parent_path ?p = CHR ''/'' # s"
    using parent_path_append [of m "CHR ''/'' # s"] Cons.prems by (simp add: path_name_def)
  have "NUL \<notin> set ?p" using assms(3) Cons.prems by (auto simp: path_name_def)
  then have c: "c_str_to_string ?p = ?p" by (rule c_str_id)
  obtain z1 where z1: "ZkClient_Create zk ?p d (length d) ZOO_EPHEMERAL z = Inr z1" "up z1"
      "nodes z1 = add_missing {?p} (d, True) (nodes z)"
    using register_spec [of z ?p d "length d" ZOO_EPHEMERAL] Cons.prems p
    by (auto simp: parent_ok_def add_missing_emplace)
  then obtain z' where "register_methods zk ip port (CHR ''/'' # s) ms z1 = Inr z'" "up z'"
      "nodes z' = add_missing ((\<lambda>m. CHR ''/'' # s @ CHR ''/'' # m) ` set ms) (d, True) (nodes z1)"
    using Cons.IH [of z1] Cons.prems by (auto simp: add_missing_keeps)
  then have n: "nodes z' =
      add_missing ((\<lambda>m. CHR ''/'' # s @ CHR ''/'' # m) ` set (m # ms)) (d, True) (nodes z)"
    using z1(3) by (simp add: add_missing_union)
  have "register_methods zk ip port (CHR ''/'' # s) (m # ms) z = Inr z'"
    using z1(1) c assms(5) \<open>register_methods zk ip port (CHR ''/'' # s) ms z1 = Inr z'\<close> by simp
  with n \<open>up z'\<close> show ?case by blast
qed

lemma register_services_spec:
  assumes "up z" "path_names order" "method_data ip port = Inr d"
    and "\<forall>p \<in> service_paths order. \<forall>x. nodes z p \<noteq> Some (x, True)"
  shows "\<exists>z'. register_services zk ip port order z = Inr z' \<and> up z' \<and>
    nodes z' = add_missing (method_paths order) (d, True)
      (add_missing (service_paths order) ([], False) (nodes z))"
  using assms(1,2,4)
proof (induction order arbitrary: z)
  case Nil
  then show ?case by simp
next
  case (Cons sm order)
  obtain s ms where sm: "sm = (s, ms)" by (cases sm)
  let ?p = "CHR ''/'' # s" and ?M = "(\<lambda>m. CHR ''/'' # s @ CHR ''/'' # m) ` set ms"
  have pn: "path_name s" "list_all path_name ms" "path_names order" using Cons.prems sm by auto
  have "parent_path ?p = []" using parent_path_append [of s "[]"] pn by (simp add: path_name_def)
  then have ok: "parent_ok (nodes z) ?p" by (simp add: parent_ok_def)
  have "NUL \<notin> set ?p" using pn by (auto simp: path_name_def)
  then have c: "c_str_to_string ?p = ?p" by (rule c_str_id)
  obtain z1 where z1: "ZkClient_Create zk ?p [] 0 0 z = Inr z1" "up z1"
      "nodes z1 = add_missing {?p} ([], False) (nodes z)"
    using register_spec [OF Cons.prems(1) ok, of "[]" 0 0] by (auto simp: add_missing_emplace)
  have "\<exists>x. nodes z1 ?p = Some (x, False)"
    using Cons.prems(3) sm z1(3)
    by (cases "nodes z ?p") (auto simp: add_missing_def)
  then obtain z2 where z2: "register_methods zk ip port ?p ms z1 = Inr z2" "up z2"
      "nodes z2 = add_missing ?M (d, True) (nodes z1)"
    using register_methods_spec [OF z1(2) _ pn(1,2) assms(3)] by blast
  have dis: "service_paths order \<inter> ?M = {}" using service_path_one_slash [OF pn(3)] by auto
  have "\<forall>p \<in> service_paths order. \<forall>x. nodes z2 p \<noteq> Some (x, True)"
    using Cons.prems(3) sm z1(3) z2(3) dis by (auto simp: add_missing_def)
  then obtain z' where z': "register_services zk ip port order z2 = Inr z'" "up z'"
      "nodes z' = add_missing (method_paths order) (d, True)
        (add_missing (service_paths order) ([], False) (nodes z2))"
    using Cons.IH [OF z2(2) pn(3)] by blast
  have "nodes z' = add_missing (method_paths (sm # order)) (d, True)
        (add_missing (service_paths (sm # order)) ([], False) (nodes z))"
    using z'(3) z2(3) z1(3) sm add_missing_commute [OF dis, of "([], False)" "(d, True)"]
    by (simp add: add_missing_union Un_commute)
  with z1 z2 z' c sm show ?case by simp
qed

end

section \<open>Dispatch\<close>

text \<open>What a call should come to, from the tables alone: the specification of \<open>OnMessage\<close>.\<close>

definition dispatch :: "('q, 'p) service_table \<Rightarrow> string \<Rightarrow> string \<Rightarrow> string \<Rightarrow> reply" where
  "dispatch tab s m args =
     (case tab s of
        None \<Rightarrow> NoService s
      | Some info \<Rightarrow>
        (case si_method_map info m of
           None \<Rightarrow> NoMethod s m
         | Some d \<Rightarrow>
           (case req_parse (si_service info) d args of
              None \<Rightarrow> RequestError s m
            | Some q \<Rightarrow>
              (case svc_call (si_service info) d q of
                 CallDone p \<Rightarrow> KrpcProvider_SendRpcResponse (resp_ser (si_service info)) p
               | CallNoReply \<Rightarrow> NoReply
               | CallCrash e \<Rightarrow> Crashed e))))"

lemma sint_word_of_nat: "n < 2 ^ 31 \<Longrightarrow> sint (word_of_nat n :: 32 word) = int n"
  by (simp add: signed_of_nat signed_take_bit_int_eq_self)

text \<open>The bytes of a request: the size of the header, the header, the arguments.\<close>

definition request_bytes :: "('s, 'l) pb_io \<Rightarrow> 'u pb_wire \<Rightarrow> 'u rpc_header \<Rightarrow> string \<Rightarrow> string" where
  "request_bytes io w h args =
     (let hs = RpcHeader_InternalSerialize w h
      in WriteVarint32 io (word_of_nat (length hs)) @ WriteString io hs @ args)"

locale rpc_wire = coded_stream io pending + wire_format w
  for io :: "('s, 'l) pb_io" and pending :: "'s \<Rightarrow> string" and w :: "'u pb_wire"
begin

text \<open>Reading the header of a request leaves a stream at the arguments.\<close>

lemma header_read:
  assumes "pending s = WriteVarint32 io (word_of_nat (length hs)) @ hs @ rest"
    and "length hs < 2 ^ 31"
    and "ReadVarint32 io s = (ok1, n, s1)" "PushLimit io (sint n) s1 = (l, s2)"
    and "ReadString io (sint n) s2 = (ok2, x, s3)"
  shows "x = hs \<and> pending (PopLimit io l s3) = rest"
proof -
  have 1: "n = word_of_nat (length hs)" "pending s1 = hs @ rest"
    using read_written_varint [OF assms(1)] assms(3) by auto
  then have "sint n = int (length hs)" using sint_word_of_nat [OF assms(2)] by simp
  then show ?thesis using limited_read [of "length hs" s1 l s2 ok2 x s3] assms(2,4,5) 1 by simp
qed

lemma OnMessage_read:
  assumes "no_unknown_fields w h" "length (RpcHeader_InternalSerialize w h) < 2 ^ 31"
  shows "\<exists>st. pending st = args \<and>
    KrpcProvider_OnMessage io w tab (request_bytes io w h args) =
      (let (ok, a, st) = ReadString io (sint (hdr_args_size h)) st
       in Some (if ok then dispatch tab (hdr_service_name h) (hdr_method_name h) a else ArgsError))"
proof -
  let ?hs = "RpcHeader_InternalSerialize w h"
  let ?s = "OpenStream io (request_bytes io w h args)"
  obtain ok1 n s1 where 1: "ReadVarint32 io ?s = (ok1, n, s1)" by (metis prod_cases3)
  obtain l s2 where 2: "PushLimit io (sint n) s1 = (l, s2)" by fastforce
  obtain ok2 x s3 where 3: "ReadString io (sint n) s2 = (ok2, x, s3)" by (metis prod_cases3)
  have "pending ?s = WriteVarint32 io (word_of_nat (length ?hs)) @ ?hs @ args"
    by (simp add: open_pending request_bytes_def write_string Let_def)
  then have x: "x = ?hs" "pending (PopLimit io l s3) = args"
    using header_read [OF _ assms(2) 1 2 3] by auto
  have "KrpcProvider_OnMessage io w tab (request_bytes io w h args) =
      (let (ok, a, st) = ReadString io (sint (hdr_args_size h)) (PopLimit io l s3)
       in Some (if ok then dispatch tab (hdr_service_name h) (hdr_method_name h) a else ArgsError))"
    using 1 2 3 x header_roundtrip [OF assms]
    by (simp add: KrpcProvider_OnMessage_def dispatch_def Let_def
        split: prod.split option.split call_result.split)
  with x(2) show ?thesis by blast
qed

lemma OnMessage_dispatches:
  assumes "no_unknown_fields w h" "length (RpcHeader_InternalSerialize w h) < 2 ^ 31"
    and "hdr_args_size h = word_of_nat (length args)" "length args < 2 ^ 31"
  shows "KrpcProvider_OnMessage io w tab (request_bytes io w h (args @ rest)) =
    Some (dispatch tab (hdr_service_name h) (hdr_method_name h) args)"
proof -
  obtain st where st: "pending st = args @ rest"
    "KrpcProvider_OnMessage io w tab (request_bytes io w h (args @ rest)) =
      (let (ok, a, st) = ReadString io (sint (hdr_args_size h)) st
       in Some (if ok then dispatch tab (hdr_service_name h) (hdr_method_name h) a else ArgsError))"
    using OnMessage_read [OF assms(1,2)] by blast
  have "\<exists>s'. ReadString io (int (length args)) st = (True, args, s')"
    using read_string [of "length args" st] st(1) assms(4) by auto
  then show ?thesis using st(2) sint_word_of_nat [OF assms(4)] assms(3) by auto
qed

lemma OnMessage_incomplete:
  assumes "no_unknown_fields w h" "length (RpcHeader_InternalSerialize w h) < 2 ^ 31"
    and "hdr_args_size h = word_of_nat n" "n < 2 ^ 31" "length args < n"
  shows "KrpcProvider_OnMessage io w tab (request_bytes io w h args) = Some ArgsError"
proof -
  obtain st where st: "pending st = args"
    "KrpcProvider_OnMessage io w tab (request_bytes io w h args) =
      (let (ok, a, st) = ReadString io (sint (hdr_args_size h)) st
       in Some (if ok then dispatch tab (hdr_service_name h) (hdr_method_name h) a else ArgsError))"
    using OnMessage_read [OF assms(1,2)] by blast
  have "\<not> fst (ReadString io (int n) st)" using short_read [of st "int n"] st(1) assms(5) by simp
  then show ?thesis using st(2) sint_word_of_nat [OF assms(4)] assms(3)
    by (auto split: prod.splits)
qed

end

interpretation std_rpc: rpc_wire std_io std_pending std_wire ..

section \<open>Publishing and registration together\<close>

definition published :: "('q, 'p) pb_service list \<Rightarrow> string \<Rightarrow> string \<Rightarrow> bool" where
  "published services s m \<longleftrightarrow>
     (\<exists>svc. List.find (\<lambda>svc. sd_name svc = s) services = Some svc \<and>
        (\<exists>d \<in> set (sd_methods svc). md_name d = m))"

definition names_ok :: "('q, 'p) pb_service list \<Rightarrow> bool" where
  "names_ok services \<longleftrightarrow>
     (\<forall>svc \<in> set services. path_name (sd_name svc) \<and> (\<forall>d \<in> set (sd_methods svc). path_name (md_name d)))"

definition method_node :: "string \<Rightarrow> string \<Rightarrow> string" where
  "method_node s m = CHR ''/'' # s @ CHR ''/'' # m"

lemma find_Some_iff_name: "List.find P xs = Some x \<Longrightarrow> x \<in> set xs \<and> P x"
  by (induction xs) (auto split: if_splits)

lemma find_None_iff_name: "List.find P xs = None \<longleftrightarrow> (\<forall>x \<in> set xs. \<not> P x)"
  by (induction xs) auto

text \<open>What the visited order says about names and paths.\<close>

lemma visits_entry:
  assumes "visits (publish_all services) order" "(s, ms) \<in> set order"
  obtains svc where "List.find (\<lambda>svc. sd_name svc = s) services = Some svc"
    "set ms = md_name ` set (sd_methods svc)"
proof -
  obtain info where info: "publish_all services s = Some info" "set ms = dom (si_method_map info)"
    using assms by (fastforce simp: visits_def)
  then obtain svc where svc: "List.find (\<lambda>svc. sd_name svc = s) services = Some svc"
    "si_method_map info = (\<lambda>m. List.find (\<lambda>d. md_name d = m) (sd_methods svc))"
    by (auto simp: publish_all_lookup)
  have "dom (si_method_map info) = md_name ` set (sd_methods svc)"
    using svc(2) find_None_iff_name [of _ "sd_methods svc"]
    by (auto simp: dom_def image_iff)
  then show thesis using that svc(1) info(2) by simp
qed

lemma visits_path_names:
  assumes "visits (publish_all services) order" "names_ok services"
  shows "path_names order"
  unfolding path_names_def
proof
  fix sm assume sm: "sm \<in> set order"
  obtain s ms where s: "sm = (s, ms)" by (cases sm)
  obtain svc where svc: "List.find (\<lambda>svc. sd_name svc = s) services = Some svc"
    "set ms = md_name ` set (sd_methods svc)"
    using visits_entry [OF assms(1)] sm s by blast
  then have "svc \<in> set services" "sd_name svc = s" using find_Some_iff_name by fastforce+
  then show "case sm of (s, ms) \<Rightarrow> path_name s \<and> list_all path_name ms"
    using assms(2) s svc(2) by (auto simp: names_ok_def list_all_iff)
qed

lemma visits_method_paths:
  assumes "visits (publish_all services) order" "names_ok services" "path_name s" "path_name m"
  shows "method_node s m \<in> method_paths order \<longleftrightarrow> published services s m"
proof
  assume "method_node s m \<in> method_paths order"
  then obtain s' ms m' where e: "(s', ms) \<in> set order" "m' \<in> set ms"
    "s @ CHR ''/'' # m = s' @ CHR ''/'' # m'"
    by (auto simp: method_paths_def method_node_def)
  then have "path_name s'" "path_name m'"
    using visits_path_names [OF assms(1,2)] by (auto simp: path_names_def list_all_iff)
  then have "s' = s" "m' = m"
    using e(3) assms(3,4) append_Cons_eq_iff [of "CHR ''/''" s m s' m'] by (auto simp: path_name_def)
  with e(1,2) obtain svc where "List.find (\<lambda>svc. sd_name svc = s) services = Some svc"
    "m \<in> md_name ` set (sd_methods svc)"
    using visits_entry [OF assms(1)] by metis
  then show "published services s m" by (auto simp: published_def)
next
  assume "published services s m"
  then obtain svc d where svc: "List.find (\<lambda>svc. sd_name svc = s) services = Some svc"
    "d \<in> set (sd_methods svc)" "md_name d = m"
    by (auto simp: published_def)
  then have "s \<in> dom (publish_all services)" by (simp add: publish_all_lookup dom_def)
  then obtain ms where ms: "(s, ms) \<in> set order" using assms(1) by (force simp: visits_def)
  then have "m \<in> set ms" using visits_entry [OF assms(1) ms] svc by (metis image_eqI option.inject)
  with ms show "method_node s m \<in> method_paths order"
    by (auto simp: method_paths_def method_node_def)
qed

lemma service_path_not_method:
  "path_names order \<Longrightarrow> method_node s m \<notin> service_paths order"
  using service_path_one_slash by (simp add: method_node_def)

lemma Run_registry:
  assumes "zookeeper_store zk nodes up" "up z"
    and "init (ZkClient_connstr cfg) = Some h"
    and "is_connected \<or> (ZOO_SESSION_EVENT, ZOO_CONNECTED_STATE) \<in> set evs"
    and "visits (publish_all services) order" "names_ok services"
    and "method_data (Krpcconfig_Load cfg ''rpcserverip'')
      (atoi (c_str_to_string (Krpcconfig_Load cfg ''rpcserverport''))) = Inr d"
    and "\<forall>p \<in> service_paths order. \<forall>x. nodes z p \<noteq> Some (x, True)"
  shows "\<exists>srv. KrpcProvider_Run zk init evs is_connected cfg order z = Some (Inr srv) \<and>
    srv_ip srv = Krpcconfig_Load cfg ''rpcserverip'' \<and>
    srv_port srv = word_of_int (atoi (c_str_to_string (Krpcconfig_Load cfg ''rpcserverport''))) \<and>
    up (srv_registry srv) \<and>
    (\<forall>s m. path_name s \<longrightarrow> path_name m \<longrightarrow>
      nodes (srv_registry srv) (method_node s m) =
        (case nodes z (method_node s m) of
           Some old \<Rightarrow> Some old
         | None \<Rightarrow> if published services s m then Some (d, True) else None))"
proof -
  have names: "path_names order" by (rule visits_path_names [OF assms(5,6)])
  obtain z' where z': "register_services zk (Krpcconfig_Load cfg ''rpcserverip'')
      (atoi (c_str_to_string (Krpcconfig_Load cfg ''rpcserverport''))) order z = Inr z'" "up z'"
      "nodes z' = add_missing (method_paths order) (d, True)
        (add_missing (service_paths order) ([], False) (nodes z))"
    using zookeeper_store.register_services_spec [OF assms(1,2) names assms(7,8)] by blast
  obtain b where "ZkClient_Start cfg init evs is_connected = Some (Inr (h, b))"
    using assms(3,4) wait_connected_iff [of evs is_connected] by (auto simp: ZkClient_Start_def)
  with z'(1) have run: "KrpcProvider_Run zk init evs is_connected cfg order z =
      Some (Inr \<lparr>srv_ip = Krpcconfig_Load cfg ''rpcserverip'',
        srv_port = word_of_int (atoi (c_str_to_string (Krpcconfig_Load cfg ''rpcserverport''))),
        srv_reuse_port = True, srv_threads = 10, srv_registry = z'\<rparr>)"
    by (simp add: KrpcProvider_Run_def Let_def)
  have reg: "nodes z' (method_node s m) =
      (case nodes z (method_node s m) of
         Some old \<Rightarrow> Some old | None \<Rightarrow> if published services s m then Some (d, True) else None)"
    if "path_name s" "path_name m" for s m
    using visits_method_paths [OF assms(5,6) that] service_path_not_method [OF names, of s m]
    by (auto simp: z'(3) add_missing_def split: option.split)
  show ?thesis
    by (rule exI, rule conjI, rule run) (simp add: z'(2) reg)
qed

section \<open>Properties\<close>

text \<open>The service table holds, under each name, the first service published with it, and in that
  service's method table the first method of each name; later ones of the same name are ignored.\<close>

theorem publish_first_wins:
  "(case publish_all services s of
      None \<Rightarrow> \<forall>svc \<in> set services. sd_name svc \<noteq> s
    | Some info \<Rightarrow>
        (\<exists>before after. services = before @ si_service info # after \<and>
           sd_name (si_service info) = s \<and> (\<forall>svc \<in> set before. sd_name svc \<noteq> s)) \<and>
        si_method_map info = (\<lambda>m. List.find (\<lambda>d. md_name d = m) (sd_methods (si_service info))))"
proof (cases "List.find (\<lambda>svc. sd_name svc = s) services")
  case None
  then have "\<forall>svc \<in> set services. sd_name svc \<noteq> s" by (simp only: find_None_iff_name)
  with None show ?thesis by (simp add: publish_all_lookup)
next
  case (Some svc)
  then obtain i where i: "i < length services" "services ! i = svc" "sd_name svc = s"
    "\<forall>j < i. sd_name (services ! j) \<noteq> s"
    by (auto simp: find_Some_iff)
  then have "services = take i services @ svc # drop (Suc i) services"
    by (metis id_take_nth_drop)
  moreover have "\<forall>x \<in> set (take i services). sd_name x \<noteq> s"
    using i by (auto simp: in_set_conv_nth)
  ultimately show ?thesis using Some i(3) by (auto simp: publish_all_lookup)
qed

definition echo_service :: "string \<Rightarrow> nat \<Rightarrow> (string, string) pb_service" where
  \<comment> \<open>a service with one method that answers with its argument doubled\<close>
  "echo_service s n =
     \<lparr>sd_name = s, sd_methods = [\<lparr>md_name = ''Echo'', md_index = n\<rparr>], req_parse = (\<lambda>d a. Some a),
      svc_call = (\<lambda>d q. CallDone (q @ q)), resp_ser = Some\<rparr>"

theorem publish_first_wins_witness:
  "\<exists>info. publish_all [echo_service ''S'' 0, echo_service ''S'' 1] ''S'' = Some info \<and>
    si_method_map info ''Echo'' = Some \<lparr>md_name = ''Echo'', md_index = 0\<rparr>"
  using publish_first_wins [of "[echo_service ''S'' 0, echo_service ''S'' 1]" "''S''"]
  by (simp add: publish_all_lookup) (simp add: echo_service_def)

text \<open>C7: \<open>Run\<close> with a ZooKeeper that answers registers what was published, in whatever order the hash
  tables are walked: afterwards every published method has a node; a node that did not exist holds
  the address of this server and is ephemeral, a node that existed is left as it was, old address
  included, and no other method node appears.\<close>

theorem Run_registers:
  assumes "zookeeper_store zk nodes up" "up z"
    and "init (ZkClient_connstr cfg) = Some h"
    and "is_connected \<or> (ZOO_SESSION_EVENT, ZOO_CONNECTED_STATE) \<in> set evs"
    and "visits (publish_all services) order" "names_ok services"
    and "method_data (Krpcconfig_Load cfg ''rpcserverip'')
      (atoi (c_str_to_string (Krpcconfig_Load cfg ''rpcserverport''))) = Inr d"
    and "\<forall>p \<in> service_paths order. \<forall>x. nodes z p \<noteq> Some (x, True)"
  shows "\<exists>srv. KrpcProvider_Run zk init evs is_connected cfg order z = Some (Inr srv) \<and>
    srv_ip srv = Krpcconfig_Load cfg ''rpcserverip'' \<and>
    srv_port srv = word_of_int (atoi (c_str_to_string (Krpcconfig_Load cfg ''rpcserverport''))) \<and>
    up (srv_registry srv) \<and>
    (\<forall>s m. path_name s \<longrightarrow> path_name m \<longrightarrow>
      nodes (srv_registry srv) (method_node s m) =
        (case nodes z (method_node s m) of
           Some old \<Rightarrow> Some old
         | None \<Rightarrow> if published services s m then Some (d, True) else None))"
  by (rule Run_registry [of zk nodes up z init cfg h is_connected evs services order d, OF assms])

definition example_cfg :: "string \<rightharpoonup> string" where
  "example_cfg = [''rpcserverip'' \<mapsto> ''10.0.0.1'', ''rpcserverport'' \<mapsto> ''8000'',
     ''zookeeperip'' \<mapsto> ''10.0.0.2'', ''zookeeperport'' \<mapsto> ''2181'']"

definition empty_store :: zstore where
  "empty_store = \<lparr>znodes = [], zup = True\<rparr>"

lemma example_visits: "visits (publish_all [echo_service ''S'' 0]) [(''S'', [''Echo''])]"
  by (auto simp: visits_def publish_all_lookup echo_service_def dom_def split: if_splits)

lemma example_names: "names_ok [echo_service ''S'' 0]"
  by (simp add: names_ok_def echo_service_def path_name_def)

lemma example_data:
  "method_data (Krpcconfig_Load example_cfg ''rpcserverip'')
     (atoi (c_str_to_string (Krpcconfig_Load example_cfg ''rpcserverport''))) = Inr ''10.0.0.1:8000''"
proof -
  have "digit_char 0 = CHR ''0''" "digit_char 8 = CHR ''8''" by code_simp+
  then have port: "show_int 8000 = ''8000''" by (simp add: show_int_def show_nat.simps)
  have c: "c_str_to_string ''8000'' = ''8000''" "c_str_to_string ''10.0.0.1'' = ''10.0.0.1''"
    by (simp_all add: c_str_id)
  have "atoi ''8000'' = 8000" using atoi_show_int [of 8000] port by simp
  with port c show ?thesis by (simp add: method_data_def Krpcconfig_Load_def example_cfg_def)
qed

theorem Run_registers_witness:
  "\<exists>srv. KrpcProvider_Run zstore_api (\<lambda>_. Some ()) [(-1, 3)] False example_cfg [(''S'', [''Echo''])] empty_store =
      Some (Inr srv) \<and>
    zstore_nodes (srv_registry srv) (method_node ''S'' ''Echo'') = Some (''10.0.0.1:8000'', True)"
proof -
  have pn: "path_name ''S''" "path_name ''Echo''" by (simp_all add: path_name_def)
  have pub: "published [echo_service ''S'' 0] ''S'' ''Echo''"
    by (simp add: published_def echo_service_def)
  have none: "zstore_nodes empty_store p = None" for p
    by (simp add: zstore_nodes_def empty_store_def)
  have up: "zup empty_store" by (simp add: empty_store_def)
  have conn: "False \<or> (ZOO_SESSION_EVENT, ZOO_CONNECTED_STATE) \<in> set [(-1, 3)]" by simp
  have fresh: "\<forall>p \<in> service_paths [(''S'', [''Echo''])]. \<forall>x. zstore_nodes empty_store p \<noteq> Some (x, True)"
    by (simp add: none)
  note reg = Run_registers [of zstore_api zstore_nodes zup empty_store "\<lambda>_. Some ()" example_cfg "()",
      OF zstore.zookeeper_store_axioms up refl conn example_visits example_names example_data fresh]
  then obtain srv where srv: "KrpcProvider_Run zstore_api (\<lambda>_. Some ()) [(-1, 3)] False example_cfg
      [(''S'', [''Echo''])] empty_store = Some (Inr srv)"
    "\<forall>s m. path_name s \<longrightarrow> path_name m \<longrightarrow> zstore_nodes (srv_registry srv) (method_node s m) =
        (case zstore_nodes empty_store (method_node s m) of Some old \<Rightarrow> Some old
         | None \<Rightarrow> if published [echo_service ''S'' 0] s m then Some (''10.0.0.1:8000'', True) else None)"
    by (elim exE conjE)
  show ?thesis
    by (rule exI, rule conjI, rule srv(1)) (simp only: srv(2) [rule_format, OF pn] none pub option.case if_True)
qed


definition echo_header :: "nat \<Rightarrow> string rpc_header" where
  "echo_header n = \<lparr>msg_unknown = '''', hdr_service_name = ''S'', hdr_method_name = ''Echo'',
     hdr_args_size = word_of_nat n\<rparr>"

lemma echo_header_ok:
  "no_unknown_fields std_wire (echo_header 2)"
  "length (RpcHeader_InternalSerialize std_wire (echo_header 2)) = 11"
  by (simp_all add: no_unknown_fields_def echo_header_def RpcHeader_InternalSerialize_def std_wire_run
      write_unknown_def std_tag_def varint.simps)


text \<open>A request whose arguments have not all arrived is not kept for later: it is dropped with the
  argument error, and so are the bytes that arrived.\<close>

theorem OnMessage_partial_request:
  assumes "rpc_wire io pending w" "no_unknown_fields w h"
    and "length (RpcHeader_InternalSerialize w h) < 2 ^ 31"
    and "hdr_args_size h = word_of_nat (length args)" "length args < 2 ^ 31"
    and "k < length args"
  shows "KrpcProvider_OnMessage io w tab (request_bytes io w h (take k args)) = Some ArgsError"
  using rpc_wire.OnMessage_incomplete [OF assms(1-5), of "take k args" tab] assms(6) by simp

theorem OnMessage_partial_request_witness:
  "KrpcProvider_OnMessage std_io std_wire (publish_all [echo_service ''S'' 0])
     (request_bytes std_io std_wire (echo_header 2) ''a'') = Some ArgsError"
  using OnMessage_partial_request [OF std_rpc.rpc_wire_axioms echo_header_ok(1), of "''ab''" 1
      "publish_all [echo_service ''S'' 0]"] echo_header_ok(2)
  by (simp add: echo_header_def)

end
