(* ===== verification/Posix_Sockets.thy ===== *)
theory Posix_Sockets
  imports Krpc_Prelude
begin

text \<open>
  The socket calls of POSIX the sources use, over a descriptor table and a log of what the process
  did.  Whatever POSIX leaves to the system (the descriptor chosen, the bytes taken or
  delivered, the error) is an argument of each call; a call on a descriptor that is not open
  fails with \<open>EBADF\<close> whatever the system offers.
\<close>

datatype errno = EINTR | EAGAIN | EBADF | Eother string

fun strerror :: "errno \<Rightarrow> string" where
  "strerror EINTR = ''Interrupted system call''"
| "strerror EAGAIN = ''Resource temporarily unavailable''"
| "strerror EBADF = ''Bad file descriptor''"
| "strerror (Eother s) = s"

datatype sys_event =
    EvSocket int
  | EvConnect int string "16 word"
  | EvSend int string
  | EvRecv int string
  | EvClose int bool
  | EvShutdown int

record kern =
  open_fds :: "int set"
  sys_errno :: errno
  sys_log :: "sys_event list"

datatype io_result = IoN nat | IoErr errno

definition is_open :: "int \<Rightarrow> kern \<Rightarrow> bool" where
  "is_open fd k \<longleftrightarrow> 0 \<le> fd \<and> fd \<in> open_fds k"

definition log_event :: "sys_event \<Rightarrow> kern \<Rightarrow> kern" where
  "log_event e k = k\<lparr>sys_log := sys_log k @ [e]\<rparr>"

definition fail_with :: "errno \<Rightarrow> kern \<Rightarrow> kern" where
  "fail_with e k = k\<lparr>sys_errno := e\<rparr>"

definition sys_socket :: "int \<Rightarrow> kern \<Rightarrow> int \<times> kern" where
  \<comment> \<open>the system offers descriptor \<open>choice\<close>; a negative or used one stands for failure\<close>
  "sys_socket choice k =
     (if choice < 0 \<or> choice \<in> open_fds k then (-1, fail_with (Eother ''socket'') k)
      else (choice, log_event (EvSocket choice) (k\<lparr>open_fds := insert choice (open_fds k)\<rparr>)))"

definition sys_connect :: "errno option \<Rightarrow> int \<Rightarrow> string \<Rightarrow> 16 word \<Rightarrow> kern \<Rightarrow> int \<times> kern" where
  "sys_connect choice fd ip port k =
     (if \<not> is_open fd k then (-1, fail_with EBADF k)
      else case choice of
        Some e \<Rightarrow> (-1, fail_with e k)
      | None \<Rightarrow> (0, log_event (EvConnect fd ip port) k))"

definition sys_send :: "io_result \<Rightarrow> int \<Rightarrow> string \<Rightarrow> kern \<Rightarrow> int \<times> kern" where
  "sys_send choice fd data k =
     (if \<not> is_open fd k then (-1, fail_with EBADF k)
      else case choice of
        IoErr e \<Rightarrow> (-1, fail_with e k)
      | IoN n \<Rightarrow>
          (int (min n (length data)), log_event (EvSend fd (take n data)) k))"

definition sys_recv :: "errno + string \<Rightarrow> int \<Rightarrow> nat \<Rightarrow> kern \<Rightarrow> string option \<times> kern" where
  \<comment> \<open>\<open>None\<close> is the result \<open>-1\<close>; \<open>Some []\<close> is end of stream\<close>
  "sys_recv choice fd cap k =
     (if \<not> is_open fd k then (None, fail_with EBADF k)
      else case choice of
        Inl e \<Rightarrow> (None, fail_with e k)
      | Inr d \<Rightarrow> (Some (take cap d), log_event (EvRecv fd (take cap d)) k))"

definition sys_close :: "int \<Rightarrow> kern \<Rightarrow> kern" where
  \<comment> \<open>the log records whether the descriptor was open\<close>
  "sys_close fd k =
     log_event (EvClose fd (is_open fd k)) (k\<lparr>open_fds := open_fds k - {fd}\<rparr>)"

definition sys_shutdown :: "errno option \<Rightarrow> int \<Rightarrow> kern \<Rightarrow> int \<times> kern" where
  \<comment> \<open>for writing\<close>
  "sys_shutdown choice fd k =
     (if \<not> is_open fd k then (-1, fail_with EBADF k)
      else case choice of
        Some e \<Rightarrow> (-1, fail_with e k)
      | None \<Rightarrow> (0, log_event (EvShutdown fd) k))"

named_theorems posix \<open>definitions of the system calls\<close>

lemmas [posix] = is_open_def log_event_def fail_with_def sys_socket_def sys_connect_def sys_send_def
  sys_recv_def sys_close_def sys_shutdown_def

lemma sys_send_range: "sys_send c fd d k = (r, k') \<Longrightarrow> -1 \<le> r \<and> r \<le> int (length d)"
  by (auto simp: posix split: if_splits io_result.splits)

lemma sys_send_open_fds: "sys_send c fd d k = (r, k') \<Longrightarrow> open_fds k' = open_fds k"
  by (auto simp: posix split: if_splits io_result.splits)

lemma sys_recv_open_fds: "sys_recv c fd n k = (r, k') \<Longrightarrow> open_fds k' = open_fds k"
  by (auto simp: posix split: if_splits sum.splits)

lemma sys_recv_cap: "sys_recv c fd n k = (Some d, k') \<Longrightarrow> length d \<le> n"
  by (auto simp: posix split: if_splits sum.splits)

lemma sys_connect_open_fds: "sys_connect c fd i p k = (r, k') \<Longrightarrow> open_fds k' = open_fds k"
  by (auto simp: posix split: if_splits option.splits)

lemma sys_close_open_fds: "open_fds (sys_close fd k) = open_fds k - {fd}"
  by (simp add: posix)

lemma sys_socket_fresh:
  "sys_socket c k = (fd, k') \<Longrightarrow> fd \<noteq> -1 \<Longrightarrow> fd \<notin> open_fds k \<and> 0 \<le> fd \<and> open_fds k' = insert fd (open_fds k)"
  by (auto simp: posix split: if_splits)

lemma sys_socket_fail: "sys_socket c k = (-1, k') \<Longrightarrow> open_fds k' = open_fds k"
  by (auto simp: posix split: if_splits)

text \<open>The bytes handed to a descriptor, in order.\<close>

fun sent_on :: "int \<Rightarrow> sys_event list \<Rightarrow> string" where
  "sent_on fd [] = []"
| "sent_on fd (EvSend f d # es) = (if f = fd then d else []) @ sent_on fd es"
| "sent_on fd (_ # es) = sent_on fd es"

lemma sent_on_append [simp]: "sent_on fd (xs @ ys) = sent_on fd xs @ sent_on fd ys"
  by (induction xs rule: sent_on.induct) auto

lemma sys_send_sent:
  assumes "sys_send c fd d k = (r, k')" "0 \<le> r"
  shows "sent_on fd (sys_log k') = sent_on fd (sys_log k) @ take (nat r) d"
  using assms by (auto simp: posix min_def split: if_splits io_result.splits)

lemma sys_send_failed_sent:
  assumes "sys_send c fd d k = (r, k')" "r < 0"
  shows "sys_log k' = sys_log k"
  using assms by (auto simp: posix split: if_splits io_result.splits)

lemma sys_send_closed: "\<not> is_open fd k \<Longrightarrow> sys_send c fd d k = (-1, fail_with EBADF k)"
  by (simp add: sys_send_def)

text \<open>The bytes taken from a descriptor, in order.\<close>

fun recvd_on :: "int \<Rightarrow> sys_event list \<Rightarrow> string" where
  "recvd_on fd [] = []"
| "recvd_on fd (EvRecv f d # es) = (if f = fd then d else []) @ recvd_on fd es"
| "recvd_on fd (_ # es) = recvd_on fd es"

lemma recvd_on_append [simp]: "recvd_on fd (xs @ ys) = recvd_on fd xs @ recvd_on fd ys"
  by (induction xs rule: recvd_on.induct) auto

section \<open>Dotted quad addresses\<close>

text \<open>\<^verbatim>\<open>inet_pton(AF_INET, ...)\<close> takes four decimal fields of one to three digits, each at most 255.\<close>

fun split_on :: "char \<Rightarrow> string \<Rightarrow> string list" where
  "split_on c [] = [[]]"
| "split_on c (x # xs) =
     (if x = c then [] # split_on c xs
      else case split_on c xs of [] \<Rightarrow> [[x]] | f # fs \<Rightarrow> (x # f) # fs)"

definition octet_ok :: "string \<Rightarrow> bool" where
  "octet_ok f \<longleftrightarrow> f \<noteq> [] \<and> length f \<le> 3 \<and> list_all is_digit f \<and> atoi_digits 0 f \<le> 255"

definition inet_pton_ok :: "string \<Rightarrow> bool" where
  "inet_pton_ok s \<longleftrightarrow> length (split_on CHR ''.'' s) = 4 \<and> list_all octet_ok (split_on CHR ''.'' s)"

end
