(* ===== verification/Krpc_Channel.thy ===== *)
theory Krpc_Channel
  imports Krpc_Provider Krpc_Controller Posix_Sockets
begin

text \<open>
  The client channel of the Krpc framework, \<^verbatim>\<open>src/src/Krpcchannel.cc\<close>: looking a method up in
  ZooKeeper, connecting, and one call from the arguments to the response.  What the system and
  ZooKeeper do during a call is the record \<open>call_env\<close>.
\<close>

record krpc_channel =
  m_clientfd :: int
  m_service_name :: string
  m_method_name :: string
  m_ip :: string
  m_port :: "16 word"
  m_idx :: int

text \<open>
  \<open>env_fd\<close>, \<open>env_connect\<close>, \<open>env_send\<close> and \<open>env_recv\<close> are the outcomes the system offers; \<open>env_stack\<close>
  is what the buffer of \<open>GetData\<close> held before; \<open>env_errtxt\<close> is what \<^verbatim>\<open>strerror_r\<close> leaves in
  \<open>errtxt\<close> (the GNU version may leave it empty and return a static string).
\<close>

record ('z, 'h) call_env =
  env_config :: "string \<rightharpoonup> string"
  env_init :: "string \<Rightarrow> 'h option"
  env_events :: "(int \<times> int) list"
  env_connected :: bool
  env_zk :: "'z zk_api"
  env_z :: 'z
  env_stack :: string
  env_fd :: int
  env_connect :: "errno option"
  env_send :: io_result
  env_recv :: "errno + string"
  env_errtxt :: "errno \<Rightarrow> string"

section \<open>Connecting\<close>

definition KrpcChannel_newConnect ::
    "int \<Rightarrow> errno option \<Rightarrow> string \<Rightarrow> 16 word \<Rightarrow> krpc_channel \<Rightarrow> kern \<Rightarrow> bool \<times> krpc_channel \<times> kern" where
  "KrpcChannel_newConnect new_fd conn_err ip port ch k =
     (let (clientfd, k) = sys_socket new_fd k
      in if clientfd = -1 then (False, ch, k)
         else let (r, k) = sys_connect conn_err clientfd ip port k
              in if r = -1 then (False, ch, sys_close clientfd k)
                 else (True, ch\<lparr>m_clientfd := clientfd\<rparr>, k))"

text \<open>The constructor: one attempt and up to three retries, an entry of \<open>tries\<close> for each.\<close>

fun connect_retry ::
    "(int \<times> errno option) list \<Rightarrow> nat \<Rightarrow> krpc_channel \<Rightarrow> kern \<Rightarrow> krpc_channel \<times> kern" where
  "connect_retry tries 0 ch k = (ch, k)"
| "connect_retry [] (Suc count) ch k = (ch, k)"
| "connect_retry ((fd, err) # tries) (Suc count) ch k =
     (case KrpcChannel_newConnect fd err (m_ip ch) (m_port ch) ch k of
        (rt, ch, k) \<Rightarrow> if rt then (ch, k) else connect_retry tries count ch k)"

definition KrpcChannel_new ::
    "16 word \<Rightarrow> (int \<times> errno option) list \<Rightarrow> bool \<Rightarrow> kern \<Rightarrow> krpc_channel \<times> kern" where
  \<comment> \<open>\<open>port0\<close> is what the uninitialised \<open>m_port\<close> holds\<close>
  "KrpcChannel_new port0 tries connectNow k =
     (let ch = \<lparr>m_clientfd = -1, m_service_name = [], m_method_name = [], m_ip = [],
                m_port = port0, m_idx = 0\<rparr>
      in if \<not> connectNow then (ch, k) else connect_retry tries (1 + 3) ch k)"

section \<open>Looking up a service\<close>

text \<open>The result and the new value of \<open>idx\<close>.\<close>

definition KrpcChannel_QueryServiceHost ::
    "'z zk_api \<Rightarrow> string \<Rightarrow> 'z \<Rightarrow> string \<Rightarrow> string \<Rightarrow> int \<Rightarrow> (string \<times> int) res" where
  "KrpcChannel_QueryServiceHost zk stack z service_name method_name idx =
     (let method_path = ''/'' @ service_name @ ''/'' @ method_name in
      res_bind (ZkClient_GetData zk stack z (c_str_to_string method_path)) (\<lambda>host_data_1.
      if host_data_1 = '''' then Inr ('' '', idx)
      else let idx = str_find CHR '':'' 0 host_data_1
           in if idx = -1 then Inr ('' '', idx) else Inr (host_data_1, idx)))"

section \<open>The timed helpers\<close>

abbreviation (input) ETIMEDOUT :: int where "ETIMEDOUT \<equiv> 110"

definition KrpcChannel_setSocketNonBlocking :: "int \<Rightarrow> (int \<Rightarrow> int) \<Rightarrow> int" where
  \<comment> \<open>the arguments are the results of the two \<^verbatim>\<open>fcntl\<close> calls\<close>
  "KrpcChannel_setSocketNonBlocking getfl setfl =
     (let flags = getfl in if flags = -1 then -1 else setfl (or flags 2048))"

definition KrpcChannel_sendWithTimeout ::
    "int \<Rightarrow> io_result \<Rightarrow> int \<Rightarrow> string \<Rightarrow> kern \<Rightarrow> int \<times> kern" where
  \<comment> \<open>the first argument is the result of \<^verbatim>\<open>poll\<close>\<close>
  "KrpcChannel_sendWithTimeout ret io fd data k =
     (if ret \<le> 0 then (if ret = 0 then - ETIMEDOUT else -1, k) else sys_send io fd data k)"

definition KrpcChannel_recvWithTimeout ::
    "int \<Rightarrow> (errno + string) \<Rightarrow> int \<Rightarrow> nat \<Rightarrow> kern \<Rightarrow> (int + string) \<times> kern" where
  "KrpcChannel_recvWithTimeout ret io fd len k =
     (if ret \<le> 0 then (Inl (if ret = 0 then - ETIMEDOUT else -1), k)
      else case sys_recv io fd len k of
        (None, k) \<Rightarrow> (Inl (-1), k)
      | (Some d, k) \<Rightarrow> (Inr d, k))"

section \<open>A call\<close>

text \<open>The part of \<open>CallMethod\<close> under \<open>if (-1 == m_clientfd)\<close>; the flag says whether to go on.\<close>

definition call_connect ::
    "('z, 'h) call_env \<Rightarrow> string \<Rightarrow> string \<Rightarrow> krpc_channel \<Rightarrow> kern
     \<Rightarrow> (bool \<times> krpc_channel \<times> kern) res option" where
  "call_connect env sd_service md ch k =
     (let ch = ch\<lparr>m_service_name := sd_service, m_method_name := md\<rparr> in
      case ZkClient_Start (env_config env) (env_init env) (env_events env) (env_connected env) of
        None \<Rightarrow> None
      | Some started \<Rightarrow> Some (
          res_bind started (\<lambda>_.
          res_bind (KrpcChannel_QueryServiceHost (env_zk env) (env_stack env) (env_z env)
              (m_service_name ch) (m_method_name ch) (m_idx ch)) (\<lambda>(host_data, idx).
          let ch = ch\<lparr>m_idx := idx\<rparr> in
          res_bind (substr host_data 0 (m_idx ch)) (\<lambda>ip.
          res_bind (substr host_data (m_idx ch + 1) (int (length host_data) - m_idx ch)) (\<lambda>port.
          let ch = ch\<lparr>m_ip := ip, m_port := word_of_int (atoi (c_str_to_string port))\<rparr> in
          Inr (KrpcChannel_newConnect (env_fd env) (env_connect env) (c_str_to_string (m_ip ch))
                 (m_port ch) ch k)))))))"

definition set_error ::
    "('z, 'h) call_env \<Rightarrow> 'cb krpc_controller \<Rightarrow> kern \<Rightarrow> 'cb krpc_controller" where
  "set_error env c k = KrpcController_SetFailed (c_str_to_string (env_errtxt env (sys_errno k))) c"

definition request_header :: "'u pb_wire \<Rightarrow> krpc_channel \<Rightarrow> string \<Rightarrow> 'u rpc_header" where
  "request_header w ch args_str =
     (RpcHeader_SharedCtor w)\<lparr>hdr_service_name := m_service_name ch,
       hdr_method_name := m_method_name ch, hdr_args_size := word_of_nat (length args_str)\<rparr>"

text \<open>The rest of \<open>CallMethod\<close>: the request is built, sent, answered and the answer parsed.\<close>

definition call_exchange ::
    "('s, 'l) pb_io \<Rightarrow> 'u pb_wire \<Rightarrow> ('z, 'h) call_env \<Rightarrow> string option
     \<Rightarrow> (string \<Rightarrow> 'm \<Rightarrow> bool \<times> 'm) \<Rightarrow> 'm \<Rightarrow> 'cb krpc_controller \<Rightarrow> krpc_channel \<Rightarrow> kern
     \<Rightarrow> 'm \<times> 'cb krpc_controller \<times> krpc_channel \<times> kern" where
  "call_exchange io w env request parse response c ch k =
     (case request of
        None \<Rightarrow> (response, KrpcController_SetFailed ''serialize request fail'' c, ch, k)
      | Some args_str \<Rightarrow>
        (case RpcHeader_SerializeToString w (request_header w ch args_str) of
           None \<Rightarrow> (response, KrpcController_SetFailed ''serialize rpc header error!'' c, ch, k)
         | Some rpc_header_str \<Rightarrow>
           (let send_rpc_str = (WriteVarint32 io (word_of_nat (length rpc_header_str)) @
                  WriteString io rpc_header_str) @ args_str;
                (sent, k) = sys_send (env_send env) (m_clientfd ch) send_rpc_str k
            in if sent = -1
               then let k = sys_close (m_clientfd ch) k in (response, set_error env c k, ch, k)
               else case sys_recv (env_recv env) (m_clientfd ch) 1024 k of
                 (None, k) \<Rightarrow> (response, set_error env c k, ch, k)
               | (Some recv_buf, k) \<Rightarrow>
                   (let (ok, response) = parse recv_buf response;
                        k = sys_close (m_clientfd ch) k
                    in if \<not> ok then (response, set_error env c k, ch, k)
                       else (response, c, ch, k)))))"

definition KrpcChannel_CallMethod ::
    "('s, 'l) pb_io \<Rightarrow> 'u pb_wire \<Rightarrow> ('z, 'h) call_env \<Rightarrow> string \<Rightarrow> string \<Rightarrow> string option
     \<Rightarrow> (string \<Rightarrow> 'm \<Rightarrow> bool \<times> 'm) \<Rightarrow> 'm \<Rightarrow> 'cb krpc_controller \<Rightarrow> krpc_channel \<Rightarrow> kern
     \<Rightarrow> ('m \<times> 'cb krpc_controller \<times> krpc_channel \<times> kern) res option" where
  "KrpcChannel_CallMethod io w env sd_service md request parse response c ch k =
     (if m_clientfd ch = -1 then
        (case call_connect env sd_service md ch k of
           None \<Rightarrow> None
         | Some (Inl e) \<Rightarrow> Some (Inl e)
         | Some (Inr (rt, ch, k)) \<Rightarrow>
             if \<not> rt then Some (Inr (response, c, ch, k))
             else Some (Inr (call_exchange io w env request parse response c ch k)))
      else Some (Inr (call_exchange io w env request parse response c ch k)))"

section \<open>Connecting, case by case\<close>

lemma newConnect_ok:
  assumes "0 \<le> fd" "fd \<notin> open_fds k"
  shows "KrpcChannel_newConnect fd None ip port ch k =
    (True, ch\<lparr>m_clientfd := fd\<rparr>,
     k\<lparr>open_fds := insert fd (open_fds k), sys_log := sys_log k @ [EvSocket fd, EvConnect fd ip port]\<rparr>)"
  using assms by (simp add: KrpcChannel_newConnect_def posix Let_def)

lemma newConnect_result:
  assumes "KrpcChannel_newConnect fd err ip port ch k = (rt, ch', k')"
  shows "if rt then m_clientfd ch' \<notin> open_fds k \<and> 0 \<le> m_clientfd ch' \<and>
      open_fds k' = insert (m_clientfd ch') (open_fds k)
    else ch' = ch \<and> open_fds k' = open_fds k"
  using assms
  by (auto simp: KrpcChannel_newConnect_def posix Let_def split: if_splits option.splits)

text \<open>Up to four attempts: the descriptors held afterwards are those of the one that succeeded.\<close>

lemma connect_retry_result:
  assumes "connect_retry tries n ch k = (ch', k')" "m_clientfd ch = -1"
  shows "if m_clientfd ch' = -1 then open_fds k' = open_fds k
    else m_clientfd ch' \<notin> open_fds k \<and> open_fds k' = insert (m_clientfd ch') (open_fds k)"
  using assms
proof (induction tries n ch k rule: connect_retry.induct)
  case (3 fd err tries count ch k)
  obtain rt ch1 k1 where 1: "KrpcChannel_newConnect fd err (m_ip ch) (m_port ch) ch k = (rt, ch1, k1)"
    by (metis prod_cases3)
  show ?case
  proof (cases rt)
    case True
    then show ?thesis using 1 3 newConnect_result [OF 1] by auto
  next
    case False
    then show ?thesis using 1 3 newConnect_result [OF 1] by auto
  qed
qed auto

section \<open>Looking up, case by case\<close>

lemma QueryServiceHost_cases:
  assumes "KrpcChannel_QueryServiceHost zk stack z s m idx = Inr (host, idx')"
  shows "(host = '' '' \<and> (idx' = idx \<or> idx' = -1)) \<or>
    (0 \<le> idx' \<and> idx' < int (length host) \<and> idx' = str_find CHR '':'' 0 host)"
  using assms
  by (auto simp: KrpcChannel_QueryServiceHost_def res_bind_eq_Inr Let_def str_find_def
      split: if_splits)

lemma substr_from: "substr (a @ c # b) (int (length a) + 1) (int (length (a @ c # b)) - int (length a)) = Inr b"
proof -
  have "size_of_int (int (length (a @ c # b)) - int (length a)) = Suc (length b)"
    by (simp add: size_of_int_def)
  then show ?thesis by (simp add: substr_def)
qed

lemma Start_ok:
  assumes "init (ZkClient_connstr cfg) = Some h"
    and "c \<or> (ZOO_SESSION_EVENT, ZOO_CONNECTED_STATE) \<in> set evs"
  shows "\<exists>b. ZkClient_Start cfg init evs c = Some (Inr (h, b))"
  using assms wait_connected_iff [of evs c] by (auto simp: ZkClient_Start_def)

text \<open>The environment lets \<open>Start\<close> return.\<close>

definition env_starts :: "('z, 'h) call_env \<Rightarrow> bool" where
  "env_starts env \<longleftrightarrow> env_init env (ZkClient_connstr (env_config env)) \<noteq> None \<and>
     (env_connected env \<or> (ZOO_SESSION_EVENT, ZOO_CONNECTED_STATE) \<in> set (env_events env))"

lemma env_starts_Start:
  assumes "env_starts env"
  shows "\<exists>h b. ZkClient_Start (env_config env) (env_init env) (env_events env) (env_connected env) =
    Some (Inr (h, b))"
proof -
  obtain h where "env_init env (ZkClient_connstr (env_config env)) = Some h"
    using assms unfolding env_starts_def by fast
  then show ?thesis using Start_ok [of "env_init env"] assms unfolding env_starts_def by fast
qed

text \<open>A usable address: it fits the buffer of \<open>GetData\<close> and has one separator.\<close>

definition addr_text :: "string \<Rightarrow> int \<Rightarrow> string" where
  "addr_text ip port = ip @ '':'' @ show_int port"

definition addr_ok :: "string \<Rightarrow> int \<Rightarrow> bool" where
  "addr_ok ip port \<longleftrightarrow> CHR '':'' \<notin> set ip \<and> NUL \<notin> set ip \<and> length (addr_text ip port) < 64"

lemma addr_NUL: "addr_ok ip port \<Longrightarrow> NUL \<notin> set (addr_text ip port)"
  by (auto simp: addr_ok_def addr_text_def show_int_free)

lemma method_node_cstr: "path_name s \<Longrightarrow> path_name m \<Longrightarrow> c_str_to_string (method_node s m) = method_node s m"
  by (intro c_str_id) (auto simp: method_node_def path_name_def)

context zookeeper_store
begin

lemma Query_found:
  assumes "up z" "nodes z (method_node s m) = Some (addr_text ip port, e)"
    and "path_name s" "path_name m" "addr_ok ip port"
    and "length stack = 64" "set stack \<subseteq> {NUL}"
  shows "KrpcChannel_QueryServiceHost zk stack z s m idx = Inr (addr_text ip port, int (length ip))"
proof -
  have len: "length (addr_text ip port) < length stack" using assms(5,6) by (simp add: addr_ok_def)
  then have "stack ! length (addr_text ip port) = NUL" using assms(7) nth_mem by blast
  then have "ZkClient_GetData zk stack z (method_node s m) = Inr (addr_text ip port)"
    using lookup_present [OF assms(1,2) _ addr_NUL [OF assms(5)] assms(6)] len assms(6) by simp
  moreover have "str_find CHR '':'' 0 (addr_text ip port) = int (length ip)"
    using assms(5) by (simp add: addr_text_def addr_ok_def str_find_hit)
  ultimately show ?thesis
    using method_node_cstr [OF assms(3,4)]
    by (simp add: KrpcChannel_QueryServiceHost_def method_node_def)
      (simp add: addr_text_def)
qed

lemma Query_missing:
  assumes "up z" "nodes z (method_node s m) = None" "path_name s" "path_name m"
  shows "KrpcChannel_QueryServiceHost zk stack z s m idx = Inr ('' '', idx)"
  using lookup_absent [OF assms(1,2)] method_node_cstr [OF assms(3,4)]
  by (simp add: KrpcChannel_QueryServiceHost_def method_node_def)

lemma call_connect_found:
  assumes "env_starts env" "env_zk env = zk" "up (env_z env)"
    and "nodes (env_z env) (method_node s m) = Some (addr_text ip port, e)"
    and "path_name s" "path_name m" "addr_ok ip port"
    and "length (env_stack env) = 64" "set (env_stack env) \<subseteq> {NUL}"
  shows "call_connect env s m ch k =
    Some (Inr (KrpcChannel_newConnect (env_fd env) (env_connect env) ip (word_of_int port)
      (ch\<lparr>m_service_name := s, m_method_name := m, m_idx := int (length ip), m_ip := ip,
          m_port := word_of_int port\<rparr>) k))"
proof -
  obtain h b where st: "ZkClient_Start (env_config env) (env_init env) (env_events env) (env_connected env) =
      Some (Inr (h, b))"
    using env_starts_Start [OF assms(1)] by blast
  have q: "KrpcChannel_QueryServiceHost zk (env_stack env) (env_z env) s m (m_idx ch) =
      Inr (addr_text ip port, int (length ip))"
    by (rule Query_found [OF assms(3-9)])
  have ip: "substr (addr_text ip port) 0 (int (length ip)) = Inr ip"
    by (simp add: addr_text_def substr_prefix)
  have pt: "substr (addr_text ip port) (int (length ip) + 1)
      (int (length (addr_text ip port)) - int (length ip)) = Inr (show_int port)"
    using substr_from [of ip "CHR '':''" "show_int port"] by (simp add: addr_text_def)
  have c: "c_str_to_string ip = ip" "c_str_to_string (show_int port) = show_int port"
    using assms(7) by (simp_all add: addr_ok_def c_str_id show_int_free)
  show ?thesis
    by (simp add: call_connect_def st q assms(2) ip pt c atoi_show_int)
qed

end

text \<open>An empty lookup with an index left over from an earlier one is out of range for \<^verbatim>\<open>substr\<close>.\<close>

context zookeeper_store
begin

lemma call_connect_missing:
  assumes "env_starts env" "env_zk env = zk" "up (env_z env)"
    and "nodes (env_z env) (method_node s m) = None" "path_name s" "path_name m"
    and "0 < m_idx ch" "m_idx ch < 2 ^ 31"
  shows "call_connect env s m ch k = Some (Inl OutOfRange)"
proof -
  obtain h b where st: "ZkClient_Start (env_config env) (env_init env) (env_events env) (env_connected env) =
      Some (Inr (h, b))"
    using env_starts_Start [OF assms(1)] by blast
  have q: "KrpcChannel_QueryServiceHost zk (env_stack env) (env_z env) s m i = Inr ('' '', i)" for i
    by (rule Query_missing [OF assms(3-6)])
  have "substr '' '' (m_idx ch + 1) (1 - m_idx ch) = Inl OutOfRange"
    "\<exists>x. substr '' '' 0 (m_idx ch) = Inr x"
    using assms(7) by (simp_all add: substr_def size_of_int_def)
  then show ?thesis by (auto simp: call_connect_def st q assms(2))
qed

end

section \<open>The exchange, case by case\<close>

lemma request_header_fields [simp]:
  "hdr_service_name (request_header w ch a) = m_service_name ch"
  "hdr_method_name (request_header w ch a) = m_method_name ch"
  "hdr_args_size (request_header w ch a) = word_of_nat (length a)"
  "no_unknown_fields w (request_header w ch a)"
  by (simp_all add: request_header_def RpcHeader_SharedCtor_def no_unknown_fields_def)

lemma exchange_channel: "fst (snd (snd (call_exchange io w env request parse resp c ch k))) = ch"
  by (simp add: call_exchange_def Let_def split: option.split prod.split)

lemma exchange_fds:
  assumes "call_exchange io w env request parse resp c ch k = (resp', c', ch', k')"
  shows "open_fds k' = open_fds k \<or> open_fds k' = open_fds k - {m_clientfd ch}"
  using assms
  by (auto simp: call_exchange_def Let_def posix
      split: option.splits prod.splits if_splits io_result.splits sum.splits)

lemma exchange_success_closes:
  assumes "call_exchange io w env request parse resp c ch k = (resp', c', ch', k')"
    and "\<not> KrpcController_Failed c'"
  shows "open_fds k' = open_fds k - {m_clientfd ch}"
  using assms
  by (auto simp: call_exchange_def Let_def posix set_error_def KrpcController_defs
      split: option.splits prod.splits if_splits io_result.splits sum.splits)

text \<open>Bytes on the wire for a request, when the header is accepted.\<close>

definition call_bytes :: "('s, 'l) pb_io \<Rightarrow> 'u pb_wire \<Rightarrow> krpc_channel \<Rightarrow> string \<Rightarrow> string" where
  "call_bytes io w ch args = request_bytes io w (request_header w ch args) args"

definition header_fits :: "'u pb_wire \<Rightarrow> krpc_channel \<Rightarrow> string \<Rightarrow> bool" where
  "header_fits w ch args \<longleftrightarrow> SerializeAccepts w (RpcHeader_ByteSizeLong w (request_header w ch args))"

lemma header_fits_serialized:
  "header_fits w ch args \<Longrightarrow> RpcHeader_SerializeToString w (request_header w ch args) =
    Some (RpcHeader_InternalSerialize w (request_header w ch args))"
  by (simp add: header_fits_def RpcHeader_SerializeToString_def pb_SerializeToString_def)

lemma exchange_closed:
  assumes "header_fits w ch args" "\<not> is_open (m_clientfd ch) k"
  shows "call_exchange io w env (Some args) parse resp c ch k =
    (resp, KrpcController_SetFailed (c_str_to_string (env_errtxt env EBADF)) c, ch,
     k\<lparr>open_fds := open_fds k - {m_clientfd ch}, sys_errno := EBADF,
       sys_log := sys_log k @ [EvClose (m_clientfd ch) False]\<rparr>)"
  using assms(2)
  by (simp add: call_exchange_def header_fits_serialized [OF assms(1)] sys_send_def Let_def)
    (simp add: posix set_error_def)

lemma exchange_answered:
  assumes "header_fits w ch args" "is_open (m_clientfd ch) k"
    and "env_send env = IoN n" "env_recv env = Inr d"
  shows "call_exchange io w env (Some args) parse resp c ch k =
    (let (ok, resp') = parse (take 1024 d) resp;
         k' = k\<lparr>open_fds := open_fds k - {m_clientfd ch},
           sys_log := sys_log k @
             [EvSend (m_clientfd ch) (take n (call_bytes io w ch args)),
              EvRecv (m_clientfd ch) (take 1024 d), EvClose (m_clientfd ch) True]\<rparr>
     in (resp', if ok then c else set_error env c k', ch, k'))"
proof -
  let ?hs = "RpcHeader_InternalSerialize w (request_header w ch args)"
  let ?bytes = "(WriteVarint32 io (word_of_nat (length ?hs)) @ WriteString io ?hs) @ args"
  have b: "call_bytes io w ch args = ?bytes"
    by (simp add: call_bytes_def request_bytes_def Let_def)
  have "sys_send (env_send env) (m_clientfd ch) ?bytes k =
      (int (min n (length ?bytes)), log_event (EvSend (m_clientfd ch) (take n ?bytes)) k)"
    using assms(2,3) by (simp add: sys_send_def)
  moreover have "sys_recv (env_recv env) (m_clientfd ch) 1024
        (log_event (EvSend (m_clientfd ch) (take n ?bytes)) k) =
      (Some (take 1024 d), log_event (EvRecv (m_clientfd ch) (take 1024 d))
        (log_event (EvSend (m_clientfd ch) (take n ?bytes)) k))"
    using assms(2,4) by (simp add: sys_recv_def is_open_def log_event_def)
  ultimately show ?thesis
    using assms(2) unfolding b
    by (simp only: call_exchange_def option.case header_fits_serialized [OF assms(1)] Let_def prod.case)
      (simp add: posix split: prod.split)
qed

lemma call_fds:
  assumes "KrpcChannel_CallMethod io w env s m request parse resp c ch k = Some (Inr (resp', c', ch', k'))"
    and "m_clientfd ch = -1"
  shows "(m_clientfd ch' = -1 \<and> open_fds k' = open_fds k \<and> resp' = resp \<and> c' = c) \<or>
    (m_clientfd ch' \<notin> open_fds k \<and> 0 \<le> m_clientfd ch' \<and>
     (open_fds k' = open_fds k \<or>
      (open_fds k' = insert (m_clientfd ch') (open_fds k) \<and> KrpcController_Failed c')))"
proof -
  obtain rt ch1 k1 where con: "call_connect env s m ch k = Some (Inr (rt, ch1, k1))"
    and rest: "(resp', c', ch', k') =
      (if \<not> rt then (resp, c, ch1, k1) else call_exchange io w env request parse resp c ch1 k1)"
    using assms by (auto simp: KrpcChannel_CallMethod_def split: option.splits sum.splits if_splits)
  obtain ch0 ip port where new: "KrpcChannel_newConnect (env_fd env) (env_connect env) ip port ch0 k = (rt, ch1, k1)"
    and ch0: "m_clientfd ch0 = -1"
    using con assms(2)
    by (auto simp: call_connect_def Let_def res_bind_def split: option.splits sum.splits prod.splits)
  show ?thesis
  proof (cases rt)
    case False
    then show ?thesis using rest newConnect_result [OF new] ch0 by auto
  next
    case True
    have fresh: "m_clientfd ch1 \<notin> open_fds k" "0 \<le> m_clientfd ch1"
      "open_fds k1 = insert (m_clientfd ch1) (open_fds k)"
      using newConnect_result [OF new] True by auto
    have ex: "call_exchange io w env request parse resp c ch1 k1 = (resp', c', ch', k')"
      using rest True by simp
    have "ch' = ch1" using exchange_channel [of io w env request parse resp c ch1 k1] ex by simp
    then show ?thesis using fresh exchange_fds [OF ex] exchange_success_closes [OF ex] by auto
  qed
qed

text \<open>A call that succeeded leaves the channel with the number of a descriptor it has closed.\<close>

lemma call_success_closed:
  assumes "KrpcChannel_CallMethod io w env s m request parse resp c ch k = Some (Inr (resp', c', ch', k'))"
    and "m_clientfd ch = -1" "m_clientfd ch' \<noteq> -1" "\<not> KrpcController_Failed c'"
  shows "\<not> is_open (m_clientfd ch') k' \<and> m_service_name ch' = s \<and> m_method_name ch' = m"
proof -
  have "\<not> is_open (m_clientfd ch') k'"
    using call_fds [OF assms(1,2)] assms(3,4) by (auto simp: is_open_def)
  moreover obtain rt ch1 k1 where con: "call_connect env s m ch k = Some (Inr (rt, ch1, k1))"
    and rest: "(resp', c', ch', k') =
      (if \<not> rt then (resp, c, ch1, k1) else call_exchange io w env request parse resp c ch1 k1)"
    using assms(1,2) by (auto simp: KrpcChannel_CallMethod_def split: option.splits sum.splits if_splits)
  moreover have "ch' = ch1"
    using rest exchange_channel [of io w env request parse resp c ch1 k1] by (cases rt) (auto simp: prod_eq_iff)
  moreover have "m_service_name ch1 = s \<and> m_method_name ch1 = m"
    using con by (auto simp: call_connect_def KrpcChannel_newConnect_def Let_def res_bind_def
        split: option.splits sum.splits prod.splits if_splits)
  ultimately show ?thesis by simp
qed

section \<open>Properties\<close>

text \<open>C8: Descriptors of a call on a new channel: if it cannot connect, nothing stays open and the
  controller and the response are untouched, so the caller sees no failure; if it connects to a new
  descriptor, that descriptor is closed again, or it is leaked and the controller reports failure.\<close>

theorem call_descriptors:
  assumes "KrpcChannel_CallMethod io w env s m request parse resp c ch k = Some (Inr (resp', c', ch', k'))"
    and "m_clientfd ch = -1"
  shows "(m_clientfd ch' = -1 \<and> open_fds k' = open_fds k \<and> resp' = resp \<and> c' = c) \<or>
    (m_clientfd ch' \<notin> open_fds k \<and> 0 \<le> m_clientfd ch' \<and>
     (open_fds k' = open_fds k \<or>
      (open_fds k' = insert (m_clientfd ch') (open_fds k) \<and> KrpcController_Failed c')))"
  using call_fds [OF assms] .

definition example_kern :: kern where
  "example_kern = \<lparr>open_fds = {0, 1, 2}, sys_errno = EINTR, sys_log = []\<rparr>"

definition example_channel :: krpc_channel where
  "example_channel = fst (KrpcChannel_new 0 [] False example_kern)"

definition example_call_env :: "(string \<times> string \<times> bool) list \<Rightarrow> (zstore, unit) call_env" where
  "example_call_env nds =
     \<lparr>env_config = example_cfg, env_init = (\<lambda>_. Some ()), env_events = [(-1, 3)], env_connected = False,
      env_zk = zstore_api, env_z = \<lparr>znodes = nds, zup = True\<rparr>, env_stack = replicate 64 NUL,
      env_fd = 3, env_connect = None, env_send = IoN 100, env_recv = Inr ''abab'', env_errtxt = (\<lambda>_. [])\<rparr>"

definition example_nodes :: "(string \<times> string \<times> bool) list" where
  "example_nodes = [(''/S/Echo'', ''10.0.0.1:8000'', True), (''/S'', '''', False)]"

text \<open>The channel after the server refused the connection: the index of the address is left in it.\<close>

definition refused_channel :: krpc_channel where
  "refused_channel = example_channel\<lparr>m_service_name := ''S'', m_method_name := ''Echo'', m_idx := 8,
     m_ip := ''10.0.0.1'', m_port := 8000\<rparr>"

lemma port_8000: "show_int 8000 = ''8000''"
proof -
  have "digit_char 0 = CHR ''0''" "digit_char 8 = CHR ''8''" by code_simp+
  then show ?thesis by (simp add: show_int_def show_nat.simps)
qed

lemma example_connect:
  "call_connect (example_call_env example_nodes\<lparr>env_connect := err\<rparr>) ''S'' ''Echo'' example_channel k =
   Some (Inr (KrpcChannel_newConnect 3 err ''10.0.0.1'' 8000 refused_channel k))"
proof -
  have "addr_text ''10.0.0.1'' 8000 = ''10.0.0.1:8000''" by (simp add: addr_text_def port_8000)
  moreover have "zstore_nodes \<lparr>znodes = example_nodes, zup = True\<rparr> (method_node ''S'' ''Echo'') =
      Some (''10.0.0.1:8000'', True)"
    by (simp add: zstore_nodes_def example_nodes_def method_node_def)
  moreover have "path_name ''S''" "path_name ''Echo''" by (simp_all add: path_name_def)
  moreover have "env_starts (example_call_env example_nodes\<lparr>env_connect := err\<rparr>)"
    by (simp add: env_starts_def example_call_env_def)
  ultimately show ?thesis
    using zstore.call_connect_found [of "example_call_env example_nodes\<lparr>env_connect := err\<rparr>" "''S''" "''Echo''"
        "''10.0.0.1''" 8000 True example_channel k]
    by (simp add: addr_ok_def port_8000 example_call_env_def refused_channel_def)
qed

text \<open>A first call on a new channel that is answered, and one that is refused.\<close>

definition answered_channel :: krpc_channel where
  "answered_channel = refused_channel\<lparr>m_clientfd := 3\<rparr>"

definition string_parse :: "string \<Rightarrow> string \<Rightarrow> bool \<times> string" where
  "string_parse s m = (True, s)"

lemma example_header_fits:
  "m_service_name ch = ''S'' \<Longrightarrow> m_method_name ch = ''Echo'' \<Longrightarrow> header_fits std_wire ch ''ab''"
  by (simp add: header_fits_def RpcHeader_ByteSizeLong_def request_header_def RpcHeader_SharedCtor_def
      size_unknown_def std_wire_run varint.simps)

lemma answered_names: "m_service_name answered_channel = ''S''" "m_method_name answered_channel = ''Echo''"
    "m_clientfd answered_channel = 3"
  by (simp_all add: answered_channel_def refused_channel_def)

lemma answered_call:
  "KrpcChannel_CallMethod std_io std_wire (example_call_env example_nodes) ''S'' ''Echo'' (Some ''ab'')
     string_parse '''' KrpcController_new example_channel example_kern =
   Some (Inr (''abab'', KrpcController_new, answered_channel,
     example_kern\<lparr>sys_log := [EvSocket 3, EvConnect 3 ''10.0.0.1'' 8000,
       EvSend 3 (take 100 (call_bytes std_io std_wire answered_channel ''ab'')), EvRecv 3 ''abab'', EvClose 3 True]\<rparr>))"
proof -
  let ?env = "example_call_env example_nodes"
  have env: "?env\<lparr>env_connect := None\<rparr> = ?env" "env_send ?env = IoN 100" "env_recv ?env = Inr ''abab''"
    by (simp_all add: example_call_env_def)
  have fd: "m_clientfd example_channel = -1" by (simp add: example_channel_def KrpcChannel_new_def)
  have new: "KrpcChannel_newConnect 3 None ''10.0.0.1'' 8000 refused_channel example_kern =
      (True, answered_channel, example_kern\<lparr>open_fds := {3, 0, 1, 2},
        sys_log := [EvSocket 3, EvConnect 3 ''10.0.0.1'' 8000]\<rparr>)"
    by (simp add: newConnect_ok example_kern_def answered_channel_def)
  have con: "call_connect ?env ''S'' ''Echo'' example_channel example_kern = Some (Inr (True, answered_channel,
      example_kern\<lparr>open_fds := {3, 0, 1, 2}, sys_log := [EvSocket 3, EvConnect 3 ''10.0.0.1'' 8000]\<rparr>))"
    using example_connect [of None example_kern] env(1) new by simp
  show ?thesis
    using example_header_fits [OF answered_names(1,2)]
    by (simp add: KrpcChannel_CallMethod_def fd con env exchange_answered answered_names is_open_def
        string_parse_def) (simp add: example_kern_def)
qed

theorem call_descriptors_witness:
  "(3::int) \<notin> open_fds example_kern"
  using call_descriptors [OF answered_call]
  by (simp add: example_channel_def KrpcChannel_new_def answered_names)

text \<open>C29: A channel works for one call: after a call that succeeded the channel keeps the number of the
  descriptor it closed, so the next call, to whatever method, looks nothing up, connects to nothing
  and sends nothing: it fails with \<open>EBADF\<close> and leaves the response as it was.\<close>

theorem channel_works_once:
  assumes "KrpcChannel_CallMethod io w env s m request parse resp c ch k = Some (Inr (resp1, c1, ch1, k1))"
    and "m_clientfd ch = -1" "m_clientfd ch1 \<noteq> -1" "\<not> KrpcController_Failed c1"
    and "header_fits w ch1 args"
  shows "\<exists>k2. KrpcChannel_CallMethod io w env2 s2 m2 (Some args) parse2 resp2 c2 ch1 k1 =
      Some (Inr (resp2, KrpcController_SetFailed (c_str_to_string (env_errtxt env2 EBADF)) c2, ch1, k2)) \<and>
    open_fds k2 = open_fds k1 \<and> sys_log k2 = sys_log k1 @ [EvClose (m_clientfd ch1) False]"
proof -
  have closed: "\<not> is_open (m_clientfd ch1) k1" using call_success_closed [OF assms(1-4)] by simp
  have "open_fds k1 - {m_clientfd ch1} = open_fds k1"
    using call_fds [OF assms(1,2)] assms(3,4) by auto
  then show ?thesis
    using exchange_closed [OF assms(5) closed, of io env2 parse2 resp2 c2] assms(3)
    by (simp add: KrpcChannel_CallMethod_def)
qed

theorem channel_works_once_witness:
  "\<exists>c2 k2. KrpcChannel_CallMethod std_io std_wire (example_call_env example_nodes) ''S'' ''Echo'' (Some ''ab'')
     string_parse '''' KrpcController_new answered_channel
     (example_kern\<lparr>sys_log := [EvSocket 3, EvConnect 3 ''10.0.0.1'' 8000,
       EvSend 3 (take 100 (call_bytes std_io std_wire answered_channel ''ab'')), EvRecv 3 ''abab'', EvClose 3 True]\<rparr>) =
   Some (Inr ('''', c2, answered_channel, k2))"
  using channel_works_once [OF answered_call _ _ _ example_header_fits [OF answered_names(1,2)],
      of "example_call_env example_nodes" "''S''" "''Echo''" string_parse "''''" KrpcController_new]
  by (auto simp: example_channel_def KrpcChannel_new_def answered_names KrpcController_defs)

text \<open>If the number of the closed descriptor has been given out again in the meantime, the next call on
  the channel, whatever service and method it asks for, writes a request for the method of the
  first call to that foreign descriptor, takes what comes from it as the answer, and closes it.\<close>

theorem channel_hijacks_descriptor:
  assumes "KrpcChannel_CallMethod io w env s m request parse resp c ch k = Some (Inr (resp1, c1, ch1, k1))"
    and "m_clientfd ch = -1" "m_clientfd ch1 \<noteq> -1" "\<not> KrpcController_Failed c1"
    and "header_fits w ch1 args" "is_open (m_clientfd ch1) k2"
    and "env_send env2 = IoN n" "env_recv env2 = Inr d"
  shows "\<exists>resp' c' k' h. KrpcChannel_CallMethod io w env2 s2 m2 (Some args) parse2 resp2 c2 ch1 k2 =
      Some (Inr (resp', c', ch1, k')) \<and>
    hdr_service_name h = s \<and> hdr_method_name h = m \<and>
    sys_log k' = sys_log k2 @ [EvSend (m_clientfd ch1) (take n (request_bytes io w h args)),
      EvRecv (m_clientfd ch1) (take 1024 d), EvClose (m_clientfd ch1) True] \<and>
    open_fds k' = open_fds k2 - {m_clientfd ch1}"
proof -
  have names: "m_service_name ch1 = s" "m_method_name ch1 = m"
    using call_success_closed [OF assms(1-4)] by simp_all
  obtain ok r where p: "parse2 (take 1024 d) resp2 = (ok, r)" by fastforce
  define k' where "k' = k2\<lparr>open_fds := open_fds k2 - {m_clientfd ch1},
    sys_log := sys_log k2 @ [EvSend (m_clientfd ch1) (take n (call_bytes io w ch1 args)),
      EvRecv (m_clientfd ch1) (take 1024 d), EvClose (m_clientfd ch1) True]\<rparr>"
  have call: "KrpcChannel_CallMethod io w env2 s2 m2 (Some args) parse2 resp2 c2 ch1 k2 =
      Some (Inr (r, if ok then c2 else set_error env2 c2 k', ch1, k'))"
    using exchange_answered [OF assms(5-8), of io parse2 resp2 c2] assms(3) p
    by (simp add: KrpcChannel_CallMethod_def k'_def Let_def)
  show ?thesis
    by (intro exI [of _ r] exI [of _ "if ok then c2 else set_error env2 c2 k'"] exI [of _ k']
        exI [of _ "request_header w ch1 args"])
      (simp add: call names, simp add: k'_def call_bytes_def)
qed

theorem channel_hijacks_descriptor_witness:
  "\<exists>resp' c' k' h. KrpcChannel_CallMethod std_io std_wire (example_call_env []) ''T'' ''Other'' (Some ''ab'')
     string_parse '''' KrpcController_new answered_channel (example_kern\<lparr>open_fds := {3}\<rparr>) =
   Some (Inr (resp', c', answered_channel, k')) \<and> hdr_method_name h = ''Echo'' \<and>
   sys_log k' = [EvSend 3 (take 100 (request_bytes std_io std_wire (h :: string rpc_header) ''ab'')), EvRecv 3 ''abab'', EvClose 3 True]"
  using channel_hijacks_descriptor [OF answered_call _ _ _ example_header_fits [OF answered_names(1,2)],
      of "example_kern\<lparr>open_fds := {3}\<rparr>" "example_call_env []" 100 "''abab''" "''T''" "''Other''"
        string_parse "''''" KrpcController_new]
  by (auto simp: example_channel_def KrpcChannel_new_def answered_names KrpcController_defs is_open_def
      example_call_env_def example_kern_def)

text \<open>C32: A channel whose connection was refused keeps the position of the colon in the address it had
  found; if the service has left ZooKeeper by the next call, the lookup gives the one-blank text,
  \<open>substr\<close> from that position throws \<open>out_of_range\<close>, and nothing in the call catches it.\<close>

theorem refused_then_gone_throws:
  assumes "zookeeper_store zk nodes up"
    and "env_starts env" "env_zk env = zk" "up (env_z env)"
    and "nodes (env_z env) (method_node s m) = Some (addr_text ip port, e)"
    and "path_name s" "path_name m" "addr_ok ip port" "ip \<noteq> []"
    and "length (env_stack env) = 64" "set (env_stack env) \<subseteq> {NUL}"
    and "env_connect env = Some err" "m_clientfd ch = -1"
    and "env_starts env2" "env_zk env2 = zk" "up (env_z env2)" "nodes (env_z env2) (method_node s m) = None"
  shows "\<exists>ch1 k1. KrpcChannel_CallMethod io w env s m request parse resp c ch k = Some (Inr (resp, c, ch1, k1)) \<and>
    KrpcChannel_CallMethod io w env2 s m request2 parse2 resp2 c2 ch1 k2 = Some (Inl OutOfRange)"
proof -
  let ?ch = "ch\<lparr>m_service_name := s, m_method_name := m, m_idx := int (length ip), m_ip := ip,
    m_port := word_of_int port\<rparr>"
  obtain rt ch1 k1 where new: "KrpcChannel_newConnect (env_fd env) (Some err) ip (word_of_int port) ?ch k = (rt, ch1, k1)"
    by (metis prod_cases3)
  then have rt: "\<not> rt" by (auto simp: KrpcChannel_newConnect_def posix Let_def split: if_splits)
  then have ch1: "ch1 = ?ch" using newConnect_result [OF new] by simp
  have "call_connect env s m ch k = Some (Inr (rt, ch1, k1))"
    using zookeeper_store.call_connect_found [OF assms(1-8,10,11), of ch k] new assms(12) by simp
  then have 1: "KrpcChannel_CallMethod io w env s m request parse resp c ch k = Some (Inr (resp, c, ch1, k1))"
    using rt assms(13) by (simp add: KrpcChannel_CallMethod_def)
  have "length ip < 64" using assms(8) by (simp add: addr_ok_def addr_text_def)
  then have idx: "0 < m_idx ch1" "m_idx ch1 < 2 ^ 31" using assms(9) ch1 by simp_all
  have "call_connect env2 s m ch1 k2 = Some (Inl OutOfRange)"
    by (rule zookeeper_store.call_connect_missing [OF assms(1,14-17,6,7) idx])
  then have "KrpcChannel_CallMethod io w env2 s m request2 parse2 resp2 c2 ch1 k2 = Some (Inl OutOfRange)"
    using assms(13) ch1 by (simp add: KrpcChannel_CallMethod_def)
  with 1 show ?thesis by blast
qed

theorem refused_then_gone_throws_witness:
  "\<exists>ch1. KrpcChannel_CallMethod std_io std_wire (example_call_env []) ''S'' ''Echo'' (Some ''ab'')
     string_parse '''' KrpcController_new ch1 example_kern = Some (Inl OutOfRange)"
proof -
  have names: "path_name ''S''" "path_name ''Echo''" by (simp_all add: path_name_def)
  have addr: "addr_text ''10.0.0.1'' 8000 = ''10.0.0.1:8000''" by (simp add: addr_text_def port_8000)
  show ?thesis
    using refused_then_gone_throws [OF zstore.zookeeper_store_axioms, of
        "example_call_env example_nodes\<lparr>env_connect := Some EINTR\<rparr>" "''S''" "''Echo''" "''10.0.0.1''" 8000 True
        EINTR example_channel "example_call_env []" std_io std_wire "Some ''ab''" string_parse "''''"
        KrpcController_new example_kern "Some ''ab''" string_parse "''''" KrpcController_new example_kern]
      names addr
    by (auto simp: env_starts_def example_call_env_def addr_ok_def example_nodes_def method_node_def
        zstore_nodes_def example_channel_def KrpcChannel_new_def)
qed

text \<open>A connected channel makes one \<open>send\<close> and one \<open>recv\<close>: what a partial send leaves is never sent,
  and the response is parsed from at most the first 1024 bytes of the answer, or from no bytes at
  all when the server closed the connection, which a message of default values also parses from.\<close>

theorem one_send_one_receive:
  assumes "m_clientfd ch \<noteq> -1" "is_open (m_clientfd ch) k" "header_fits w ch args"
    and "env_send env = IoN n" "env_recv env = Inr d" "parse (take 1024 d) resp = (True, resp')"
  shows "\<exists>k'. KrpcChannel_CallMethod io w env s m (Some args) parse resp c ch k = Some (Inr (resp', c, ch, k')) \<and>
    sent_on (m_clientfd ch) (sys_log k') = sent_on (m_clientfd ch) (sys_log k) @ take n (call_bytes io w ch args) \<and>
    recvd_on (m_clientfd ch) (sys_log k') = recvd_on (m_clientfd ch) (sys_log k) @ take 1024 d \<and>
    open_fds k' = open_fds k - {m_clientfd ch}"
  using exchange_answered [OF assms(3,2,4,5), of io parse resp c] assms(1,6)
  by (simp add: KrpcChannel_CallMethod_def Let_def)

theorem one_send_one_receive_witness:
  "\<exists>k'. KrpcChannel_CallMethod std_io std_wire (example_call_env []\<lparr>env_send := IoN 1, env_recv := Inr ''''\<rparr>) ''S'' ''Echo''
      (Some ''ab'') string_parse ''old'' KrpcController_new answered_channel (example_kern\<lparr>open_fds := {3}\<rparr>) =
    Some (Inr ('''', KrpcController_new, answered_channel, k')) \<and>
    sent_on 3 (sys_log k') = take 1 (call_bytes std_io std_wire answered_channel ''ab'')"
  using one_send_one_receive [OF _ _ example_header_fits [OF answered_names(1,2)],
      of "example_kern\<lparr>open_fds := {3}\<rparr>" "example_call_env []\<lparr>env_send := IoN 1, env_recv := Inr ''''\<rparr>" 1 "''''"
        string_parse "''old''" "''''" std_io "''S''" "''Echo''" KrpcController_new]
  by (auto simp: answered_names is_open_def example_kern_def string_parse_def)

end
