(* ===== verification/Remote_Call.thy ===== *)
theory Remote_Call
  imports Krpc_Channel
begin

text \<open>
  One call of a client against a server that is registered and answers: the lemmas that put
  \<open>Krpc_Channel\<close>, \<open>Rpc_Header\<close> and \<open>Krpc_Provider\<close> together, for \<open>Spec2Isabelle\<close> and the example client.
\<close>

section \<open>A call that is answered\<close>

text \<open>The node of a method after registration is the address the client looks up.\<close>

lemma method_data_addr:
  "addr_ok ip port \<Longrightarrow> method_data ip port = Inr (addr_text ip port)"
  by (auto simp: method_data_def addr_ok_def addr_text_def c_str_id)

text \<open>What \<open>call_connect\<close> and the exchange do when everything answers.\<close>

lemma connected_call:
  assumes "call_connect env s m ch k = Some (Inr (KrpcChannel_newConnect (env_fd env) (env_connect env) ip port ch0 k))"
    and "m_clientfd ch = -1" "env_connect env = None" "0 \<le> env_fd env" "env_fd env \<notin> open_fds k"
    and "header_fits w ch0 args" "length (call_bytes io w ch0 args) \<le> n"
    and "env_send env = IoN n" "env_recv env = Inr reply" "length reply \<le> 1024"
    and "parse reply resp = (True, resp')"
  shows "\<exists>k'. KrpcChannel_CallMethod io w env s m (Some args) parse resp c ch k =
      Some (Inr (resp', c, ch0\<lparr>m_clientfd := env_fd env\<rparr>, k')) \<and> open_fds k' = open_fds k \<and>
    sys_log k' = sys_log k @ [EvSocket (env_fd env), EvConnect (env_fd env) ip port,
      EvSend (env_fd env) (call_bytes io w ch0 args), EvRecv (env_fd env) reply, EvClose (env_fd env) True]"
proof -
  let ?ch = "ch0\<lparr>m_clientfd := env_fd env\<rparr>"
  let ?k = "k\<lparr>open_fds := insert (env_fd env) (open_fds k),
    sys_log := sys_log k @ [EvSocket (env_fd env), EvConnect (env_fd env) ip port]\<rparr>"
  have con: "call_connect env s m ch k = Some (Inr (True, ?ch, ?k))"
    using assms(1) newConnect_ok [OF assms(4,5), of ip port ch0] assms(3) by simp
  have same: "request_header w ?ch args = request_header w ch0 args"
    by (simp add: request_header_def)
  then have fits: "header_fits w ?ch args" and bytes: "call_bytes io w ?ch args = call_bytes io w ch0 args"
    using assms(6) by (simp_all add: header_fits_def call_bytes_def)
  have "is_open (m_clientfd ?ch) ?k" using assms(4) by (simp add: is_open_def)
  then show ?thesis
    using exchange_answered [OF fits _ assms(8,9), of ?k io parse resp c] assms(2,4,5,7,10,11) bytes
    by (simp add: KrpcChannel_CallMethod_def con Let_def)
qed

lemma header_fits_small:
  assumes "wire_format w" "length (RpcHeader_InternalSerialize w (request_header w ch args)) < 2 ^ 31"
  shows "header_fits w ch args"
  using wire_format.accept_size [OF assms(1)] wire_format.header_size [OF assms(1)] assms(2)
  by (simp add: header_fits_def)

text \<open>What the client knows of a method that is registered, and a network that lets it connect.\<close>

definition network_up :: "('z, 'h) call_env \<Rightarrow> kern \<Rightarrow> bool" where
  "network_up env k \<longleftrightarrow> env_starts env \<and> length (env_stack env) = 64 \<and> set (env_stack env) \<subseteq> {NUL} \<and>
     env_connect env = None \<and> 0 \<le> env_fd env \<and> env_fd env \<notin> open_fds k"

definition call_header :: "'u pb_wire \<Rightarrow> string \<Rightarrow> string \<Rightarrow> string \<Rightarrow> 'u rpc_header" where
  "call_header w s m args = (RpcHeader_SharedCtor w)\<lparr>hdr_service_name := s,
     hdr_method_name := m, hdr_args_size := word_of_nat (length args)\<rparr>"

definition found_channel :: "string \<Rightarrow> string \<Rightarrow> string \<Rightarrow> int \<Rightarrow> krpc_channel \<Rightarrow> krpc_channel" where
  "found_channel s m ip port ch = ch\<lparr>m_service_name := s, m_method_name := m, m_idx := int (length ip),
     m_ip := ip, m_port := word_of_int port\<rparr>"

lemma found_channel_header: "request_header w (found_channel s m ip port ch) args = call_header w s m args"
  by (simp add: request_header_def found_channel_def call_header_def)

lemma served_call:
  assumes "wire_format w" "zookeeper_store zk nodes up"
    and "network_up env k" "env_zk env = zk" "up (env_z env)"
    and "nodes (env_z env) (method_node s m) = Some (addr_text ip port, e)"
    and "path_name s" "path_name m" "addr_ok ip port" "m_clientfd ch = -1"
    and "length (RpcHeader_InternalSerialize w (call_header w s m args)) < 2 ^ 31"
    and "env_send env = IoN n" "length (request_bytes io w (call_header w s m args) args) \<le> n"
    and "env_recv env = Inr reply" "length reply \<le> 1024" "parse reply resp = (True, resp')"
  shows "\<exists>k'. KrpcChannel_CallMethod io w env s m (Some args) parse resp c ch k =
      Some (Inr (resp', c, (found_channel s m ip port ch)\<lparr>m_clientfd := env_fd env\<rparr>, k')) \<and>
    open_fds k' = open_fds k \<and>
    sys_log k' = sys_log k @ [EvSocket (env_fd env), EvConnect (env_fd env) ip (word_of_int port),
      EvSend (env_fd env) (request_bytes io w (call_header w s m args) args),
      EvRecv (env_fd env) reply, EvClose (env_fd env) True]"
proof -
  let ?ch = "found_channel s m ip port ch"
  have net: "env_starts env" "length (env_stack env) = 64" "set (env_stack env) \<subseteq> {NUL}"
    "env_connect env = None" "0 \<le> env_fd env" "env_fd env \<notin> open_fds k"
    using assms(3) by (simp_all add: network_up_def)
  have con: "call_connect env s m ch k =
      Some (Inr (KrpcChannel_newConnect (env_fd env) (env_connect env) ip (word_of_int port) ?ch k))"
    unfolding found_channel_def
    by (rule zookeeper_store.call_connect_found [OF assms(2) net(1) assms(4-9) net(2,3)])
  have fits: "header_fits w ?ch args"
    using header_fits_small [OF assms(1), of ?ch args] assms(11) by (simp add: found_channel_header)
  have B: "call_bytes io w ?ch args = request_bytes io w (call_header w s m args) args"
    by (simp add: call_bytes_def found_channel_header)
  then have len: "length (call_bytes io w ?ch args) \<le> n" using assms(13) by simp
  show ?thesis
    using connected_call [where parse = parse and resp = resp and resp' = resp',
        OF con assms(10) net(4-6) fits len assms(12,14-16)]
    unfolding B .
qed

end
