(* ===== verification/User_Messages.thy ===== *)
theory User_Messages
  imports Pb_Messages
begin

text \<open>
  The messages of the user service as the code generated from \<^verbatim>\<open>src/example/user.proto\<close> handles them
  (\<^verbatim>\<open>src/example/user.pb.cc\<close>, and \<^verbatim>\<open>user.pb.h\<close> for the accessors of embedded messages): for each of
  the seven classes its fields, construction, clearing, the switch of its parser, the serializer,
  the size computation, merging, copying and swapping, and the proof that they meet
  \<open>generated_message\<close>.  An \<open>int32\<close> is its 32 bits; a pointer to an embedded message is an option.
\<close>

section \<open>ResultCode\<close>

record 'u ResultCode = "'u pb_message" +
  rc_errcode :: "32 word"
  rc_errmsg :: string

definition ResultCode_SharedCtor :: "'u pb_wire \<Rightarrow> 'u ResultCode" where
  "ResultCode_SharedCtor w =
     \<lparr>msg_unknown = EmptyUnknown w, rc_errcode = 0, rc_errmsg = []\<rparr>"

definition ResultCode_copy :: "'u pb_wire \<Rightarrow> 'u ResultCode \<Rightarrow> 'u ResultCode" where
  "ResultCode_copy w src =
     (let this = merge_unknown w src (ResultCode_SharedCtor w);
          this = (if rc_errmsg src \<noteq> [] then this\<lparr>rc_errmsg := rc_errmsg src\<rparr> else this)
      in this\<lparr>rc_errcode := rc_errcode src\<rparr>)"

definition ResultCode_Clear :: "'u pb_wire \<Rightarrow> 'u ResultCode \<Rightarrow> 'u ResultCode" where
  "ResultCode_Clear w this =
     this\<lparr>rc_errmsg := [], rc_errcode := 0, msg_unknown := EmptyUnknown w\<rparr>"

definition ResultCode_field :: "'u pb_wire \<Rightarrow> 'u ResultCode switch" where
  "ResultCode_field w tag ptr this =
     (if drop_bit 3 tag = 1 then
        (if (ucast tag :: 8 word) = 8
         then field_read (ReadVarint64 w ptr) (\<lambda>v. this\<lparr>rc_errcode := ucast v\<rparr>)
         else handle_unusual w tag ptr this)
      else if drop_bit 3 tag = 2 then
        (if (ucast tag :: 8 word) = 18
         then field_read (InlineGreedyStringParser w ptr) (\<lambda>str. this\<lparr>rc_errmsg := str\<rparr>)
         else handle_unusual w tag ptr this)
      else handle_unusual w tag ptr this)"

definition ResultCode_InternalParse :: "'u pb_wire \<Rightarrow> string \<Rightarrow> 'u ResultCode \<Rightarrow> 'u ResultCode parse_outcome option" where
  "ResultCode_InternalParse w = parse_loop w (ResultCode_field w)"

definition ResultCode_InternalSerialize :: "'u pb_wire \<Rightarrow> 'u ResultCode \<Rightarrow> string" where
  "ResultCode_InternalSerialize w this =
     (if rc_errcode this \<noteq> 0 then WriteInt32ToArray w 1 (rc_errcode this) else []) @
     (if 0 < length (rc_errmsg this) then WriteBytesMaybeAliased w 2 (rc_errmsg this) else []) @
     write_unknown w this"

definition ResultCode_ByteSizeLong :: "'u pb_wire \<Rightarrow> 'u ResultCode \<Rightarrow> nat" where
  "ResultCode_ByteSizeLong w this =
     (let total_size = 0;
          total_size = (if 0 < length (rc_errmsg this)
            then total_size + (1 + BytesSize w (rc_errmsg this)) else total_size);
          total_size = (if rc_errcode this \<noteq> 0
            then total_size + (1 + Int32Size w (rc_errcode this)) else total_size)
      in size_unknown w this total_size)"

definition ResultCode_MergeFrom :: "'u pb_wire \<Rightarrow> 'u ResultCode \<Rightarrow> 'u ResultCode \<Rightarrow> 'u ResultCode" where
  "ResultCode_MergeFrom w src this =
     (let this = merge_unknown w src this;
          this = (if 0 < length (rc_errmsg src)
            then this\<lparr>rc_errmsg := rc_errmsg src\<rparr> else this)
      in if rc_errcode src \<noteq> 0 then this\<lparr>rc_errcode := rc_errcode src\<rparr> else this)"

definition ResultCode_CopyFrom :: "'u pb_wire \<Rightarrow> bool \<Rightarrow> 'u ResultCode \<Rightarrow> 'u ResultCode \<Rightarrow> 'u ResultCode" where
  "ResultCode_CopyFrom w same src this =
     (if same then this else ResultCode_MergeFrom w src (ResultCode_Clear w this))"

definition ResultCode_InternalSwap :: "'u ResultCode \<Rightarrow> 'u ResultCode \<Rightarrow> 'u ResultCode \<times> 'u ResultCode" where
  "ResultCode_InternalSwap this other =
     (this\<lparr>msg_unknown := msg_unknown other, rc_errmsg := rc_errmsg other, rc_errcode := rc_errcode other\<rparr>,
      other\<lparr>msg_unknown := msg_unknown this, rc_errmsg := rc_errmsg this, rc_errcode := rc_errcode this\<rparr>)"

lemma result_code_fields:
  "ResultCode_field w (field_tag 1 0) p m =
   field_read (ReadVarint64 w p) (\<lambda>v. m\<lparr>rc_errcode := ucast v\<rparr>)"
  "ResultCode_field w (field_tag 2 2) p m =
   field_read (InlineGreedyStringParser w p) (\<lambda>v. m\<lparr>rc_errmsg := v\<rparr>)"
  by (simp_all add: ResultCode_field_def field_tag_def)

context message_format
begin

lemmas result_code_turns =
  parse_int32 [where field = "ResultCode_field w" and f = 1 and g = "\<lambda>m v. m\<lparr>rc_errcode := v\<rparr>",
    OF result_code_fields(1), simplified]
  parse_bytes [where field = "ResultCode_field w" and f = 2 and g = "\<lambda>m v. m\<lparr>rc_errmsg := v\<rparr>",
    OF result_code_fields(2), simplified]

lemma result_code_small:
  assumes "length (ResultCode_InternalSerialize w m) < n"
  shows "length (rc_errmsg m) < n"
  using assms bytes_small [of 2 "rc_errmsg m" n]
  by (auto simp: ResultCode_InternalSerialize_def split: if_splits)

lemma result_code_written:
  assumes "no_unknown_fields w m" "no_unknown_fields w m0" "length (ResultCode_InternalSerialize w m) < 2 ^ 31"
  shows "parse_loop w (ResultCode_field w) (ResultCode_InternalSerialize w m @ r) m0 =
    parse_loop w (ResultCode_field w) r (ResultCode_MergeFrom w m m0)"
proof -
  have u: "\<not> HaveUnknown w (msg_unknown m)" "msg_unknown m = EmptyUnknown w" "msg_unknown m0 = EmptyUnknown w"
    using assms no_unknown by (simp_all add: no_unknown_fields_def)
  show ?thesis
    unfolding ResultCode_InternalSerialize_def append_assoc
    using u result_code_small [OF assms(3)]
    by (cases m0) (simp add: result_code_turns ResultCode_MergeFrom_def Let_def merge_empty pb_message)
qed

end

sublocale message_format \<subseteq> result_code: generated_message w "ResultCode_field w" "ResultCode_Clear w"
    "ResultCode_InternalSerialize w" "ResultCode_ByteSizeLong w" "ResultCode_MergeFrom w" "no_unknown_fields w"
proof unfold_locales
  fix t p m m' p'
  show "ResultCode_field w t p m \<noteq> None"
    by (simp add: ResultCode_field_def turn_returns del: not_None_eq)
  show "ResultCode_field w t p m = Some (FieldOk m' p') \<Longrightarrow> length p' \<le> length p"
    by (auto simp: ResultCode_field_def field_read_ok split: if_splits
        dest: string_progress varint64_progress unusual_progress)
  show "ResultCode_MergeFrom w m (ResultCode_Clear w p) = m" for p
    by (cases m) (simp add: ResultCode_MergeFrom_def ResultCode_Clear_def merge_empty Let_def pb_message)
  show "ResultCode_ByteSizeLong w m = length (ResultCode_InternalSerialize w m)"
    by (simp add: ResultCode_ByteSizeLong_def ResultCode_InternalSerialize_def Let_def
        bytes_size int32_size unknown_size pb_message)
qed (simp_all add: result_code_written, simp_all add: ResultCode_Clear_def pb_message)

context message_format
begin

lemma result_code_returns: "ResultCode_InternalParse w p m \<noteq> None"
  unfolding ResultCode_InternalParse_def by (rule result_code.parse_returns)

lemma result_message_returns: "ParseMessage w (ResultCode_InternalParse w) sub p g = None \<longleftrightarrow> False"
  by (rule ParseMessage_returns, rule result_code_returns)

lemma result_code_merge_init: "ResultCode_MergeFrom w m (ResultCode_SharedCtor w) = m"
  using result_code.merge_clear [of m "ResultCode_SharedCtor w"]
  by (simp add: ResultCode_Clear_def ResultCode_SharedCtor_def)

end

section \<open>LoginRequest\<close>

record 'u LoginRequest = "'u pb_message" +
  lq_name :: string
  lq_pwd :: string

definition LoginRequest_SharedCtor :: "'u pb_wire \<Rightarrow> 'u LoginRequest" where
  "LoginRequest_SharedCtor w =
     \<lparr>msg_unknown = EmptyUnknown w, lq_name = [], lq_pwd = []\<rparr>"

definition LoginRequest_copy :: "'u pb_wire \<Rightarrow> 'u LoginRequest \<Rightarrow> 'u LoginRequest" where
  "LoginRequest_copy w src =
     (let this = merge_unknown w src (LoginRequest_SharedCtor w);
          this = (if lq_name src \<noteq> [] then this\<lparr>lq_name := lq_name src\<rparr> else this);
          this = (if lq_pwd src \<noteq> [] then this\<lparr>lq_pwd := lq_pwd src\<rparr> else this)
      in this)"

definition LoginRequest_Clear :: "'u pb_wire \<Rightarrow> 'u LoginRequest \<Rightarrow> 'u LoginRequest" where
  "LoginRequest_Clear w this =
     this\<lparr>lq_name := [], lq_pwd := [], msg_unknown := EmptyUnknown w\<rparr>"

definition LoginRequest_field :: "'u pb_wire \<Rightarrow> 'u LoginRequest switch" where
  "LoginRequest_field w tag ptr this =
     (if drop_bit 3 tag = 1 then
        (if (ucast tag :: 8 word) = 10
         then field_read (InlineGreedyStringParser w ptr) (\<lambda>str. this\<lparr>lq_name := str\<rparr>)
         else handle_unusual w tag ptr this)
      else if drop_bit 3 tag = 2 then
        (if (ucast tag :: 8 word) = 18
         then field_read (InlineGreedyStringParser w ptr) (\<lambda>str. this\<lparr>lq_pwd := str\<rparr>)
         else handle_unusual w tag ptr this)
      else handle_unusual w tag ptr this)"

definition LoginRequest_InternalParse :: "'u pb_wire \<Rightarrow> string \<Rightarrow> 'u LoginRequest \<Rightarrow> 'u LoginRequest parse_outcome option" where
  "LoginRequest_InternalParse w = parse_loop w (LoginRequest_field w)"

definition LoginRequest_InternalSerialize :: "'u pb_wire \<Rightarrow> 'u LoginRequest \<Rightarrow> string" where
  "LoginRequest_InternalSerialize w this =
     (if 0 < length (lq_name this) then WriteBytesMaybeAliased w 1 (lq_name this) else []) @
     (if 0 < length (lq_pwd this) then WriteBytesMaybeAliased w 2 (lq_pwd this) else []) @
     write_unknown w this"

definition LoginRequest_ByteSizeLong :: "'u pb_wire \<Rightarrow> 'u LoginRequest \<Rightarrow> nat" where
  "LoginRequest_ByteSizeLong w this =
     (let total_size = 0;
          total_size = (if 0 < length (lq_name this)
            then total_size + (1 + BytesSize w (lq_name this)) else total_size);
          total_size = (if 0 < length (lq_pwd this)
            then total_size + (1 + BytesSize w (lq_pwd this)) else total_size)
      in size_unknown w this total_size)"

definition LoginRequest_MergeFrom :: "'u pb_wire \<Rightarrow> 'u LoginRequest \<Rightarrow> 'u LoginRequest \<Rightarrow> 'u LoginRequest" where
  "LoginRequest_MergeFrom w src this =
     (let this = merge_unknown w src this;
          this = (if 0 < length (lq_name src)
            then this\<lparr>lq_name := lq_name src\<rparr> else this)
      in if 0 < length (lq_pwd src) then this\<lparr>lq_pwd := lq_pwd src\<rparr> else this)"

definition LoginRequest_CopyFrom :: "'u pb_wire \<Rightarrow> bool \<Rightarrow> 'u LoginRequest \<Rightarrow> 'u LoginRequest \<Rightarrow> 'u LoginRequest" where
  "LoginRequest_CopyFrom w same src this =
     (if same then this else LoginRequest_MergeFrom w src (LoginRequest_Clear w this))"

definition LoginRequest_InternalSwap :: "'u LoginRequest \<Rightarrow> 'u LoginRequest \<Rightarrow> 'u LoginRequest \<times> 'u LoginRequest" where
  "LoginRequest_InternalSwap this other =
     (this\<lparr>msg_unknown := msg_unknown other, lq_name := lq_name other, lq_pwd := lq_pwd other\<rparr>,
      other\<lparr>msg_unknown := msg_unknown this, lq_name := lq_name this, lq_pwd := lq_pwd this\<rparr>)"

lemma login_request_fields:
  "LoginRequest_field w (field_tag 1 2) p m =
   field_read (InlineGreedyStringParser w p) (\<lambda>v. m\<lparr>lq_name := v\<rparr>)"
  "LoginRequest_field w (field_tag 2 2) p m =
   field_read (InlineGreedyStringParser w p) (\<lambda>v. m\<lparr>lq_pwd := v\<rparr>)"
  by (simp_all add: LoginRequest_field_def field_tag_def)

context message_format
begin

lemmas login_request_turns =
  parse_bytes [where field = "LoginRequest_field w" and f = 1 and g = "\<lambda>m v. m\<lparr>lq_name := v\<rparr>",
    OF login_request_fields(1), simplified]
  parse_bytes [where field = "LoginRequest_field w" and f = 2 and g = "\<lambda>m v. m\<lparr>lq_pwd := v\<rparr>",
    OF login_request_fields(2), simplified]

lemma login_request_small:
  assumes "length (LoginRequest_InternalSerialize w m) < n"
  shows "length (lq_name m) < n" "length (lq_pwd m) < n"
  using assms bytes_small [of 1 "lq_name m" n] bytes_small [of 2 "lq_pwd m" n]
  by (auto simp: LoginRequest_InternalSerialize_def split: if_splits)

lemma login_request_written:
  assumes "no_unknown_fields w m" "no_unknown_fields w m0" "length (LoginRequest_InternalSerialize w m) < 2 ^ 31"
  shows "parse_loop w (LoginRequest_field w) (LoginRequest_InternalSerialize w m @ r) m0 =
    parse_loop w (LoginRequest_field w) r (LoginRequest_MergeFrom w m m0)"
proof -
  have u: "\<not> HaveUnknown w (msg_unknown m)" "msg_unknown m = EmptyUnknown w" "msg_unknown m0 = EmptyUnknown w"
    using assms no_unknown by (simp_all add: no_unknown_fields_def)
  show ?thesis
    unfolding LoginRequest_InternalSerialize_def append_assoc
    using u login_request_small [OF assms(3)]
    by (cases m0) (simp add: login_request_turns LoginRequest_MergeFrom_def Let_def merge_empty pb_message)
qed

end

sublocale message_format \<subseteq> login_request: generated_message w "LoginRequest_field w" "LoginRequest_Clear w"
    "LoginRequest_InternalSerialize w" "LoginRequest_ByteSizeLong w" "LoginRequest_MergeFrom w" "no_unknown_fields w"
proof unfold_locales
  fix t p m m' p'
  show "LoginRequest_field w t p m \<noteq> None"
    by (simp add: LoginRequest_field_def turn_returns del: not_None_eq)
  show "LoginRequest_field w t p m = Some (FieldOk m' p') \<Longrightarrow> length p' \<le> length p"
    by (auto simp: LoginRequest_field_def field_read_ok split: if_splits
        dest: string_progress unusual_progress)
  show "LoginRequest_MergeFrom w m (LoginRequest_Clear w p) = m" for p
    by (cases m) (simp add: LoginRequest_MergeFrom_def LoginRequest_Clear_def merge_empty Let_def pb_message)
  show "LoginRequest_ByteSizeLong w m = length (LoginRequest_InternalSerialize w m)"
    by (simp add: LoginRequest_ByteSizeLong_def LoginRequest_InternalSerialize_def Let_def
        bytes_size unknown_size pb_message)
qed (simp_all add: login_request_written, simp_all add: LoginRequest_Clear_def pb_message)

section \<open>LoginResponse\<close>

record 'u LoginResponse = "'u pb_message" +
  lr_result :: "'u ResultCode option"
  lr_success :: bool

definition LoginResponse_SharedCtor :: "'u pb_wire \<Rightarrow> 'u LoginResponse" where
  "LoginResponse_SharedCtor w =
     \<lparr>msg_unknown = EmptyUnknown w, lr_result = None, lr_success = False\<rparr>"

definition LoginResponse_copy :: "'u pb_wire \<Rightarrow> 'u LoginResponse \<Rightarrow> 'u LoginResponse" where
  "LoginResponse_copy w src =
     (let this = merge_unknown w src (LoginResponse_SharedCtor w);
          this = this\<lparr>lr_result := map_option (ResultCode_copy w) (lr_result src)\<rparr>
      in this\<lparr>lr_success := lr_success src\<rparr>)"

definition LoginResponse_Clear :: "'u pb_wire \<Rightarrow> 'u LoginResponse \<Rightarrow> 'u LoginResponse" where
  "LoginResponse_Clear w this =
     this\<lparr>lr_result := None, lr_success := False, msg_unknown := EmptyUnknown w\<rparr>"

definition LoginResponse_has_result :: "'u LoginResponse \<Rightarrow> bool" where
  \<comment> \<open>of a message that is not the default instance\<close>
  "LoginResponse_has_result this \<longleftrightarrow> lr_result this \<noteq> None"

definition LoginResponse_result :: "'u pb_wire \<Rightarrow> 'u LoginResponse \<Rightarrow> 'u ResultCode" where
  "LoginResponse_result w this =
     (case lr_result this of None \<Rightarrow> ResultCode_SharedCtor w | Some p \<Rightarrow> p)"

text \<open>Writing through the pointer that \<open>mutable_result\<close> returns.\<close>

definition LoginResponse_mutable_result ::
    "'u pb_wire \<Rightarrow> ('u ResultCode \<Rightarrow> 'u ResultCode) \<Rightarrow> 'u LoginResponse \<Rightarrow> 'u LoginResponse" where
  "LoginResponse_mutable_result w write this =
     (let p = (case lr_result this of None \<Rightarrow> ResultCode_SharedCtor w | Some p \<Rightarrow> p)
      in this\<lparr>lr_result := Some (write p)\<rparr>)"

definition LoginResponse_field :: "'u pb_wire \<Rightarrow> 'u LoginResponse switch" where
  "LoginResponse_field w tag ptr this =
     (if drop_bit 3 tag = 1 then
        (if (ucast tag :: 8 word) = 10
         then ParseMessage w (ResultCode_InternalParse w) (LoginResponse_result w this) ptr
               (\<lambda>p. LoginResponse_mutable_result w (\<lambda>_. p) this)
         else handle_unusual w tag ptr this)
      else if drop_bit 3 tag = 2 then
        (if (ucast tag :: 8 word) = 16
         then field_read (ReadVarint64 w ptr) (\<lambda>v. this\<lparr>lr_success := v \<noteq> 0\<rparr>)
         else handle_unusual w tag ptr this)
      else handle_unusual w tag ptr this)"

definition LoginResponse_InternalParse :: "'u pb_wire \<Rightarrow> string \<Rightarrow> 'u LoginResponse \<Rightarrow> 'u LoginResponse parse_outcome option" where
  "LoginResponse_InternalParse w = parse_loop w (LoginResponse_field w)"

definition LoginResponse_InternalSerialize :: "'u pb_wire \<Rightarrow> 'u LoginResponse \<Rightarrow> string" where
  "LoginResponse_InternalSerialize w this =
     (if LoginResponse_has_result this
      then InternalWriteMessage w 1 (ResultCode_ByteSizeLong w (LoginResponse_result w this))
        (ResultCode_InternalSerialize w (LoginResponse_result w this))
      else []) @
     (if lr_success this then WriteBoolToArray w 2 (lr_success this) else []) @
     write_unknown w this"

definition LoginResponse_ByteSizeLong :: "'u pb_wire \<Rightarrow> 'u LoginResponse \<Rightarrow> nat" where
  "LoginResponse_ByteSizeLong w this =
     (let total_size = 0;
          total_size = (if LoginResponse_has_result this
            then total_size + (1 + MessageSize w (ResultCode_ByteSizeLong w (LoginResponse_result w this))) else total_size);
          total_size = (if lr_success this
            then total_size + (1 + 1) else total_size)
      in size_unknown w this total_size)"

definition LoginResponse_MergeFrom :: "'u pb_wire \<Rightarrow> 'u LoginResponse \<Rightarrow> 'u LoginResponse \<Rightarrow> 'u LoginResponse" where
  "LoginResponse_MergeFrom w src this =
     (let this = merge_unknown w src this;
          this = (if LoginResponse_has_result src
            then LoginResponse_mutable_result w (ResultCode_MergeFrom w (LoginResponse_result w src)) this else this)
      in if lr_success src then this\<lparr>lr_success := lr_success src\<rparr> else this)"

definition LoginResponse_CopyFrom :: "'u pb_wire \<Rightarrow> bool \<Rightarrow> 'u LoginResponse \<Rightarrow> 'u LoginResponse \<Rightarrow> 'u LoginResponse" where
  "LoginResponse_CopyFrom w same src this =
     (if same then this else LoginResponse_MergeFrom w src (LoginResponse_Clear w this))"

definition LoginResponse_InternalSwap :: "'u LoginResponse \<Rightarrow> 'u LoginResponse \<Rightarrow> 'u LoginResponse \<times> 'u LoginResponse" where
  "LoginResponse_InternalSwap this other =
     (this\<lparr>msg_unknown := msg_unknown other, lr_result := lr_result other, lr_success := lr_success other\<rparr>,
      other\<lparr>msg_unknown := msg_unknown this, lr_result := lr_result this, lr_success := lr_success this\<rparr>)"

definition LoginResponse_known :: "'u pb_wire \<Rightarrow> 'u LoginResponse \<Rightarrow> bool" where
  "LoginResponse_known w m \<longleftrightarrow> no_unknown_fields w m \<and>
     (case lr_result m of None \<Rightarrow> True | Some p \<Rightarrow> no_unknown_fields w p)"

lemma login_response_fields:
  "LoginResponse_field w (field_tag 1 2) p m =
   ParseMessage w (ResultCode_InternalParse w) (LoginResponse_result w m) p
     (\<lambda>v. LoginResponse_mutable_result w (\<lambda>_. v) m)"
  "LoginResponse_field w (field_tag 2 0) p m =
   field_read (ReadVarint64 w p) (\<lambda>v. m\<lparr>lr_success := v \<noteq> 0\<rparr>)"
  by (simp_all add: LoginResponse_field_def field_tag_def)

context message_format
begin

lemmas login_response_turns =
  parse_bool [where field = "LoginResponse_field w" and f = 2 and g = "\<lambda>m v. m\<lparr>lr_success := v\<rparr>",
    OF login_response_fields(2), simplified]

lemma login_response_result_turn:
  assumes "LoginResponse_known w m" "LoginResponse_known w m0" "length (LoginResponse_InternalSerialize w m) < 2 ^ 31"
  shows "parse_loop w (LoginResponse_field w) ((if LoginResponse_has_result m
      then InternalWriteMessage w 1 (ResultCode_ByteSizeLong w (LoginResponse_result w m))
        (ResultCode_InternalSerialize w (LoginResponse_result w m)) else []) @ r) m0 =
    parse_loop w (LoginResponse_field w) r (if LoginResponse_has_result m
      then LoginResponse_mutable_result w (ResultCode_MergeFrom w (LoginResponse_result w m)) m0 else m0)"
proof (cases "lr_result m")
  case None
  then show ?thesis by (simp add: LoginResponse_has_result_def)
next
  case (Some res)
  let ?b = "ResultCode_InternalSerialize w res"
  have size: "ResultCode_ByteSizeLong w res = length ?b" by (rule result_code.size_written)
  have "length (InternalWriteMessage w 1 (length ?b) ?b) < 2 ^ 31"
    using assms(3) Some size by (simp add: LoginResponse_InternalSerialize_def LoginResponse_has_result_def LoginResponse_result_def)
  then have small: "length ?b < 2 ^ 31" by (rule message_small [rotated 2]) simp_all
  have known: "no_unknown_fields w res" "no_unknown_fields w (LoginResponse_result w m0)"
    using assms(1,2) Some result_code.clear_known [of "ResultCode_SharedCtor w"]
    by (auto simp: LoginResponse_known_def LoginResponse_result_def pb_message ResultCode_SharedCtor_def split: option.splits)
  have "ResultCode_InternalParse w ?b (LoginResponse_result w m0) =
      Some (Parsed (ResultCode_MergeFrom w res (LoginResponse_result w m0)) None)"
    using result_code.parse_written [OF known small, of "[]"] by (simp add: ResultCode_InternalParse_def)
  then show ?thesis
    using parse_message [where field = "LoginResponse_field w" and f = 1 and m = m0 and b = ?b,
      OF login_response_fields(1) _ _ small] Some size
    by (simp add: LoginResponse_has_result_def LoginResponse_result_def LoginResponse_mutable_result_def Let_def)
qed

lemma login_response_written:
  assumes "LoginResponse_known w m" "LoginResponse_known w m0" "length (LoginResponse_InternalSerialize w m) < 2 ^ 31"
  shows "parse_loop w (LoginResponse_field w) (LoginResponse_InternalSerialize w m @ r) m0 =
    parse_loop w (LoginResponse_field w) r (LoginResponse_MergeFrom w m m0)"
proof -
  have u: "\<not> HaveUnknown w (msg_unknown m)" "msg_unknown m = EmptyUnknown w" "msg_unknown m0 = EmptyUnknown w"
    using assms no_unknown by (simp_all add: LoginResponse_known_def no_unknown_fields_def)
  have merge: "merge_unknown w m m0 = m0"
    using u by (cases m0) (simp add: merge_unknown_def merge_empty)
  show ?thesis
    using login_response_result_turn [OF assms] u(1)
    by (subst LoginResponse_InternalSerialize_def)
      (simp add: login_response_turns LoginResponse_MergeFrom_def Let_def merge write_unknown_def)
qed

end

sublocale message_format \<subseteq> login_response: generated_message w "LoginResponse_field w" "LoginResponse_Clear w"
    "LoginResponse_InternalSerialize w" "LoginResponse_ByteSizeLong w" "LoginResponse_MergeFrom w" "LoginResponse_known w"
proof unfold_locales
  fix t p m m' p'
  show "LoginResponse_field w t p m \<noteq> None"
    by (simp add: LoginResponse_field_def turn_returns result_message_returns del: not_None_eq)
  show "LoginResponse_field w t p m = Some (FieldOk m' p') \<Longrightarrow> length p' \<le> length p"
    by (auto simp: LoginResponse_field_def field_read_ok split: if_splits
        dest: varint64_progress ParseMessage_progress unusual_progress)
  show "LoginResponse_MergeFrom w m (LoginResponse_Clear w p) = m" for p
    by (cases m) (auto simp: LoginResponse_MergeFrom_def LoginResponse_Clear_def LoginResponse_has_result_def LoginResponse_result_def
      LoginResponse_mutable_result_def result_code_merge_init merge_empty Let_def pb_message split: option.split)
  show "LoginResponse_ByteSizeLong w m = length (LoginResponse_InternalSerialize w m)"
    by (simp add: LoginResponse_ByteSizeLong_def LoginResponse_InternalSerialize_def Let_def
        result_code.size_written message_size bool_size int32_size unknown_size pb_message)
qed (simp_all add: login_response_written, simp_all add: LoginResponse_known_def LoginResponse_Clear_def pb_message)

section \<open>RegisterRequest\<close>

record 'u RegisterRequest = "'u pb_message" +
  rq_id :: "32 word"
  rq_name :: string
  rq_pwd :: string

definition RegisterRequest_SharedCtor :: "'u pb_wire \<Rightarrow> 'u RegisterRequest" where
  "RegisterRequest_SharedCtor w =
     \<lparr>msg_unknown = EmptyUnknown w, rq_id = 0, rq_name = [], rq_pwd = []\<rparr>"

definition RegisterRequest_copy :: "'u pb_wire \<Rightarrow> 'u RegisterRequest \<Rightarrow> 'u RegisterRequest" where
  "RegisterRequest_copy w src =
     (let this = merge_unknown w src (RegisterRequest_SharedCtor w);
          this = (if rq_name src \<noteq> [] then this\<lparr>rq_name := rq_name src\<rparr> else this);
          this = (if rq_pwd src \<noteq> [] then this\<lparr>rq_pwd := rq_pwd src\<rparr> else this)
      in this\<lparr>rq_id := rq_id src\<rparr>)"

definition RegisterRequest_Clear :: "'u pb_wire \<Rightarrow> 'u RegisterRequest \<Rightarrow> 'u RegisterRequest" where
  "RegisterRequest_Clear w this =
     this\<lparr>rq_name := [], rq_pwd := [], rq_id := 0, msg_unknown := EmptyUnknown w\<rparr>"

definition RegisterRequest_field :: "'u pb_wire \<Rightarrow> 'u RegisterRequest switch" where
  "RegisterRequest_field w tag ptr this =
     (if drop_bit 3 tag = 1 then
        (if (ucast tag :: 8 word) = 8
         then field_read (WireReadVarint32 w ptr) (\<lambda>v. this\<lparr>rq_id := v\<rparr>)
         else handle_unusual w tag ptr this)
      else if drop_bit 3 tag = 2 then
        (if (ucast tag :: 8 word) = 18
         then field_read (InlineGreedyStringParser w ptr) (\<lambda>str. this\<lparr>rq_name := str\<rparr>)
         else handle_unusual w tag ptr this)
      else if drop_bit 3 tag = 3 then
        (if (ucast tag :: 8 word) = 26
         then field_read (InlineGreedyStringParser w ptr) (\<lambda>str. this\<lparr>rq_pwd := str\<rparr>)
         else handle_unusual w tag ptr this)
      else handle_unusual w tag ptr this)"

definition RegisterRequest_InternalParse :: "'u pb_wire \<Rightarrow> string \<Rightarrow> 'u RegisterRequest \<Rightarrow> 'u RegisterRequest parse_outcome option" where
  "RegisterRequest_InternalParse w = parse_loop w (RegisterRequest_field w)"

definition RegisterRequest_InternalSerialize :: "'u pb_wire \<Rightarrow> 'u RegisterRequest \<Rightarrow> string" where
  "RegisterRequest_InternalSerialize w this =
     (if rq_id this \<noteq> 0 then WriteUInt32ToArray w 1 (rq_id this) else []) @
     (if 0 < length (rq_name this) then WriteBytesMaybeAliased w 2 (rq_name this) else []) @
     (if 0 < length (rq_pwd this) then WriteBytesMaybeAliased w 3 (rq_pwd this) else []) @
     write_unknown w this"

definition RegisterRequest_ByteSizeLong :: "'u pb_wire \<Rightarrow> 'u RegisterRequest \<Rightarrow> nat" where
  "RegisterRequest_ByteSizeLong w this =
     (let total_size = 0;
          total_size = (if 0 < length (rq_name this)
            then total_size + (1 + BytesSize w (rq_name this)) else total_size);
          total_size = (if 0 < length (rq_pwd this)
            then total_size + (1 + BytesSize w (rq_pwd this)) else total_size);
          total_size = (if rq_id this \<noteq> 0
            then total_size + (1 + UInt32Size w (rq_id this)) else total_size)
      in size_unknown w this total_size)"

definition RegisterRequest_MergeFrom :: "'u pb_wire \<Rightarrow> 'u RegisterRequest \<Rightarrow> 'u RegisterRequest \<Rightarrow> 'u RegisterRequest" where
  "RegisterRequest_MergeFrom w src this =
     (let this = merge_unknown w src this;
          this = (if 0 < length (rq_name src)
            then this\<lparr>rq_name := rq_name src\<rparr> else this);
          this = (if 0 < length (rq_pwd src)
            then this\<lparr>rq_pwd := rq_pwd src\<rparr> else this)
      in if rq_id src \<noteq> 0 then this\<lparr>rq_id := rq_id src\<rparr> else this)"

definition RegisterRequest_CopyFrom :: "'u pb_wire \<Rightarrow> bool \<Rightarrow> 'u RegisterRequest \<Rightarrow> 'u RegisterRequest \<Rightarrow> 'u RegisterRequest" where
  "RegisterRequest_CopyFrom w same src this =
     (if same then this else RegisterRequest_MergeFrom w src (RegisterRequest_Clear w this))"

definition RegisterRequest_InternalSwap :: "'u RegisterRequest \<Rightarrow> 'u RegisterRequest \<Rightarrow> 'u RegisterRequest \<times> 'u RegisterRequest" where
  "RegisterRequest_InternalSwap this other =
     (this\<lparr>msg_unknown := msg_unknown other, rq_name := rq_name other, rq_pwd := rq_pwd other, rq_id := rq_id other\<rparr>,
      other\<lparr>msg_unknown := msg_unknown this, rq_name := rq_name this, rq_pwd := rq_pwd this, rq_id := rq_id this\<rparr>)"

lemma register_request_fields:
  "RegisterRequest_field w (field_tag 1 0) p m =
   field_read (WireReadVarint32 w p) (\<lambda>v. m\<lparr>rq_id := v\<rparr>)"
  "RegisterRequest_field w (field_tag 2 2) p m =
   field_read (InlineGreedyStringParser w p) (\<lambda>v. m\<lparr>rq_name := v\<rparr>)"
  "RegisterRequest_field w (field_tag 3 2) p m =
   field_read (InlineGreedyStringParser w p) (\<lambda>v. m\<lparr>rq_pwd := v\<rparr>)"
  by (simp_all add: RegisterRequest_field_def field_tag_def)

context message_format
begin

lemmas register_request_turns =
  parse_uint32 [where field = "RegisterRequest_field w" and f = 1 and g = "\<lambda>m v. m\<lparr>rq_id := v\<rparr>",
    OF register_request_fields(1), simplified]
  parse_bytes [where field = "RegisterRequest_field w" and f = 2 and g = "\<lambda>m v. m\<lparr>rq_name := v\<rparr>",
    OF register_request_fields(2), simplified]
  parse_bytes [where field = "RegisterRequest_field w" and f = 3 and g = "\<lambda>m v. m\<lparr>rq_pwd := v\<rparr>",
    OF register_request_fields(3), simplified]

lemma register_request_small:
  assumes "length (RegisterRequest_InternalSerialize w m) < n"
  shows "length (rq_name m) < n" "length (rq_pwd m) < n"
  using assms bytes_small [of 2 "rq_name m" n] bytes_small [of 3 "rq_pwd m" n]
  by (auto simp: RegisterRequest_InternalSerialize_def split: if_splits)

lemma register_request_written:
  assumes "no_unknown_fields w m" "no_unknown_fields w m0" "length (RegisterRequest_InternalSerialize w m) < 2 ^ 31"
  shows "parse_loop w (RegisterRequest_field w) (RegisterRequest_InternalSerialize w m @ r) m0 =
    parse_loop w (RegisterRequest_field w) r (RegisterRequest_MergeFrom w m m0)"
proof -
  have u: "\<not> HaveUnknown w (msg_unknown m)" "msg_unknown m = EmptyUnknown w" "msg_unknown m0 = EmptyUnknown w"
    using assms no_unknown by (simp_all add: no_unknown_fields_def)
  show ?thesis
    unfolding RegisterRequest_InternalSerialize_def append_assoc
    using u register_request_small [OF assms(3)]
    by (cases m0) (simp add: register_request_turns RegisterRequest_MergeFrom_def Let_def merge_empty pb_message)
qed

end

sublocale message_format \<subseteq> register_request: generated_message w "RegisterRequest_field w" "RegisterRequest_Clear w"
    "RegisterRequest_InternalSerialize w" "RegisterRequest_ByteSizeLong w" "RegisterRequest_MergeFrom w" "no_unknown_fields w"
proof unfold_locales
  fix t p m m' p'
  show "RegisterRequest_field w t p m \<noteq> None"
    by (simp add: RegisterRequest_field_def turn_returns del: not_None_eq)
  show "RegisterRequest_field w t p m = Some (FieldOk m' p') \<Longrightarrow> length p' \<le> length p"
    by (auto simp: RegisterRequest_field_def field_read_ok split: if_splits
        dest: string_progress varint_progress unusual_progress)
  show "RegisterRequest_MergeFrom w m (RegisterRequest_Clear w p) = m" for p
    by (cases m) (simp add: RegisterRequest_MergeFrom_def RegisterRequest_Clear_def merge_empty Let_def pb_message)
  show "RegisterRequest_ByteSizeLong w m = length (RegisterRequest_InternalSerialize w m)"
    by (simp add: RegisterRequest_ByteSizeLong_def RegisterRequest_InternalSerialize_def Let_def
        bytes_size uint32_size unknown_size pb_message)
qed (simp_all add: register_request_written, simp_all add: RegisterRequest_Clear_def pb_message)

section \<open>RegisterResponse\<close>

record 'u RegisterResponse = "'u pb_message" +
  rr_result :: "'u ResultCode option"
  rr_success :: bool

definition RegisterResponse_SharedCtor :: "'u pb_wire \<Rightarrow> 'u RegisterResponse" where
  "RegisterResponse_SharedCtor w =
     \<lparr>msg_unknown = EmptyUnknown w, rr_result = None, rr_success = False\<rparr>"

definition RegisterResponse_copy :: "'u pb_wire \<Rightarrow> 'u RegisterResponse \<Rightarrow> 'u RegisterResponse" where
  "RegisterResponse_copy w src =
     (let this = merge_unknown w src (RegisterResponse_SharedCtor w);
          this = this\<lparr>rr_result := map_option (ResultCode_copy w) (rr_result src)\<rparr>
      in this\<lparr>rr_success := rr_success src\<rparr>)"

definition RegisterResponse_Clear :: "'u pb_wire \<Rightarrow> 'u RegisterResponse \<Rightarrow> 'u RegisterResponse" where
  "RegisterResponse_Clear w this =
     this\<lparr>rr_result := None, rr_success := False, msg_unknown := EmptyUnknown w\<rparr>"

definition RegisterResponse_has_result :: "'u RegisterResponse \<Rightarrow> bool" where
  \<comment> \<open>of a message that is not the default instance\<close>
  "RegisterResponse_has_result this \<longleftrightarrow> rr_result this \<noteq> None"

definition RegisterResponse_result :: "'u pb_wire \<Rightarrow> 'u RegisterResponse \<Rightarrow> 'u ResultCode" where
  "RegisterResponse_result w this =
     (case rr_result this of None \<Rightarrow> ResultCode_SharedCtor w | Some p \<Rightarrow> p)"

text \<open>Writing through the pointer that \<open>mutable_result\<close> returns.\<close>

definition RegisterResponse_mutable_result ::
    "'u pb_wire \<Rightarrow> ('u ResultCode \<Rightarrow> 'u ResultCode) \<Rightarrow> 'u RegisterResponse \<Rightarrow> 'u RegisterResponse" where
  "RegisterResponse_mutable_result w write this =
     (let p = (case rr_result this of None \<Rightarrow> ResultCode_SharedCtor w | Some p \<Rightarrow> p)
      in this\<lparr>rr_result := Some (write p)\<rparr>)"

definition RegisterResponse_field :: "'u pb_wire \<Rightarrow> 'u RegisterResponse switch" where
  "RegisterResponse_field w tag ptr this =
     (if drop_bit 3 tag = 1 then
        (if (ucast tag :: 8 word) = 10
         then ParseMessage w (ResultCode_InternalParse w) (RegisterResponse_result w this) ptr
               (\<lambda>p. RegisterResponse_mutable_result w (\<lambda>_. p) this)
         else handle_unusual w tag ptr this)
      else if drop_bit 3 tag = 2 then
        (if (ucast tag :: 8 word) = 16
         then field_read (ReadVarint64 w ptr) (\<lambda>v. this\<lparr>rr_success := v \<noteq> 0\<rparr>)
         else handle_unusual w tag ptr this)
      else handle_unusual w tag ptr this)"

definition RegisterResponse_InternalParse :: "'u pb_wire \<Rightarrow> string \<Rightarrow> 'u RegisterResponse \<Rightarrow> 'u RegisterResponse parse_outcome option" where
  "RegisterResponse_InternalParse w = parse_loop w (RegisterResponse_field w)"

definition RegisterResponse_InternalSerialize :: "'u pb_wire \<Rightarrow> 'u RegisterResponse \<Rightarrow> string" where
  "RegisterResponse_InternalSerialize w this =
     (if RegisterResponse_has_result this
      then InternalWriteMessage w 1 (ResultCode_ByteSizeLong w (RegisterResponse_result w this))
        (ResultCode_InternalSerialize w (RegisterResponse_result w this))
      else []) @
     (if rr_success this then WriteBoolToArray w 2 (rr_success this) else []) @
     write_unknown w this"

definition RegisterResponse_ByteSizeLong :: "'u pb_wire \<Rightarrow> 'u RegisterResponse \<Rightarrow> nat" where
  "RegisterResponse_ByteSizeLong w this =
     (let total_size = 0;
          total_size = (if RegisterResponse_has_result this
            then total_size + (1 + MessageSize w (ResultCode_ByteSizeLong w (RegisterResponse_result w this))) else total_size);
          total_size = (if rr_success this
            then total_size + (1 + 1) else total_size)
      in size_unknown w this total_size)"

definition RegisterResponse_MergeFrom :: "'u pb_wire \<Rightarrow> 'u RegisterResponse \<Rightarrow> 'u RegisterResponse \<Rightarrow> 'u RegisterResponse" where
  "RegisterResponse_MergeFrom w src this =
     (let this = merge_unknown w src this;
          this = (if RegisterResponse_has_result src
            then RegisterResponse_mutable_result w (ResultCode_MergeFrom w (RegisterResponse_result w src)) this else this)
      in if rr_success src then this\<lparr>rr_success := rr_success src\<rparr> else this)"

definition RegisterResponse_CopyFrom :: "'u pb_wire \<Rightarrow> bool \<Rightarrow> 'u RegisterResponse \<Rightarrow> 'u RegisterResponse \<Rightarrow> 'u RegisterResponse" where
  "RegisterResponse_CopyFrom w same src this =
     (if same then this else RegisterResponse_MergeFrom w src (RegisterResponse_Clear w this))"

definition RegisterResponse_InternalSwap :: "'u RegisterResponse \<Rightarrow> 'u RegisterResponse \<Rightarrow> 'u RegisterResponse \<times> 'u RegisterResponse" where
  "RegisterResponse_InternalSwap this other =
     (this\<lparr>msg_unknown := msg_unknown other, rr_result := rr_result other, rr_success := rr_success other\<rparr>,
      other\<lparr>msg_unknown := msg_unknown this, rr_result := rr_result this, rr_success := rr_success this\<rparr>)"

definition RegisterResponse_known :: "'u pb_wire \<Rightarrow> 'u RegisterResponse \<Rightarrow> bool" where
  "RegisterResponse_known w m \<longleftrightarrow> no_unknown_fields w m \<and>
     (case rr_result m of None \<Rightarrow> True | Some p \<Rightarrow> no_unknown_fields w p)"

lemma register_response_fields:
  "RegisterResponse_field w (field_tag 1 2) p m =
   ParseMessage w (ResultCode_InternalParse w) (RegisterResponse_result w m) p
     (\<lambda>v. RegisterResponse_mutable_result w (\<lambda>_. v) m)"
  "RegisterResponse_field w (field_tag 2 0) p m =
   field_read (ReadVarint64 w p) (\<lambda>v. m\<lparr>rr_success := v \<noteq> 0\<rparr>)"
  by (simp_all add: RegisterResponse_field_def field_tag_def)

context message_format
begin

lemmas register_response_turns =
  parse_bool [where field = "RegisterResponse_field w" and f = 2 and g = "\<lambda>m v. m\<lparr>rr_success := v\<rparr>",
    OF register_response_fields(2), simplified]

lemma register_response_result_turn:
  assumes "RegisterResponse_known w m" "RegisterResponse_known w m0" "length (RegisterResponse_InternalSerialize w m) < 2 ^ 31"
  shows "parse_loop w (RegisterResponse_field w) ((if RegisterResponse_has_result m
      then InternalWriteMessage w 1 (ResultCode_ByteSizeLong w (RegisterResponse_result w m))
        (ResultCode_InternalSerialize w (RegisterResponse_result w m)) else []) @ r) m0 =
    parse_loop w (RegisterResponse_field w) r (if RegisterResponse_has_result m
      then RegisterResponse_mutable_result w (ResultCode_MergeFrom w (RegisterResponse_result w m)) m0 else m0)"
proof (cases "rr_result m")
  case None
  then show ?thesis by (simp add: RegisterResponse_has_result_def)
next
  case (Some res)
  let ?b = "ResultCode_InternalSerialize w res"
  have size: "ResultCode_ByteSizeLong w res = length ?b" by (rule result_code.size_written)
  have "length (InternalWriteMessage w 1 (length ?b) ?b) < 2 ^ 31"
    using assms(3) Some size by (simp add: RegisterResponse_InternalSerialize_def RegisterResponse_has_result_def RegisterResponse_result_def)
  then have small: "length ?b < 2 ^ 31" by (rule message_small [rotated 2]) simp_all
  have known: "no_unknown_fields w res" "no_unknown_fields w (RegisterResponse_result w m0)"
    using assms(1,2) Some result_code.clear_known [of "ResultCode_SharedCtor w"]
    by (auto simp: RegisterResponse_known_def RegisterResponse_result_def pb_message ResultCode_SharedCtor_def split: option.splits)
  have "ResultCode_InternalParse w ?b (RegisterResponse_result w m0) =
      Some (Parsed (ResultCode_MergeFrom w res (RegisterResponse_result w m0)) None)"
    using result_code.parse_written [OF known small, of "[]"] by (simp add: ResultCode_InternalParse_def)
  then show ?thesis
    using parse_message [where field = "RegisterResponse_field w" and f = 1 and m = m0 and b = ?b,
      OF register_response_fields(1) _ _ small] Some size
    by (simp add: RegisterResponse_has_result_def RegisterResponse_result_def RegisterResponse_mutable_result_def Let_def)
qed

lemma register_response_written:
  assumes "RegisterResponse_known w m" "RegisterResponse_known w m0" "length (RegisterResponse_InternalSerialize w m) < 2 ^ 31"
  shows "parse_loop w (RegisterResponse_field w) (RegisterResponse_InternalSerialize w m @ r) m0 =
    parse_loop w (RegisterResponse_field w) r (RegisterResponse_MergeFrom w m m0)"
proof -
  have u: "\<not> HaveUnknown w (msg_unknown m)" "msg_unknown m = EmptyUnknown w" "msg_unknown m0 = EmptyUnknown w"
    using assms no_unknown by (simp_all add: RegisterResponse_known_def no_unknown_fields_def)
  have merge: "merge_unknown w m m0 = m0"
    using u by (cases m0) (simp add: merge_unknown_def merge_empty)
  show ?thesis
    using register_response_result_turn [OF assms] u(1)
    by (subst RegisterResponse_InternalSerialize_def)
      (simp add: register_response_turns RegisterResponse_MergeFrom_def Let_def merge write_unknown_def)
qed

end

sublocale message_format \<subseteq> register_response: generated_message w "RegisterResponse_field w" "RegisterResponse_Clear w"
    "RegisterResponse_InternalSerialize w" "RegisterResponse_ByteSizeLong w" "RegisterResponse_MergeFrom w" "RegisterResponse_known w"
proof unfold_locales
  fix t p m m' p'
  show "RegisterResponse_field w t p m \<noteq> None"
    by (simp add: RegisterResponse_field_def turn_returns result_message_returns del: not_None_eq)
  show "RegisterResponse_field w t p m = Some (FieldOk m' p') \<Longrightarrow> length p' \<le> length p"
    by (auto simp: RegisterResponse_field_def field_read_ok split: if_splits
        dest: varint64_progress ParseMessage_progress unusual_progress)
  show "RegisterResponse_MergeFrom w m (RegisterResponse_Clear w p) = m" for p
    by (cases m) (auto simp: RegisterResponse_MergeFrom_def RegisterResponse_Clear_def RegisterResponse_has_result_def RegisterResponse_result_def
      RegisterResponse_mutable_result_def result_code_merge_init merge_empty Let_def pb_message split: option.split)
  show "RegisterResponse_ByteSizeLong w m = length (RegisterResponse_InternalSerialize w m)"
    by (simp add: RegisterResponse_ByteSizeLong_def RegisterResponse_InternalSerialize_def Let_def
        result_code.size_written message_size bool_size int32_size unknown_size pb_message)
qed (simp_all add: register_response_written, simp_all add: RegisterResponse_known_def RegisterResponse_Clear_def pb_message)

section \<open>AddRequest\<close>

record 'u AddRequest = "'u pb_message" +
  aq_a :: "32 word"
  aq_b :: "32 word"

definition AddRequest_SharedCtor :: "'u pb_wire \<Rightarrow> 'u AddRequest" where
  "AddRequest_SharedCtor w =
     \<lparr>msg_unknown = EmptyUnknown w, aq_a = 0, aq_b = 0\<rparr>"

definition AddRequest_copy :: "'u pb_wire \<Rightarrow> 'u AddRequest \<Rightarrow> 'u AddRequest" where
  "AddRequest_copy w src =
     (let this = merge_unknown w src (AddRequest_SharedCtor w)
      in this\<lparr>aq_a := aq_a src, aq_b := aq_b src\<rparr>)"

definition AddRequest_Clear :: "'u pb_wire \<Rightarrow> 'u AddRequest \<Rightarrow> 'u AddRequest" where
  "AddRequest_Clear w this =
     this\<lparr>aq_a := 0, aq_b := 0, msg_unknown := EmptyUnknown w\<rparr>"

definition AddRequest_field :: "'u pb_wire \<Rightarrow> 'u AddRequest switch" where
  "AddRequest_field w tag ptr this =
     (if drop_bit 3 tag = 1 then
        (if (ucast tag :: 8 word) = 8
         then field_read (ReadVarint64 w ptr) (\<lambda>v. this\<lparr>aq_a := ucast v\<rparr>)
         else handle_unusual w tag ptr this)
      else if drop_bit 3 tag = 2 then
        (if (ucast tag :: 8 word) = 16
         then field_read (ReadVarint64 w ptr) (\<lambda>v. this\<lparr>aq_b := ucast v\<rparr>)
         else handle_unusual w tag ptr this)
      else handle_unusual w tag ptr this)"

definition AddRequest_InternalParse :: "'u pb_wire \<Rightarrow> string \<Rightarrow> 'u AddRequest \<Rightarrow> 'u AddRequest parse_outcome option" where
  "AddRequest_InternalParse w = parse_loop w (AddRequest_field w)"

definition AddRequest_InternalSerialize :: "'u pb_wire \<Rightarrow> 'u AddRequest \<Rightarrow> string" where
  "AddRequest_InternalSerialize w this =
     (if aq_a this \<noteq> 0 then WriteInt32ToArray w 1 (aq_a this) else []) @
     (if aq_b this \<noteq> 0 then WriteInt32ToArray w 2 (aq_b this) else []) @
     write_unknown w this"

definition AddRequest_ByteSizeLong :: "'u pb_wire \<Rightarrow> 'u AddRequest \<Rightarrow> nat" where
  "AddRequest_ByteSizeLong w this =
     (let total_size = 0;
          total_size = (if aq_a this \<noteq> 0
            then total_size + (1 + Int32Size w (aq_a this)) else total_size);
          total_size = (if aq_b this \<noteq> 0
            then total_size + (1 + Int32Size w (aq_b this)) else total_size)
      in size_unknown w this total_size)"

definition AddRequest_MergeFrom :: "'u pb_wire \<Rightarrow> 'u AddRequest \<Rightarrow> 'u AddRequest \<Rightarrow> 'u AddRequest" where
  "AddRequest_MergeFrom w src this =
     (let this = merge_unknown w src this;
          this = (if aq_a src \<noteq> 0
            then this\<lparr>aq_a := aq_a src\<rparr> else this)
      in if aq_b src \<noteq> 0 then this\<lparr>aq_b := aq_b src\<rparr> else this)"

definition AddRequest_CopyFrom :: "'u pb_wire \<Rightarrow> bool \<Rightarrow> 'u AddRequest \<Rightarrow> 'u AddRequest \<Rightarrow> 'u AddRequest" where
  "AddRequest_CopyFrom w same src this =
     (if same then this else AddRequest_MergeFrom w src (AddRequest_Clear w this))"

definition AddRequest_InternalSwap :: "'u AddRequest \<Rightarrow> 'u AddRequest \<Rightarrow> 'u AddRequest \<times> 'u AddRequest" where
  "AddRequest_InternalSwap this other =
     (this\<lparr>msg_unknown := msg_unknown other, aq_a := aq_a other, aq_b := aq_b other\<rparr>,
      other\<lparr>msg_unknown := msg_unknown this, aq_a := aq_a this, aq_b := aq_b this\<rparr>)"

lemma add_request_fields:
  "AddRequest_field w (field_tag 1 0) p m =
   field_read (ReadVarint64 w p) (\<lambda>v. m\<lparr>aq_a := ucast v\<rparr>)"
  "AddRequest_field w (field_tag 2 0) p m =
   field_read (ReadVarint64 w p) (\<lambda>v. m\<lparr>aq_b := ucast v\<rparr>)"
  by (simp_all add: AddRequest_field_def field_tag_def)

context message_format
begin

lemmas add_request_turns =
  parse_int32 [where field = "AddRequest_field w" and f = 1 and g = "\<lambda>m v. m\<lparr>aq_a := v\<rparr>",
    OF add_request_fields(1), simplified]
  parse_int32 [where field = "AddRequest_field w" and f = 2 and g = "\<lambda>m v. m\<lparr>aq_b := v\<rparr>",
    OF add_request_fields(2), simplified]

lemma add_request_written:
  assumes "no_unknown_fields w m" "no_unknown_fields w m0" "length (AddRequest_InternalSerialize w m) < 2 ^ 31"
  shows "parse_loop w (AddRequest_field w) (AddRequest_InternalSerialize w m @ r) m0 =
    parse_loop w (AddRequest_field w) r (AddRequest_MergeFrom w m m0)"
proof -
  have u: "\<not> HaveUnknown w (msg_unknown m)" "msg_unknown m = EmptyUnknown w" "msg_unknown m0 = EmptyUnknown w"
    using assms no_unknown by (simp_all add: no_unknown_fields_def)
  show ?thesis
    unfolding AddRequest_InternalSerialize_def append_assoc
    using u
    by (cases m0) (simp add: add_request_turns AddRequest_MergeFrom_def Let_def merge_empty pb_message)
qed

end

sublocale message_format \<subseteq> add_request: generated_message w "AddRequest_field w" "AddRequest_Clear w"
    "AddRequest_InternalSerialize w" "AddRequest_ByteSizeLong w" "AddRequest_MergeFrom w" "no_unknown_fields w"
proof unfold_locales
  fix t p m m' p'
  show "AddRequest_field w t p m \<noteq> None"
    by (simp add: AddRequest_field_def turn_returns del: not_None_eq)
  show "AddRequest_field w t p m = Some (FieldOk m' p') \<Longrightarrow> length p' \<le> length p"
    by (auto simp: AddRequest_field_def field_read_ok split: if_splits
        dest: varint64_progress unusual_progress)
  show "AddRequest_MergeFrom w m (AddRequest_Clear w p) = m" for p
    by (cases m) (simp add: AddRequest_MergeFrom_def AddRequest_Clear_def merge_empty Let_def pb_message)
  show "AddRequest_ByteSizeLong w m = length (AddRequest_InternalSerialize w m)"
    by (simp add: AddRequest_ByteSizeLong_def AddRequest_InternalSerialize_def Let_def
        int32_size unknown_size pb_message)
qed (simp_all add: add_request_written, simp_all add: AddRequest_Clear_def pb_message)

section \<open>AddResponse\<close>

record 'u AddResponse = "'u pb_message" +
  ar_result :: "'u ResultCode option"
  ar_sum :: "32 word"

definition AddResponse_SharedCtor :: "'u pb_wire \<Rightarrow> 'u AddResponse" where
  "AddResponse_SharedCtor w =
     \<lparr>msg_unknown = EmptyUnknown w, ar_result = None, ar_sum = 0\<rparr>"

definition AddResponse_copy :: "'u pb_wire \<Rightarrow> 'u AddResponse \<Rightarrow> 'u AddResponse" where
  "AddResponse_copy w src =
     (let this = merge_unknown w src (AddResponse_SharedCtor w);
          this = this\<lparr>ar_result := map_option (ResultCode_copy w) (ar_result src)\<rparr>
      in this\<lparr>ar_sum := ar_sum src\<rparr>)"

definition AddResponse_Clear :: "'u pb_wire \<Rightarrow> 'u AddResponse \<Rightarrow> 'u AddResponse" where
  "AddResponse_Clear w this =
     this\<lparr>ar_result := None, ar_sum := 0, msg_unknown := EmptyUnknown w\<rparr>"

definition AddResponse_has_result :: "'u AddResponse \<Rightarrow> bool" where
  \<comment> \<open>of a message that is not the default instance\<close>
  "AddResponse_has_result this \<longleftrightarrow> ar_result this \<noteq> None"

definition AddResponse_result :: "'u pb_wire \<Rightarrow> 'u AddResponse \<Rightarrow> 'u ResultCode" where
  "AddResponse_result w this =
     (case ar_result this of None \<Rightarrow> ResultCode_SharedCtor w | Some p \<Rightarrow> p)"

text \<open>Writing through the pointer that \<open>mutable_result\<close> returns.\<close>

definition AddResponse_mutable_result ::
    "'u pb_wire \<Rightarrow> ('u ResultCode \<Rightarrow> 'u ResultCode) \<Rightarrow> 'u AddResponse \<Rightarrow> 'u AddResponse" where
  "AddResponse_mutable_result w write this =
     (let p = (case ar_result this of None \<Rightarrow> ResultCode_SharedCtor w | Some p \<Rightarrow> p)
      in this\<lparr>ar_result := Some (write p)\<rparr>)"

definition AddResponse_field :: "'u pb_wire \<Rightarrow> 'u AddResponse switch" where
  "AddResponse_field w tag ptr this =
     (if drop_bit 3 tag = 1 then
        (if (ucast tag :: 8 word) = 10
         then ParseMessage w (ResultCode_InternalParse w) (AddResponse_result w this) ptr
               (\<lambda>p. AddResponse_mutable_result w (\<lambda>_. p) this)
         else handle_unusual w tag ptr this)
      else if drop_bit 3 tag = 2 then
        (if (ucast tag :: 8 word) = 16
         then field_read (ReadVarint64 w ptr) (\<lambda>v. this\<lparr>ar_sum := ucast v\<rparr>)
         else handle_unusual w tag ptr this)
      else handle_unusual w tag ptr this)"

definition AddResponse_InternalParse :: "'u pb_wire \<Rightarrow> string \<Rightarrow> 'u AddResponse \<Rightarrow> 'u AddResponse parse_outcome option" where
  "AddResponse_InternalParse w = parse_loop w (AddResponse_field w)"

definition AddResponse_InternalSerialize :: "'u pb_wire \<Rightarrow> 'u AddResponse \<Rightarrow> string" where
  "AddResponse_InternalSerialize w this =
     (if AddResponse_has_result this
      then InternalWriteMessage w 1 (ResultCode_ByteSizeLong w (AddResponse_result w this))
        (ResultCode_InternalSerialize w (AddResponse_result w this))
      else []) @
     (if ar_sum this \<noteq> 0 then WriteInt32ToArray w 2 (ar_sum this) else []) @
     write_unknown w this"

definition AddResponse_ByteSizeLong :: "'u pb_wire \<Rightarrow> 'u AddResponse \<Rightarrow> nat" where
  "AddResponse_ByteSizeLong w this =
     (let total_size = 0;
          total_size = (if AddResponse_has_result this
            then total_size + (1 + MessageSize w (ResultCode_ByteSizeLong w (AddResponse_result w this))) else total_size);
          total_size = (if ar_sum this \<noteq> 0
            then total_size + (1 + Int32Size w (ar_sum this)) else total_size)
      in size_unknown w this total_size)"

definition AddResponse_MergeFrom :: "'u pb_wire \<Rightarrow> 'u AddResponse \<Rightarrow> 'u AddResponse \<Rightarrow> 'u AddResponse" where
  "AddResponse_MergeFrom w src this =
     (let this = merge_unknown w src this;
          this = (if AddResponse_has_result src
            then AddResponse_mutable_result w (ResultCode_MergeFrom w (AddResponse_result w src)) this else this)
      in if ar_sum src \<noteq> 0 then this\<lparr>ar_sum := ar_sum src\<rparr> else this)"

definition AddResponse_CopyFrom :: "'u pb_wire \<Rightarrow> bool \<Rightarrow> 'u AddResponse \<Rightarrow> 'u AddResponse \<Rightarrow> 'u AddResponse" where
  "AddResponse_CopyFrom w same src this =
     (if same then this else AddResponse_MergeFrom w src (AddResponse_Clear w this))"

definition AddResponse_InternalSwap :: "'u AddResponse \<Rightarrow> 'u AddResponse \<Rightarrow> 'u AddResponse \<times> 'u AddResponse" where
  "AddResponse_InternalSwap this other =
     (this\<lparr>msg_unknown := msg_unknown other, ar_result := ar_result other, ar_sum := ar_sum other\<rparr>,
      other\<lparr>msg_unknown := msg_unknown this, ar_result := ar_result this, ar_sum := ar_sum this\<rparr>)"

definition AddResponse_known :: "'u pb_wire \<Rightarrow> 'u AddResponse \<Rightarrow> bool" where
  "AddResponse_known w m \<longleftrightarrow> no_unknown_fields w m \<and>
     (case ar_result m of None \<Rightarrow> True | Some p \<Rightarrow> no_unknown_fields w p)"

lemma add_response_fields:
  "AddResponse_field w (field_tag 1 2) p m =
   ParseMessage w (ResultCode_InternalParse w) (AddResponse_result w m) p
     (\<lambda>v. AddResponse_mutable_result w (\<lambda>_. v) m)"
  "AddResponse_field w (field_tag 2 0) p m =
   field_read (ReadVarint64 w p) (\<lambda>v. m\<lparr>ar_sum := ucast v\<rparr>)"
  by (simp_all add: AddResponse_field_def field_tag_def)

context message_format
begin

lemmas add_response_turns =
  parse_int32 [where field = "AddResponse_field w" and f = 2 and g = "\<lambda>m v. m\<lparr>ar_sum := v\<rparr>",
    OF add_response_fields(2), simplified]

lemma add_response_result_turn:
  assumes "AddResponse_known w m" "AddResponse_known w m0" "length (AddResponse_InternalSerialize w m) < 2 ^ 31"
  shows "parse_loop w (AddResponse_field w) ((if AddResponse_has_result m
      then InternalWriteMessage w 1 (ResultCode_ByteSizeLong w (AddResponse_result w m))
        (ResultCode_InternalSerialize w (AddResponse_result w m)) else []) @ r) m0 =
    parse_loop w (AddResponse_field w) r (if AddResponse_has_result m
      then AddResponse_mutable_result w (ResultCode_MergeFrom w (AddResponse_result w m)) m0 else m0)"
proof (cases "ar_result m")
  case None
  then show ?thesis by (simp add: AddResponse_has_result_def)
next
  case (Some res)
  let ?b = "ResultCode_InternalSerialize w res"
  have size: "ResultCode_ByteSizeLong w res = length ?b" by (rule result_code.size_written)
  have "length (InternalWriteMessage w 1 (length ?b) ?b) < 2 ^ 31"
    using assms(3) Some size by (simp add: AddResponse_InternalSerialize_def AddResponse_has_result_def AddResponse_result_def)
  then have small: "length ?b < 2 ^ 31" by (rule message_small [rotated 2]) simp_all
  have known: "no_unknown_fields w res" "no_unknown_fields w (AddResponse_result w m0)"
    using assms(1,2) Some result_code.clear_known [of "ResultCode_SharedCtor w"]
    by (auto simp: AddResponse_known_def AddResponse_result_def pb_message ResultCode_SharedCtor_def split: option.splits)
  have "ResultCode_InternalParse w ?b (AddResponse_result w m0) =
      Some (Parsed (ResultCode_MergeFrom w res (AddResponse_result w m0)) None)"
    using result_code.parse_written [OF known small, of "[]"] by (simp add: ResultCode_InternalParse_def)
  then show ?thesis
    using parse_message [where field = "AddResponse_field w" and f = 1 and m = m0 and b = ?b,
      OF add_response_fields(1) _ _ small] Some size
    by (simp add: AddResponse_has_result_def AddResponse_result_def AddResponse_mutable_result_def Let_def)
qed

lemma add_response_written:
  assumes "AddResponse_known w m" "AddResponse_known w m0" "length (AddResponse_InternalSerialize w m) < 2 ^ 31"
  shows "parse_loop w (AddResponse_field w) (AddResponse_InternalSerialize w m @ r) m0 =
    parse_loop w (AddResponse_field w) r (AddResponse_MergeFrom w m m0)"
proof -
  have u: "\<not> HaveUnknown w (msg_unknown m)" "msg_unknown m = EmptyUnknown w" "msg_unknown m0 = EmptyUnknown w"
    using assms no_unknown by (simp_all add: AddResponse_known_def no_unknown_fields_def)
  have merge: "merge_unknown w m m0 = m0"
    using u by (cases m0) (simp add: merge_unknown_def merge_empty)
  show ?thesis
    using add_response_result_turn [OF assms] u(1)
    by (subst AddResponse_InternalSerialize_def)
      (simp add: add_response_turns AddResponse_MergeFrom_def Let_def merge write_unknown_def)
qed

end

sublocale message_format \<subseteq> add_response: generated_message w "AddResponse_field w" "AddResponse_Clear w"
    "AddResponse_InternalSerialize w" "AddResponse_ByteSizeLong w" "AddResponse_MergeFrom w" "AddResponse_known w"
proof unfold_locales
  fix t p m m' p'
  show "AddResponse_field w t p m \<noteq> None"
    by (simp add: AddResponse_field_def turn_returns result_message_returns del: not_None_eq)
  show "AddResponse_field w t p m = Some (FieldOk m' p') \<Longrightarrow> length p' \<le> length p"
    by (auto simp: AddResponse_field_def field_read_ok split: if_splits
        dest: varint64_progress ParseMessage_progress unusual_progress)
  show "AddResponse_MergeFrom w m (AddResponse_Clear w p) = m" for p
    by (cases m) (auto simp: AddResponse_MergeFrom_def AddResponse_Clear_def AddResponse_has_result_def AddResponse_result_def
      AddResponse_mutable_result_def result_code_merge_init merge_empty Let_def pb_message split: option.split)
  show "AddResponse_ByteSizeLong w m = length (AddResponse_InternalSerialize w m)"
    by (simp add: AddResponse_ByteSizeLong_def AddResponse_InternalSerialize_def Let_def
        result_code.size_written message_size bool_size int32_size unknown_size pb_message)
qed (simp_all add: add_response_written, simp_all add: AddResponse_known_def AddResponse_Clear_def pb_message)

section \<open>All seven messages\<close>

text \<open>Serializing gives bytes of the computed size that parse back, into any object, as the message.\<close>

definition survives_wire ::
    "'u pb_wire \<Rightarrow> ('m \<Rightarrow> 'm) \<Rightarrow> (string \<Rightarrow> 'm \<Rightarrow> 'm parse_outcome option) \<Rightarrow> ('m \<Rightarrow> nat) \<Rightarrow> ('m \<Rightarrow> string)
     \<Rightarrow> 'm \<Rightarrow> bool" where
  "survives_wire w clear parse byte_size serialize m \<longleftrightarrow>
     (\<exists>s. pb_SerializeToString w byte_size serialize m = Some s \<and> length s = byte_size m \<and>
        (\<forall>m0. pb_ParseFromString w clear parse s m0 = Some (True, m)))"

context generated_message
begin

lemma survives:
  assumes "known m" "byte_size m < 2 ^ 31"
  shows "survives_wire w clear (parse_loop w field) byte_size serialize m"
  using roundtrip [OF assms(1)] assms(2) accept_size [OF assms(2)] size_written [of m]
  by (simp add: survives_wire_def pb_SerializeToString_def)

end

lemmas user_parsers = ResultCode_InternalParse_def
  LoginRequest_InternalParse_def
  LoginResponse_InternalParse_def
  RegisterRequest_InternalParse_def
  RegisterResponse_InternalParse_def
  AddRequest_InternalParse_def
  AddResponse_InternalParse_def

context message_format
begin

lemmas user_survives = result_code.survives
  login_request.survives
  login_response.survives
  register_request.survives
  register_response.survives
  add_request.survives
  add_response.survives
lemmas user_concatenation = result_code.concatenation
  login_request.concatenation
  login_response.concatenation
  register_request.concatenation
  register_response.concatenation
  add_request.concatenation
  add_response.concatenation
lemmas user_returns = result_code.returns
  login_request.returns
  login_response.returns
  register_request.returns
  register_response.returns
  add_request.returns
  add_response.returns
lemmas user_merge_clear = result_code.merge_clear
  login_request.merge_clear
  login_response.merge_clear
  register_request.merge_clear
  register_response.merge_clear
  add_request.merge_clear
  add_response.merge_clear

end

text \<open>The copy constructors.\<close>

context wire_format
begin

lemma copies:
  "ResultCode_copy w m1 = m1"
  "LoginRequest_copy w m2 = m2"
  "LoginResponse_copy w m3 = m3"
  "RegisterRequest_copy w m4 = m4"
  "RegisterResponse_copy w m5 = m5"
  "AddRequest_copy w m6 = m6"
  "AddResponse_copy w m7 = m7"
proof -
  have rc: "ResultCode_copy w m = m" for m
    by (cases m) (simp add: ResultCode_copy_def ResultCode_SharedCtor_def merge_unknown_def merge_empty Let_def)
  then have rcs: "ResultCode_copy w = id" by (simp add: fun_eq_iff)
  show "ResultCode_copy w m1 = m1" by (rule rc)
  show "LoginRequest_copy w m2 = m2"
    by (cases m2) (simp add: LoginRequest_copy_def LoginRequest_SharedCtor_def merge_unknown_def merge_empty Let_def)
  show "LoginResponse_copy w m3 = m3"
    by (cases m3) (simp add: LoginResponse_copy_def LoginResponse_SharedCtor_def merge_unknown_def merge_empty Let_def rcs option.map_id)
  show "RegisterRequest_copy w m4 = m4"
    by (cases m4) (simp add: RegisterRequest_copy_def RegisterRequest_SharedCtor_def merge_unknown_def merge_empty Let_def)
  show "RegisterResponse_copy w m5 = m5"
    by (cases m5) (simp add: RegisterResponse_copy_def RegisterResponse_SharedCtor_def merge_unknown_def merge_empty Let_def rcs option.map_id)
  show "AddRequest_copy w m6 = m6"
    by (cases m6) (simp add: AddRequest_copy_def AddRequest_SharedCtor_def merge_unknown_def merge_empty Let_def)
  show "AddResponse_copy w m7 = m7"
    by (cases m7) (simp add: AddResponse_copy_def AddResponse_SharedCtor_def merge_unknown_def merge_empty Let_def rcs option.map_id)
qed

end

lemma user_swaps:
  "ResultCode_InternalSwap m1 t1 = (t1, m1)"
  "LoginRequest_InternalSwap m2 t2 = (t2, m2)"
  "LoginResponse_InternalSwap m3 t3 = (t3, m3)"
  "RegisterRequest_InternalSwap m4 t4 = (t4, m4)"
  "RegisterResponse_InternalSwap m5 t5 = (t5, m5)"
  "AddRequest_InternalSwap m6 t6 = (t6, m6)"
  "AddResponse_InternalSwap m7 t7 = (t7, m7)"
  by (simp_all add: ResultCode_InternalSwap_def
    LoginRequest_InternalSwap_def
    LoginResponse_InternalSwap_def
    RegisterRequest_InternalSwap_def
    RegisterResponse_InternalSwap_def
    AddRequest_InternalSwap_def
    AddResponse_InternalSwap_def)

lemmas user_CopyFrom = ResultCode_CopyFrom_def [of _ False, simplified]
  LoginRequest_CopyFrom_def [of _ False, simplified]
  LoginResponse_CopyFrom_def [of _ False, simplified]
  RegisterRequest_CopyFrom_def [of _ False, simplified]
  RegisterResponse_CopyFrom_def [of _ False, simplified]
  AddRequest_CopyFrom_def [of _ False, simplified]
  AddResponse_CopyFrom_def [of _ False, simplified]

section \<open>Properties\<close>

text \<open>C5: Every message of the user service survives the wire: over any runtime that keeps the wire format, each
  of the seven classes serializes to as many bytes as it computed and parses back from them, into
  any object, unchanged, embedded messages included.\<close>

theorem user_messages_survive_wire:
  assumes "message_format w"
  shows "(\<forall>m. no_unknown_fields w m \<and> ResultCode_ByteSizeLong w m < 2 ^ 31 \<longrightarrow> survives_wire w (ResultCode_Clear w)
      (ResultCode_InternalParse w) (ResultCode_ByteSizeLong w) (ResultCode_InternalSerialize w) m) \<and>
    (\<forall>m. no_unknown_fields w m \<and> LoginRequest_ByteSizeLong w m < 2 ^ 31 \<longrightarrow> survives_wire w (LoginRequest_Clear w)
      (LoginRequest_InternalParse w) (LoginRequest_ByteSizeLong w) (LoginRequest_InternalSerialize w) m) \<and>
    (\<forall>m. LoginResponse_known w m \<and> LoginResponse_ByteSizeLong w m < 2 ^ 31 \<longrightarrow> survives_wire w (LoginResponse_Clear w)
      (LoginResponse_InternalParse w) (LoginResponse_ByteSizeLong w) (LoginResponse_InternalSerialize w) m) \<and>
    (\<forall>m. no_unknown_fields w m \<and> RegisterRequest_ByteSizeLong w m < 2 ^ 31 \<longrightarrow> survives_wire w (RegisterRequest_Clear w)
      (RegisterRequest_InternalParse w) (RegisterRequest_ByteSizeLong w) (RegisterRequest_InternalSerialize w) m) \<and>
    (\<forall>m. RegisterResponse_known w m \<and> RegisterResponse_ByteSizeLong w m < 2 ^ 31 \<longrightarrow> survives_wire w (RegisterResponse_Clear w)
      (RegisterResponse_InternalParse w) (RegisterResponse_ByteSizeLong w) (RegisterResponse_InternalSerialize w) m) \<and>
    (\<forall>m. no_unknown_fields w m \<and> AddRequest_ByteSizeLong w m < 2 ^ 31 \<longrightarrow> survives_wire w (AddRequest_Clear w)
      (AddRequest_InternalParse w) (AddRequest_ByteSizeLong w) (AddRequest_InternalSerialize w) m) \<and>
    (\<forall>m. AddResponse_known w m \<and> AddResponse_ByteSizeLong w m < 2 ^ 31 \<longrightarrow> survives_wire w (AddResponse_Clear w)
      (AddResponse_InternalParse w) (AddResponse_ByteSizeLong w) (AddResponse_InternalSerialize w) m)"
  using message_format.user_survives [OF assms] by (simp add: user_parsers)

definition example_result :: "string ResultCode" where
  "example_result = \<lparr>msg_unknown = '''', rc_errcode = -1, rc_errmsg = ''no''\<rparr>"

definition example_response :: "string AddResponse" where
  "example_response = \<lparr>msg_unknown = '''', ar_result = Some example_result, ar_sum = 579\<rparr>"

lemma example_response_ok:
  "AddResponse_known std_wire example_response" "AddResponse_ByteSizeLong std_wire example_response = 20"
proof -
  have "unat (scast (- 1 :: 32 word) :: 64 word) = 18446744073709551615" "unat (scast (579 :: 32 word) :: 64 word) = 579"
    by (simp_all add: unsigned_minus_1_eq_mask mask_eq_exp_minus_1)
  moreover have "length (varint 18446744073709551615) = 10" "length (varint 579) = 2"
    by (simp_all add: varint.simps [of "Suc _"] varint.simps [of "numeral _"])
  ultimately show "AddResponse_known std_wire example_response"
    "AddResponse_ByteSizeLong std_wire example_response = 20"
    by (simp_all add: AddResponse_known_def example_response_def example_result_def no_unknown_fields_def
        AddResponse_ByteSizeLong_def ResultCode_ByteSizeLong_def AddResponse_has_result_def
        AddResponse_result_def size_unknown_def std_wire_run length_varint_small)
qed

theorem user_messages_survive_wire_witness:
  "\<exists>s. pb_SerializeToString std_wire (AddResponse_ByteSizeLong std_wire)
      (AddResponse_InternalSerialize std_wire) example_response = Some s \<and> length s = 20 \<and>
    pb_ParseFromString std_wire (AddResponse_Clear std_wire) (AddResponse_InternalParse std_wire) s
      (AddResponse_SharedCtor std_wire) = Some (True, example_response)"
  using user_messages_survive_wire [OF std_message.message_format_axioms] example_response_ok
  by (fastforce simp: survives_wire_def)

text \<open>Copying a message of the user service copies all of it, unknown fields included: its copy constructor
  and \<open>CopyFrom\<close> into any other object give the source, and \<open>InternalSwap\<close> exchanges two messages.\<close>

theorem user_messages_copy:
  assumes "message_format w"
  shows "(\<forall>m t. ResultCode_copy w m = m \<and> ResultCode_CopyFrom w False m t = m \<and> ResultCode_InternalSwap m t = (t, m)) \<and>
    (\<forall>m t. LoginRequest_copy w m = m \<and> LoginRequest_CopyFrom w False m t = m \<and> LoginRequest_InternalSwap m t = (t, m)) \<and>
    (\<forall>m t. LoginResponse_copy w m = m \<and> LoginResponse_CopyFrom w False m t = m \<and> LoginResponse_InternalSwap m t = (t, m)) \<and>
    (\<forall>m t. RegisterRequest_copy w m = m \<and> RegisterRequest_CopyFrom w False m t = m \<and> RegisterRequest_InternalSwap m t = (t, m)) \<and>
    (\<forall>m t. RegisterResponse_copy w m = m \<and> RegisterResponse_CopyFrom w False m t = m \<and> RegisterResponse_InternalSwap m t = (t, m)) \<and>
    (\<forall>m t. AddRequest_copy w m = m \<and> AddRequest_CopyFrom w False m t = m \<and> AddRequest_InternalSwap m t = (t, m)) \<and>
    (\<forall>m t. AddResponse_copy w m = m \<and> AddResponse_CopyFrom w False m t = m \<and> AddResponse_InternalSwap m t = (t, m))"
proof -
  have wf: "wire_format w" using assms by (rule message_format.axioms)
  show ?thesis
    unfolding user_swaps user_CopyFrom message_format.user_merge_clear [OF assms] wire_format.copies [OF wf]
    by simp
qed

theorem user_messages_copy_witness:
  "AddResponse_copy std_wire example_response = example_response \<and>
   AddResponse_CopyFrom std_wire False example_response (AddResponse_SharedCtor std_wire) = example_response"
  using user_messages_copy [OF std_message.message_format_axioms] by simp

end
