(* ===== verification/User_Service.thy ===== *)
theory User_Service
  imports Krpc_Provider Krpc_Controller User_Messages
begin

text \<open>
  The user service: the base class \<open>UserServiceRpc\<close> and its dispatch by method index as protoc
  generated them (\<^verbatim>\<open>src/example/user.pb.cc\<close>), and the service of the example server
  (\<^verbatim>\<open>src/example/callee/Kserver.cc\<close>), with the proof of what the provider sends back for it.
\<close>

section \<open>The generated base class\<close>

text \<open>\<open>DownCast\<close> chooses among the message classes; a null controller is \<open>None\<close>.\<close>

datatype 'u user_request =
    LoginReq "'u LoginRequest" | RegisterReq "'u RegisterRequest" | AddReq "'u AddRequest"

datatype 'u user_response =
    LoginResp "'u LoginResponse" | RegisterResp "'u RegisterResponse" | AddResp "'u AddResponse"

text \<open>A method of the base class: the controller is told, then \<open>done\<close> runs on the untouched response.\<close>

definition UserServiceRpc_Login ::
    "'cb krpc_controller option \<Rightarrow> 'u LoginRequest \<Rightarrow> 'u LoginResponse
     \<Rightarrow> 'cb krpc_controller option \<times> 'u LoginResponse call_result" where
  "UserServiceRpc_Login controller request response =
     (case controller of
        None \<Rightarrow> (None, CallCrash (Undefined ''null controller''))
      | Some c \<Rightarrow> (Some (KrpcController_SetFailed ''Method Login() not implemented.'' c), CallDone response))"

definition UserServiceRpc_Register ::
    "'cb krpc_controller option \<Rightarrow> 'u RegisterRequest \<Rightarrow> 'u RegisterResponse
     \<Rightarrow> 'cb krpc_controller option \<times> 'u RegisterResponse call_result" where
  "UserServiceRpc_Register controller request response =
     (case controller of
        None \<Rightarrow> (None, CallCrash (Undefined ''null controller''))
      | Some c \<Rightarrow> (Some (KrpcController_SetFailed ''Method Register() not implemented.'' c), CallDone response))"

definition UserServiceRpc_Add ::
    "'cb krpc_controller option \<Rightarrow> 'u AddRequest \<Rightarrow> 'u AddResponse
     \<Rightarrow> 'cb krpc_controller option \<times> 'u AddResponse call_result" where
  "UserServiceRpc_Add controller request response =
     (case controller of
        None \<Rightarrow> (None, CallCrash (Undefined ''null controller''))
      | Some c \<Rightarrow> (Some (KrpcController_SetFailed ''Method Add() not implemented.'' c), CallDone response))"

text \<open>The virtual methods of an object of a derived class.\<close>

record ('u, 'cb) user_vtable =
  v_Login :: "'cb krpc_controller option \<Rightarrow> 'u LoginRequest \<Rightarrow> 'u LoginResponse
    \<Rightarrow> 'cb krpc_controller option \<times> 'u LoginResponse call_result"
  v_Register :: "'cb krpc_controller option \<Rightarrow> 'u RegisterRequest \<Rightarrow> 'u RegisterResponse
    \<Rightarrow> 'cb krpc_controller option \<times> 'u RegisterResponse call_result"
  v_Add :: "'cb krpc_controller option \<Rightarrow> 'u AddRequest \<Rightarrow> 'u AddResponse
    \<Rightarrow> 'cb krpc_controller option \<times> 'u AddResponse call_result"

fun map_call :: "('p \<Rightarrow> 'q) \<Rightarrow> 'p call_result \<Rightarrow> 'q call_result" where
  "map_call f (CallDone p) = CallDone (f p)"
| "map_call f CallNoReply = CallNoReply"
| "map_call f (CallCrash e) = CallCrash e"

definition UserServiceRpc_CallMethod ::
    "('u, 'cb) user_vtable \<Rightarrow> nat \<Rightarrow> 'cb krpc_controller option \<Rightarrow> 'u user_request \<Rightarrow> 'u user_response
     \<Rightarrow> 'cb krpc_controller option \<times> 'u user_response call_result" where
  "UserServiceRpc_CallMethod this index controller request response =
     (if index = 0 then
        (case (request, response) of
           (LoginReq q, LoginResp p) \<Rightarrow> map_prod id (map_call LoginResp) (v_Login this controller q p)
         | _ \<Rightarrow> (controller, CallCrash (Undefined ''DownCast'')))
      else if index = 1 then
        (case (request, response) of
           (RegisterReq q, RegisterResp p) \<Rightarrow> map_prod id (map_call RegisterResp) (v_Register this controller q p)
         | _ \<Rightarrow> (controller, CallCrash (Undefined ''DownCast'')))
      else if index = 2 then
        (case (request, response) of
           (AddReq q, AddResp p) \<Rightarrow> map_prod id (map_call AddResp) (v_Add this controller q p)
         | _ \<Rightarrow> (controller, CallCrash (Undefined ''DownCast'')))
      else (controller, CallCrash ExitFailure))"

text \<open>The prototypes; \<open>None\<close> is the fatal log entry of an index the service does not have.\<close>

definition UserServiceRpc_GetRequestPrototype :: "'u pb_wire \<Rightarrow> nat \<Rightarrow> 'u user_request option" where
  "UserServiceRpc_GetRequestPrototype w index =
     (if index = 0 then Some (LoginReq (LoginRequest_SharedCtor w))
      else if index = 1 then Some (RegisterReq (RegisterRequest_SharedCtor w))
      else if index = 2 then Some (AddReq (AddRequest_SharedCtor w))
      else None)"

definition UserServiceRpc_GetResponsePrototype :: "'u pb_wire \<Rightarrow> nat \<Rightarrow> 'u user_response option" where
  "UserServiceRpc_GetResponsePrototype w index =
     (if index = 0 then Some (LoginResp (LoginResponse_SharedCtor w))
      else if index = 1 then Some (RegisterResp (RegisterResponse_SharedCtor w))
      else if index = 2 then Some (AddResp (AddResponse_SharedCtor w))
      else None)"

section \<open>The service of the example server\<close>

definition UserService_Login_local :: "string \<Rightarrow> string \<Rightarrow> bool" where
  "UserService_Login_local user_name pwd = True"

definition UserService_Login ::
    "'u pb_wire \<Rightarrow> 'cb krpc_controller option \<Rightarrow> 'u LoginRequest \<Rightarrow> 'u LoginResponse
     \<Rightarrow> 'cb krpc_controller option \<times> 'u LoginResponse call_result" where
  "UserService_Login w controller request response =
     (let login_result = UserService_Login_local (lq_name request) (lq_pwd request);
          response = LoginResponse_mutable_result w (\<lambda>code. code\<lparr>rc_errcode := 0, rc_errmsg := ''''\<rparr>) response
      in (controller, CallDone (response\<lparr>lr_success := login_result\<rparr>)))"

text \<open>A signed sum out of range is undefined in C++.\<close>

definition add_int32 :: "32 word \<Rightarrow> 32 word \<Rightarrow> 32 word res" where
  "add_int32 a b =
     (if - (2 ^ 31) \<le> sint a + sint b \<and> sint a + sint b < 2 ^ 31 then Inr (a + b)
      else Inl (Undefined ''signed overflow''))"

lemma add_int32_sint: "add_int32 a b = Inr n \<Longrightarrow> sint n = sint a + sint b"
  by (auto simp: add_int32_def sint_word_add signed_take_bit_int_eq_self split: if_splits)

definition UserService_Add ::
    "'u pb_wire \<Rightarrow> 'cb krpc_controller option \<Rightarrow> 'u AddRequest \<Rightarrow> 'u AddResponse
     \<Rightarrow> 'cb krpc_controller option \<times> 'u AddResponse call_result" where
  "UserService_Add w controller request response =
     (case add_int32 (aq_a request) (aq_b request) of
        Inl e \<Rightarrow> (controller, CallCrash e)
      | Inr result \<Rightarrow>
          (let response = AddResponse_mutable_result w (\<lambda>code. code\<lparr>rc_errcode := 0, rc_errmsg := ''''\<rparr>) response
           in (controller, CallDone (response\<lparr>ar_sum := result\<rparr>))))"

definition UserService :: "'u pb_wire \<Rightarrow> ('u, 'cb) user_vtable" where
  \<comment> \<open>\<open>Register\<close> is not overridden\<close>
  "UserService w =
     \<lparr>v_Login = UserService_Login w, v_Register = UserServiceRpc_Register, v_Add = UserService_Add w\<rparr>"

section \<open>As the provider sees it\<close>

text \<open>
  What \<open>OnMessage\<close> calls of a service object of this class, with a null controller.  The parser
  always returns, so the \<open>None\<close> of \<open>pb_ParseFromString\<close> never happens; nor does an index without
  prototype, since a method descriptor comes from the table of this service.
\<close>

definition user_methods :: "method_desc list" where
  "user_methods = [\<lparr>md_name = ''Login'', md_index = 0\<rparr>, \<lparr>md_name = ''Register'', md_index = 1\<rparr>,
     \<lparr>md_name = ''Add'', md_index = 2\<rparr>]"

definition parsed :: "('m \<Rightarrow> 'q) \<Rightarrow> (bool \<times> 'm) option \<Rightarrow> 'q option" where
  "parsed f r = (case r of Some (True, m) \<Rightarrow> Some (f m) | _ \<Rightarrow> None)"

definition user_req_parse :: "'u pb_wire \<Rightarrow> method_desc \<Rightarrow> string \<Rightarrow> 'u user_request option" where
  "user_req_parse w d s =
     (case UserServiceRpc_GetRequestPrototype w (md_index d) of
        None \<Rightarrow> None
      | Some (LoginReq m) \<Rightarrow>
          parsed LoginReq (pb_ParseFromString w (LoginRequest_Clear w) (LoginRequest_InternalParse w) s m)
      | Some (RegisterReq m) \<Rightarrow>
          parsed RegisterReq (pb_ParseFromString w (RegisterRequest_Clear w) (RegisterRequest_InternalParse w) s m)
      | Some (AddReq m) \<Rightarrow>
          parsed AddReq (pb_ParseFromString w (AddRequest_Clear w) (AddRequest_InternalParse w) s m))"

definition user_svc_call ::
    "'u pb_wire \<Rightarrow> ('u, unit) user_vtable \<Rightarrow> method_desc \<Rightarrow> 'u user_request \<Rightarrow> 'u user_response call_result" where
  "user_svc_call w this d request =
     (case UserServiceRpc_GetResponsePrototype w (md_index d) of
        None \<Rightarrow> CallCrash ExitFailure
      | Some response \<Rightarrow> snd (UserServiceRpc_CallMethod this (md_index d) None request response))"

fun user_resp_ser :: "'u pb_wire \<Rightarrow> 'u user_response \<Rightarrow> string option" where
  "user_resp_ser w (LoginResp m) =
     pb_SerializeToString w (LoginResponse_ByteSizeLong w) (LoginResponse_InternalSerialize w) m"
| "user_resp_ser w (RegisterResp m) =
     pb_SerializeToString w (RegisterResponse_ByteSizeLong w) (RegisterResponse_InternalSerialize w) m"
| "user_resp_ser w (AddResp m) =
     pb_SerializeToString w (AddResponse_ByteSizeLong w) (AddResponse_InternalSerialize w) m"

definition user_service :: "'u pb_wire \<Rightarrow> ('u user_request, 'u user_response) pb_service" where
  "user_service w =
     \<lparr>sd_name = ''UserServiceRpc'', sd_methods = user_methods, req_parse = user_req_parse w,
      svc_call = user_svc_call w (UserService w), resp_ser = user_resp_ser w\<rparr>"

section \<open>What it answers\<close>

definition ok_result :: "'u pb_wire \<Rightarrow> 'u ResultCode" where
  "ok_result w = \<lparr>msg_unknown = EmptyUnknown w, rc_errcode = 0, rc_errmsg = ''''\<rparr>"

definition login_reply :: "'u pb_wire \<Rightarrow> 'u LoginResponse" where
  "login_reply w = \<lparr>msg_unknown = EmptyUnknown w, lr_result = Some (ok_result w), lr_success = True\<rparr>"

definition add_reply :: "'u pb_wire \<Rightarrow> 32 word \<Rightarrow> 'u AddResponse" where
  "add_reply w n = \<lparr>msg_unknown = EmptyUnknown w, ar_result = Some (ok_result w), ar_sum = n\<rparr>"

lemma user_table:
  "publish_all [user_service w] s = (if s = ''UserServiceRpc''
     then Some \<lparr>si_service = user_service w, si_method_map = (\<lambda>m. List.find (\<lambda>d. md_name d = m) user_methods)\<rparr>
     else None)"
  by (simp add: publish_all_lookup) (simp add: user_service_def)

lemma user_calls:
  "user_svc_call w (UserService w) \<lparr>md_name = m, md_index = 0\<rparr> (LoginReq q) = CallDone (LoginResp (login_reply w))"
  "user_svc_call w (UserService w) \<lparr>md_name = m, md_index = Suc 0\<rparr> (RegisterReq q') =
     CallCrash (Undefined ''null controller'')"
  "user_svc_call w (UserService w) \<lparr>md_name = m, md_index = 2\<rparr> (AddReq q'') =
     (case add_int32 (aq_a q'') (aq_b q'') of
        Inl e \<Rightarrow> CallCrash e | Inr n \<Rightarrow> CallDone (AddResp (add_reply w n)))"
  by (simp_all add: user_svc_call_def UserServiceRpc_GetResponsePrototype_def UserServiceRpc_CallMethod_def
      UserService_def UserService_Login_def UserService_Login_local_def UserServiceRpc_Register_def UserService_Add_def
      LoginResponse_mutable_result_def LoginResponse_SharedCtor_def AddResponse_mutable_result_def
      AddResponse_SharedCtor_def ResultCode_SharedCtor_def login_reply_def add_reply_def ok_result_def Let_def
      split: sum.split)

context message_format
begin

lemma ok_result_bytes: "ResultCode_InternalSerialize w (ok_result w) = []"
  by (simp add: ResultCode_InternalSerialize_def ok_result_def write_unknown_def no_unknown)

lemma reply_known: "LoginResponse_known w (login_reply w)" "AddResponse_known w (add_reply w n)"
  by (simp_all add: LoginResponse_known_def AddResponse_known_def login_reply_def add_reply_def ok_result_def
      no_unknown_fields_def)

lemma reply_small:
  "length (LoginResponse_InternalSerialize w (login_reply w)) \<le> 20"
  "length (AddResponse_InternalSerialize w (add_reply w n)) \<le> 20"
proof -
  have "ResultCode_ByteSizeLong w (ok_result w) = 0"
    using result_code.size_written [of "ok_result w"] ok_result_bytes by simp
  moreover have "length (InternalWriteMessage w (Suc 0) 0 []) \<le> 6"
    using message_size [of 1 "[]"] message_size_le [of 0] by simp
  ultimately show "length (LoginResponse_InternalSerialize w (login_reply w)) \<le> 20"
    "length (AddResponse_InternalSerialize w (add_reply w n)) \<le> 20"
    using bool_size [of 2 True] int32_size [of 2 n] int32_size_le [of n]
    by (simp_all add: LoginResponse_InternalSerialize_def AddResponse_InternalSerialize_def login_reply_def
        add_reply_def LoginResponse_has_result_def LoginResponse_result_def AddResponse_has_result_def
        AddResponse_result_def ok_result_bytes write_unknown_def no_unknown)
qed

lemma reply_serialized:
  "user_resp_ser w (LoginResp (login_reply w)) = Some (LoginResponse_InternalSerialize w (login_reply w))"
  "user_resp_ser w (AddResp (add_reply w n)) = Some (AddResponse_InternalSerialize w (add_reply w n))"
  using reply_small(1) reply_small(2) [of n] accept_size login_response.size_written [of "login_reply w"]
    add_response.size_written [of "add_reply w n"]
  by (simp_all add: pb_SerializeToString_def)

lemma reply_parsed:
  "pb_ParseFromString w (LoginResponse_Clear w) (LoginResponse_InternalParse w)
     (LoginResponse_InternalSerialize w (login_reply w)) m0 = Some (True, login_reply w)"
  "pb_ParseFromString w (AddResponse_Clear w) (AddResponse_InternalParse w)
     (AddResponse_InternalSerialize w (add_reply w n)) m1 = Some (True, add_reply w n)"
  using login_response.roundtrip [OF reply_known(1), of m0] add_response.roundtrip [OF reply_known(2), of n m1]
    reply_small(1) reply_small(2) [of n]
  by (simp_all add: user_parsers)

lemma request_parsed:
  "no_unknown_fields w q \<Longrightarrow> length (LoginRequest_InternalSerialize w q) < 2 ^ 31 \<Longrightarrow>
   user_req_parse w \<lparr>md_name = m, md_index = 0\<rparr> (LoginRequest_InternalSerialize w q) = Some (LoginReq q)"
  "no_unknown_fields w q' \<Longrightarrow> length (RegisterRequest_InternalSerialize w q') < 2 ^ 31 \<Longrightarrow>
   user_req_parse w \<lparr>md_name = m, md_index = Suc 0\<rparr> (RegisterRequest_InternalSerialize w q') = Some (RegisterReq q')"
  "no_unknown_fields w q'' \<Longrightarrow> length (AddRequest_InternalSerialize w q'') < 2 ^ 31 \<Longrightarrow>
   user_req_parse w \<lparr>md_name = m, md_index = 2\<rparr> (AddRequest_InternalSerialize w q'') = Some (AddReq q'')"
  by (simp_all add: user_req_parse_def UserServiceRpc_GetRequestPrototype_def parsed_def user_parsers
      login_request.roundtrip register_request.roundtrip add_request.roundtrip)

lemma dispatch_user:
  "no_unknown_fields w q \<Longrightarrow> length (LoginRequest_InternalSerialize w q) < 2 ^ 31 \<Longrightarrow>
   dispatch (publish_all [user_service w]) ''UserServiceRpc'' ''Login'' (LoginRequest_InternalSerialize w q) =
     Sent (LoginResponse_InternalSerialize w (login_reply w))"
  "no_unknown_fields w q' \<Longrightarrow> length (RegisterRequest_InternalSerialize w q') < 2 ^ 31 \<Longrightarrow>
   dispatch (publish_all [user_service w]) ''UserServiceRpc'' ''Register'' (RegisterRequest_InternalSerialize w q') =
     Crashed (Undefined ''null controller'')"
  "no_unknown_fields w q'' \<Longrightarrow> length (AddRequest_InternalSerialize w q'') < 2 ^ 31 \<Longrightarrow>
   dispatch (publish_all [user_service w]) ''UserServiceRpc'' ''Add'' (AddRequest_InternalSerialize w q'') =
     (case add_int32 (aq_a q'') (aq_b q'') of
        Inl e \<Rightarrow> Crashed e
      | Inr n \<Rightarrow> Sent (AddResponse_InternalSerialize w (add_reply w n)))"
  by (simp_all add: dispatch_def user_table user_methods_def)
    (simp_all add: user_service_def request_parsed user_calls reply_serialized [simplified] KrpcProvider_SendRpcResponse_def
      split: sum.split)

end

section \<open>Properties\<close>

text \<open>The bytes a client sends to call a method of this service.\<close>

definition user_request_bytes :: "('s, 'l) pb_io \<Rightarrow> 'u pb_wire \<Rightarrow> string \<Rightarrow> string \<Rightarrow> string" where
  "user_request_bytes io w m args =
     request_bytes io w ((RpcHeader_SharedCtor w)\<lparr>hdr_service_name := ''UserServiceRpc'',
       hdr_method_name := m, hdr_args_size := word_of_nat (length args)\<rparr>) args"

lemma user_OnMessage:
  assumes "rpc_wire io pending w" "length (user_request_bytes io w m args) < 2 ^ 31"
  shows "length args < 2 ^ 31" and "KrpcProvider_OnMessage io w tab (user_request_bytes io w m args) =
    Some (dispatch tab ''UserServiceRpc'' m args)"
proof -
  let ?h = "(RpcHeader_SharedCtor w)\<lparr>hdr_service_name := ''UserServiceRpc'',
    hdr_method_name := m, hdr_args_size := word_of_nat (length args)\<rparr>"
  have cs: "coded_stream io pending" using assms(1) by (simp add: rpc_wire_def)
  have len: "length (RpcHeader_InternalSerialize w ?h) < 2 ^ 31" "length args < 2 ^ 31"
    using assms(2) coded_stream.write_string [OF cs]
    by (simp_all add: user_request_bytes_def request_bytes_def Let_def)
  have known: "no_unknown_fields w ?h" by (simp add: no_unknown_fields_def RpcHeader_SharedCtor_def)
  show "length args < 2 ^ 31" by (rule len)
  show "KrpcProvider_OnMessage io w tab (user_request_bytes io w m args) =
      Some (dispatch tab ''UserServiceRpc'' m args)"
    using rpc_wire.OnMessage_dispatches [OF assms(1) known len(1) _ len(2), of tab "[]"]
    by (simp add: user_request_bytes_def)
qed

lemma user_bytes_small:
  assumes "length m < 100" "length args < 1000"
  shows "length (user_request_bytes std_io std_wire m args) < 2 ^ 31"
proof -
  let ?h = "(RpcHeader_SharedCtor std_wire)\<lparr>hdr_service_name := ''UserServiceRpc'',
    hdr_method_name := m, hdr_args_size := word_of_nat (length args)\<rparr>"
  have "length (RpcHeader_InternalSerialize std_wire ?h) \<le> 150"
    using assms(1) varint_word [of "word_of_nat (length args)"]
    by (simp add: RpcHeader_InternalSerialize_def std_wire_run length_std_tag length_varint_small
        write_unknown_def RpcHeader_SharedCtor_def)
  then show ?thesis
    using assms(2) varint_word [of "word_of_nat (length
      (RpcHeader_InternalSerialize std_wire ?h))"]
    by (simp add: user_request_bytes_def request_bytes_def Let_def std_io_def)
qed

lemma login_answered:
  assumes "rpc_wire io pending w" "message_format w" "no_unknown_fields w q"
    and "length (user_request_bytes io w ''Login'' (LoginRequest_InternalSerialize w q)) < 2 ^ 31"
  shows "\<exists>s r. KrpcProvider_OnMessage io w (publish_all [user_service w])
        (user_request_bytes io w ''Login'' (LoginRequest_InternalSerialize w q)) = Some (Sent s) \<and>
      pb_ParseFromString w (LoginResponse_Clear w) (LoginResponse_InternalParse w) s m0 = Some (True, r) \<and>
      lr_success r \<and> rc_errcode (LoginResponse_result w r) = 0"
proof (intro exI conjI)
  show "KrpcProvider_OnMessage io w (publish_all [user_service w])
      (user_request_bytes io w ''Login'' (LoginRequest_InternalSerialize w q)) =
      Some (Sent (LoginResponse_InternalSerialize w (login_reply w)))"
    using user_OnMessage(1) [OF assms(1,4)]
        user_OnMessage(2) [OF assms(1,4), of "publish_all [user_service w]"] message_format.dispatch_user(1) [OF assms(2,3)] by simp
qed (rule message_format.reply_parsed(1) [OF assms(2)],
     simp_all add: login_reply_def ok_result_def LoginResponse_result_def)

lemma add_answered:
  assumes "rpc_wire io pending w" "message_format w" "no_unknown_fields w a"
    and "length (user_request_bytes io w ''Add'' (AddRequest_InternalSerialize w a)) < 2 ^ 31"
  shows "if - (2 ^ 31) \<le> sint (aq_a a) + sint (aq_b a) \<and> sint (aq_a a) + sint (aq_b a) < 2 ^ 31
     then \<exists>s r. KrpcProvider_OnMessage io w (publish_all [user_service w])
          (user_request_bytes io w ''Add'' (AddRequest_InternalSerialize w a)) = Some (Sent s) \<and>
        pb_ParseFromString w (AddResponse_Clear w) (AddResponse_InternalParse w) s m1 = Some (True, r) \<and>
        sint (ar_sum r) = sint (aq_a a) + sint (aq_b a) \<and> rc_errcode (AddResponse_result w r) = 0
     else KrpcProvider_OnMessage io w (publish_all [user_service w])
          (user_request_bytes io w ''Add'' (AddRequest_InternalSerialize w a)) =
        Some (Crashed (Undefined ''signed overflow''))"
    (is "if ?range then ?ok else ?crash")
proof (cases "add_int32 (aq_a a) (aq_b a)")
  case (Inl e)
  then have e: "e = Undefined ''signed overflow''" "\<not> ?range" by (simp_all add: add_int32_def split: if_splits)
  have ?crash
    using user_OnMessage(1) [OF assms(1,4)]
        user_OnMessage(2) [OF assms(1,4), of "publish_all [user_service w]"] message_format.dispatch_user(3) [OF assms(2,3)] Inl e(1) by simp
  with e(2) show ?thesis by (simp only: if_False)
next
  case (Inr n)
  then have range: ?range and n: "sint n = sint (aq_a a) + sint (aq_b a)"
    using add_int32_sint [of "aq_a a" "aq_b a" n] by (simp_all add: add_int32_def split: if_splits)
  have ?ok
  proof (intro exI conjI)
    show "KrpcProvider_OnMessage io w (publish_all [user_service w])
        (user_request_bytes io w ''Add'' (AddRequest_InternalSerialize w a)) =
        Some (Sent (AddResponse_InternalSerialize w (add_reply w n)))"
      using user_OnMessage(1) [OF assms(1,4)]
        user_OnMessage(2) [OF assms(1,4), of "publish_all [user_service w]"] message_format.dispatch_user(3) [OF assms(2,3)] Inr by simp
  qed (rule message_format.reply_parsed(2) [OF assms(2)],
       simp_all add: n add_reply_def ok_result_def AddResponse_result_def)
  with range show ?thesis by (simp only: if_True simp_thms)
qed

text \<open>C4: The example server answers what it is asked: a login request in the buffer is answered with bytes
  that parse as success with error code 0, and an add request with bytes that parse as error code 0
  and the sum of the two operands, when the sum is an \<open>int32\<close>; a sum out of range is undefined.\<close>

theorem user_server_answers:
  assumes "rpc_wire io pending w" "message_format w"
    and "no_unknown_fields w q" "no_unknown_fields w a"
    and "length (user_request_bytes io w ''Login'' (LoginRequest_InternalSerialize w q)) < 2 ^ 31"
    and "length (user_request_bytes io w ''Add'' (AddRequest_InternalSerialize w a)) < 2 ^ 31"
  shows "(\<exists>s r. KrpcProvider_OnMessage io w (publish_all [user_service w])
        (user_request_bytes io w ''Login'' (LoginRequest_InternalSerialize w q)) = Some (Sent s) \<and>
      pb_ParseFromString w (LoginResponse_Clear w) (LoginResponse_InternalParse w) s m0 = Some (True, r) \<and>
      lr_success r \<and> rc_errcode (LoginResponse_result w r) = 0) \<and>
    (if - (2 ^ 31) \<le> sint (aq_a a) + sint (aq_b a) \<and> sint (aq_a a) + sint (aq_b a) < 2 ^ 31
     then \<exists>s r. KrpcProvider_OnMessage io w (publish_all [user_service w])
          (user_request_bytes io w ''Add'' (AddRequest_InternalSerialize w a)) = Some (Sent s) \<and>
        pb_ParseFromString w (AddResponse_Clear w) (AddResponse_InternalParse w) s m1 = Some (True, r) \<and>
        sint (ar_sum r) = sint (aq_a a) + sint (aq_b a) \<and> rc_errcode (AddResponse_result w r) = 0
     else KrpcProvider_OnMessage io w (publish_all [user_service w])
          (user_request_bytes io w ''Add'' (AddRequest_InternalSerialize w a)) =
        Some (Crashed (Undefined ''signed overflow'')))"
  using login_answered [OF assms(1-3,5)] add_answered [OF assms(1,2,4,6)] by (rule conjI)

definition example_login :: "string LoginRequest" where
  "example_login = \<lparr>msg_unknown = '''', lq_name = ''zhangsan'', lq_pwd = ''123456''\<rparr>"

definition example_sum :: "string AddRequest" where
  "example_sum = \<lparr>msg_unknown = '''', aq_a = 40, aq_b = 2\<rparr>"

lemma example_requests_small:
  "length (user_request_bytes std_io std_wire ''Login'' (LoginRequest_InternalSerialize std_wire example_login)) < 2 ^ 31"
  "length (user_request_bytes std_io std_wire ''Add'' (AddRequest_InternalSerialize std_wire example_sum)) < 2 ^ 31"
  by (rule user_bytes_small; simp add: LoginRequest_InternalSerialize_def AddRequest_InternalSerialize_def example_login_def
      example_sum_def write_unknown_def std_wire_run length_std_tag length_varint_small)+

theorem user_server_answers_witness:
  "(\<exists>s r. KrpcProvider_OnMessage std_io std_wire (publish_all [user_service std_wire])
        (user_request_bytes std_io std_wire ''Login'' (LoginRequest_InternalSerialize std_wire example_login)) =
        Some (Sent s) \<and>
      pb_ParseFromString std_wire (LoginResponse_Clear std_wire) (LoginResponse_InternalParse std_wire) s
        (LoginResponse_SharedCtor std_wire) = Some (True, r) \<and> lr_success r) \<and>
   (\<exists>s r. KrpcProvider_OnMessage std_io std_wire (publish_all [user_service std_wire])
        (user_request_bytes std_io std_wire ''Add'' (AddRequest_InternalSerialize std_wire example_sum)) =
        Some (Sent s) \<and>
      pb_ParseFromString std_wire (AddResponse_Clear std_wire) (AddResponse_InternalParse std_wire) s
        (AddResponse_SharedCtor std_wire) = Some (True, r) \<and> sint (ar_sum r) = 42)"
proof -
  have known: "no_unknown_fields std_wire example_login" "no_unknown_fields std_wire example_sum"
    by (simp_all add: no_unknown_fields_def example_login_def example_sum_def std_wire_run)
  have sum: "sint (aq_a example_sum) + sint (aq_b example_sum) = 42" by (simp add: example_sum_def)
  note both = user_server_answers [where ?m0.0 = "LoginResponse_SharedCtor std_wire"
      and ?m1.0 = "AddResponse_SharedCtor std_wire", OF std_rpc.rpc_wire_axioms std_message.message_format_axioms known
      example_requests_small, unfolded sum]
  show ?thesis using both by simp blast
qed

text \<open>C30: A request for \<open>Register\<close> crashes the example server.  The method is in the service's descriptor, so it
  is published and found, but it is not overridden: the generated base method reports the failure
  to the controller, which the provider passes as a null pointer.\<close>

theorem register_crashes_server:
  assumes "rpc_wire io pending w" "message_format w" "no_unknown_fields w q"
    and "length (user_request_bytes io w ''Register'' (RegisterRequest_InternalSerialize w q)) < 2 ^ 31"
  shows "KrpcProvider_OnMessage io w (publish_all [user_service w])
      (user_request_bytes io w ''Register'' (RegisterRequest_InternalSerialize w q)) =
    Some (Crashed (Undefined ''null controller''))"
  using user_OnMessage(2) [OF assms(1,4), where tab = "publish_all [user_service w]"]
    message_format.dispatch_user(2) [OF assms(2,3) user_OnMessage(1) [OF assms(1,4)]]
  by simp

definition example_register :: "string RegisterRequest" where
  "example_register = \<lparr>msg_unknown = '''', rq_id = 7, rq_name = ''zhangsan'', rq_pwd = ''123456''\<rparr>"

theorem register_crashes_server_witness:
  "KrpcProvider_OnMessage std_io std_wire (publish_all [user_service std_wire])
      (user_request_bytes std_io std_wire ''Register'' (RegisterRequest_InternalSerialize std_wire example_register)) =
    Some (Crashed (Undefined ''null controller''))"
proof -
  have known: "no_unknown_fields std_wire example_register"
    by (simp add: no_unknown_fields_def example_register_def std_wire_run)
  have "length (user_request_bytes std_io std_wire ''Register''
      (RegisterRequest_InternalSerialize std_wire example_register)) < 2 ^ 31"
    by (rule user_bytes_small) (simp_all add: RegisterRequest_InternalSerialize_def example_register_def
        write_unknown_def std_wire_run length_std_tag length_varint_small)
  from register_crashes_server [OF std_rpc.rpc_wire_axioms std_message.message_format_axioms known this]
  show ?thesis .
qed

end
