(* ===== verification/User_Client.thy ===== *)
theory User_Client
  imports Remote_Call User_Service
begin

text \<open>
  The example client, \<^verbatim>\<open>src/example/caller/Kclient.cc\<close>, over the stub protoc generated for the user
  service (\<^verbatim>\<open>src/example/user.pb.cc\<close>): the two request functions, which count successes and
  failures, and the benchmark of \<^verbatim>\<open>main\<close>.  A call's surroundings are its \<open>call_env\<close>.
\<close>

section \<open>The stub\<close>

text \<open>\<^verbatim>\<open>ParseFromArray\<close> of a response; the parser always returns.\<close>

definition response_parse ::
    "'u pb_wire \<Rightarrow> ('m \<Rightarrow> 'm) \<Rightarrow> (string \<Rightarrow> 'm \<Rightarrow> 'm parse_outcome option) \<Rightarrow> string \<Rightarrow> 'm \<Rightarrow> bool \<times> 'm" where
  "response_parse w clear parse s m =
     (case pb_ParseFromString w clear parse s m of None \<Rightarrow> (False, m) | Some r \<Rightarrow> r)"

definition UserServiceRpc_Stub_Login ::
    "('s, 'l) pb_io \<Rightarrow> 'u pb_wire \<Rightarrow> ('z, 'h) call_env \<Rightarrow> 'u LoginRequest \<Rightarrow> 'u LoginResponse
     \<Rightarrow> 'cb krpc_controller \<Rightarrow> krpc_channel \<Rightarrow> kern
     \<Rightarrow> ('u LoginResponse \<times> 'cb krpc_controller \<times> krpc_channel \<times> kern) res option" where
  "UserServiceRpc_Stub_Login io w env request response controller channel k =
     KrpcChannel_CallMethod io w env ''UserServiceRpc'' (md_name (user_methods ! 0))
       (pb_SerializeToString w (LoginRequest_ByteSizeLong w) (LoginRequest_InternalSerialize w) request)
       (response_parse w (LoginResponse_Clear w) (LoginResponse_InternalParse w)) response controller channel k"

definition UserServiceRpc_Stub_Register ::
    "('s, 'l) pb_io \<Rightarrow> 'u pb_wire \<Rightarrow> ('z, 'h) call_env \<Rightarrow> 'u RegisterRequest \<Rightarrow> 'u RegisterResponse
     \<Rightarrow> 'cb krpc_controller \<Rightarrow> krpc_channel \<Rightarrow> kern
     \<Rightarrow> ('u RegisterResponse \<times> 'cb krpc_controller \<times> krpc_channel \<times> kern) res option" where
  "UserServiceRpc_Stub_Register io w env request response controller channel k =
     KrpcChannel_CallMethod io w env ''UserServiceRpc'' (md_name (user_methods ! 1))
       (pb_SerializeToString w (RegisterRequest_ByteSizeLong w) (RegisterRequest_InternalSerialize w) request)
       (response_parse w (RegisterResponse_Clear w) (RegisterResponse_InternalParse w)) response controller channel k"

definition UserServiceRpc_Stub_Add ::
    "('s, 'l) pb_io \<Rightarrow> 'u pb_wire \<Rightarrow> ('z, 'h) call_env \<Rightarrow> 'u AddRequest \<Rightarrow> 'u AddResponse
     \<Rightarrow> 'cb krpc_controller \<Rightarrow> krpc_channel \<Rightarrow> kern
     \<Rightarrow> ('u AddResponse \<times> 'cb krpc_controller \<times> krpc_channel \<times> kern) res option" where
  "UserServiceRpc_Stub_Add io w env request response controller channel k =
     KrpcChannel_CallMethod io w env ''UserServiceRpc'' (md_name (user_methods ! 2))
       (pb_SerializeToString w (AddRequest_ByteSizeLong w) (AddRequest_InternalSerialize w) request)
       (response_parse w (AddResponse_Clear w) (AddResponse_InternalParse w)) response controller channel k"

section \<open>The request functions\<close>

record call_counts =
  success_count :: int
  fail_count :: int

text \<open>Each makes a channel of its own; \<open>port0\<close> is what the uninitialised port of the channel holds.\<close>

definition send_add_request ::
    "('s, 'l) pb_io \<Rightarrow> 'u pb_wire \<Rightarrow> ('z, 'h) call_env \<Rightarrow> 16 word \<Rightarrow> 32 word \<Rightarrow> 32 word \<Rightarrow> call_counts \<Rightarrow> kern
     \<Rightarrow> (call_counts \<times> kern) res option" where
  "send_add_request io w env port0 a b counts k =
     (let (channel, k) = KrpcChannel_new port0 [] False k;
          request = (AddRequest_SharedCtor w)\<lparr>aq_a := a, aq_b := b\<rparr>;
          response = AddResponse_SharedCtor w;
          controller = (KrpcController_new :: unit krpc_controller)
      in case UserServiceRpc_Stub_Add io w env request response controller channel k of
           None \<Rightarrow> None
         | Some (Inl e) \<Rightarrow> Some (Inl e)
         | Some (Inr (response, controller, channel, k)) \<Rightarrow>
             Some (Inr
               (if KrpcController_Failed controller then counts\<lparr>fail_count := fail_count counts + 1\<rparr>
                else if rc_errcode (AddResponse_result w response) \<noteq> 0
                then counts\<lparr>fail_count := fail_count counts + 1\<rparr>
                else if ar_sum response \<noteq> 123 + 456 then counts\<lparr>fail_count := fail_count counts + 1\<rparr>
                else counts\<lparr>success_count := success_count counts + 1\<rparr>, k)))"

definition send_request ::
    "('s, 'l) pb_io \<Rightarrow> 'u pb_wire \<Rightarrow> ('z, 'h) call_env \<Rightarrow> 16 word \<Rightarrow> call_counts \<Rightarrow> kern
     \<Rightarrow> (call_counts \<times> kern) res option" where
  "send_request io w env port0 counts k =
     (let (channel, k) = KrpcChannel_new port0 [] False k;
          request = (LoginRequest_SharedCtor w)\<lparr>lq_name := ''zhangsan'', lq_pwd := ''123456''\<rparr>;
          response = LoginResponse_SharedCtor w;
          controller = (KrpcController_new :: unit krpc_controller)
      in case UserServiceRpc_Stub_Login io w env request response controller channel k of
           None \<Rightarrow> None
         | Some (Inl e) \<Rightarrow> Some (Inl e)
         | Some (Inr (response, controller, channel, k)) \<Rightarrow>
             Some (Inr
               (if KrpcController_Failed controller then counts\<lparr>fail_count := fail_count counts + 1\<rparr>
                else if rc_errcode (LoginResponse_result w response) = 0
                then counts\<lparr>success_count := success_count counts + 1\<rparr>
                else counts\<lparr>fail_count := fail_count counts + 1\<rparr>, k)))"

section \<open>The benchmark\<close>

text \<open>
  The loop of a client thread: \<open>n\<close> more requests from the \<open>j\<close>-th, each in its own surroundings.
  \<^verbatim>\<open>main\<close> starts one thread, so its requests come one after the other.  An exception ends the program.
\<close>

fun client_thread ::
    "('s, 'l) pb_io \<Rightarrow> 'u pb_wire \<Rightarrow> (nat \<Rightarrow> ('z, 'h) call_env) \<Rightarrow> 16 word \<Rightarrow> nat \<Rightarrow> nat \<Rightarrow> nat \<Rightarrow> call_counts \<Rightarrow> kern
     \<Rightarrow> (call_counts \<times> kern) res option" where
  "client_thread io w env port0 i j 0 counts k = Some (Inr (counts, k))"
| "client_thread io w env port0 i j (Suc n) counts k =
     (case send_add_request io w (env j) port0 (word_of_nat j) (word_of_nat (i * 100000)) counts k of
        None \<Rightarrow> None
      | Some (Inl e) \<Rightarrow> Some (Inl e)
      | Some (Inr (counts, k)) \<Rightarrow> client_thread io w env port0 i (j + 1) n counts k)"

definition Kclient_main ::
    "('s, 'l) pb_io \<Rightarrow> 'u pb_wire \<Rightarrow> (nat \<Rightarrow> ('z, 'h) call_env) \<Rightarrow> 16 word \<Rightarrow> kern
     \<Rightarrow> (call_counts \<times> kern) res option" where
  "Kclient_main io w env port0 k =
     client_thread io w env port0 0 0 10 \<lparr>success_count = 0, fail_count = 0\<rparr> k"

section \<open>A server that answers\<close>

text \<open>
  \<open>delivers\<close>: the network takes all the bytes of a request and brings back what the example server's
  \<open>OnMessage\<close> sends for them.  \<open>user_server\<close>: the method is registered besides.
\<close>

definition delivers :: "('s, 'l) pb_io \<Rightarrow> 'u pb_wire \<Rightarrow> ('z, 'h) call_env \<Rightarrow> string \<Rightarrow> string \<Rightarrow> bool" where
  "delivers io w env m args \<longleftrightarrow>
     (\<exists>n. env_send env = IoN n \<and> length (user_request_bytes io w m args) \<le> n) \<and>
     length (user_request_bytes io w m args) < 2 ^ 31 \<and>
     (\<forall>reply. KrpcProvider_OnMessage io w (publish_all [user_service w]) (user_request_bytes io w m args) =
        Some (Sent reply) \<longrightarrow> env_recv env = Inr reply)"

definition user_server ::
    "('s, 'l) pb_io \<Rightarrow> 'u pb_wire \<Rightarrow> 'z zk_api \<Rightarrow> ('z \<Rightarrow> string \<Rightarrow> (string \<times> bool) option) \<Rightarrow> ('z \<Rightarrow> bool)
     \<Rightarrow> ('z, 'h) call_env \<Rightarrow> string \<Rightarrow> int \<Rightarrow> string \<Rightarrow> string \<Rightarrow> bool" where
  "user_server io w zk nodes up env ip port m args \<longleftrightarrow>
     env_zk env = zk \<and> up (env_z env) \<and> addr_ok ip port \<and>
     (\<exists>e. nodes (env_z env) (method_node ''UserServiceRpc'' m) = Some (addr_text ip port, e)) \<and>
     delivers io w env m args"

lemma new_channel: "KrpcChannel_new port0 [] False k =
    (\<lparr>m_clientfd = -1, m_service_name = [], m_method_name = [], m_ip = [], m_port = port0, m_idx = 0\<rparr>, k)"
  by (simp add: KrpcChannel_new_def)

lemma user_bytes_header: "user_request_bytes io w m args = request_bytes io w (call_header w ''UserServiceRpc'' m args) args"
  by (simp add: user_request_bytes_def call_header_def)

lemma user_header_small:
  assumes "rpc_wire io pending w" "length (user_request_bytes io w m args) < 2 ^ 31"
  shows "length (RpcHeader_InternalSerialize w (call_header w ''UserServiceRpc'' m args)) < 2 ^ 31"
proof -
  have "coded_stream io pending" using assms(1) by (simp add: rpc_wire_def)
  then show ?thesis
    using assms(2) coded_stream.write_string [of io pending]
    by (simp add: user_bytes_header request_bytes_def Let_def)
qed

lemma call_delivered:
  assumes wire: "rpc_wire io pending w" and zk: "zookeeper_store zk nodes up" and net: "network_up env k"
    and server: "user_server io w zk nodes up env ip port m args" and m: "path_name m" and ch: "m_clientfd ch = -1"
    and reply: "KrpcProvider_OnMessage io w (publish_all [user_service w]) (user_request_bytes io w m args) =
      Some (Sent reply)" "length reply \<le> 1024" "parse reply resp = (True, resp')"
  shows "\<exists>ch' k'. KrpcChannel_CallMethod io w env ''UserServiceRpc'' m (Some args) parse resp c ch k =
    Some (Inr (resp', c, ch', k')) \<and> open_fds k' = open_fds k"
proof -
  have wf: "wire_format w" using wire by (simp add: rpc_wire_def)
  have name: "path_name ''UserServiceRpc''" by (simp add: path_name_def)
  obtain e n where s: "env_zk env = zk" "up (env_z env)" "addr_ok ip port"
    "nodes (env_z env) (method_node ''UserServiceRpc'' m) = Some (addr_text ip port, e)"
    "env_send env = IoN n" "length (user_request_bytes io w m args) \<le> n"
    "length (user_request_bytes io w m args) < 2 ^ 31" "env_recv env = Inr reply"
    using server reply(1) by (auto simp: user_server_def delivers_def)
  have "\<exists>k'. KrpcChannel_CallMethod io w env ''UserServiceRpc'' m (Some args) parse resp c ch k =
      Some (Inr (resp', c, (found_channel ''UserServiceRpc'' m ip port ch)\<lparr>m_clientfd := env_fd env\<rparr>, k')) \<and>
    open_fds k' = open_fds k \<and>
    sys_log k' = sys_log k @ [EvSocket (env_fd env), EvConnect (env_fd env) ip (word_of_int port),
      EvSend (env_fd env) (request_bytes io w (call_header w ''UserServiceRpc'' m args) args),
      EvRecv (env_fd env) reply, EvClose (env_fd env) True]"
    using s(6) by (intro served_call [where parse = parse and resp = resp and resp' = resp',
        OF wf zk net s(1,2,4) name m s(3) ch user_header_small [OF wire s(7)] s(5) _ s(8) reply(2,3)])
      (simp add: user_bytes_header)
  then show ?thesis by blast
qed

section \<open>What the counters say\<close>

context message_format
begin

lemma request_serialized:
  "length (LoginRequest_InternalSerialize w q) < 2 ^ 31 \<Longrightarrow>
   pb_SerializeToString w (LoginRequest_ByteSizeLong w) (LoginRequest_InternalSerialize w) q =
     Some (LoginRequest_InternalSerialize w q)"
  "length (AddRequest_InternalSerialize w a) < 2 ^ 31 \<Longrightarrow>
   pb_SerializeToString w (AddRequest_ByteSizeLong w) (AddRequest_InternalSerialize w) a =
     Some (AddRequest_InternalSerialize w a)"
  by (simp_all add: pb_SerializeToString_def login_request.size_written add_request.size_written accept_size)

end

definition add_args :: "'u pb_wire \<Rightarrow> 32 word \<Rightarrow> 32 word \<Rightarrow> string" where
  "add_args w a b = AddRequest_InternalSerialize w ((AddRequest_SharedCtor w)\<lparr>aq_a := a, aq_b := b\<rparr>)"

definition login_args :: "'u pb_wire \<Rightarrow> string" where
  "login_args w =
     LoginRequest_InternalSerialize w ((LoginRequest_SharedCtor w)\<lparr>lq_name := ''zhangsan'', lq_pwd := ''123456''\<rparr>)"

definition count_call :: "bool \<Rightarrow> call_counts \<Rightarrow> call_counts" where
  "count_call ok counts = (if ok then counts\<lparr>success_count := success_count counts + 1\<rparr>
     else counts\<lparr>fail_count := fail_count counts + 1\<rparr>)"

lemma add_counted:
  assumes "rpc_wire io pending w" "message_format w" "zookeeper_store zk nodes up" "network_up env k"
    and "user_server io w zk nodes up env ip port ''Add'' (add_args w a b)" "add_int32 a b = Inr n"
  shows "\<exists>k'. send_add_request io w env port0 a b counts k = Some (Inr (count_call (n = 579) counts, k')) \<and>
    open_fds k' = open_fds k"
proof -
  let ?q = "(AddRequest_SharedCtor w)\<lparr>aq_a := a, aq_b := b\<rparr>"
  let ?ch = "\<lparr>m_clientfd = -1, m_service_name = [], m_method_name = [], m_ip = [], m_port = port0, m_idx = 0\<rparr>"
  let ?reply = "AddResponse_InternalSerialize w (add_reply w n)"
  have small: "length (user_request_bytes io w ''Add'' (add_args w a b)) < 2 ^ 31"
    using assms(5) by (simp add: user_server_def delivers_def)
  note len = user_OnMessage(1) [OF assms(1) small]
  have known: "no_unknown_fields w ?q" by (simp add: no_unknown_fields_def AddRequest_SharedCtor_def)
  have sent: "KrpcProvider_OnMessage io w (publish_all [user_service w]) (user_request_bytes io w ''Add'' (add_args w a b)) =
      Some (Sent ?reply)"
    using user_OnMessage(2) [OF assms(1) small, of "publish_all [user_service w]"] len
      message_format.dispatch_user(3) [OF assms(2) known] assms(6) by (simp add: add_args_def)
  have size: "length ?reply \<le> 1024" using message_format.reply_small(2) [OF assms(2), of n] by simp
  have parse: "response_parse w (AddResponse_Clear w) (AddResponse_InternalParse w) ?reply (AddResponse_SharedCtor w) =
      (True, add_reply w n)"
    using message_format.reply_parsed(2) [OF assms(2)] by (simp add: response_parse_def)
  have name: "path_name ''Add''" by (simp add: path_name_def)
  obtain ch' k' where "KrpcChannel_CallMethod io w env ''UserServiceRpc'' ''Add'' (Some (add_args w a b))
      (response_parse w (AddResponse_Clear w) (AddResponse_InternalParse w)) (AddResponse_SharedCtor w)
      (KrpcController_new :: unit krpc_controller) ?ch k =
      Some (Inr (add_reply w n, KrpcController_new, ch', k'))" "open_fds k' = open_fds k"
    using call_delivered [where parse = "response_parse w (AddResponse_Clear w) (AddResponse_InternalParse w)"
        and resp = "AddResponse_SharedCtor w" and ch = ?ch and c = "KrpcController_new :: unit krpc_controller",
        OF assms(1,3,4,5) name _ sent size parse] by auto
  then show ?thesis
    using message_format.request_serialized(2) [OF assms(2), of ?q] len
    by (simp add: send_add_request_def new_channel UserServiceRpc_Stub_Add_def user_methods_def add_args_def
        add_reply_def AddResponse_result_def ok_result_def count_call_def KrpcController_new_def
        KrpcController_Failed_def)
qed

lemma login_counted:
  assumes "rpc_wire io pending w" "message_format w" "zookeeper_store zk nodes up" "network_up env k"
    and "user_server io w zk nodes up env ip port ''Login'' (login_args w)"
  shows "\<exists>k'. send_request io w env port0 counts k = Some (Inr (count_call True counts, k')) \<and>
    open_fds k' = open_fds k"
proof -
  let ?q = "(LoginRequest_SharedCtor w)\<lparr>lq_name := ''zhangsan'', lq_pwd := ''123456''\<rparr>"
  let ?ch = "\<lparr>m_clientfd = -1, m_service_name = [], m_method_name = [], m_ip = [], m_port = port0, m_idx = 0\<rparr>"
  let ?reply = "LoginResponse_InternalSerialize w (login_reply w)"
  have small: "length (user_request_bytes io w ''Login'' (login_args w)) < 2 ^ 31"
    using assms(5) by (simp add: user_server_def delivers_def)
  note len = user_OnMessage(1) [OF assms(1) small]
  have known: "no_unknown_fields w ?q" by (simp add: no_unknown_fields_def LoginRequest_SharedCtor_def)
  have sent: "KrpcProvider_OnMessage io w (publish_all [user_service w]) (user_request_bytes io w ''Login'' (login_args w)) =
      Some (Sent ?reply)"
    using user_OnMessage(2) [OF assms(1) small, of "publish_all [user_service w]"] len
      message_format.dispatch_user(1) [OF assms(2) known] by (simp add: login_args_def)
  have size: "length ?reply \<le> 1024" using message_format.reply_small(1) [OF assms(2)] by simp
  have parse: "response_parse w (LoginResponse_Clear w) (LoginResponse_InternalParse w) ?reply
      (LoginResponse_SharedCtor w) = (True, login_reply w)"
    using message_format.reply_parsed(1) [OF assms(2)] by (simp add: response_parse_def)
  have name: "path_name ''Login''" by (simp add: path_name_def)
  obtain ch' k' where "KrpcChannel_CallMethod io w env ''UserServiceRpc'' ''Login'' (Some (login_args w))
      (response_parse w (LoginResponse_Clear w) (LoginResponse_InternalParse w)) (LoginResponse_SharedCtor w)
      (KrpcController_new :: unit krpc_controller) ?ch k =
      Some (Inr (login_reply w, KrpcController_new, ch', k'))" "open_fds k' = open_fds k"
    using call_delivered [where parse = "response_parse w (LoginResponse_Clear w) (LoginResponse_InternalParse w)"
        and resp = "LoginResponse_SharedCtor w" and ch = ?ch and c = "KrpcController_new :: unit krpc_controller",
        OF assms(1,3,4,5) name _ sent size parse] by auto
  then show ?thesis
    using message_format.request_serialized(1) [OF assms(2), of ?q] len
    by (simp add: send_request_def new_channel UserServiceRpc_Stub_Login_def user_methods_def login_args_def
        login_reply_def LoginResponse_result_def ok_result_def count_call_def KrpcController_new_def
        KrpcController_Failed_def)
qed

lemma newConnect_refused: "\<exists>k'. KrpcChannel_newConnect fd (Some err) ip port ch k = (False, ch, k')"
  by (auto simp: KrpcChannel_newConnect_def posix Let_def split: if_splits)

lemma refused_call:
  assumes "zookeeper_store zk nodes up" "env_starts env" "length (env_stack env) = 64" "set (env_stack env) \<subseteq> {NUL}"
    and "env_zk env = zk" "up (env_z env)" "nodes (env_z env) (method_node s m) = Some (addr_text ip port, e)"
    and "path_name s" "path_name m" "addr_ok ip port" "env_connect env = Some err" "m_clientfd ch = -1"
  shows "\<exists>ch' k'. KrpcChannel_CallMethod io w env s m request parse resp c ch k = Some (Inr (resp, c, ch', k'))"
proof -
  obtain k' where "KrpcChannel_newConnect (env_fd env) (Some err) ip (word_of_int port)
      (found_channel s m ip port ch) k = (False, found_channel s m ip port ch, k')"
    using newConnect_refused by blast
  then have "call_connect env s m ch k = Some (Inr (False, found_channel s m ip port ch, k'))"
    using zookeeper_store.call_connect_found [OF assms(1,2,5-10,3,4), of ch k] assms(11)
    by (simp add: found_channel_def)
  then show ?thesis using assms(12) by (simp add: KrpcChannel_CallMethod_def)
qed

text \<open>Request after request of the benchmark: operand \<open>j\<close> and zero.\<close>

lemma add_int32_small: "j < 2 ^ 31 \<Longrightarrow> add_int32 (word_of_nat j) 0 = Inr (word_of_nat j)"
  using sint_word_of_nat [of j] by (simp add: add_int32_def)

lemma client_thread_failed:
  assumes "rpc_wire io pending w" "message_format w" "zookeeper_store zk nodes up"
    and "\<And>j. j0 \<le> j \<Longrightarrow> j < j0 + n \<Longrightarrow> network_up (env j) k \<and>
      user_server io w zk nodes up (env j) ip port ''Add'' (add_args w (word_of_nat j) 0)"
    and "j0 + n \<le> 579"
  shows "\<exists>k'. client_thread io w env port0 0 j0 n counts k =
    Some (Inr (counts\<lparr>fail_count := fail_count counts + int n\<rparr>, k')) \<and> open_fds k' = open_fds k"
  using assms(4,5)
proof (induction n arbitrary: j0 counts k)
  case 0
  then show ?case by simp
next
  case (Suc n)
  have net: "network_up (env j0) k"
    and srv: "user_server io w zk nodes up (env j0) ip port ''Add'' (add_args w (word_of_nat j0) 0)"
    using Suc.prems(1) [of j0] by simp_all
  have small: "j0 < 579" using Suc.prems(2) by simp
  then have ne: "(word_of_nat j0 :: 32 word) \<noteq> 579"
    using sint_word_of_nat [of j0] by (auto dest: arg_cong [where f = sint])
  obtain k1 where k1: "send_add_request io w (env j0) port0 (word_of_nat j0) 0 counts k =
      Some (Inr (counts\<lparr>fail_count := fail_count counts + 1\<rparr>, k1))" "open_fds k1 = open_fds k"
    using add_counted [OF assms(1-3) net srv add_int32_small, of port0 counts] small ne
    by (auto simp: count_call_def)
  have "network_up (env j) k1 \<and> user_server io w zk nodes up (env j) ip port ''Add'' (add_args w (word_of_nat j) 0)"
    if "j0 + 1 \<le> j" "j < j0 + 1 + n" for j
    using Suc.prems(1) [of j] that k1(2) by (simp add: network_up_def)
  then obtain k' where "client_thread io w env port0 0 (j0 + 1) n (counts\<lparr>fail_count := fail_count counts + 1\<rparr>) k1 =
      Some (Inr (counts\<lparr>fail_count := fail_count counts + 1 + int n\<rparr>, k'))" "open_fds k' = open_fds k1"
    using Suc.IH [of "j0 + 1" k1 "counts\<lparr>fail_count := fail_count counts + 1\<rparr>"] Suc.prems(2) by auto
  then show ?case using k1 by (simp add: add.commute add.left_commute)
qed

section \<open>Properties\<close>

text \<open>The request function of the client counts what the server answers: with the method registered and the
  network up, a call for two operands whose sum is an \<open>int32\<close> comes back with that sum, is counted as
  a success when it is 579 and as a failure otherwise, and leaves no descriptor open.\<close>

theorem add_request_counted:
  assumes "rpc_wire io pending w" "message_format w" "zookeeper_store zk nodes up" "network_up env k"
    and "user_server io w zk nodes up env ip port ''Add'' (add_args w a b)"
    and "- (2 ^ 31) \<le> sint a + sint b" "sint a + sint b < 2 ^ 31"
  shows "\<exists>k'. send_add_request io w env port0 a b counts k =
      Some (Inr (if sint a + sint b = 579 then counts\<lparr>success_count := success_count counts + 1\<rparr>
        else counts\<lparr>fail_count := fail_count counts + 1\<rparr>, k')) \<and>
    open_fds k' = open_fds k"
proof -
  have n: "add_int32 a b = Inr (a + b)" using assms(6,7) by (simp add: add_int32_def)
  have "a + b = 579 \<longleftrightarrow> sint (a + b) = sint (579 :: 32 word)" by (auto intro: signed_word_eqI)
  then have "a + b = 579 \<longleftrightarrow> sint a + sint b = 579" using add_int32_sint [OF n] by simp
  then show ?thesis using add_counted [OF assms(1-5) n, of port0 counts] by (simp add: count_call_def)
qed

text \<open>The benchmark of the example client reports every call as failed against a server that answers them all
  correctly: its ten requests add the operands 0 to 9 and 0, but each reply is compared with 579.\<close>

theorem benchmark_all_failed:
  assumes "rpc_wire io pending w" "message_format w" "zookeeper_store zk nodes up"
    and "\<And>j. j < 10 \<Longrightarrow> network_up (env j) k \<and>
      user_server io w zk nodes up (env j) ip port ''Add'' (add_args w (word_of_nat j) 0)"
  shows "\<exists>k'. Kclient_main io w env port0 k = Some (Inr (\<lparr>success_count = 0, fail_count = 10\<rparr>, k')) \<and>
    open_fds k' = open_fds k"
  using client_thread_failed [OF assms(1-3), of 0 10 env k ip port port0 "\<lparr>success_count = 0, fail_count = 0\<rparr>"]
    assms(4)
  by (simp add: Kclient_main_def)

text \<open>C31: A login that never reached the server is counted as a success.  When the connection is refused,
  \<open>CallMethod\<close> returns without telling the controller, and the untouched response has error code 0.\<close>

theorem refused_login_counted:
  assumes "zookeeper_store zk nodes up" "env_starts env" "length (env_stack env) = 64" "set (env_stack env) \<subseteq> {NUL}"
    and "env_zk env = zk" "up (env_z env)"
    and "nodes (env_z env) (method_node ''UserServiceRpc'' ''Login'') = Some (addr_text ip port, e)"
    and "addr_ok ip port" "env_connect env = Some err"
  shows "\<exists>k'. send_request io w env port0 counts k =
    Some (Inr (counts\<lparr>success_count := success_count counts + 1\<rparr>, k'))"
proof -
  have names: "path_name ''UserServiceRpc''" "path_name ''Login''" by (simp_all add: path_name_def)
  have login_name: "md_name (user_methods ! 0) = ''Login''" by (simp add: user_methods_def)
  let ?ch = "\<lparr>m_clientfd = -1, m_service_name = [], m_method_name = [], m_ip = [], m_port = port0, m_idx = 0\<rparr>"
  have "\<exists>ch' k'. UserServiceRpc_Stub_Login io w env ((LoginRequest_SharedCtor w)\<lparr>lq_name := ''zhangsan'',
      lq_pwd := ''123456''\<rparr>) (LoginResponse_SharedCtor w) (KrpcController_new :: unit krpc_controller) ?ch k =
      Some (Inr (LoginResponse_SharedCtor w, KrpcController_new, ch', k'))"
    unfolding UserServiceRpc_Stub_Login_def login_name
    by (rule refused_call [OF assms(1-7) names assms(8,9)]) simp
  then show ?thesis
    by (auto simp: send_request_def new_channel KrpcController_new_def KrpcController_Failed_def
        LoginResponse_result_def LoginResponse_SharedCtor_def ResultCode_SharedCtor_def)
qed

section \<open>An instance\<close>

definition user_nodes :: "(string \<times> string \<times> bool) list" where
  "user_nodes = [(''/UserServiceRpc/Add'', ''10.0.0.1:8000'', True),
     (''/UserServiceRpc/Login'', ''10.0.0.1:8000'', True), (''/UserServiceRpc'', '''', False)]"

definition user_env :: "string \<Rightarrow> (zstore, unit) call_env" where
  "user_env reply = example_call_env user_nodes\<lparr>env_send := IoN (2 ^ 31), env_recv := Inr reply\<rparr>"

lemma args_small: "length (add_args std_wire a b) < 1000" "length (login_args std_wire) < 1000"
  using std_message.int32_size [of 1 a] std_message.int32_size [of 2 b]
    std_message.int32_size_le [of a] std_message.int32_size_le [of b]
  by (simp_all add: add_args_def login_args_def AddRequest_InternalSerialize_def LoginRequest_InternalSerialize_def
      AddRequest_SharedCtor_def LoginRequest_SharedCtor_def write_unknown_def std_wire.no_unknown std_wire_run
      length_std_tag length_varint_small)

lemma user_env_up: "network_up (user_env reply) example_kern"
  by (simp add: network_up_def user_env_def example_call_env_def env_starts_def example_kern_def)

lemma user_env_registered:
  "zstore_nodes (env_z (user_env reply)) (method_node ''UserServiceRpc'' ''Add'') = Some (addr_text ''10.0.0.1'' 8000, True)"
  "zstore_nodes (env_z (user_env reply)) (method_node ''UserServiceRpc'' ''Login'') = Some (addr_text ''10.0.0.1'' 8000, True)"
  by (simp_all add: user_env_def example_call_env_def zstore_nodes_def user_nodes_def method_node_def addr_text_def
      port_8000)

lemma user_env_adds:
  assumes "add_int32 a b = Inr n"
  shows "user_server std_io std_wire zstore_api zstore_nodes zup
    (user_env (AddResponse_InternalSerialize std_wire (add_reply std_wire n))) ''10.0.0.1'' 8000 ''Add''
    (add_args std_wire a b)"
proof -
  let ?q = "(AddRequest_SharedCtor std_wire)\<lparr>aq_a := a, aq_b := b\<rparr>"
  have small: "length (user_request_bytes std_io std_wire ''Add'' (add_args std_wire a b)) < 2 ^ 31"
    using args_small by (intro user_bytes_small) simp_all
  have known: "no_unknown_fields std_wire ?q" by (simp add: no_unknown_fields_def AddRequest_SharedCtor_def)
  have "KrpcProvider_OnMessage std_io std_wire (publish_all [user_service std_wire])
      (user_request_bytes std_io std_wire ''Add'' (add_args std_wire a b)) =
      Some (Sent (AddResponse_InternalSerialize std_wire (add_reply std_wire n)))"
    using user_OnMessage(2) [OF std_rpc.rpc_wire_axioms small, of "publish_all [user_service std_wire]"]
      user_OnMessage(1) [OF std_rpc.rpc_wire_axioms small]
      message_format.dispatch_user(3) [OF std_message.message_format_axioms known] assms
    by (simp add: add_args_def)
  then show ?thesis
    using small user_env_registered(1)
    by (simp add: user_server_def delivers_def addr_ok_def addr_text_def port_8000)
      (auto simp: user_env_def example_call_env_def)
qed

theorem add_request_counted_witness:
  "\<exists>k'. send_add_request std_io std_wire (user_env (AddResponse_InternalSerialize std_wire (add_reply std_wire 579)))
      0 123 456 \<lparr>success_count = 0, fail_count = 0\<rparr> example_kern =
    Some (Inr (\<lparr>success_count = 1, fail_count = 0\<rparr>, k')) \<and> open_fds k' = open_fds example_kern"
  using add_request_counted [OF std_rpc.rpc_wire_axioms std_message.message_format_axioms
      zstore.zookeeper_store_axioms user_env_up user_env_adds [of 123 456 579], of 0
      "\<lparr>success_count = 0, fail_count = 0\<rparr>"]
  by (simp add: add_int32_def)

theorem benchmark_all_failed_witness:
  "\<exists>k'. Kclient_main std_io std_wire
      (\<lambda>j. user_env (AddResponse_InternalSerialize std_wire (add_reply std_wire (word_of_nat j)))) 0 example_kern =
    Some (Inr (\<lparr>success_count = 0, fail_count = 10\<rparr>, k')) \<and> open_fds k' = open_fds example_kern"
  by (rule benchmark_all_failed [where ip = "''10.0.0.1''" and port = 8000, OF std_rpc.rpc_wire_axioms std_message.message_format_axioms
      zstore.zookeeper_store_axioms])
    (simp add: user_env_up user_env_adds add_int32_small)

theorem refused_login_counted_witness:
  "\<exists>k'. send_request std_io std_wire (user_env ''''\<lparr>env_connect := Some (Eother ''Connection refused'')\<rparr>) 0
      \<lparr>success_count = 0, fail_count = 0\<rparr> example_kern =
    Some (Inr (\<lparr>success_count = 1, fail_count = 0\<rparr>, k'))"
  using refused_login_counted [OF zstore.zookeeper_store_axioms, of "user_env ''''\<lparr>env_connect := Some (Eother ''Connection refused'')\<rparr>"
      "''10.0.0.1''" 8000 True "Eother ''Connection refused''" std_io std_wire 0 "\<lparr>success_count = 0, fail_count = 0\<rparr>" example_kern]
    user_env_up [of "''''"] user_env_registered(2) [of "''''"]
  by (simp add: network_up_def env_starts_def addr_ok_def addr_text_def port_8000)
    (simp add: user_env_def example_call_env_def)

end
