(* ===== verification/Drpc_Config.thy ===== *)
theory Drpc_Config
  imports Krpc_Config
begin

text \<open>
  The configuration reader of the Drpc library, \<^verbatim>\<open>src/Drpc/src/DrpcConfig.cpp\<close> and the inline \<open>Trim\<close> of
  \<^verbatim>\<open>src/Drpc/include/DrpcConfig.h\<close>.  It is a second loader of the same files: an instance of
  \<open>config_loader\<close> that fills a \<^verbatim>\<open>std::map\<close> instead of a \<^verbatim>\<open>std::unordered_map\<close>.
\<close>

definition DrpcConfig_Trim :: "string \<Rightarrow> string res" where
  "DrpcConfig_Trim read_buf =
     (let index = find_first_not_of SP read_buf in
      res_bind (if index \<noteq> -1 then substr read_buf index (int (length read_buf) - index)
                else Inr read_buf) (\<lambda>read_buf.
      let index = find_last_not_of SP read_buf in
      if index \<noteq> -1 then substr read_buf 0 (index + 1) else Inr read_buf))"

definition DrpcConfig_line :: "string \<Rightarrow> (string \<rightharpoonup> string) \<Rightarrow> (string \<rightharpoonup> string) res" where
  "DrpcConfig_line buf m_parameters =
     res_bind (DrpcConfig_Trim (c_str_to_string buf)) (\<lambda>read_buf.
     if str_at read_buf 0 = CHR ''#'' \<or> read_buf = [] then Inr m_parameters
     else let index = str_find CHR ''='' 0 read_buf in
     if index = -1 then Inr m_parameters
     else
       res_bind (substr read_buf 0 index) (\<lambda>key.
       res_bind (DrpcConfig_Trim key) (\<lambda>key.
       let endindex = str_find LF index read_buf in
       res_bind (substr read_buf (index + 1) (endindex - index - 1)) (\<lambda>value.
       res_bind (DrpcConfig_Trim value) (\<lambda>value.
       Inr (map_emplace key value m_parameters))))))"

function DrpcConfig_read :: "string \<Rightarrow> (string \<rightharpoonup> string) \<Rightarrow> (string \<rightharpoonup> string) res" where
  "DrpcConfig_read f m =
     (case fgets 1024 f of
        None \<Rightarrow> Inr m
      | Some (buf, rest) \<Rightarrow>
          (case DrpcConfig_line buf m of Inl e \<Rightarrow> Inl e | Inr m' \<Rightarrow> DrpcConfig_read rest m'))"
  by pat_completeness auto
termination
  by (relation "measure (\<lambda>(f, m). length f)")
    (auto simp: fgets_def Let_def neq_Nil_conv split: if_splits)

declare DrpcConfig_read.simps [simp del]

definition DrpcConfig_LoadFromFile ::
    "string option \<Rightarrow> (string \<rightharpoonup> string) \<Rightarrow> (bool \<times> (string \<rightharpoonup> string)) res" where
  \<comment> \<open>the result is the return value and the parameters\<close>
  "DrpcConfig_LoadFromFile file m =
     (case file of
        None \<Rightarrow> Inl ExitFailure
      | Some text \<Rightarrow> res_bind (DrpcConfig_read text m) (\<lambda>m'. Inr (True, m')))"

lemma DrpcConfig_Trim_is_Trim: "DrpcConfig_Trim = Krpcconfig_Trim"
  by (rule ext) (simp add: DrpcConfig_Trim_def Krpcconfig_Trim_def)

lemma DrpcConfig_line_is_line: "DrpcConfig_line = Krpcconfig_line"
  by (rule ext)+ (simp only: DrpcConfig_line_def Krpcconfig_line_def DrpcConfig_Trim_is_Trim)

lemma DrpcConfig_read_is_read: "DrpcConfig_read f m = Krpcconfig_read f m"
proof (induction f m rule: Krpcconfig_read.induct)
  case (1 f m)
  show ?case
    by (subst DrpcConfig_read.simps, subst Krpcconfig_read.simps)
      (auto simp: DrpcConfig_line_is_line 1 split: option.splits sum.splits)
qed

lemma LoadFromFile_is_LoadConfigFile:
  "DrpcConfig_LoadFromFile file m =
   res_bind (Krpcconfig_LoadConfigFile file m) (\<lambda>m'. Inr (True, m'))"
  by (simp add: DrpcConfig_LoadFromFile_def Krpcconfig_LoadConfigFile_def DrpcConfig_read_is_read
      split: option.splits)

interpretation drpc_config: config_loader
    "\<lambda>file m. res_bind (DrpcConfig_LoadFromFile file m) (\<lambda>(ok, m'). Inr m')" "\<lambda>m. m"
proof unfold_locales
  show "res_bind (DrpcConfig_LoadFromFile None c) (\<lambda>(ok, m'). Inr m') = Inl ExitFailure" for c
    by (simp add: DrpcConfig_LoadFromFile_def)
  show "file_ok ls l \<Longrightarrow> \<exists>c'. res_bind (DrpcConfig_LoadFromFile (Some (render_file ls l)) c)
      (\<lambda>(ok, m'). Inr m') = Inr c' \<and> c' = map_of (file_entries ls l) ++ c" for ls l c
    using krpc_config.rendered_file [of ls l c] by (auto simp: LoadFromFile_is_LoadConfigFile)
  show "\<exists>c'. res_bind (DrpcConfig_LoadFromFile (Some body) c) (\<lambda>(ok, m'). Inr m') = Inr c' \<and>
      c \<subseteq>\<^sub>m c'" for body c
    using krpc_config.any_file [of body c] by (auto simp: LoadFromFile_is_LoadConfigFile)
qed

section \<open>Properties\<close>

text \<open>C39: The Drpc loader and the Krpc loader read the same parameters from every file, end the process
  on the same files, and the Drpc loader returns \<open>true\<close> whenever it returns.\<close>

theorem loaders_agree:
  "DrpcConfig_LoadFromFile file m =
   (case Krpcconfig_LoadConfigFile file m of Inl e \<Rightarrow> Inl e | Inr m' \<Rightarrow> Inr (True, m'))"
  by (simp add: LoadFromFile_is_LoadConfigFile res_bind_def)

end
