(* ===== verification/Getopt.thy ===== *)
theory Getopt
  imports Krpc_Prelude
begin

text \<open>
  \<^verbatim>\<open>getopt\<close> of the C library, which moves operands to the end: the sequence of its results, each with the
  argument it leaves in \<^verbatim>\<open>optarg\<close>.  No option string of the sources starts with a colon, so an unknown
  option and a missing argument are both reported as \<^verbatim>\<open>'?'\<close>.
\<close>

type_synonym opt_result = "char \<times> string"

text \<open>Whether the option string has the option, and whether a colon follows it there.\<close>

fun opt_kind :: "string \<Rightarrow> char \<Rightarrow> bool option" where
  "opt_kind [] c = None"
| "opt_kind (x # xs) c =
     (if x = c \<and> c \<noteq> CHR '':'' then Some (xs \<noteq> [] \<and> hd xs = CHR '':'') else opt_kind xs c)"

fun getopt_cluster :: "string \<Rightarrow> string \<Rightarrow> string list \<Rightarrow> opt_result list \<times> string list" where
  "getopt_cluster opts [] args = ([], args)"
| "getopt_cluster opts (c # cs) args =
     (if opt_kind opts c = Some True then
        (if cs \<noteq> [] then ([(c, cs)], args)
         else case args of [] \<Rightarrow> ([(CHR ''?'', [])], []) | a # as \<Rightarrow> ([(c, a)], as))
      else case getopt_cluster opts cs args of (rs, rest) \<Rightarrow>
        ((if opt_kind opts c = None then CHR ''?'' else c, []) # rs, rest))"

lemma getopt_cluster_shorter:
  "getopt_cluster opts cs args = (rs, rest) \<Longrightarrow> length rest \<le> length args"
  by (induction cs arbitrary: rs) (auto split: if_splits list.splits prod.splits)

function getopt :: "string \<Rightarrow> string list \<Rightarrow> opt_result list" where
  "getopt opts [] = []"
| "getopt opts (a # as) =
     (if a = ''--'' then []
      else if 1 < length a \<and> hd a = CHR ''-''
      then (case getopt_cluster opts (tl a) as of (rs, rest) \<Rightarrow> rs @ getopt opts rest)
      else getopt opts as)"
  by pat_completeness auto
termination
  by (relation "measure (\<lambda>(opts, args). length args)")
    (auto dest: getopt_cluster_shorter [OF sym] simp: less_Suc_eq_le)

lemma opt_kind_mem: "opt_kind opts c = Some b \<Longrightarrow> c \<in> set opts"
  by (induction opts) (auto split: if_splits)

text \<open>Every result is an option of the option string or a question mark.\<close>

lemma getopt_cluster_results:
  "getopt_cluster opts cs args = (rs, rest) \<Longrightarrow> r \<in> set rs \<Longrightarrow>
   fst r = CHR ''?'' \<or> opt_kind opts (fst r) \<noteq> None"
  by (induction cs arbitrary: rs) (auto split: if_splits list.splits prod.splits)

lemma getopt_results:
  "r \<in> set (getopt opts args) \<Longrightarrow> fst r = CHR ''?'' \<or> opt_kind opts (fst r) \<noteq> None"
  by (induction opts args rule: getopt.induct)
    (auto split: if_splits prod.splits dest: getopt_cluster_results getopt_cluster_results [OF sym])

end
