(* ===== verification/Rpc_Application.thy ===== *)
theory Rpc_Application
  imports Drpc_Config Getopt
begin

text \<open>
  Start-up: \<^verbatim>\<open>src/src/Krpcapplication.cc\<close> and \<^verbatim>\<open>src/Drpc/src/DrpcApplication.cpp\<close>.  The command line
  loop over \<^verbatim>\<open>getopt\<close>, the configuration it loads, and the life of the singleton.
\<close>

section \<open>Reading the command line\<close>

abbreviation getopt_all :: "string list \<Rightarrow> opt_result list" where
  "getopt_all \<equiv> getopt ''i:''"


fun KrpcApplication_options :: "opt_result list \<Rightarrow> string \<Rightarrow> string res" where
  "KrpcApplication_options [] config_file = Inr config_file"
| "KrpcApplication_options ((opt, optarg) # rs) config_file =
     (if opt = CHR ''i'' then KrpcApplication_options rs optarg
      else if opt = CHR ''?'' then Inl ExitFailure
      else if opt = CHR '':'' then Inl ExitFailure
      else KrpcApplication_options rs config_file)"

definition KrpcApplication_Init ::
    "(string \<Rightarrow> string option) \<Rightarrow> string list \<Rightarrow> (string \<rightharpoonup> string) \<Rightarrow> (string \<rightharpoonup> string) res" where
  \<comment> \<open>\<open>fs\<close> maps a path to the text of the file there\<close>
  "KrpcApplication_Init fs argv m_config =
     (if length argv < 2 then Inl ExitFailure
      else res_bind (KrpcApplication_options (getopt_all (tl argv)) []) (\<lambda>config_file.
           Krpcconfig_LoadConfigFile (fs config_file) m_config))"

fun DrpcApplication_options :: "opt_result list \<Rightarrow> string \<Rightarrow> string res" where
  "DrpcApplication_options [] config_file = Inr config_file"
| "DrpcApplication_options ((opt, optarg) # rs) config_file =
     (if opt = CHR ''i'' then DrpcApplication_options rs optarg
      else if opt = CHR ''?'' then Inl ExitFailure
      else if opt = CHR '':'' then Inl ExitFailure
      else DrpcApplication_options rs config_file)"

definition DrpcApplication_Init ::
    "(string \<Rightarrow> string option) \<Rightarrow> string list \<Rightarrow> (string \<rightharpoonup> string) \<Rightarrow> (string \<rightharpoonup> string) res" where
  "DrpcApplication_Init fs argv m_config =
     (if length argv < 2 then Inl ExitFailure
      else res_bind (DrpcApplication_options (getopt_all (tl argv)) []) (\<lambda>config_file.
           res_bind (DrpcConfig_LoadFromFile (fs config_file) m_config) (\<lambda>(ok, m). Inr m)))"

text \<open>The file read is that of the last \<open>-i\<close>; anything \<^verbatim>\<open>getopt\<close> rejects ends the process.\<close>

definition accepted :: "opt_result list \<Rightarrow> bool" where
  "accepted rs \<longleftrightarrow> (\<forall>r \<in> set rs. fst r = CHR ''i'')"

lemma getopt_all_results: "r \<in> set (getopt_all args) \<Longrightarrow> fst r = CHR ''i'' \<or> fst r = CHR ''?''"
  by (drule getopt_results) (auto split: if_splits)

lemma options_value:
  assumes "\<forall>r \<in> set rs. fst r = CHR ''i'' \<or> fst r = CHR ''?''"
  shows "KrpcApplication_options rs f =
    (if accepted rs then Inr (last (f # map snd rs)) else Inl ExitFailure)"
  using assms
  by (induction rs f rule: KrpcApplication_options.induct) (auto simp: accepted_def)

lemma Init_value:
  "KrpcApplication_Init fs argv m =
   (if length argv < 2 \<or> \<not> accepted (getopt_all (tl argv)) then Inl ExitFailure
    else Krpcconfig_LoadConfigFile (fs (last ([] # map snd (getopt_all (tl argv))))) m)"
  using options_value [of "getopt_all (tl argv)"] getopt_all_results [of _ "tl argv"]
  by (auto simp: KrpcApplication_Init_def)

lemma options_agree: "DrpcApplication_options rs f = KrpcApplication_options rs f"
  by (induction rs f rule: KrpcApplication_options.induct) simp_all

lemma Init_agree: "DrpcApplication_Init fs argv m = KrpcApplication_Init fs argv m"
  by (simp add: DrpcApplication_Init_def KrpcApplication_Init_def options_agree
      LoadFromFile_is_LoadConfigFile res_bind_def split: sum.split)

section \<open>The singleton\<close>

text \<open>
  \<open>app_ptr\<close> is \<open>m_application\<close> (\<open>None\<close> for a null pointer), \<open>app_live\<close> the instances
  allocated and not deleted, \<open>app_atexit\<close> the number of \<open>deleteInstance\<close> handlers registered.
\<close>

record app_state =
  app_ptr :: "nat option"
  app_live :: "nat set"
  app_atexit :: nat

definition app_start :: app_state where
  "app_start = \<lparr>app_ptr = None, app_live = {}, app_atexit = 0\<rparr>"

definition KrpcApplication_GetInstance :: "nat \<Rightarrow> app_state \<Rightarrow> nat \<times> app_state" where
  \<comment> \<open>\<open>fresh\<close> is the address \<^verbatim>\<open>new\<close> returns\<close>
  "KrpcApplication_GetInstance fresh a =
     (case app_ptr a of
        None \<Rightarrow> (fresh, a\<lparr>app_ptr := Some fresh, app_live := insert fresh (app_live a),
                           app_atexit := app_atexit a + 1\<rparr>)
      | Some p \<Rightarrow> (p, a))"

definition KrpcApplication_deleteInstance :: "app_state \<Rightarrow> app_state res" where
  "KrpcApplication_deleteInstance a =
     (case app_ptr a of
        None \<Rightarrow> Inr a
      | Some p \<Rightarrow>
          if p \<in> app_live a then Inr (a\<lparr>app_live := app_live a - {p}\<rparr>)
          else Inl (Undefined ''double delete''))"

text \<open>At exit every registered handler runs.\<close>

fun run_handlers :: "nat \<Rightarrow> app_state \<Rightarrow> app_state res" where
  "run_handlers 0 a = Inr a"
| "run_handlers (Suc n) a = res_bind (KrpcApplication_deleteInstance a) (run_handlers n)"

definition app_exit :: "app_state \<Rightarrow> app_state res" where
  "app_exit a = run_handlers (app_atexit a) a"

definition DrpcApplication_GetInstance :: "app_state \<Rightarrow> nat res" where
  "DrpcApplication_GetInstance a =
     (case app_ptr a of
        None \<Rightarrow> Inl (RuntimeError ''DrpcApplication not initialized.'')
      | Some p \<Rightarrow> Inr p)"

definition DrpcApplication_deleteInstance :: "app_state \<Rightarrow> app_state" where
  \<comment> \<open>\<^verbatim>\<open>delete\<close> of a null pointer does nothing\<close>
  "DrpcApplication_deleteInstance a =
     a\<lparr>app_live := app_live a - set_option (app_ptr a), app_ptr := None\<rparr>"

text \<open>A program that asks for the instance any number of times.\<close>

fun get_instances :: "nat list \<Rightarrow> app_state \<Rightarrow> nat list \<times> app_state" where
  "get_instances [] a = ([], a)"
| "get_instances (fresh # fs) a =
     (case KrpcApplication_GetInstance fresh a of (p, a1) \<Rightarrow>
      case get_instances fs a1 of (ps, a2) \<Rightarrow> (p # ps, a2))"

lemma get_instances_set:
  "app_ptr a = Some p \<Longrightarrow> get_instances fs a = (replicate (length fs) p, a)"
  by (induction fs) (simp_all add: KrpcApplication_GetInstance_def)

section \<open>Properties\<close>

lemma getopt_dash_i:
  "getopt_all (concat (map (\<lambda>f. [''-i'', f]) files)) = map (\<lambda>f. (CHR ''i'', f)) files"
  by (induction files) simp_all

text \<open>A command line that gives one or more files with \<open>-i\<close> loads the last of them, and the
  process exits exactly when that file cannot be opened.\<close>

theorem Init_loads_last_file:
  assumes "files \<noteq> []"
  shows "KrpcApplication_Init fs (prog # concat (map (\<lambda>f. [''-i'', f]) files)) m =
    (case fs (last files) of None \<Rightarrow> Inl ExitFailure
     | Some body \<Rightarrow> Krpcconfig_read body m)"
proof -
  have "last (map snd (map (\<lambda>f. (CHR ''i'', f)) files)) = last files"
    using assms by (simp add: last_map)
  moreover have "accepted (map (\<lambda>f. (CHR ''i'', f)) files)" by (auto simp: accepted_def)
  moreover have "0 < length (concat (map (\<lambda>f. [''-i'', f]) files))" using assms by (cases files) auto
  ultimately show ?thesis
    using assms by (simp add: Init_value getopt_dash_i Krpcconfig_LoadConfigFile_def comp_def)
qed

theorem Init_loads_last_file_witness:
  "KrpcApplication_Init [''a'' \<mapsto> ''x=1'', ''b'' \<mapsto> ''x=2''] [''server'', ''-i'', ''a'', ''-i'', ''b''] Map.empty =
   Krpcconfig_read ''x=2'' Map.empty"
  using Init_loads_last_file [of "[''a'', ''b'']" "[''a'' \<mapsto> ''x=1'', ''b'' \<mapsto> ''x=2'']" "''server''" Map.empty]
  by simp

text \<open>\<open>Init\<close> ends the process for exactly three reasons, in both libraries: no argument, a
  command line \<open>getopt\<close> rejects, or a file that cannot be opened (an operand without \<open>-i\<close> makes
  it try the empty path); the two libraries then load the same parameters.\<close>

theorem Init_failures:
  "(KrpcApplication_Init fs argv m = Inl e \<longleftrightarrow>
      e = ExitFailure \<and>
      (length argv < 2 \<or> CHR ''?'' \<in> fst ` set (getopt_all (tl argv)) \<or>
       fs (last ('''' # map snd (getopt_all (tl argv)))) = None)) \<and>
   DrpcApplication_Init fs argv m = KrpcApplication_Init fs argv m"
proof
  have "accepted (getopt_all (tl argv)) \<longleftrightarrow> CHR ''?'' \<notin> fst ` set (getopt_all (tl argv))"
    using getopt_all_results [of _ "tl argv"] by (force simp: accepted_def)
  then show "KrpcApplication_Init fs argv m = Inl e \<longleftrightarrow>
      e = ExitFailure \<and>
      (length argv < 2 \<or> CHR ''?'' \<in> fst ` set (getopt_all (tl argv)) \<or>
       fs (last ('''' # map snd (getopt_all (tl argv)))) = None)"
    by (auto simp: Init_value krpc_config.load_fails_iff)
  show "DrpcApplication_Init fs argv m = KrpcApplication_Init fs argv m"
    by (rule Init_agree)
qed

text \<open>However often a program asks for the Krpc singleton, it gets the same instance, exactly one
  is allocated, and process exit deletes it once; but a program that calls the public
  \<open>deleteInstance\<close> itself makes process exit delete the instance a second time.\<close>

theorem singleton_life:
  "case get_instances (f # fs) app_start of (ps, a) \<Rightarrow>
   ps = replicate (Suc (length fs)) f \<and> app_live a = {f} \<and>
   app_exit a = Inr (a\<lparr>app_live := {}\<rparr>) \<and>
   (\<exists>a'. KrpcApplication_deleteInstance a = Inr a' \<and>
      app_exit a' = Inl (Undefined ''double delete''))"
  by (auto simp: KrpcApplication_GetInstance_def app_start_def get_instances_set app_exit_def
      KrpcApplication_deleteInstance_def)

text \<open>Nothing in the Drpc library creates its singleton: after any number of calls of
  \<open>deleteInstance\<close> from the initial state, \<open>GetInstance\<close> throws.\<close>

theorem Drpc_instance_never_exists:
  "DrpcApplication_GetInstance ((DrpcApplication_deleteInstance ^^ n) app_start) =
   Inl (RuntimeError ''DrpcApplication not initialized.'')"
proof -
  have "app_ptr ((DrpcApplication_deleteInstance ^^ n) app_start) = None"
    by (induction n) (simp_all add: app_start_def DrpcApplication_deleteInstance_def)
  then show ?thesis by (simp add: DrpcApplication_GetInstance_def)
qed

end
