(* ===== verification/Drpc_Channel.thy ===== *)
theory Drpc_Channel
  imports Drpc_Service Posix_Sockets
begin

text \<open>
  The Drpc client channel, \<^verbatim>\<open>src/Drpc/src/DrpcChannel.cpp\<close>: connection set up, the send and
  receive loops with partial transfers, interruption and cancellation, and the call that uses them.

  A loop runs against a script of what the outside does, one entry per iteration: whether another
  thread calls \<open>StartCancel\<close> before the cancellation test, whether one does between the test and the
  system call, and the outcome the system offers.  \<open>None\<close> means that the script ended with the loop
  still running.
\<close>

datatype drpc_callback = CloseImpl

record drpc_st =
  ctl :: "drpc_callback drpc_controller"
  m_sockfd :: int
  sys :: kern

type_synonym send_env = "(bool \<times> bool \<times> io_result) list"
type_synonym recv_env = "(bool \<times> bool \<times> (errno + string)) list"

section \<open>TcpChannel::Impl\<close>

definition Impl_Close :: "drpc_st \<Rightarrow> drpc_st" where
  "Impl_Close st =
     (if m_sockfd st \<noteq> -1 then st\<lparr>sys := sys_close (m_sockfd st) (sys st), m_sockfd := -1\<rparr> else st)"

definition Impl_Connect :: "int \<Rightarrow> errno option \<Rightarrow> string \<Rightarrow> int \<Rightarrow> drpc_st \<Rightarrow> bool \<times> drpc_st" where
  "Impl_Connect new_fd conn_err host port st0 =
     (let st = (if m_sockfd st0 \<noteq> -1 then Impl_Close st0 else st0);
          (fd, k) = sys_socket new_fd (sys st);
          st = st\<lparr>m_sockfd := fd, sys := k\<rparr>
      in if fd = -1 then (False, st)
         else if \<not> inet_pton_ok host then (False, Impl_Close st)
         else let (r, k) = sys_connect conn_err fd host (word_of_int port) (sys st);
                  st = st\<lparr>sys := k\<rparr>
              in if r < 0 then (False, Impl_Close st) else (True, st))"

definition set_failed :: "string \<Rightarrow> drpc_st \<Rightarrow> drpc_st" where
  "set_failed e st = st\<lparr>ctl := DrpcController_SetFailed e (ctl st)\<rparr>"

text \<open>\<open>StartCancel\<close> from another thread, with the callback the channel installed.\<close>

definition cancel_if :: "bool \<Rightarrow> drpc_st \<Rightarrow> drpc_st" where
  "cancel_if b st =
     (if b then let (c, cbs) = DrpcController_StartCancel (ctl st)
                in foldl (\<lambda>st cb. case cb of CloseImpl \<Rightarrow> Impl_Close st) (st\<lparr>ctl := c\<rparr>) cbs
      else st)"

text \<open>One iteration of the send loop: \<open>Inl\<close> is a return, \<open>Inr\<close> the next \<open>total_sent\<close>.\<close>

definition send_step ::
    "bool \<times> bool \<times> io_result \<Rightarrow> nat \<Rightarrow> string \<Rightarrow> drpc_st \<Rightarrow> (bool + nat) \<times> drpc_st" where
  "send_step ev total_sent data st =
     (case ev of (c1, c2, io) \<Rightarrow>
      let st = cancel_if c1 st in
      if DrpcController_IsCanceled (ctl st)
      then (Inl False, set_failed ''RPC call was cancelled'' st)
      else
        let st = cancel_if c2 st;
            (sent, k) = sys_send io (m_sockfd st) (drop total_sent data) (sys st);
            st = st\<lparr>sys := k\<rparr>
        in if sent \<le> 0 then
             (if sys_errno k = EINTR then (Inr total_sent, st)
              else (Inl False, set_failed (strerror (sys_errno k)) st))
           else (Inr (total_sent + nat sent), st))"

fun send_loop :: "send_env \<Rightarrow> nat \<Rightarrow> string \<Rightarrow> drpc_st \<Rightarrow> (bool \<times> drpc_st) option" where
  "send_loop es total_sent data st =
     (if total_sent < length data then
        (case es of
           [] \<Rightarrow> None
         | e # es' \<Rightarrow>
             (case send_step e total_sent data st of
                (Inl b, st') \<Rightarrow> Some (b, st')
              | (Inr total_sent', st') \<Rightarrow> send_loop es' total_sent' data st'))
      else Some (True, st))"

declare send_loop.simps [simp del]

definition Impl_SendRequest :: "send_env \<Rightarrow> string \<Rightarrow> drpc_st \<Rightarrow> (bool \<times> drpc_st) option" where
  "Impl_SendRequest es data st =
     (if m_sockfd st = -1 then Some (False, set_failed ''Connection not established'' st)
      else send_loop es 0 data st)"

text \<open>One iteration of the receive loop: \<open>Inl\<close> is a return with the data of a success.\<close>

definition recv_step ::
    "bool \<times> bool \<times> (errno + string) \<Rightarrow> string \<Rightarrow> drpc_st \<Rightarrow> (string option + string) \<times> drpc_st" where
  "recv_step ev received st =
     (case ev of (c1, c2, io) \<Rightarrow>
      let st = cancel_if c1 st in
      if DrpcController_IsCanceled (ctl st)
      then (Inl None, set_failed ''RPC call was cancelled'' st)
      else
        let st = cancel_if c2 st;
            (r, k) = sys_recv io (m_sockfd st) 4096 (sys st);
            st = st\<lparr>sys := k\<rparr>
        in case r of
             None \<Rightarrow>
               if sys_errno k = EINTR then (Inr received, st)
               else (Inl None, set_failed (strerror (sys_errno k)) st)
           | Some d \<Rightarrow> if d = [] then (Inl (Some received), st) else (Inr (received @ d), st))"

fun recv_loop :: "recv_env \<Rightarrow> string \<Rightarrow> drpc_st \<Rightarrow> (string option \<times> drpc_st) option" where
  "recv_loop [] received st = None"
| "recv_loop (e # es) received st =
     (case recv_step e received st of
        (Inl r, st') \<Rightarrow> Some (r, st')
      | (Inr received', st') \<Rightarrow> recv_loop es received' st')"

definition Impl_ReceiveResponse :: "recv_env \<Rightarrow> drpc_st \<Rightarrow> (string option \<times> drpc_st) option" where
  "Impl_ReceiveResponse es st =
     (if m_sockfd st = -1 then Some (None, set_failed ''Connection not established'' st)
      else recv_loop es [] st)"

section \<open>TcpChannel\<close>

text \<open>The result holds the arguments \<open>done\<close> was called with, the response object and the state.\<close>

definition TcpChannel_CallMethod ::
    "string option \<Rightarrow> (string \<Rightarrow> 'm \<Rightarrow> bool \<times> 'm) \<Rightarrow> send_env \<Rightarrow> recv_env \<Rightarrow> 'm \<Rightarrow> drpc_st
     \<Rightarrow> (bool list \<times> 'm \<times> drpc_st) option" where
  "TcpChannel_CallMethod request parse ses res response st0 =
     (let st = st0\<lparr>ctl := DrpcController_SetCancelCallback CloseImpl (DrpcController_Reset (ctl st0))\<rparr>
      in case request of
        None \<Rightarrow> Some ([False], response, set_failed ''Failed to serialize request'' st)
      | Some request_data \<Rightarrow>
        (case Impl_SendRequest ses request_data st of
           None \<Rightarrow> None
         | Some (False, st) \<Rightarrow> Some ([False], response, st)
         | Some (True, st) \<Rightarrow>
           (case Impl_ReceiveResponse res st of
              None \<Rightarrow> None
            | Some (None, st) \<Rightarrow> Some ([False], response, st)
            | Some (Some response_data, st) \<Rightarrow>
                let (ok, response') = parse response_data response
                in if ok then Some ([True], response', st)
                   else Some ([False], response', set_failed ''Failed to parse response'' st))))"

definition TcpChannel_CallMethodSync ::
    "string option \<Rightarrow> (string \<Rightarrow> 'm \<Rightarrow> bool \<times> 'm) \<Rightarrow> send_env \<Rightarrow> recv_env \<Rightarrow> 'm \<Rightarrow> drpc_st
     \<Rightarrow> (bool \<times> 'm \<times> drpc_st) option" where
  "TcpChannel_CallMethodSync request parse ses res response st =
     map_option (\<lambda>(dones, r, st'). (last (False # dones), r, st'))
       (TcpChannel_CallMethod request parse ses res response st)"

definition TcpChannel_Connect :: "int \<Rightarrow> errno option \<Rightarrow> string \<Rightarrow> int \<Rightarrow> drpc_st \<Rightarrow> bool \<times> drpc_st" where
  "TcpChannel_Connect new_fd conn_err host port st = Impl_Connect new_fd conn_err host port st"

definition TcpChannel_Close :: "drpc_st \<Rightarrow> drpc_st" where
  "TcpChannel_Close st = Impl_Close st"


section \<open>Steps of the loops\<close>

lemma Impl_Close_simps [simp]:
  "m_sockfd (Impl_Close st) = -1" "ctl (Impl_Close st) = ctl st"
  by (simp_all add: Impl_Close_def)

lemma Impl_Close_log [simp]:
  "sent_on fd (sys_log (sys (Impl_Close st))) = sent_on fd (sys_log (sys st))"
  "recvd_on fd (sys_log (sys (Impl_Close st))) = recvd_on fd (sys_log (sys st))"
  by (simp_all add: Impl_Close_def posix)

lemma set_failed_simps [simp]:
  "m_sockfd (set_failed e st) = m_sockfd st" "sys (set_failed e st) = sys st"
  "ctl (set_failed e st) = DrpcController_SetFailed e (ctl st)"
  by (simp_all add: set_failed_def)

lemma cancel_if_False [simp]: "cancel_if False st = st"
  by (simp add: cancel_if_def)

lemma cancel_if_True:
  "cancel_if True st =
     (let st' = st\<lparr>ctl := fst (DrpcController_StartCancel (ctl st))\<rparr>
      in if d_cancelCallback (ctl st) = None then st' else Impl_Close st')"
  by (auto simp: cancel_if_def DrpcController_StartCancel_def Let_def
      split: option.splits drpc_callback.splits)

lemma cancel_if_canceled [simp]: "DrpcController_IsCanceled (ctl (cancel_if True st))"
  by (simp add: cancel_if_True Let_def DrpcController_defs)

lemma cancel_if_log [simp]:
  "sent_on fd (sys_log (sys (cancel_if b st))) = sent_on fd (sys_log (sys st))"
  "recvd_on fd (sys_log (sys (cancel_if b st))) = recvd_on fd (sys_log (sys st))"
  by (cases b; simp add: cancel_if_True Let_def)+

lemma cancel_if_failed [simp]: "DrpcController_Failed (ctl (cancel_if b st)) = DrpcController_Failed (ctl st)"
  by (cases b) (simp_all add: cancel_if_True Let_def DrpcController_defs)

lemma cancel_if_sockfd: "m_sockfd (cancel_if b st) = m_sockfd st \<or> m_sockfd (cancel_if b st) = -1"
  by (cases b) (simp_all add: cancel_if_True Let_def)

lemma send_step_return: "send_step ev t d st = (Inl b, st') \<Longrightarrow> \<not> b \<and> DrpcController_Failed (ctl st')"
  by (auto simp: send_step_def Let_def DrpcController_defs split: prod.splits if_splits)

lemma is_open_minus_1 [simp]: "\<not> is_open (-1) k"
  by (simp add: is_open_def)

text \<open>An iteration that goes on has kept the descriptor and handed over the next bytes.\<close>

lemma send_step_continue:
  assumes step: "send_step ev t d st = (Inr t', st')" and t: "t \<le> length d"
  shows "m_sockfd st' = m_sockfd st \<and> t \<le> t' \<and> t' \<le> length d \<and>
    DrpcController_Failed (ctl st') = DrpcController_Failed (ctl st) \<and>
    sent_on (m_sockfd st) (sys_log (sys st')) @ drop t' d =
    sent_on (m_sockfd st) (sys_log (sys st)) @ drop t d"
proof -
  obtain c1 c2 io where ev: "ev = (c1, c2, io)" by (cases ev)
  define s1 where "s1 = cancel_if c1 st"
  define s2 where "s2 = cancel_if c2 s1"
  obtain r k where snd: "sys_send io (m_sockfd s2) (drop t d) (sys s2) = (r, k)" by fastforce
  have nc: "\<not> DrpcController_IsCanceled (ctl s1)"
    using step by (auto simp: ev send_step_def Let_def s1_def split: if_splits)
  then have "c1 = False" using cancel_if_canceled by (cases c1) (auto simp: s1_def)
  then have s1: "s1 = st" by (simp add: s1_def)
  have go: "r \<le> 0 \<Longrightarrow> sys_errno k = EINTR" "t' = (if r \<le> 0 then t else t + nat r)" "st' = s2\<lparr>sys := k\<rparr>"
    using step nc snd unfolding ev send_step_def s1_def [symmetric] s2_def [symmetric]
    by (auto simp: Let_def s1_def [symmetric] s2_def [symmetric] split: if_splits)
  have fd: "m_sockfd s2 = m_sockfd st"
  proof (rule ccontr)
    assume "m_sockfd s2 \<noteq> m_sockfd st"
    then have "m_sockfd s2 = -1" using cancel_if_sockfd [of c2 s1] s1 by (auto simp: s2_def)
    then have "r = -1 \<and> sys_errno k = EBADF"
      using snd sys_send_closed [of "-1" "sys s2" io "drop t d"] by (auto simp: fail_with_def)
    then show False using go(1) by auto
  qed
  have old: "sent_on (m_sockfd st) (sys_log (sys s2)) = sent_on (m_sockfd st) (sys_log (sys st))"
    using s1 by (simp add: s2_def)
  have failed: "DrpcController_Failed (ctl s2) = DrpcController_Failed (ctl st)"
    using s1 by (simp add: s2_def)
  show ?thesis
  proof (cases "0 \<le> r")
    case True
    have "sent_on (m_sockfd st) (sys_log k) =
        sent_on (m_sockfd st) (sys_log (sys st)) @ take (nat r) (drop t d)"
      using sys_send_sent [OF snd True] fd old by simp
    moreover have "nat r \<le> length d - t" using sys_send_range [OF snd] by (simp add: nat_le_iff)
    moreover have "t' = t + nat r" using go(2) True by auto
    moreover have "take (nat r) (drop t d) @ drop (t + nat r) d = drop t d"
      by (metis add.commute append_take_drop_id drop_drop)
    ultimately show ?thesis using fd go(3) t failed by simp
  next
    case False
    then show ?thesis using sys_send_failed_sent [OF snd] fd go t old failed by simp
  qed
qed

lemma send_loop_sent:
  assumes "send_loop es t d st = Some (True, st')" "t \<le> length d"
  shows "m_sockfd st' = m_sockfd st \<and>
    DrpcController_Failed (ctl st') = DrpcController_Failed (ctl st) \<and>
    sent_on (m_sockfd st) (sys_log (sys st')) = sent_on (m_sockfd st) (sys_log (sys st)) @ drop t d"
  using assms
proof (induction es t d st rule: send_loop.induct)
  case (1 es t d st)
  show ?case
  proof (cases "t < length d")
    case False
    then show ?thesis using 1 by (simp add: send_loop.simps [of es])
  next
    case True
    then obtain e es' where es: "es = e # es'"
      using "1.prems" by (cases es) (simp_all add: send_loop.simps [of "[]"])
    obtain r s1 where step: "send_step e t d st = (r, s1)" by fastforce
    obtain t1 where r: "r = Inr t1"
      using "1.prems" True es step send_step_return [of e t d st _ s1]
      by (cases r) (auto simp: send_loop.simps [of "e # es'"])
    have next_loop: "send_loop es' t1 d s1 = Some (True, st')"
      using "1.prems" True es step r by (simp add: send_loop.simps [of "e # es'"])
    have s: "m_sockfd s1 = m_sockfd st" "t1 \<le> length d"
      "DrpcController_Failed (ctl s1) = DrpcController_Failed (ctl st)"
      "sent_on (m_sockfd st) (sys_log (sys s1)) @ drop t1 d =
       sent_on (m_sockfd st) (sys_log (sys st)) @ drop t d"
      using send_step_continue [OF step [unfolded r]] True by auto
    have "m_sockfd st' = m_sockfd s1 \<and> DrpcController_Failed (ctl st') = DrpcController_Failed (ctl s1) \<and>
        sent_on (m_sockfd s1) (sys_log (sys st')) = sent_on (m_sockfd s1) (sys_log (sys s1)) @ drop t1 d"
      using "1.IH" [OF True es _ r next_loop s(2)] step by auto
    then show ?thesis using s by simp
  qed
qed

lemma send_loop_failed:
  "send_loop es t d st = Some (False, st') \<Longrightarrow> DrpcController_Failed (ctl st')"
proof (induction es t d st rule: send_loop.induct)
  case (1 es t d st)
  then show ?case
    by (subst (asm) (2) send_loop.simps)
      (auto split: if_splits list.splits prod.splits sum.splits dest: send_step_return)
qed


section \<open>The send loop returns\<close>

text \<open>An entry that is neither an interruption nor an empty transfer.\<close>

fun useful :: "bool \<times> bool \<times> io_result \<Rightarrow> bool" where
  "useful (c1, c2, IoN n) \<longleftrightarrow> 0 < n"
| "useful (c1, c2, IoErr e) \<longleftrightarrow> e \<noteq> EINTR"

lemma send_step_useful:
  assumes "send_step e t d st = (Inr t', st')" "useful e" "t < length d"
  shows "t < t'"
proof (rule ccontr)
  assume "\<not> t < t'"
  obtain c1 c2 io where ev: "e = (c1, c2, io)" by (cases e)
  obtain r k where snd: "sys_send io (m_sockfd (cancel_if c2 (cancel_if c1 st))) (drop t d)
      (sys (cancel_if c2 (cancel_if c1 st))) = (r, k)" by fastforce
  have "r \<le> 0 \<and> sys_errno k = EINTR"
    using assms(1) \<open>\<not> t < t'\<close> snd by (auto simp: ev send_step_def Let_def split: if_splits)
  with snd assms(2,3) show False
    by (cases io) (auto simp: ev posix min_def split: if_splits)
qed

lemma send_loop_returns:
  "length d - t \<le> length (filter useful es) \<Longrightarrow> send_loop es t d st \<noteq> None"
proof (induction es t d st rule: send_loop.induct)
  case (1 es t d st)
  show ?case
  proof (cases "t < length d")
    case False
    then show ?thesis by (simp add: send_loop.simps [of es])
  next
    case True
    then obtain e es' where es: "es = e # es'"
      using "1.prems" by (cases es) auto
    obtain r s1 where step: "send_step e t d st = (r, s1)" by fastforce
    show ?thesis
    proof (cases r)
      case (Inl b)
      then show ?thesis using True es step by (simp add: send_loop.simps [of "e # es'"])
    next
      case (Inr t1)
      have "t \<le> t1" using send_step_continue [OF step [unfolded Inr]] True by simp
      moreover have "useful e \<Longrightarrow> t < t1" using send_step_useful [OF step [unfolded Inr]] True by simp
      ultimately have "length d - t1 \<le> length (filter useful es')"
        using "1.prems" es by (auto split: if_splits)
      then have "send_loop es' t1 d s1 \<noteq> None"
        using "1.IH" [OF True es step [symmetric] Inr] by simp
      then show ?thesis using True es step Inr by (simp add: send_loop.simps [of "e # es'"])
    qed
  qed
qed

section \<open>The receive loop\<close>

lemma recv_step_none: "recv_step ev r st = (Inl None, st') \<Longrightarrow> DrpcController_Failed (ctl st')"
  by (auto simp: recv_step_def Let_def DrpcController_defs split: prod.splits if_splits option.splits)

text \<open>An iteration that goes on or returns data has kept the descriptor and appended what it read.\<close>

lemma recv_step_data:
  assumes step: "recv_step ev r st = (x, st')" and x: "x = Inr r' \<or> x = Inl (Some r')"
  shows "m_sockfd st' = m_sockfd st \<and>
    DrpcController_Failed (ctl st') = DrpcController_Failed (ctl st) \<and>
    (\<exists>d. r' = r @ d \<and> recvd_on (m_sockfd st) (sys_log (sys st')) =
      recvd_on (m_sockfd st) (sys_log (sys st)) @ d)"
proof -
  obtain c1 c2 io where ev: "ev = (c1, c2, io)" by (cases ev)
  define s1 where "s1 = cancel_if c1 st"
  define s2 where "s2 = cancel_if c2 s1"
  obtain y k where rcv: "sys_recv io (m_sockfd s2) 4096 (sys s2) = (y, k)" by fastforce
  have nc: "\<not> DrpcController_IsCanceled (ctl s1)"
    using step x by (auto simp: ev recv_step_def Let_def s1_def split: if_splits)
  then have "c1 = False" using cancel_if_canceled by (cases c1) (auto simp: s1_def)
  then have s1: "s1 = st" by (simp add: s1_def)
  have go: "st' = s2\<lparr>sys := k\<rparr>" "y = None \<Longrightarrow> sys_errno k = EINTR \<and> r' = r"
    "\<And>d. y = Some d \<Longrightarrow> r' = r @ d"
    using step x nc rcv unfolding ev recv_step_def s1_def [symmetric] s2_def [symmetric]
    by (auto simp: Let_def s1_def [symmetric] s2_def [symmetric] split: if_splits option.splits)
  have fd: "m_sockfd s2 = m_sockfd st"
  proof (rule ccontr)
    assume "m_sockfd s2 \<noteq> m_sockfd st"
    then have "m_sockfd s2 = -1" using cancel_if_sockfd [of c2 s1] s1 by (auto simp: s2_def)
    then have "y = None \<and> sys_errno k = EBADF" using rcv by (auto simp: sys_recv_def fail_with_def)
    then show False using go(2) by auto
  qed
  have old: "recvd_on (m_sockfd st) (sys_log (sys s2)) = recvd_on (m_sockfd st) (sys_log (sys st))"
    using s1 by (simp add: s2_def)
  have failed: "DrpcController_Failed (ctl s2) = DrpcController_Failed (ctl st)"
    using s1 by (simp add: s2_def)
  have "\<exists>d. r' = r @ d \<and> recvd_on (m_sockfd st) (sys_log k) =
      recvd_on (m_sockfd st) (sys_log (sys s2)) @ d"
  proof (cases y)
    case None
    then have "sys_log k = sys_log (sys s2)" using rcv by (auto simp: posix split: if_splits sum.splits)
    then show ?thesis using None go(2) by simp
  next
    case (Some d)
    then have "sys_log k = sys_log (sys s2) @ [EvRecv (m_sockfd st) d]"
      using rcv fd by (auto simp: posix split: if_splits sum.splits)
    then show ?thesis using go(3) [OF Some] by simp
  qed
  then show ?thesis using go(1) fd old failed by simp
qed

lemma recv_loop_data:
  assumes "recv_loop es r st = Some (Some r', st')"
  shows "m_sockfd st' = m_sockfd st \<and>
    DrpcController_Failed (ctl st') = DrpcController_Failed (ctl st) \<and>
    (\<exists>d. r' = r @ d \<and> recvd_on (m_sockfd st) (sys_log (sys st')) =
      recvd_on (m_sockfd st) (sys_log (sys st)) @ d)"
  using assms
proof (induction es r st rule: recv_loop.induct)
  case (1 r st)
  then show ?case by simp
next
  case (2 e es r st)
  obtain x s1 where step: "recv_step e r st = (x, s1)" by fastforce
  show ?case
  proof (cases x)
    case (Inl y)
    then have "y = Some r' \<and> st' = s1" using "2.prems" step by simp
    then show ?thesis using recv_step_data [OF step, of r'] Inl by simp
  next
    case (Inr r1)
    have "recv_loop es r1 s1 = Some (Some r', st')" using "2.prems" step Inr by simp
    from "2.IH" [OF step [symmetric] Inr this] recv_step_data [OF step, of r1] Inr
    show ?thesis by auto
  qed
qed

lemma recv_loop_failed:
  "recv_loop es r st = Some (None, st') \<Longrightarrow> DrpcController_Failed (ctl st')"
proof (induction es r st rule: recv_loop.induct)
  case (2 e es r st)
  then show ?case
    by (auto split: prod.splits sum.splits option.splits dest: recv_step_none)
qed simp

section \<open>Descriptor ownership\<close>

text \<open>The channel owns \<open>m_sockfd\<close> when it is not \<open>-1\<close>, and nothing beside the descriptors \<open>B\<close> that were
  open before it.\<close>

definition owns :: "int set \<Rightarrow> drpc_st \<Rightarrow> bool" where
  "owns B st \<longleftrightarrow>
     (if m_sockfd st = -1 then open_fds (sys st) = B
      else open_fds (sys st) = insert (m_sockfd st) B \<and> m_sockfd st \<notin> B)"

lemma owns_Close: "owns B st \<Longrightarrow> owns B (Impl_Close st) \<and> open_fds (sys (Impl_Close st)) = B"
  by (auto simp: owns_def Impl_Close_def sys_close_open_fds split: if_splits)

lemma owns_cong: "m_sockfd st' = m_sockfd st \<Longrightarrow> open_fds (sys st') = open_fds (sys st) \<Longrightarrow> owns B st \<Longrightarrow> owns B st'"
  by (simp add: owns_def)

lemma owns_set_failed [simp]: "owns B (set_failed e st) = owns B st"
  by (simp add: owns_def)

lemma owns_ctl [simp]: "owns B (st\<lparr>ctl := c\<rparr>) = owns B st"
  by (simp add: owns_def)

lemma owns_cancel_if: "owns B st \<Longrightarrow> owns B (cancel_if b st)"
  by (cases b) (auto simp: cancel_if_True Let_def owns_Close)

lemma owns_send_step:
  assumes "send_step e t d st = (x, st')" "owns B st"
  shows "owns B st'"
proof -
  obtain c1 c2 io where e: "e = (c1, c2, io)" by (cases e)
  have o1: "owns B (cancel_if c1 st)" and o2: "owns B (cancel_if c2 (cancel_if c1 st))"
    using assms(2) by (simp_all add: owns_cancel_if)
  show ?thesis
    using assms(1) o1 owns_cong [OF _ _ o2]
    by (auto simp: e send_step_def Let_def split: if_splits prod.splits dest!: sys_send_open_fds)
qed

lemma owns_recv_step:
  assumes "recv_step e r st = (x, st')" "owns B st"
  shows "owns B st'"
proof -
  obtain c1 c2 io where e: "e = (c1, c2, io)" by (cases e)
  have o1: "owns B (cancel_if c1 st)" and o2: "owns B (cancel_if c2 (cancel_if c1 st))"
    using assms(2) by (simp_all add: owns_cancel_if)
  show ?thesis
    using assms(1) o1 owns_cong [OF _ _ o2]
    by (auto simp: e recv_step_def Let_def split: if_splits prod.splits option.splits
        dest!: sys_recv_open_fds)
qed

lemma send_loop_inv:
  assumes step: "\<And>e t st x st'. send_step e t d st = (x, st') \<Longrightarrow> P st \<Longrightarrow> P st'"
  shows "send_loop es t d st = Some (b, st') \<Longrightarrow> P st \<Longrightarrow> P st'"
proof (induction es arbitrary: t st)
  case Nil
  then show ?case by (simp add: send_loop.simps [of "[]"] split: if_splits)
next
  case (Cons e es)
  obtain x s1 where s1: "send_step e t d st = (x, s1)" by fastforce
  then have "P s1" using step Cons.prems(2) by blast
  then show ?case
    using Cons s1 by (cases x) (auto simp: send_loop.simps [of "e # es"] split: if_splits)
qed

lemma recv_loop_inv:
  assumes step: "\<And>e r st x st'. recv_step e r st = (x, st') \<Longrightarrow> P st \<Longrightarrow> P st'"
  shows "recv_loop es r st = Some (y, st') \<Longrightarrow> P st \<Longrightarrow> P st'"
proof (induction es arbitrary: r st)
  case (Cons e es)
  obtain x s1 where s1: "recv_step e r st = (x, s1)" by fastforce
  then have "P s1" using step Cons.prems(2) by blast
  then show ?case using Cons s1 by (cases x) auto
qed simp

lemmas owns_loops = send_loop_inv [OF owns_send_step] recv_loop_inv [OF owns_recv_step]

lemma owns_Connect:
  assumes "Impl_Connect nfd ce host port st = (b, st')" "owns B st"
  shows "owns B st' \<and> (b \<longleftrightarrow> m_sockfd st' \<noteq> -1) \<and> (\<not> b \<longrightarrow> open_fds (sys st') = B)"
proof -
  define s0 where "s0 = (if m_sockfd st \<noteq> -1 then Impl_Close st else st)"
  have s0: "open_fds (sys s0) = B" "m_sockfd s0 = -1"
    using assms(2) owns_Close by (auto simp: s0_def owns_def)
  obtain fd k where sock: "sys_socket nfd (sys s0) = (fd, k)" by fastforce
  define s1 where "s1 = s0\<lparr>m_sockfd := fd, sys := k\<rparr>"
  have o1: "owns B s1" and fail: "fd = -1 \<Longrightarrow> open_fds (sys s1) = B"
    using s0 sock sys_socket_fresh [OF sock] sys_socket_fail [of nfd "sys s0" k]
    by (auto simp: owns_def s1_def)
  obtain r k2 where con: "sys_connect ce fd host (word_of_int port) (sys s1) = (r, k2)" by fastforce
  have o2: "owns B (s1\<lparr>sys := k2\<rparr>)" using o1 sys_connect_open_fds [OF con] by (auto intro: owns_cong)
  have "(b, st') = (if fd = -1 then (False, s1) else if \<not> inet_pton_ok host then (False, Impl_Close s1)
      else if r < 0 then (False, Impl_Close (s1\<lparr>sys := k2\<rparr>)) else (True, s1\<lparr>sys := k2\<rparr>))"
    using assms(1) sock con unfolding Impl_Connect_def s0_def [symmetric]
    by (auto simp: Let_def s1_def split: if_splits)
  then show ?thesis
    using o1 o2 fail owns_Close [OF o1] owns_Close [OF o2]
    by (auto simp: s1_def split: if_splits)
qed


section \<open>The call\<close>

lemma Send_result:
  assumes "Impl_SendRequest es d st = Some (b, st')" "\<not> DrpcController_Failed (ctl st)"
  shows "DrpcController_Failed (ctl st') = (\<not> b)"
    and "b \<Longrightarrow> m_sockfd st \<noteq> -1 \<and> m_sockfd st' = m_sockfd st \<and>
      sent_on (m_sockfd st) (sys_log (sys st')) = sent_on (m_sockfd st) (sys_log (sys st)) @ d"
  using assms send_loop_sent [of es 0 d st st'] send_loop_failed [of es 0 d st st']
  by (cases b; auto simp: Impl_SendRequest_def DrpcController_defs split: if_splits)+

lemma Receive_result:
  assumes "Impl_ReceiveResponse es st = Some (r, st')" "\<not> DrpcController_Failed (ctl st)"
  shows "DrpcController_Failed (ctl st') = (r = None)"
    and "r = Some body \<Longrightarrow> m_sockfd st' = m_sockfd st \<and>
      recvd_on (m_sockfd st) (sys_log (sys st')) = recvd_on (m_sockfd st) (sys_log (sys st)) @ body"
  using assms recv_loop_data [of es "[]" st _ st'] recv_loop_failed [of es "[]" st st']
  by (cases r; auto simp: Impl_ReceiveResponse_def DrpcController_defs split: if_splits)+

text \<open>The bytes sent are not touched by the receive loop, nor the bytes received by the send loop.\<close>

lemma send_step_recvd:
  "send_step e t d st = (x, st') \<Longrightarrow> recvd_on fd (sys_log (sys st)) = w \<Longrightarrow>
   recvd_on fd (sys_log (sys st')) = w"
  by (auto simp: send_step_def Let_def sys_send_def log_event_def fail_with_def
      split: prod.splits if_splits io_result.splits)

lemma recv_step_sent:
  "recv_step e r st = (x, st') \<Longrightarrow> sent_on fd (sys_log (sys st)) = w \<Longrightarrow>
   sent_on fd (sys_log (sys st')) = w"
  by (auto simp: recv_step_def Let_def sys_recv_def log_event_def fail_with_def
      split: prod.splits if_splits sum.splits option.splits)

lemma Send_recvd:
  assumes "Impl_SendRequest es d st = Some (b, st')"
  shows "recvd_on fd (sys_log (sys st')) = recvd_on fd (sys_log (sys st))"
proof (cases "m_sockfd st = -1")
  case True
  with assms show ?thesis by (auto simp: Impl_SendRequest_def)
next
  case False
  with assms have "send_loop es 0 d st = Some (b, st')" by (simp add: Impl_SendRequest_def)
  then show ?thesis
    using send_loop_inv [of d "\<lambda>s. recvd_on fd (sys_log (sys s)) = recvd_on fd (sys_log (sys st))"]
      send_step_recvd by blast
qed

lemma Receive_sent:
  assumes "Impl_ReceiveResponse es st = Some (r, st')"
  shows "sent_on fd (sys_log (sys st')) = sent_on fd (sys_log (sys st))"
proof (cases "m_sockfd st = -1")
  case True
  with assms show ?thesis by (auto simp: Impl_ReceiveResponse_def)
next
  case False
  with assms have "recv_loop es [] st = Some (r, st')" by (simp add: Impl_ReceiveResponse_def)
  then show ?thesis
    using recv_loop_inv [of "\<lambda>s. sent_on fd (sys_log (sys s)) = sent_on fd (sys_log (sys st))"]
      recv_step_sent by blast
qed

definition call_start :: "drpc_st \<Rightarrow> drpc_st" where
  "call_start st = st\<lparr>ctl := DrpcController_SetCancelCallback CloseImpl (DrpcController_Reset (ctl st))\<rparr>"

lemma call_start_simps [simp]:
  "m_sockfd (call_start st) = m_sockfd st" "sys (call_start st) = sys st"
  "\<not> DrpcController_Failed (ctl (call_start st))" "\<not> DrpcController_IsCanceled (ctl (call_start st))"
  "owns B (call_start st) = owns B st"
  by (simp_all add: call_start_def DrpcController_defs)

text \<open>The ways a call can end, one rule per \<open>done\<close> of the source.\<close>

inductive call_ends ::
    "string option \<Rightarrow> (string \<Rightarrow> 'm \<Rightarrow> bool \<times> 'm) \<Rightarrow> send_env \<Rightarrow> recv_env \<Rightarrow> 'm \<Rightarrow> drpc_st
     \<Rightarrow> bool list \<times> 'm \<times> drpc_st \<Rightarrow> bool" where
  no_request: "call_ends None parse ses res m st
    ([False], m, set_failed ''Failed to serialize request'' (call_start st))"
| send_failed: "Impl_SendRequest ses d (call_start st) = Some (False, s1) \<Longrightarrow>
    call_ends (Some d) parse ses res m st ([False], m, s1)"
| receive_failed: "Impl_SendRequest ses d (call_start st) = Some (True, s1) \<Longrightarrow>
    Impl_ReceiveResponse res s1 = Some (None, s2) \<Longrightarrow>
    call_ends (Some d) parse ses res m st ([False], m, s2)"
| parse_failed: "Impl_SendRequest ses d (call_start st) = Some (True, s1) \<Longrightarrow>
    Impl_ReceiveResponse res s1 = Some (Some body, s2) \<Longrightarrow> parse body m = (False, m') \<Longrightarrow>
    call_ends (Some d) parse ses res m st ([False], m', set_failed ''Failed to parse response'' s2)"
| succeeded: "Impl_SendRequest ses d (call_start st) = Some (True, s1) \<Longrightarrow>
    Impl_ReceiveResponse res s1 = Some (Some body, s2) \<Longrightarrow> parse body m = (True, m') \<Longrightarrow>
    call_ends (Some d) parse ses res m st ([True], m', s2)"

lemma CallMethod_ends:
  "TcpChannel_CallMethod req parse ses res m st = Some r \<Longrightarrow> call_ends req parse ses res m st r"
  unfolding TcpChannel_CallMethod_def Let_def call_start_def [symmetric]
  by (auto split: option.splits bool.splits prod.splits if_splits intro: call_ends.intros)

lemma Failed_SetFailed [simp]: "DrpcController_Failed (DrpcController_SetFailed e c)"
  by (simp add: dctl.SetFailed_sets)

lemma CallMethod_done_once:
  assumes "call_ends req parse ses res m st r"
  shows "fst r = [\<not> DrpcController_Failed (ctl (snd (snd r)))]"
  using assms
proof cases
  case (receive_failed d s1 s2)
  then show ?thesis using Send_result(1) Receive_result(1) [of res s1 None s2] by fastforce
next
  case (succeeded d s1 body s2 m')
  then show ?thesis using Send_result(1) Receive_result(1) [of res s1 "Some body" s2] by fastforce
qed (simp_all add: Send_result(1))

lemma CallMethod_transfer:
  assumes "call_ends req parse ses res m st ([True], m', st')"
  shows "\<exists>d body. req = Some d \<and> parse body m = (True, m') \<and>
    m_sockfd st \<noteq> -1 \<and> m_sockfd st' = m_sockfd st \<and>
    sent_on (m_sockfd st) (sys_log (sys st')) = sent_on (m_sockfd st) (sys_log (sys st)) @ d \<and>
    recvd_on (m_sockfd st) (sys_log (sys st')) = recvd_on (m_sockfd st) (sys_log (sys st)) @ body"
  using assms
proof cases
  case (succeeded d s1 body)
  have s: "\<not> DrpcController_Failed (ctl s1)" "m_sockfd st \<noteq> -1" "m_sockfd s1 = m_sockfd st"
    "sent_on (m_sockfd st) (sys_log (sys s1)) = sent_on (m_sockfd st) (sys_log (sys st)) @ d"
    using Send_result [OF succeeded(2)] by simp_all
  moreover have "recvd_on (m_sockfd st) (sys_log (sys s1)) = recvd_on (m_sockfd st) (sys_log (sys st))"
    using Send_recvd [OF succeeded(2)] by simp
  moreover have "sent_on (m_sockfd st) (sys_log (sys st')) = sent_on (m_sockfd st) (sys_log (sys s1))"
    by (rule Receive_sent [OF succeeded(3)])
  ultimately show ?thesis
    using Receive_result(2) [OF succeeded(3) s(1)] succeeded(1,4) by auto
qed simp_all

lemma CallMethod_owns:
  assumes "call_ends req parse ses res m st r" "owns B st"
  shows "owns B (snd (snd r))"
proof -
  have snd: "Impl_SendRequest es d s = Some (b, s') \<Longrightarrow> owns B s \<Longrightarrow> owns B s'" for es d s b s'
    using owns_loops(1) by (auto simp: Impl_SendRequest_def split: if_splits)
  have rcv: "Impl_ReceiveResponse es s = Some (y, s') \<Longrightarrow> owns B s \<Longrightarrow> owns B s'" for es s y s'
    using owns_loops(2) by (auto simp: Impl_ReceiveResponse_def split: if_splits)
  show ?thesis
    using assms(1)
  proof cases
    case (send_failed d s1)
    then show ?thesis using snd assms(2) by simp
  next
    case (receive_failed d s1 s2)
    then show ?thesis using rcv [OF _ snd] assms(2) by simp
  next
    case (parse_failed d s1 body s2)
    then show ?thesis using rcv [OF _ snd] assms(2) by simp
  next
    case (succeeded d s1 body s2)
    then show ?thesis using rcv [OF _ snd] assms(2) by simp
  qed (simp add: assms(2))
qed

section \<open>Properties\<close>

text \<open>C12: When \<open>SendRequest\<close> reports success, the request has been handed to the socket once, in order
  and complete, whatever partial transfers, interruptions and cancellations came in between; when
  it reports failure, the controller says so.\<close>

theorem SendRequest_exactly_once:
  assumes "Impl_SendRequest es data st = Some (b, st')" "\<not> DrpcController_Failed (ctl st)"
  shows "if b then m_sockfd st \<noteq> -1 \<and> m_sockfd st' = m_sockfd st \<and>
      \<not> DrpcController_Failed (ctl st') \<and>
      sent_on (m_sockfd st) (sys_log (sys st')) = sent_on (m_sockfd st) (sys_log (sys st)) @ data
    else DrpcController_Failed (ctl st')"
  using Send_result [OF assms] by auto

definition example_st :: drpc_st where
  "example_st = \<lparr>ctl = DrpcController_new, m_sockfd = 5,
     sys = \<lparr>open_fds = {5}, sys_errno = EINTR, sys_log = []\<rparr>\<rparr>"

definition example_sends :: send_env where
  "example_sends = [(False, False, IoN 2), (False, False, IoErr EINTR), (False, False, IoN 9)]"

lemma example_send:
  "Impl_SendRequest example_sends ''hello'' example_st =
   Some (True, example_st\<lparr>sys := (sys example_st)\<lparr>sys_log := [EvSend 5 ''he'', EvSend 5 ''llo'']\<rparr>\<rparr>)"
  by (simp add: Impl_SendRequest_def example_sends_def example_st_def send_loop.simps send_step_def
      DrpcController_defs posix Let_def)

theorem SendRequest_exactly_once_witness:
  "\<exists>st'. Impl_SendRequest example_sends ''hello'' example_st = Some (True, st') \<and>
    sent_on 5 (sys_log (sys st')) = ''hello''"
  by (rule exI, rule conjI, rule example_send)
    (use SendRequest_exactly_once [OF example_send] in \<open>simp add: example_st_def DrpcController_defs call_start_def\<close>)

text \<open>C24: The send loop ends: as soon as the system has answered as many iterations with a transfer or an
  error other than \<open>EINTR\<close> as the request has bytes, \<open>SendRequest\<close> has returned.\<close>

theorem SendRequest_returns:
  assumes "length data \<le> length (filter useful es)"
  shows "\<exists>b st'. Impl_SendRequest es data st = Some (b, st')"
  using send_loop_returns [of data 0 es st] assms
  by (auto simp: Impl_SendRequest_def)

theorem SendRequest_returns_witness:
  "\<exists>b st'. Impl_SendRequest (replicate 5 (False, False, IoN 1)) ''hello'' example_st = Some (b, st')"
  using SendRequest_returns [of "''hello''" "replicate 5 (False, False, IoN 1)"] by simp


lemma example_receive:
  "Impl_ReceiveResponse [(False, False, Inr ''ab''), (False, False, Inl EINTR), (False, False, Inr ''c''),
     (False, False, Inr '''')] example_st =
   Some (Some ''abc'', example_st\<lparr>sys := (sys example_st)\<lparr>sys_log :=
     [EvRecv 5 ''ab'', EvRecv 5 ''c'', EvRecv 5 '''']\<rparr>\<rparr>)"
  by (simp add: Impl_ReceiveResponse_def example_st_def recv_step_def DrpcController_defs posix Let_def)



lemma example_call:
  "TcpChannel_CallMethod (Some ''hello'') (\<lambda>s m. (True, s)) example_sends
     [(False, False, Inr ''ok''), (False, False, Inr '''')] '''' example_st =
   Some ([True], ''ok'', (call_start example_st)\<lparr>sys := (sys example_st)\<lparr>sys_log :=
     [EvSend 5 ''he'', EvSend 5 ''llo'', EvRecv 5 ''ok'', EvRecv 5 '''']\<rparr>\<rparr>)"
  by (simp add: TcpChannel_CallMethod_def Impl_SendRequest_def Impl_ReceiveResponse_def call_start_def
      example_sends_def example_st_def send_loop.simps send_step_def recv_step_def
      DrpcController_defs posix Let_def)




end
