(* ===== verification/Example_Programs.thy ===== *)
theory Example_Programs
  imports User_Client Rpc_Application Drpc_Channel
begin

text \<open>
  The example programs from their command lines: the user server, \<^verbatim>\<open>src/example/callee/Kserver.cc\<close>, and
  the Drpc client, \<^verbatim>\<open>src/Drpc/drpc_example/caller/dclient.cpp\<close>.
\<close>

section \<open>The user server\<close>

text \<open>Up to the event loop: the service table and what \<open>Run\<close> serves with.\<close>

definition Kserver_main ::
    "'u pb_wire \<Rightarrow> 'z zk_api \<Rightarrow> (string \<Rightarrow> 'h option) \<Rightarrow> (int \<times> int) list \<Rightarrow> (string \<Rightarrow> string option)
     \<Rightarrow> string list \<Rightarrow> (string \<times> string list) list \<Rightarrow> 'z
     \<Rightarrow> (('u user_request, 'u user_response) service_table \<times> 'z serving) res option" where
  "Kserver_main w zk init evs fs argv order z =
     (case KrpcApplication_Init fs argv Map.empty of
        Inl e \<Rightarrow> Some (Inl e)
      | Inr cfg \<Rightarrow>
          (let service_map = KrpcProvider_NotifyService (user_service w) Map.empty
           in map_option (map_sum id (\<lambda>srv. (service_map, srv)))
                (KrpcProvider_Run zk init evs False cfg order z)))"

text \<open>A configuration file that gives the server's address.\<close>

definition gives_address :: "(string \<times> string) list \<Rightarrow> string \<Rightarrow> int \<Rightarrow> bool" where
  "gives_address entries ip port \<longleftrightarrow> map_of entries ''rpcserverip'' = Some ip \<and>
     map_of entries ''rpcserverport'' = Some (show_int port) \<and> addr_ok ip port"

lemma user_published:
  "published [user_service w] ''UserServiceRpc'' m \<longleftrightarrow> m \<in> {''Login'', ''Register'', ''Add''}"
  by (auto simp: published_def user_service_def user_methods_def)

lemma user_names: "names_ok [user_service w]"
  by (simp add: names_ok_def user_service_def user_methods_def path_name_def)

lemma started_server:
  assumes "file_ok ls l" "fs path = Some (render_file ls l)" "gives_address (file_entries ls l) ip port"
    and "zookeeper_store zk nodes up" "up z" "\<And>s. init s \<noteq> None"
    and "(ZOO_SESSION_EVENT, ZOO_CONNECTED_STATE) \<in> set evs"
    and "visits (publish_all [user_service w]) order"
    and "\<forall>p \<in> service_paths order. \<forall>x. nodes z p \<noteq> Some (x, True)"
    and "\<forall>m \<in> {''Login'', ''Register'', ''Add''}. nodes z (method_node ''UserServiceRpc'' m) = None"
  shows "\<exists>srv. Kserver_main w zk init evs fs [prog, ''-i'', path] order z =
      Some (Inr (publish_all [user_service w], srv)) \<and> srv_ip srv = ip \<and> srv_port srv = word_of_int port \<and>
    up (srv_registry srv) \<and> (\<forall>m \<in> {''Login'', ''Register'', ''Add''}.
      nodes (srv_registry srv) (method_node ''UserServiceRpc'' m) = Some (addr_text ip port, True))"
proof -
  obtain cfg where cfg: "Krpcconfig_LoadConfigFile (Some (render_file ls l)) Map.empty = Inr cfg"
    "cfg = map_of (file_entries ls l)"
    using krpc_config.rendered_file [OF assms(1), of Map.empty] by auto
  have argv: "KrpcApplication_Init fs [prog, ''-i'', path] Map.empty = Inr cfg"
    using cfg(1) assms(2) by (simp add: Init_value accepted_def)
  have addr: "Krpcconfig_Load cfg ''rpcserverip'' = ip"
    "atoi (c_str_to_string (Krpcconfig_Load cfg ''rpcserverport'')) = port" "addr_ok ip port"
    using assms(3) cfg(2)
    by (simp_all add: gives_address_def Krpcconfig_Load_def c_str_id show_int_free atoi_show_int)
  obtain h where h: "init (ZkClient_connstr cfg) = Some h" using assms(6) by blast
  have data: "method_data (Krpcconfig_Load cfg ''rpcserverip'')
      (atoi (c_str_to_string (Krpcconfig_Load cfg ''rpcserverport''))) = Inr (addr_text ip port)"
    using method_data_addr [OF addr(3)] addr(1,2) by simp
  obtain srv where run: "KrpcProvider_Run zk init evs False cfg order z = Some (Inr srv)"
    "srv_ip srv = ip" "srv_port srv = word_of_int port" "up (srv_registry srv)"
    and reg: "\<forall>s m. path_name s \<longrightarrow> path_name m \<longrightarrow> nodes (srv_registry srv) (method_node s m) =
        (case nodes z (method_node s m) of Some old \<Rightarrow> Some old
         | None \<Rightarrow> if published [user_service w] s m then Some (addr_text ip port, True) else None)"
    using Run_registry [of zk nodes up z init cfg h False evs "[user_service w]" order "addr_text ip port",
        OF assms(4,5) h disjI2 [OF assms(7)] assms(8) user_names data assms(9)] addr(1,2) by blast
  have names: "path_name ''UserServiceRpc''" "\<forall>m \<in> {''Login'', ''Register'', ''Add''}. path_name m"
    by (simp_all add: path_name_def)
  have "\<forall>m \<in> {''Login'', ''Register'', ''Add''}.
      nodes (srv_registry srv) (method_node ''UserServiceRpc'' m) = Some (addr_text ip port, True)"
    using reg names assms(10) user_published [of w] by simp
  then show ?thesis
    using argv run by (simp add: Kserver_main_def publish_all_def)
qed

section \<open>The Drpc client\<close>

text \<open>
  The exit status and the channel at the end.  \<open>new_fd\<close> and \<open>conn_err\<close> are what the system offers
  to \<open>Connect\<close>, the scripts what happens during the call.
\<close>

definition dclient_main ::
    "(string \<Rightarrow> string option) \<Rightarrow> string list \<Rightarrow> int \<Rightarrow> errno option \<Rightarrow> send_env \<Rightarrow> recv_env \<Rightarrow> kern
     \<Rightarrow> (int \<times> hello_response \<times> drpc_st) res option" where
  "dclient_main fs argv new_fd conn_err ses res k =
     (case DrpcApplication_Init fs argv Map.empty of
        Inl e \<Rightarrow> Some (Inl e)
      | Inr cfg \<Rightarrow>
          (let response = \<lparr>greeting = ''''\<rparr>;
               (ok, st) = TcpChannel_Connect new_fd conn_err ''localhost'' 8888
                 \<lparr>ctl = DrpcController_new, m_sockfd = -1, sys = k\<rparr>
           in if \<not> ok then Some (Inr (1, response, st))
              else case TcpChannel_CallMethodSync (HelloRequest_SerializeToString \<lparr>name = ''World''\<rparr>)
                     HelloResponse_ParseFromString ses res response st of
                     None \<Rightarrow> None
                   | Some (success, response, st) \<Rightarrow> Some (Inr (0, response, TcpChannel_Close st))))"

lemma localhost_rejected: "\<not> inet_pton_ok ''localhost''"
  by code_simp

lemma Connect_localhost:
  assumes "new_fd \<notin> open_fds k"
  shows "\<exists>st. TcpChannel_Connect new_fd conn_err ''localhost'' port \<lparr>ctl = c, m_sockfd = -1, sys = k\<rparr> = (False, st) \<and>
    m_sockfd st = -1 \<and> open_fds (sys st) = open_fds k"
  using assms localhost_rejected
  by (auto simp: TcpChannel_Connect_def Impl_Connect_def Impl_Close_def posix Let_def)

section \<open>Properties\<close>


text \<open>The Drpc example client cannot succeed: once its configuration is read it always exits with status 1,
  whatever the system would offer, because it connects to the name localhost, which is not an
  address; the descriptor it opened is closed again.\<close>

theorem dclient_never_connects:
  assumes "new_fd \<notin> open_fds k"
  shows "case DrpcApplication_Init fs argv Map.empty of
      Inl e \<Rightarrow> dclient_main fs argv new_fd conn_err ses res k = Some (Inl e)
    | Inr cfg \<Rightarrow> \<exists>st. dclient_main fs argv new_fd conn_err ses res k = Some (Inr (1, \<lparr>greeting = ''''\<rparr>, st)) \<and>
        open_fds (sys st) = open_fds k"
  using Connect_localhost [OF assms, of conn_err 8888 DrpcController_new]
  by (auto simp: dclient_main_def split: sum.split)

definition user_order :: "(string \<times> string list) list" where
  "user_order = [(''UserServiceRpc'', [''Login'', ''Register'', ''Add''])]"

lemma user_visits: "visits (publish_all [user_service w]) user_order"
  by (auto simp: visits_def user_order_def user_table dom_def user_methods_def split: if_splits)

definition example_fs :: "string \<rightharpoonup> string" where
  "example_fs = [''conf'' \<mapsto> render_file [Comment 0 '' server'', Entry 0 ''rpcserverip'' 1 1 ''10.0.0.1'' 0,
     Entry 0 ''rpcserverport'' 0 0 ''8000'' 2] None]"

lemma example_fs_ok:
  "file_ok [Comment 0 '' server'', Entry 0 ''rpcserverip'' 1 1 ''10.0.0.1'' 0,
     Entry 0 ''rpcserverport'' 0 0 ''8000'' 2] None"
  by code_simp

lemma login_delivered:
  "delivers std_io std_wire (user_env (LoginResponse_InternalSerialize std_wire (login_reply std_wire))\<lparr>env_z := z\<rparr>)
    ''Login'' (login_args std_wire)"
proof -
  let ?q = "(LoginRequest_SharedCtor std_wire)\<lparr>lq_name := ''zhangsan'', lq_pwd := ''123456''\<rparr>"
  have small: "length (user_request_bytes std_io std_wire ''Login'' (login_args std_wire)) < 2 ^ 31"
    using args_small by (intro user_bytes_small) simp_all
  have known: "no_unknown_fields std_wire ?q" by (simp add: no_unknown_fields_def LoginRequest_SharedCtor_def)
  have "KrpcProvider_OnMessage std_io std_wire (publish_all [user_service std_wire])
      (user_request_bytes std_io std_wire ''Login'' (login_args std_wire)) =
      Some (Sent (LoginResponse_InternalSerialize std_wire (login_reply std_wire)))"
    using user_OnMessage(2) [OF std_rpc.rpc_wire_axioms small, of "publish_all [user_service std_wire]"]
      user_OnMessage(1) [OF std_rpc.rpc_wire_axioms small]
      message_format.dispatch_user(1) [OF std_message.message_format_axioms known]
    by (simp add: login_args_def)
  then show ?thesis using small by (simp add: delivers_def) (simp add: user_env_def example_call_env_def)
qed


theorem dclient_never_connects_witness:
  "\<exists>st. dclient_main example_fs [''dclient'', ''-i'', ''conf''] 3 None [] [] example_kern =
    Some (Inr (1, \<lparr>greeting = ''''\<rparr>, st))"
proof -
  obtain cfg where cfg: "Krpcconfig_LoadConfigFile (example_fs ''conf'') Map.empty = Inr cfg"
    using krpc_config.rendered_file [OF example_fs_ok, of Map.empty] by (auto simp: example_fs_def)
  then have "DrpcApplication_Init example_fs [''dclient'', ''-i'', ''conf''] Map.empty = Inr cfg"
    by (simp add: Init_agree Init_value accepted_def)
  then show ?thesis
    using dclient_never_connects [of 3 example_kern example_fs "[''dclient'', ''-i'', ''conf'']" None "[]" "[]"]
    by (auto simp: example_kern_def)
qed

end
