(* ===== verification/Drpc_Provider.thy ===== *)
theory Drpc_Provider
  imports Krpc_Provider
begin

text \<open>
  The service host in the Drpc library, \<^verbatim>\<open>src/Drpc/src/DrpcService.cpp\<close>.  It defines the class
  \<open>KrpcProvider\<close> a second time, so its operations are translated a second time here, over the
  services and tables of \<open>Krpc_Provider\<close>; the section after them shows which of the two
  definitions differ, and in what.
\<close>

section \<open>The operations\<close>

definition DrpcProvider_NotifyService ::
    "('q, 'p) pb_service \<Rightarrow> ('q, 'p) service_table \<Rightarrow> ('q, 'p) service_table" where
  "DrpcProvider_NotifyService service service_map =
     (let method_map = foldl (\<lambda>m pmd. map_emplace (md_name pmd) pmd m) Map.empty (sd_methods service)
      in map_emplace (sd_name service) \<lparr>si_service = service, si_method_map = method_map\<rparr> service_map)"

definition drpc_method_data :: "string \<Rightarrow> int \<Rightarrow> string res" where
  "drpc_method_data ip port =
     (let s = c_str_to_string ip @ '':'' @ show_int port
      in if length s < 128 then Inr s else Inl (Undefined ''method_path_data overrun''))"

fun drpc_register_methods ::
    "'z zk_api \<Rightarrow> string \<Rightarrow> int \<Rightarrow> string \<Rightarrow> string list \<Rightarrow> 'z \<Rightarrow> 'z res" where
  "drpc_register_methods zk ip port service_path [] z = Inr z"
| "drpc_register_methods zk ip port service_path (m # ms) z =
     (let method_path = service_path @ ''/'' @ m in
      res_bind (drpc_method_data ip port) (\<lambda>d.
      res_bind (ZkClient_Create zk (c_str_to_string method_path) d (length d) ZOO_EPHEMERAL z)
        (drpc_register_methods zk ip port service_path ms)))"

fun drpc_register_services ::
    "'z zk_api \<Rightarrow> string \<Rightarrow> int \<Rightarrow> (string \<times> string list) list \<Rightarrow> 'z \<Rightarrow> 'z res" where
  "drpc_register_services zk ip port [] z = Inr z"
| "drpc_register_services zk ip port ((s, ms) # order) z =
     (let service_path = ''/'' @ s in
      res_bind (ZkClient_Create zk (c_str_to_string service_path) [] 0 0 z) (\<lambda>z.
      res_bind (drpc_register_methods zk ip port service_path ms z)
        (drpc_register_services zk ip port order)))"

definition DrpcProvider_Run ::
    "'z zk_api \<Rightarrow> (string \<Rightarrow> 'h option) \<Rightarrow> (int \<times> int) list \<Rightarrow> bool \<Rightarrow> (string \<rightharpoonup> string)
     \<Rightarrow> (string \<times> string list) list \<Rightarrow> 'z \<Rightarrow> 'z serving res option" where
  "DrpcProvider_Run zk init evs is_connected cfg order z =
     (let ip = Krpcconfig_Load cfg ''rpcserverip'';
          port = atoi (c_str_to_string (Krpcconfig_Load cfg ''rpcserverport''))
      in case ZkClient_Start cfg init evs is_connected of
           None \<Rightarrow> None
         | Some started \<Rightarrow>
             Some (res_bind started (\<lambda>_.
                   res_bind (drpc_register_services zk ip port order z) (\<lambda>z.
                   Inr \<lparr>srv_ip = ip, srv_port = word_of_int port, srv_reuse_port = False, srv_threads = 4,
                        srv_registry = z\<rparr>))))"

definition DrpcProvider_OnConnection :: "bool \<Rightarrow> bool" where
  "DrpcProvider_OnConnection connected = (\<not> connected)"

definition DrpcProvider_SendRpcResponse :: "('p \<Rightarrow> string option) \<Rightarrow> 'p \<Rightarrow> reply" where
  "DrpcProvider_SendRpcResponse ser response =
     (case ser response of Some response_str \<Rightarrow> Sent response_str | None \<Rightarrow> SerializeError)"

definition DrpcProvider_OnMessage ::
    "('s, 'l) pb_io \<Rightarrow> 'u pb_wire \<Rightarrow> ('q, 'p) service_table \<Rightarrow> string \<Rightarrow> reply option" where
  \<comment> \<open>\<open>None\<close> would be a header parse that does not return\<close>
  "DrpcProvider_OnMessage io w service_map recv_buf =
     (let (ok, header_size, st) = ReadVarint32 io (OpenStream io recv_buf);
          (msg_limit, st) = PushLimit io (sint header_size) st;
          (ok, rpc_header_str, st) = ReadString io (sint header_size) st;
          st = PopLimit io msg_limit st
      in case RpcHeader_ParseFromString w rpc_header_str (RpcHeader_SharedCtor w) of
           None \<Rightarrow> None
         | Some (False, krpcHeader) \<Rightarrow> Some HeaderError
         | Some (True, krpcHeader) \<Rightarrow>
           (let service_name = hdr_service_name krpcHeader;
                method_name = hdr_method_name krpcHeader;
                args_size = hdr_args_size krpcHeader;
                (read_args_success, args_str, st) = ReadString io (sint args_size) st
            in if \<not> read_args_success then Some ArgsError
               else case service_map service_name of
                 None \<Rightarrow> Some (NoService service_name)
               | Some info \<Rightarrow>
                 (case si_method_map info method_name of
                    None \<Rightarrow> Some (NoMethod service_name method_name)
                  | Some pmd \<Rightarrow>
                    (let service = si_service info in
                     case req_parse service pmd args_str of
                       None \<Rightarrow> Some (RequestError service_name method_name)
                     | Some request \<Rightarrow>
                       (case svc_call service pmd request of
                          CallDone response \<Rightarrow>
                            Some (DrpcProvider_SendRpcResponse (resp_ser service) response)
                        | CallNoReply \<Rightarrow> Some NoReply
                        | CallCrash e \<Rightarrow> Some (Crashed e))))))"

section \<open>Against the Krpc provider\<close>

lemma drpc_publishing: "DrpcProvider_NotifyService = KrpcProvider_NotifyService"
  by (intro ext) (simp add: DrpcProvider_NotifyService_def KrpcProvider_NotifyService_def)

lemma drpc_data: "drpc_method_data = method_data"
  by (intro ext) (simp add: drpc_method_data_def method_data_def)

lemma drpc_methods: "drpc_register_methods zk ip port path ms = register_methods zk ip port path ms"
  by (induction ms) (auto intro!: ext simp: drpc_data Let_def)

lemma drpc_services: "drpc_register_services zk ip port order = register_services zk ip port order"
  by (induction order) (auto intro!: ext simp: drpc_methods [abs_def] Let_def)

lemma drpc_response: "DrpcProvider_SendRpcResponse = KrpcProvider_SendRpcResponse"
  by (intro ext) (simp add: DrpcProvider_SendRpcResponse_def KrpcProvider_SendRpcResponse_def)

lemma drpc_message: "DrpcProvider_OnMessage = KrpcProvider_OnMessage"
  unfolding fun_eq_iff DrpcProvider_OnMessage_def KrpcProvider_OnMessage_def drpc_response by simp

definition as_drpc :: "'z serving \<Rightarrow> 'z serving" where
  "as_drpc srv = srv\<lparr>srv_reuse_port := False, srv_threads := 4\<rparr>"

lemma drpc_run:
  "DrpcProvider_Run zk init evs flag cfg order z =
   map_option (map_sum id as_drpc) (KrpcProvider_Run zk init evs flag cfg order z)"
  by (simp add: DrpcProvider_Run_def KrpcProvider_Run_def drpc_services Let_def res_bind_def as_drpc_def
      split: option.split sum.split)

section \<open>Properties\<close>

text \<open>C6: The two providers of the repository are the same server: for the same tables, requests, configuration
  and ZooKeeper they publish the same services, register the same nodes, and answer every buffer
  alike, header errors and crashes included; only the number of threads and the port option of the
  listening socket differ.\<close>

theorem providers_agree:
  "DrpcProvider_NotifyService svc tab = KrpcProvider_NotifyService svc tab \<and>
   DrpcProvider_OnConnection up = KrpcProvider_OnConnection up \<and>
   DrpcProvider_OnMessage io w tab buf = KrpcProvider_OnMessage io w tab buf \<and>
   DrpcProvider_Run zk init evs flag cfg order z =
     map_option (map_sum id (\<lambda>srv. srv\<lparr>srv_reuse_port := False, srv_threads := 4\<rparr>))
       (KrpcProvider_Run zk init evs flag cfg order z)"
  using drpc_run [of zk init evs flag cfg order z]
  by (simp add: drpc_publishing drpc_message DrpcProvider_OnConnection_def KrpcProvider_OnConnection_def
      as_drpc_def [abs_def])

end
