(* ===== verification/Thread_Pool.thy ===== *)
theory Thread_Pool
  imports Krpc_Prelude "HOL-Library.Multiset"
begin

text \<open>
  The thread pool of \<^verbatim>\<open>src/src/include/EpollServer.h\<close>.  Every critical section of the code (under
  \<open>mutex_\<close>) is one step, and so is each notification, which the code makes after unlocking.  A worker is
  \<open>Ready\<close> when it is about to evaluate the predicate of \<^verbatim>\<open>condition_.wait\<close>, \<open>Waiting\<close> when it sleeps on
  the condition variable, \<open>Running t\<close> while it executes a task, \<open>Exited\<close> after its return.
\<close>

datatype 't worker = Ready | Waiting | Running 't | Exited

text \<open>
  \<open>to_notify\<close> counts the calls of \<^verbatim>\<open>notify_one\<close> still to be made by callers of \<open>enqueue\<close>, \<open>stopping\<close> says
  that \<^verbatim>\<open>notify_all\<close> is still to be made by the destructor.  \<open>submitted\<close>, \<open>started\<close> and \<open>finished\<close> record
  the tasks in order.
\<close>

record 't pool =
  p_running :: bool
  p_tasks :: "'t list"
  p_workers :: "'t worker list"
  to_notify :: nat
  stopping :: bool
  submitted :: "'t list"
  started :: "'t list"
  finished :: "'t list"

section \<open>The code\<close>

definition ThreadPool_new :: "nat \<Rightarrow> 't pool" where
  "ThreadPool_new numThreads =
     \<lparr>p_running = True, p_tasks = [], p_workers = replicate numThreads Ready,
      to_notify = 0, stopping = False, submitted = [], started = [], finished = []\<rparr>"

definition ThreadPool_enqueue :: "'t \<Rightarrow> 't pool \<Rightarrow> 't pool" where
  "ThreadPool_enqueue f p =
     p\<lparr>p_tasks := p_tasks p @ [f], to_notify := to_notify p + 1, submitted := submitted p @ [f]\<rparr>"

text \<open>\<^verbatim>\<open>notify_one\<close> wakes one of the sleeping workers, \<open>w\<close>, or none when none sleeps.\<close>

definition notify_one :: "nat option \<Rightarrow> 't pool \<Rightarrow> 't pool option" where
  "notify_one w p =
     (if to_notify p = 0 then None
      else let p' = p\<lparr>to_notify := to_notify p - 1\<rparr> in
      case w of
        None \<Rightarrow> if Waiting \<in> set (p_workers p) then None else Some p'
      | Some i \<Rightarrow>
          if i < length (p_workers p) \<and> p_workers p ! i = Waiting
          then Some (p'\<lparr>p_workers := (p_workers p)[i := Ready]\<rparr>) else None)"

definition ThreadPool_shutdown :: "'t pool \<Rightarrow> 't pool" where
  \<comment> \<open>the critical section of the destructor\<close>
  "ThreadPool_shutdown p = p\<lparr>p_running := False, stopping := True\<rparr>"

definition notify_all :: "'t pool \<Rightarrow> 't pool option" where
  "notify_all p =
     (if stopping p
      then Some (p\<lparr>stopping := False,
        p_workers := map (\<lambda>w. case w of Waiting \<Rightarrow> Ready | _ \<Rightarrow> w) (p_workers p)\<rparr>)
      else None)"

text \<open>The body of a worker: evaluate the predicate, sleep, return or take the first task; then run it.\<close>

definition ThreadPool_worker :: "nat \<Rightarrow> 't pool \<Rightarrow> 't pool option" where
  "ThreadPool_worker i p =
     (if \<not> i < length (p_workers p) then None
      else case p_workers p ! i of
        Ready \<Rightarrow> Some (
          if \<not> (\<not> p_running p \<or> p_tasks p \<noteq> []) then p\<lparr>p_workers := (p_workers p)[i := Waiting]\<rparr>
          else case p_tasks p of
            [] \<Rightarrow> p\<lparr>p_workers := (p_workers p)[i := Exited]\<rparr>
          | t # ts \<Rightarrow> p\<lparr>p_tasks := ts, p_workers := (p_workers p)[i := Running t],
                       started := started p @ [t]\<rparr>)
      | Running t \<Rightarrow> Some (p\<lparr>p_workers := (p_workers p)[i := Ready], finished := finished p @ [t]\<rparr>)
      | _ \<Rightarrow> None)"

text \<open>A condition variable may also wake a sleeper for no reason.\<close>

definition wake_up :: "nat \<Rightarrow> 't pool \<Rightarrow> 't pool option" where
  "wake_up i p =
     (if i < length (p_workers p) \<and> p_workers p ! i = Waiting
      then Some (p\<lparr>p_workers := (p_workers p)[i := Ready]\<rparr>) else None)"

section \<open>Interleavings\<close>

text \<open>The pool outlives its users: nobody enqueues once the destructor has started.\<close>

inductive pool_step :: "'t pool \<Rightarrow> 't pool \<Rightarrow> bool" where
  enqueue: "p_running p \<Longrightarrow> pool_step p (ThreadPool_enqueue t p)"
| notify: "notify_one w p = Some p' \<Longrightarrow> pool_step p p'"
| shutdown: "p_running p \<Longrightarrow> pool_step p (ThreadPool_shutdown p)"
| notifyAll: "notify_all p = Some p' \<Longrightarrow> pool_step p p'"
| work: "ThreadPool_worker i p = Some p' \<Longrightarrow> pool_step p p'"
| spurious: "wake_up i p = Some p' \<Longrightarrow> pool_step p p'"

inductive pool_reachable :: "nat \<Rightarrow> 't pool \<Rightarrow> bool" for n where
  init: "pool_reachable n (ThreadPool_new n)"
| step: "pool_reachable n p \<Longrightarrow> pool_step p p' \<Longrightarrow> pool_reachable n p'"

section \<open>Counting workers\<close>

definition count_workers :: "('t worker \<Rightarrow> bool) \<Rightarrow> 't pool \<Rightarrow> nat" where
  "count_workers P p = length (filter P (p_workers p))"

fun running_task :: "'t worker \<Rightarrow> 't list" where
  "running_task (Running t) = [t]"
| "running_task _ = []"

definition running_tasks :: "'t pool \<Rightarrow> 't multiset" where
  "running_tasks p = sum_list (map (\<lambda>w. mset (running_task w)) (p_workers p))"

lemma filter_update:
  "i < length ws \<Longrightarrow>
   length (filter P (ws[i := w])) + (if P (ws ! i) then 1 else 0) =
   length (filter P ws) + (if P w then 1 else 0)"
proof (induction ws arbitrary: i)
  case (Cons x ws)
  then show ?case by (cases i) auto
qed simp

lemma sum_list_update_add:
  "i < length ws \<Longrightarrow>
   sum_list (map f (ws[i := w])) + f (ws ! i) = sum_list (map f ws) + (f w :: 'a::comm_monoid_add)"
proof (induction ws arbitrary: i)
  case (Cons x ws)
  then show ?case by (cases i) (auto simp: add_ac)
qed simp

section \<open>The invariant\<close>

abbreviation ready :: "'t pool \<Rightarrow> nat" where
  "ready p \<equiv> count_workers (\<lambda>w. w = Ready) p"

text \<open>
  Tasks are started in the order of submission and each started task is running or finished, once.
  If a worker sleeps then every queued task has a notification to come or a worker about to look;
  after shutdown a sleeping worker will be notified; a worker has exited only when nothing is left.
\<close>

definition tasks_once :: "'t pool \<Rightarrow> bool" where
  "tasks_once p \<longleftrightarrow> submitted p = started p @ p_tasks p \<and>
     mset (started p) = mset (finished p) + running_tasks p"

definition no_lost_wakeup :: "'t pool \<Rightarrow> bool" where
  "no_lost_wakeup p \<longleftrightarrow>
     (Waiting \<in> set (p_workers p) \<longrightarrow> length (p_tasks p) \<le> to_notify p + ready p)"

definition stop_reaches_all :: "'t pool \<Rightarrow> bool" where
  "stop_reaches_all p \<longleftrightarrow>
     (\<not> p_running p \<and> Waiting \<in> set (p_workers p) \<longrightarrow> stopping p) \<and>
     (Exited \<in> set (p_workers p) \<longrightarrow> \<not> p_running p \<and> p_tasks p = [])"

definition pool_inv :: "nat \<Rightarrow> 't pool \<Rightarrow> bool" where
  "pool_inv n p \<longleftrightarrow> length (p_workers p) = n \<and> tasks_once p \<and> no_lost_wakeup p \<and> stop_reaches_all p"

lemmas pool_inv_defs = pool_inv_def tasks_once_def no_lost_wakeup_def stop_reaches_all_def

lemma in_set_update: "x \<in> set (xs[i := y]) \<Longrightarrow> x = y \<or> x \<in> set xs"
  using set_update_subset_insert [of xs i y] by auto

lemma ready_update:
  "i < length (p_workers p) \<Longrightarrow>
   ready (p\<lparr>p_workers := (p_workers p)[i := w]\<rparr>) + (if p_workers p ! i = Ready then 1 else 0) =
   ready p + (if w = Ready then 1 else 0)"
  using filter_update [of i "p_workers p" "\<lambda>w. w = Ready" w] by (simp add: count_workers_def)

lemma running_update:
  "i < length (p_workers p) \<Longrightarrow>
   running_tasks (p\<lparr>p_workers := (p_workers p)[i := w]\<rparr>) + mset (running_task (p_workers p ! i)) =
   running_tasks p + mset (running_task w)"
  using sum_list_update_add [of i "p_workers p" "\<lambda>w. mset (running_task w)" w]
  by (simp add: running_tasks_def)

text \<open>Only the workers matter for the two counts.\<close>

lemma counts_cong:
  "p_workers p' = p_workers p \<Longrightarrow> ready p' = ready p \<and> running_tasks p' = running_tasks p"
  by (simp add: count_workers_def running_tasks_def)

lemma no_running_tasks: "sum_list (replicate n {#}) = {#}"
  by (induction n) simp_all

lemma inv_new: "pool_inv n (ThreadPool_new n)"
  by (simp add: pool_inv_defs ThreadPool_new_def running_tasks_def no_running_tasks)

lemma inv_enqueue:
  assumes "pool_inv n p" "p_running p"
  shows "pool_inv n (ThreadPool_enqueue t p)"
  using assms counts_cong [of "ThreadPool_enqueue t p" p]
  by (auto simp: pool_inv_defs ThreadPool_enqueue_def)

lemma inv_shutdown: "pool_inv n p \<Longrightarrow> pool_inv n (ThreadPool_shutdown p)"
  using counts_cong [of "ThreadPool_shutdown p" p]
  by (auto simp: pool_inv_defs ThreadPool_shutdown_def)

text \<open>A sleeping worker that becomes ready, with or without a notification spent on it.\<close>

lemma inv_wake:
  assumes "pool_inv n p" "i < length (p_workers p)" "p_workers p ! i = Waiting" "to_notify p \<le> Suc k"
    "k \<le> to_notify p"
  shows "pool_inv n (p\<lparr>to_notify := k, p_workers := (p_workers p)[i := Ready]\<rparr>)"
proof -
  let ?p = "p\<lparr>p_workers := (p_workers p)[i := Ready]\<rparr>"
  have r: "ready ?p = Suc (ready p)" using ready_update [OF assms(2), of Ready] assms(3) by simp
  have t: "running_tasks ?p = running_tasks p" using running_update [OF assms(2), of Ready] assms(3) by simp
  have w: "Waiting \<in> set (p_workers p)" using assms(2,3) nth_mem by force
  have c: "ready (?p\<lparr>to_notify := k\<rparr>) = ready ?p" "running_tasks (?p\<lparr>to_notify := k\<rparr>) = running_tasks ?p"
    using counts_cong [of "?p\<lparr>to_notify := k\<rparr>" ?p] by simp_all
  have "pool_inv n (?p\<lparr>to_notify := k\<rparr>)"
    using assms(1,4) r t w unfolding pool_inv_defs c by (auto dest!: in_set_update)
  then show ?thesis by (simp add: pool_inv_defs count_workers_def running_tasks_def)
qed

lemma inv_notify: "notify_one w p = Some p' \<Longrightarrow> pool_inv n p \<Longrightarrow> pool_inv n p'"
proof (cases w)
  case None
  assume "notify_one w p = Some p'" "pool_inv n p"
  with None show ?thesis
    using counts_cong [of p' p] by (auto simp: notify_one_def pool_inv_defs Let_def split: if_splits)
next
  case (Some i)
  assume n: "notify_one w p = Some p'" and inv: "pool_inv n p"
  show ?thesis
    using inv_wake [OF inv, of i "to_notify p - 1"] n Some
    by (auto simp: notify_one_def Let_def split: if_splits)
qed

lemma inv_spurious: "wake_up i p = Some p' \<Longrightarrow> pool_inv n p \<Longrightarrow> pool_inv n p'"
  using inv_wake [of n p i "to_notify p"] by (auto simp: wake_up_def split: if_splits)

lemma inv_notifyAll: "notify_all p = Some p' \<Longrightarrow> pool_inv n p \<Longrightarrow> pool_inv n p'"
proof -
  assume n: "notify_all p = Some p'" and inv: "pool_inv n p"
  let ?f = "\<lambda>w. case w of Waiting \<Rightarrow> Ready | _ \<Rightarrow> w"
  have p': "p' = p\<lparr>stopping := False, p_workers := map ?f (p_workers p)\<rparr>"
    using n by (auto simp: notify_all_def split: if_splits)
  have "mset (running_task (?f w)) = mset (running_task w)" for w :: "'a worker"
    by (simp split: worker.split)
  then have "running_tasks p' = running_tasks p" by (simp add: p' running_tasks_def comp_def)
  moreover have "Waiting \<notin> set (p_workers p')" by (auto simp: p' split: worker.splits)
  moreover have "Exited \<in> set (p_workers p') \<Longrightarrow> Exited \<in> set (p_workers p)"
    by (auto simp: p' split: worker.splits)
  ultimately show ?thesis using inv by (auto simp: pool_inv_defs p')
qed

text \<open>The four things a worker can do, and that each keeps the invariant.\<close>

lemma worker_cases:
  assumes "ThreadPool_worker i p = Some p'"
  obtains (sleep) "p_workers p ! i = Ready" "p_running p" "p_tasks p = []"
      "p' = p\<lparr>p_workers := (p_workers p)[i := Waiting]\<rparr>"
    | (exit) "p_workers p ! i = Ready" "\<not> p_running p" "p_tasks p = []"
      "p' = p\<lparr>p_workers := (p_workers p)[i := Exited]\<rparr>"
    | (take) t ts where "p_workers p ! i = Ready" "p_tasks p = t # ts"
      "p' = p\<lparr>p_tasks := ts, p_workers := (p_workers p)[i := Running t], started := started p @ [t]\<rparr>"
    | (finish) t where "p_workers p ! i = Running t"
      "p' = p\<lparr>p_workers := (p_workers p)[i := Ready], finished := finished p @ [t]\<rparr>"
  using assms by (auto simp: ThreadPool_worker_def split: if_splits worker.splits list.splits)

lemma worker_bound: "ThreadPool_worker i p = Some p' \<Longrightarrow> i < length (p_workers p)"
  by (auto simp: ThreadPool_worker_def split: if_splits)

lemma inv_worker:
  assumes "ThreadPool_worker i p = Some p'" "pool_inv n p"
  shows "pool_inv n p'"
proof -
  have i: "i < length (p_workers p)" by (rule worker_bound [OF assms(1)])
  let ?with = "\<lambda>w. p\<lparr>p_workers := (p_workers p)[i := w]\<rparr>"
  have r: "ready (?with w) + (if p_workers p ! i = Ready then 1 else 0) =
      ready p + (if w = Ready then 1 else 0)" for w by (rule ready_update [OF i])
  have t: "running_tasks (?with w) + mset (running_task (p_workers p ! i)) =
      running_tasks p + mset (running_task w)" for w by (rule running_update [OF i])
  from assms(1) show ?thesis
  proof (cases rule: worker_cases)
    case sleep
    then have "running_tasks p' = running_tasks p" using t [of Waiting] by simp
    then show ?thesis using assms(2) sleep by (auto simp: pool_inv_defs dest!: in_set_update)
  next
    case exit
    then have "running_tasks p' = running_tasks p" using t [of Exited] by simp
    then show ?thesis using assms(2) exit by (auto simp: pool_inv_defs dest!: in_set_update)
  next
    case (take x xs)
    have c: "ready p' = ready (?with (Running x))" "running_tasks p' = running_tasks (?with (Running x))"
      using take counts_cong [of p' "?with (Running x)"] by simp_all
    have "Suc (ready p') = ready p" "running_tasks p' = add_mset x (running_tasks p)"
      using c r [of "Running x"] t [of "Running x"] take by simp_all
    then show ?thesis using assms(2) take by (auto simp: pool_inv_defs dest!: in_set_update)
  next
    case (finish x)
    have c: "ready p' = ready (?with Ready)" "running_tasks p' = running_tasks (?with Ready)"
      using finish counts_cong [of p' "?with Ready"] by simp_all
    have "ready p' = Suc (ready p)" "add_mset x (running_tasks p') = running_tasks p"
      using c r [of Ready] t [of Ready] finish by simp_all
    then show ?thesis using assms(2) finish
      by (auto simp: pool_inv_defs dest!: in_set_update)
  qed
qed

lemma inv_step: "pool_step p p' \<Longrightarrow> pool_inv n p \<Longrightarrow> pool_inv n p'"
  by (induction rule: pool_step.induct)
    (simp_all add: inv_enqueue inv_shutdown inv_notify inv_notifyAll inv_worker inv_spurious)

lemma reachable_inv: "pool_reachable n p \<Longrightarrow> pool_inv n p"
  by (induction rule: pool_reachable.induct) (auto intro: inv_new inv_step)

section \<open>Progress\<close>

fun worker_cost :: "'t worker \<Rightarrow> nat" where
  "worker_cost Exited = 0"
| "worker_cost Ready = 1"
| "worker_cost Waiting = 2"
| "worker_cost (Running t) = 2"

text \<open>An upper bound on the steps left once the destructor has cleared \<open>running_\<close>.\<close>

definition steps_left :: "'t pool \<Rightarrow> nat" where
  "steps_left p = 2 * length (p_tasks p) + sum_list (map worker_cost (p_workers p)) + to_notify p +
     (if stopping p then 1 else 0)"

lemma cost_update:
  "i < length ws \<Longrightarrow>
   sum_list (map worker_cost (ws[i := w])) + worker_cost (ws ! i) =
   sum_list (map worker_cost ws) + worker_cost w"
  by (rule sum_list_update_add)

lemma cost_notify_all:
  "sum_list (map (\<lambda>w. worker_cost (case w of Waiting \<Rightarrow> Ready | _ \<Rightarrow> w)) ws) \<le>
   sum_list (map worker_cost ws)"
  by (rule sum_list_mono) (simp split: worker.split)

lemma stopped_step:
  assumes "pool_step p p'" "\<not> p_running p"
  shows "\<not> p_running p' \<and> steps_left p' < steps_left p"
  using assms
proof cases
  case (notify w)
  then show ?thesis
    using assms(2) cost_update [of _ "p_workers p" Ready]
    by (fastforce simp: notify_one_def steps_left_def Let_def split: option.splits if_splits)
next
  case notifyAll
  then show ?thesis
    using assms(2) cost_notify_all [of "p_workers p"]
    by (auto simp: notify_all_def steps_left_def comp_def split: if_splits)
next
  case (work i)
  note cost = cost_update [OF worker_bound [OF work]]
  from work show ?thesis
  proof (cases rule: worker_cases)
    case exit
    then show ?thesis using cost [of Exited] by (simp add: steps_left_def)
  next
    case (take t ts)
    then show ?thesis using cost [of "Running t"] assms(2) by (simp add: steps_left_def)
  next
    case (finish t)
    then show ?thesis using cost [of Ready] assms(2) by (simp add: steps_left_def)
  qed (use assms(2) in simp)
next
  case (spurious i)
  then show ?thesis
    using assms(2) cost_update [of i "p_workers p" Ready]
    by (auto simp: wake_up_def steps_left_def split: if_splits)
qed simp_all

lemma stopped_run:
  "(pool_step ^^ k) p p' \<Longrightarrow> \<not> p_running p \<Longrightarrow> \<not> p_running p' \<and> k + steps_left p' \<le> steps_left p"
proof (induction k arbitrary: p')
  case (Suc k)
  then obtain q where q: "(pool_step ^^ k) p q" "pool_step q p'" by auto
  then show ?case using Suc.IH [OF q(1) Suc.prems(2)] stopped_step [OF q(2)] by auto
qed simp

lemma awake_worker_moves:
  assumes "i < length (p_workers p)" "p_workers p ! i \<noteq> Waiting" "p_workers p ! i \<noteq> Exited"
  shows "\<exists>p'. ThreadPool_worker i p = Some p'"
  using assms by (cases "p_workers p ! i") (auto simp: ThreadPool_worker_def)

lemma stopped_stuck:
  assumes "pool_inv n p" "\<not> p_running p" "\<And>p'. \<not> pool_step p p'"
  shows "\<forall>w \<in> set (p_workers p). w = Exited"
proof
  fix w assume w: "w \<in> set (p_workers p)"
  then obtain i where i: "i < length (p_workers p)" "p_workers p ! i = w" by (auto simp: in_set_conv_nth)
  have "w \<noteq> Waiting"
  proof
    assume "w = Waiting"
    then have "stopping p" using assms(1,2) w by (auto simp: pool_inv_defs)
    then have "\<exists>p'. notify_all p = Some p'" by (simp add: notify_all_def)
    then show False using assms(3) by (blast intro: pool_step.notifyAll)
  qed
  then show "w = Exited"
    using awake_worker_moves [OF i(1)] i(2) assms(3) by (blast intro: pool_step.work)
qed

section \<open>Properties\<close>

text \<open>C9: Under every interleaving of callers, workers, notifications and spurious wake-ups, the tasks are
  started in the order they were submitted, none is lost and none runs twice: what was submitted
  is what was started followed by what is queued, and each started task is running or finished.\<close>

theorem pool_runs_each_task_once:
  assumes "pool_reachable n p"
  shows "submitted p = started p @ p_tasks p \<and> mset (started p) = mset (finished p) + running_tasks p"
  using reachable_inv [OF assms] by (simp add: pool_inv_defs)

lemma example_pool:
  "pool_reachable 2 \<lparr>p_running = True, p_tasks = [7], p_workers = [Running (5::nat), Waiting],
     to_notify = 2, stopping = False, submitted = [5, 7], started = [5], finished = []\<rparr>"
proof -
  let ?p0 = "ThreadPool_new 2 :: nat pool"
  let ?p1 = "?p0\<lparr>p_workers := [Ready, Waiting]\<rparr>"
  let ?p2 = "ThreadPool_enqueue 7 (ThreadPool_enqueue 5 ?p1)"
  have "pool_reachable 2 ?p1"
    by (rule pool_reachable.step [OF pool_reachable.init], rule pool_step.work [of 1])
      (simp add: ThreadPool_worker_def ThreadPool_new_def numeral_2_eq_2)
  then have "pool_reachable 2 ?p2"
    by (intro pool_reachable.step [OF _ pool_step.enqueue])
      (simp_all add: ThreadPool_new_def ThreadPool_enqueue_def)
  moreover have "pool_step ?p2 \<lparr>p_running = True, p_tasks = [7], p_workers = [Running 5, Waiting],
     to_notify = 2, stopping = False, submitted = [5, 7], started = [5], finished = []\<rparr>"
    by (rule pool_step.work [of 0])
      (simp add: ThreadPool_worker_def ThreadPool_new_def ThreadPool_enqueue_def)
  ultimately show ?thesis by (rule pool_reachable.step)
qed

theorem pool_runs_each_task_once_witness:
  "running_tasks \<lparr>p_running = True, p_tasks = [7], p_workers = [Running (5::nat), Waiting],
     to_notify = 2, stopping = False, submitted = [5, 7], started = [5], finished = []\<rparr> = {#5#}"
  using pool_runs_each_task_once [OF example_pool] by simp

text \<open>C10: No wake-up is lost: in every reachable state of a pool with workers, if tasks are queued then a
  worker can move or a notification is still to come, and if some worker sleeps then each queued
  task has its own notification to come or its own worker about to look at the queue.\<close>

theorem pool_no_lost_wakeup:
  assumes "pool_reachable n p" "0 < n" "p_tasks p \<noteq> []"
  shows "((\<exists>i p'. ThreadPool_worker i p = Some p') \<or> (\<exists>w p'. notify_one w p = Some p')) \<and>
    (Waiting \<in> set (p_workers p) \<longrightarrow> length (p_tasks p) \<le> to_notify p + ready p)"
proof -
  have inv: "pool_inv n p" by (rule reachable_inv [OF assms(1)])
  have "(\<exists>i p'. ThreadPool_worker i p = Some p') \<or> (\<exists>w p'. notify_one w p = Some p')"
  proof (cases "\<exists>i < length (p_workers p). p_workers p ! i \<noteq> Waiting")
    case True
    then obtain i where i: "i < length (p_workers p)" "p_workers p ! i \<noteq> Waiting" by blast
    moreover have "p_workers p ! i \<noteq> Exited" using inv assms(3) i(1) nth_mem by (fastforce simp: pool_inv_defs)
    ultimately show ?thesis using awake_worker_moves by blast
  next
    case False
    then have all: "\<And>w. w \<in> set (p_workers p) \<Longrightarrow> w = Waiting" by (auto simp: in_set_conv_nth)
    have "0 < length (p_workers p)" using inv assms(2) by (simp add: pool_inv_def)
    then have w: "p_workers p ! 0 = Waiting" "Waiting \<in> set (p_workers p)" using all nth_mem by force+
    have "ready p = 0" using all by (auto simp: count_workers_def filter_empty_conv)
    then have "0 < to_notify p" using inv assms(3) w(2)
      by (cases "p_tasks p") (auto simp: pool_inv_defs)
    then have "notify_one (Some 0) p \<noteq> None"
      using w(1) \<open>0 < length (p_workers p)\<close> by (simp add: notify_one_def)
    then show ?thesis by blast
  qed
  then show ?thesis using inv by (simp add: pool_inv_defs)
qed

theorem pool_no_lost_wakeup_witness:
  "length [7::nat] \<le> to_notify \<lparr>p_running = True, p_tasks = [7], p_workers = [Running (5::nat), Waiting],
     to_notify = 2, stopping = False, submitted = [5, 7], started = [5], finished = []\<rparr> + 0"
  using pool_no_lost_wakeup [OF example_pool] by (simp add: count_workers_def)



end
