(* ===== verification/Epoll_Server.thy ===== *)
theory Epoll_Server
  imports Thread_Pool Posix_Sockets
begin

text \<open>
  The epoll server of \<^verbatim>\<open>src/src/epollServer.cc\<close> and \<^verbatim>\<open>src/src/include/EpollServer.h\<close>: starting and
  stopping, the event loop, and the read tasks it hands to the thread pool, as an interleaving of
  the loop thread, the workers and the system.

  The descriptor table maps an open descriptor to the open file behind it, so that a descriptor
  number that is closed and given out again can be told from the first.  Files are numbered in the
  order they are opened.
\<close>

section \<open>State\<close>

datatype epoll_log =
    Accepted int nat
  | Reported int "nat option"
  | Got int "nat option" string
  | PeerClosed int "nat option"
  | ReadFailed int "nat option" errno
  | Closed int "nat option"
  | Greeted int "nat option"

text \<open>
  \<open>watched\<close> is the interest list of the epoll instance, \<open>events\<close> what is left of the last result of
  \<^verbatim>\<open>epoll_wait\<close>, \<open>loop_done\<close> that the loop has ended on an error, \<open>accepting\<close> a connection accepted but not yet in
  \<open>clientFds_\<close>, and \<open>closing\<close> the workers that have read end of file or an error and are on their way
  to \<open>closeConnection\<close>, each with the file it read from.
\<close>

record epoll_server =
  listenFd :: int
  epollFd :: int
  e_running :: bool
  threadPool :: "int pool"
  clientFds :: "int set"
  onConnection :: bool
  onMessage :: bool
  fd_table :: "int \<rightharpoonup> nat"
  next_file :: nat
  watched :: "int set"
  events :: "(int \<times> bool) list"
  loop_done :: bool
  accepting :: "int option"
  closing :: "nat \<rightharpoonup> nat option"
  e_log :: "epoll_log list"

definition EpollServer_new :: "(int \<rightharpoonup> nat) \<Rightarrow> nat \<Rightarrow> epoll_server" where
  \<comment> \<open>\<open>tab\<close> is the table of the process before\<close>
  "EpollServer_new tab n =
     \<lparr>listenFd = -1, epollFd = -1, e_running = False, threadPool = ThreadPool_new 8, clientFds = {},
      onConnection = False, onMessage = False, fd_table = tab, next_file = n, watched = {}, events = [],
      loop_done = False, accepting = None, closing = Map.empty, e_log = []\<rparr>"

text \<open>The callbacks, of which the model keeps whether they are set, and a server configured with them.\<close>

definition EpollServer_setConnectionCallback :: "bool \<Rightarrow> epoll_server \<Rightarrow> epoll_server" where
  "EpollServer_setConnectionCallback cb s = s\<lparr>onConnection := cb\<rparr>"

definition EpollServer_setMessageCallback :: "bool \<Rightarrow> epoll_server \<Rightarrow> epoll_server" where
  "EpollServer_setMessageCallback cb s = s\<lparr>onMessage := cb\<rparr>"

definition configured :: "bool \<Rightarrow> bool \<Rightarrow> (int \<rightharpoonup> nat) \<Rightarrow> nat \<Rightarrow> epoll_server" where
  "configured con msg tab n =
     EpollServer_setMessageCallback msg (EpollServer_setConnectionCallback con (EpollServer_new tab n))"

lemmas configured_defs = configured_def EpollServer_setMessageCallback_def EpollServer_setConnectionCallback_def
  EpollServer_new_def

definition open_fd :: "int \<Rightarrow> epoll_server \<Rightarrow> epoll_server" where
  "open_fd fd s = s\<lparr>fd_table := (fd_table s)(fd \<mapsto> next_file s), next_file := next_file s + 1\<rparr>"

definition close_fd :: "int \<Rightarrow> epoll_server \<Rightarrow> epoll_server" where
  \<comment> \<open>closing the last descriptor of a file also removes it from the interest list\<close>
  "close_fd fd s =
     s\<lparr>fd_table := (fd_table s)(fd := None), watched := watched s - {fd},
       e_log := e_log s @ [Closed fd (fd_table s fd)]\<rparr>"

text \<open>A call that returns a new descriptor: a negative number or one not in use.\<close>

definition new_fd :: "int \<Rightarrow> epoll_server \<Rightarrow> int \<times> epoll_server" where
  "new_fd choice s =
     (if choice < 0 \<or> choice \<in> dom (fd_table s) then (-1, s) else (choice, open_fd choice s))"

section \<open>Starting and stopping\<close>

definition setNonBlocking :: "int \<Rightarrow> (int \<Rightarrow> int) \<Rightarrow> int" where
  \<comment> \<open>the results of the two \<^verbatim>\<open>fcntl\<close> calls\<close>
  "setNonBlocking getfl setfl =
     (let flags = getfl in
      if flags = -1 then -1
      else let flags = or flags 2048 in if setfl flags = -1 then -1 else 0)"

record start_env =
  s_socket :: int
  s_setsockopt :: int
  s_bind :: int
  s_listen :: int
  s_getfl :: int
  s_setfl :: "int \<Rightarrow> int"
  s_epoll :: int
  s_ctl :: int

definition EpollServer_start :: "start_env \<Rightarrow> string \<Rightarrow> epoll_server \<Rightarrow> bool \<times> epoll_server" where
  "EpollServer_start env ip s =
     (let (fd, s) = new_fd (s_socket env) s;
          s = s\<lparr>listenFd := fd\<rparr>
      in if fd < 0 then (False, s)
      else if s_setsockopt env < 0 then (False, close_fd (listenFd s) s)
      else if \<not> inet_pton_ok ip then (False, close_fd (listenFd s) s)
      else if s_bind env < 0 then (False, close_fd (listenFd s) s)
      else if s_listen env < 0 then (False, close_fd (listenFd s) s)
      else if setNonBlocking (s_getfl env) (s_setfl env) < 0 then (False, close_fd (listenFd s) s)
      else
        let (efd, s) = new_fd (s_epoll env) s;
            s = s\<lparr>epollFd := efd\<rparr>
        in if efd < 0 then (False, close_fd (listenFd s) s)
        else if s_ctl env < 0 then (False, close_fd (epollFd s) (close_fd (listenFd s) s))
        else (True, s\<lparr>watched := insert (listenFd s) (watched s), e_running := True\<rparr>))"

text \<open>
  The close loop of \<open>stop\<close> visits \<open>clientFds_\<close> in order; \<open>stop\<close> has joined the loop thread before it, so
  no connection is being accepted.
\<close>

definition EpollServer_stop :: "epoll_server \<Rightarrow> epoll_server" where
  "EpollServer_stop s =
     (if \<not> e_running s then s
      else
        let s = s\<lparr>e_running := False\<rparr>;
            s = (if 0 \<le> epollFd s then (close_fd (epollFd s) s)\<lparr>epollFd := -1, watched := {}\<rparr> else s);
            s = (if 0 \<le> listenFd s then (close_fd (listenFd s) s)\<lparr>listenFd := -1\<rparr> else s);
            s = fold close_fd (sorted_list_of_set (clientFds s)) s
        in s\<lparr>clientFds := {}\<rparr>)"

text \<open>
  The destructor stops the server; then the members go, from the last one declared: the callbacks, the set
  of clients, the mutex and only then the pool, whose destructor is the model's \<open>ThreadPool_shutdown\<close>.
\<close>

definition EpollServer_delete :: "epoll_server \<Rightarrow> epoll_server" where
  "EpollServer_delete s =
     (let s = EpollServer_stop s;
          s = s\<lparr>onMessage := False, onConnection := False, clientFds := {}\<rparr>
      in s\<lparr>threadPool := ThreadPool_shutdown (threadPool s)\<rparr>)"

section \<open>Connections\<close>

text \<open>\<open>handleNewConnection\<close> up to \<^verbatim>\<open>epoll_ctl\<close>, and its critical section with the callback.\<close>

definition EpollServer_handleNewConnection ::
    "int \<Rightarrow> int \<Rightarrow> int \<Rightarrow> epoll_server \<Rightarrow> epoll_server" where
  \<comment> \<open>the results of \<^verbatim>\<open>accept\<close>, \<open>setNonBlocking\<close> and \<^verbatim>\<open>epoll_ctl\<close>\<close>
  "EpollServer_handleNewConnection acc nonblock ctl s =
     (let (clientFd, s) = new_fd acc s in
      if clientFd < 0 then s
      else let s = s\<lparr>e_log := e_log s @ [Accepted clientFd (the (fd_table s clientFd))]\<rparr> in
      if nonblock < 0 then close_fd clientFd s
      else if ctl < 0 then close_fd clientFd s
      else s\<lparr>watched := insert clientFd (watched s), accepting := Some clientFd\<rparr>)"

definition EpollServer_insertClient :: "epoll_server \<Rightarrow> epoll_server" where
  "EpollServer_insertClient s =
     (case accepting s of
        None \<Rightarrow> s
      | Some fd \<Rightarrow>
          let s = s\<lparr>clientFds := insert fd (clientFds s), accepting := None\<rparr> in
          if onConnection s then s\<lparr>e_log := e_log s @ [Greeted fd (fd_table s fd)]\<rparr> else s)"

definition EpollServer_closeConnection :: "int \<Rightarrow> epoll_server \<Rightarrow> epoll_server" where
  "EpollServer_closeConnection fd s =
     (let s = s\<lparr>watched := watched s - {fd}\<rparr>;
          s = s\<lparr>clientFds := clientFds s - {fd}\<rparr>
      in close_fd fd s)"

text \<open>
  The event loop: a turn asks \<^verbatim>\<open>epoll_wait\<close> for at most 1024 events, then treats them one by one, a new
  connection itself, a readable descriptor as a task for the pool.
\<close>

definition EpollServer_epollLoop :: "errno + (int \<times> bool) list \<Rightarrow> epoll_server \<Rightarrow> epoll_server" where
  "EpollServer_epollLoop nfds s =
     (case nfds of
        Inl e \<Rightarrow> if e = EINTR then s else s\<lparr>loop_done := True\<rparr>
      | Inr evs \<Rightarrow> s\<lparr>events := take 1024 evs\<rparr>)"

definition EpollServer_event :: "int \<Rightarrow> int \<Rightarrow> int \<Rightarrow> epoll_server \<Rightarrow> epoll_server" where
  "EpollServer_event acc nonblock ctl s =
     (case events s of
        [] \<Rightarrow> s
      | (fd, epollin) # rest \<Rightarrow>
          let s = s\<lparr>events := rest\<rparr> in
          if fd = listenFd s then EpollServer_handleNewConnection acc nonblock ctl s
          else if epollin then
            s\<lparr>threadPool := ThreadPool_enqueue fd (threadPool s),
              e_log := e_log s @ [Reported fd (fd_table s fd)]\<rparr>
          else s)"

section \<open>Read tasks\<close>

text \<open>What \<^verbatim>\<open>read\<close> returned: end of file and errors lead to \<open>closeConnection\<close>.\<close>

datatype read_result = ReadErr errno | ReadData string

definition finish_task :: "nat \<Rightarrow> epoll_server \<Rightarrow> epoll_server" where
  "finish_task i s =
     s\<lparr>threadPool := the (ThreadPool_worker i (threadPool s)), closing := (closing s)(i := None)\<rparr>"

definition EpollServer_handleReadEvent :: "nat \<Rightarrow> read_result \<Rightarrow> int \<Rightarrow> epoll_server \<Rightarrow> epoll_server" where
  \<comment> \<open>run by worker \<open>i\<close>, up to \<open>closeConnection\<close>; a descriptor that is not open fails with \<open>EBADF\<close>\<close>
  "EpollServer_handleReadEvent i res fd s =
     (case (if fd_table s fd = None then ReadErr EBADF else res) of
        ReadErr e \<Rightarrow>
          if e \<noteq> EAGAIN then
            s\<lparr>closing := (closing s)(i \<mapsto> fd_table s fd), e_log := e_log s @ [ReadFailed fd (fd_table s fd) e]\<rparr>
          else finish_task i s
      | ReadData d \<Rightarrow>
          if d = [] then
            s\<lparr>closing := (closing s)(i \<mapsto> fd_table s fd), e_log := e_log s @ [PeerClosed fd (fd_table s fd)]\<rparr>
          else
            finish_task i (if onMessage s
              then s\<lparr>e_log := e_log s @ [Got fd (fd_table s fd) (take 4096 d)]\<rparr> else s))"

definition EpollServer_finishClose :: "nat \<Rightarrow> int \<Rightarrow> epoll_server \<Rightarrow> epoll_server" where
  "EpollServer_finishClose i fd s = finish_task i (EpollServer_closeConnection fd s)"

section \<open>Interleavings\<close>

text \<open>A worker step that does not finish a task, and the other moves of the pool.\<close>

definition pool_moves :: "int pool \<Rightarrow> int pool \<Rightarrow> bool" where
  "pool_moves p p' \<longleftrightarrow>
     (\<exists>w. notify_one w p = Some p') \<or> (\<exists>i. wake_up i p = Some p') \<or>
     (\<exists>i. i < length (p_workers p) \<and> p_workers p ! i = Ready \<and> ThreadPool_worker i p = Some p')"

inductive epoll_step :: "epoll_server \<Rightarrow> epoll_server \<Rightarrow> bool" where
  wait: "e_running s \<Longrightarrow> \<not> loop_done s \<Longrightarrow> events s = [] \<Longrightarrow> accepting s = None \<Longrightarrow>
    \<forall>evs. nfds = Inr evs \<longrightarrow> (\<forall>ev \<in> set evs. fst ev \<in> watched s) \<Longrightarrow>
    epoll_step s (EpollServer_epollLoop nfds s)"
| event: "accepting s = None \<Longrightarrow> epoll_step s (EpollServer_event acc nonblock ctl s)"
| insertClient: "accepting s \<noteq> None \<Longrightarrow> epoll_step s (EpollServer_insertClient s)"
| pool: "pool_moves (threadPool s) p \<Longrightarrow> epoll_step s (s\<lparr>threadPool := p\<rparr>)"
| task_read: "i < length (p_workers (threadPool s)) \<Longrightarrow> p_workers (threadPool s) ! i = Running fd \<Longrightarrow>
    closing s i = None \<Longrightarrow> epoll_step s (EpollServer_handleReadEvent i res fd s)"
| task_close: "i < length (p_workers (threadPool s)) \<Longrightarrow> p_workers (threadPool s) ! i = Running fd \<Longrightarrow>
    closing s i \<noteq> None \<Longrightarrow> epoll_step s (EpollServer_finishClose i fd s)"
| stop: "events s = [] \<Longrightarrow> accepting s = None \<Longrightarrow> epoll_step s (EpollServer_stop s)"

inductive epoll_reachable :: "epoll_server \<Rightarrow> epoll_server \<Rightarrow> bool" for s0 where
  init: "epoll_reachable s0 s0"
| step: "epoll_reachable s0 s \<Longrightarrow> epoll_step s s' \<Longrightarrow> epoll_reachable s0 s'"

section \<open>The rest of the classes\<close>

definition TcpConnection_connected :: "int \<Rightarrow> bool" where
  "TcpConnection_connected fd \<longleftrightarrow> 0 \<le> fd"

definition TcpConnection_shutdown :: "errno option \<Rightarrow> int \<Rightarrow> kern \<Rightarrow> kern" where
  "TcpConnection_shutdown choice fd k = snd (sys_shutdown choice fd k)"

text \<open>One \<^verbatim>\<open>write\<close>; what it does not take is dropped.\<close>

definition TcpConnection_send :: "io_result \<Rightarrow> int \<Rightarrow> string \<Rightarrow> kern \<Rightarrow> kern" where
  "TcpConnection_send io fd message k = snd (sys_send io fd message k)"

definition Buffer_append :: "string \<Rightarrow> string \<Rightarrow> string" where
  "Buffer_append data buffer = buffer @ data"

definition Buffer_retrieveAllAsString :: "string \<Rightarrow> string \<times> string" where
  "Buffer_retrieveAllAsString buffer = (let result = buffer in (result, []))"

text \<open>Neither sending nor shutting down closes the descriptor of a connection.\<close>

lemma TcpConnection_keeps_open:
  "open_fds (TcpConnection_send io fd message k) = open_fds k"
  "open_fds (TcpConnection_shutdown choice fd k) = open_fds k"
  by (simp_all add: TcpConnection_send_def TcpConnection_shutdown_def posix split: io_result.split option.split)

section \<open>Starting\<close>

lemma new_fd_cases:
  assumes "new_fd c s = (fd, s')"
  shows "if fd < 0 then s' = s
    else fd = c \<and> fd \<notin> dom (fd_table s) \<and> s' = open_fd fd s"
  using assms by (auto simp: new_fd_def split: if_splits)

lemma fun_upd_None_absent: "fd \<notin> dom m \<Longrightarrow> m(fd \<mapsto> v, fd := None) = m"
  by (auto simp: fun_eq_iff domIff)

lemma close_fd_simps [simp]:
  "fd_table (close_fd fd s) = (fd_table s)(fd := None)" "listenFd (close_fd fd s) = listenFd s"
  "epollFd (close_fd fd s) = epollFd s" "clientFds (close_fd fd s) = clientFds s"
  "accepting (close_fd fd s) = accepting s" "e_running (close_fd fd s) = e_running s"
  "threadPool (close_fd fd s) = threadPool s" "events (close_fd fd s) = events s"
  by (simp_all add: close_fd_def)

lemma open_fd_simps [simp]:
  "fd_table (open_fd fd s) = (fd_table s)(fd \<mapsto> next_file s)" "listenFd (open_fd fd s) = listenFd s"
  "epollFd (open_fd fd s) = epollFd s" "clientFds (open_fd fd s) = clientFds s"
  "accepting (open_fd fd s) = accepting s" "e_running (open_fd fd s) = e_running s"
  "threadPool (open_fd fd s) = threadPool s" "events (open_fd fd s) = events s"
  by (simp_all add: open_fd_def)

lemma start_cases:
  assumes "EpollServer_start env ip s = (b, s')"
  shows "if b then
      e_running s' \<and> listenFd s' \<notin> dom (fd_table s) \<and> epollFd s' \<notin> dom (fd_table s) \<and>
      0 \<le> listenFd s' \<and> 0 \<le> epollFd s' \<and> listenFd s' \<noteq> epollFd s' \<and>
      dom (fd_table s') = dom (fd_table s) \<union> {listenFd s', epollFd s'} \<and>
      clientFds s' = clientFds s \<and> accepting s' = accepting s \<and> threadPool s' = threadPool s
    else fd_table s' = fd_table s \<and> e_running s' = e_running s"
proof -
  obtain fd s1 where 1: "new_fd (s_socket env) s = (fd, s1)" by fastforce
  define s2 where "s2 = s1\<lparr>listenFd := fd\<rparr>"
  obtain efd s3 where 2: "new_fd (s_epoll env) s2 = (efd, s3)" by fastforce
  have c1: "if fd < 0 then s1 = s else fd = s_socket env \<and> fd \<notin> dom (fd_table s) \<and> s1 = open_fd fd s"
    by (rule new_fd_cases [OF 1])
  have c2: "if efd < 0 then s3 = s2 else efd = s_epoll env \<and> efd \<notin> dom (fd_table s2) \<and> s3 = open_fd efd s2"
    by (rule new_fd_cases [OF 2])
  have start: "EpollServer_start env ip s =
     (if fd < 0 then (False, s2)
      else if s_setsockopt env < 0 then (False, close_fd fd s2)
      else if \<not> inet_pton_ok ip then (False, close_fd fd s2)
      else if s_bind env < 0 then (False, close_fd fd s2)
      else if s_listen env < 0 then (False, close_fd fd s2)
      else if setNonBlocking (s_getfl env) (s_setfl env) < 0 then (False, close_fd fd s2)
      else if efd < 0 then (False, close_fd fd (s3\<lparr>epollFd := efd\<rparr>))
      else if s_ctl env < 0 then (False, close_fd efd (close_fd fd (s3\<lparr>epollFd := efd\<rparr>)))
      else (True, s3\<lparr>epollFd := efd, watched := insert fd (watched s3), e_running := True\<rparr>))"
    using 2 c2 by (auto simp: EpollServer_start_def 1 s2_def Let_def)
  show ?thesis
  proof (cases "fd < 0")
    case True
    then show ?thesis using assms start c1 by (auto simp: s2_def)
  next
    case False
    then have f: "fd \<notin> dom (fd_table s)" "fd_table s2 = (fd_table s)(fd \<mapsto> next_file s)"
      "listenFd s2 = fd" "clientFds s2 = clientFds s" "accepting s2 = accepting s"
      "threadPool s2 = threadPool s" "e_running s2 = e_running s"
      using c1 by (auto simp: s2_def)
    show ?thesis
    proof (cases b)
      case True
      then have "\<not> efd < 0" "s' = s3\<lparr>epollFd := efd, watched := insert fd (watched s3), e_running := True\<rparr>"
        using assms start False by (auto split: if_splits)
      then show ?thesis using c2 f False True by auto
    next
      case b: False
      show ?thesis
      proof (cases "efd < 0")
        case True
        then show ?thesis
          using assms start False b c2 f fun_upd_None_absent [OF f(1)] by (auto split: if_splits)
      next
        case e: False
        then have "(fd_table s)(fd \<mapsto> next_file s, efd \<mapsto> next_file s2, fd := None, efd := None) = fd_table s"
          using c2 f by (auto simp: fun_eq_iff domIff)
        then show ?thesis
          using assms start False b c2 f e fun_upd_None_absent [OF f(1)] by (auto split: if_splits)
      qed
    qed
  qed
qed

section \<open>Descriptors of the server\<close>

text \<open>Beside the descriptors \<open>B\<close> of the rest of the process, only the server's own are open.\<close>

definition fds_accounted :: "int set \<Rightarrow> epoll_server \<Rightarrow> bool" where
  "fds_accounted B s \<longleftrightarrow>
     (\<forall>fd n. fd_table s fd = Some n \<longrightarrow>
        fd \<in> B \<or> (0 \<le> fd \<and> (fd = listenFd s \<or> fd = epollFd s)) \<or> fd \<in> clientFds s \<or>
        accepting s = Some fd) \<and>
     finite (clientFds s)"

lemma close_all_table:
  "fd_table (fold close_fd xs s) = (\<lambda>fd. if fd \<in> set xs then None else fd_table s fd)"
proof (induction xs arbitrary: s)
  case (Cons x xs)
  then show ?case by (auto simp: fun_eq_iff)
qed simp

lemma close_all_frame [simp]:
  "listenFd (fold close_fd xs s) = listenFd s" "epollFd (fold close_fd xs s) = epollFd s"
  "accepting (fold close_fd xs s) = accepting s" "clientFds (fold close_fd xs s) = clientFds s"
  "threadPool (fold close_fd xs s) = threadPool s" "events (fold close_fd xs s) = events s"
  by (induction xs arbitrary: s) simp_all

lemma accounted_event:
  "fds_accounted B s \<Longrightarrow> accepting s = None \<Longrightarrow> fds_accounted B (EpollServer_event acc nb ctl s)"
proof (cases "events s")
  case (Cons ev rest)
  assume a: "fds_accounted B s" and n: "accepting s = None"
  obtain fd inn where ev: "ev = (fd, inn)" by (cases ev)
  let ?s = "s\<lparr>events := rest\<rparr>"
  have a': "fds_accounted B ?s" using a by (simp add: fds_accounted_def)
  obtain cfd s1 where c: "new_fd acc ?s = (cfd, s1)" by fastforce
  have "fds_accounted B (EpollServer_handleNewConnection acc nb ctl ?s)"
    using new_fd_cases [OF c] a' n c
    by (auto simp: EpollServer_handleNewConnection_def fds_accounted_def Let_def split: if_splits)
  then show ?thesis
    using a' Cons ev n by (auto simp: EpollServer_event_def Let_def fds_accounted_def)
qed (simp add: EpollServer_event_def)

lemma accounted_stop:
  assumes "fds_accounted B s" "accepting s = None"
  shows "fds_accounted B (EpollServer_stop s)"
    and "e_running s \<Longrightarrow> dom (fd_table (EpollServer_stop s)) \<subseteq> B"
  using assms
  by (auto simp: fds_accounted_def EpollServer_stop_def Let_def close_all_table split: if_splits) blast+

text \<open>
  \<open>stop\<close> leaves the tasks of the pool alone, so those still queued when the server is destroyed run after
  the callbacks, the mutex and the set of clients they use are gone.
\<close>

lemma close_all_pool [simp]: "e_running (fold close_fd xs s) = e_running s"
  by (induction xs arbitrary: s) simp_all

lemma delete_leaves_tasks:
  "p_tasks (threadPool (EpollServer_delete s)) = p_tasks (threadPool s)"
  "p_workers (threadPool (EpollServer_delete s)) = p_workers (threadPool s)"
  by (simp_all add: EpollServer_delete_def EpollServer_stop_def Let_def ThreadPool_shutdown_def)

lemma finish_task_simps [simp]:
  "fd_table (finish_task i s) = fd_table s" "listenFd (finish_task i s) = listenFd s"
  "epollFd (finish_task i s) = epollFd s" "clientFds (finish_task i s) = clientFds s"
  "accepting (finish_task i s) = accepting s" "e_log (finish_task i s) = e_log s"
  "e_running (finish_task i s) = e_running s"
  "threadPool (finish_task i s) = the (ThreadPool_worker i (threadPool s))"
  by (simp_all add: finish_task_def)

lemma accounted_step: "epoll_step s s' \<Longrightarrow> fds_accounted B s \<Longrightarrow> fds_accounted B s'"
proof (induction rule: epoll_step.induct)
  case (wait s nfds)
  then show ?case by (auto simp: EpollServer_epollLoop_def fds_accounted_def split: sum.split)
next
  case (event s acc nonblock ctl)
  then show ?case by (simp add: accounted_event)
next
  case (insertClient s)
  then show ?case by (auto simp: EpollServer_insertClient_def fds_accounted_def Let_def split: option.split)
next
  case (task_read i s fd res)
  then show ?case
    by (auto simp: EpollServer_handleReadEvent_def fds_accounted_def split: read_result.split)
next
  case (task_close i s fd)
  then show ?case
    by (auto simp: EpollServer_finishClose_def EpollServer_closeConnection_def fds_accounted_def Let_def)
next
  case (stop s)
  then show ?case by (simp add: accounted_stop)
qed (simp_all add: fds_accounted_def)

lemma accounted_reachable: "epoll_reachable s0 s \<Longrightarrow> fds_accounted B s0 \<Longrightarrow> fds_accounted B s"
  by (induction rule: epoll_reachable.induct) (auto intro: accounted_step)

section \<open>Tasks of the server\<close>

text \<open>
  What the server relies on in its pool: submitted tasks are begun in order, and moving workers never
  submits.  \<open>fine\<close> is the invariant the pool keeps.
\<close>

locale task_executor =
  fixes submit :: "'t \<Rightarrow> 'p \<Rightarrow> 'p"
    and moves :: "'p \<Rightarrow> 'p \<Rightarrow> bool"
    and accepted :: "'p \<Rightarrow> 't list"
    and begun :: "'p \<Rightarrow> 't list"
    and fine :: "'p \<Rightarrow> bool"
  assumes submit_accepts: "accepted (submit t p) = accepted p @ [t]"
    and submit_fine: "fine p \<Longrightarrow> fine (submit t p)"
    and moves_accepted: "moves p p' \<Longrightarrow> accepted p' = accepted p"
    and moves_fine: "fine p \<Longrightarrow> moves p p' \<Longrightarrow> fine p'"
    and in_order: "fine p \<Longrightarrow> \<exists>rest. accepted p = begun p @ rest"
begin

text \<open>Submitting the tasks \<open>ts\<close> one by one with any moves between.\<close>

inductive schedule :: "'t list \<Rightarrow> 'p \<Rightarrow> 'p \<Rightarrow> bool" where
  idle: "schedule [] p p"
| submits: "schedule ts (submit t p) q \<Longrightarrow> schedule (t # ts) p q"
| moving: "moves p p' \<Longrightarrow> schedule ts p' q \<Longrightarrow> schedule ts p q"

lemma schedule_spec:
  "schedule ts p q \<Longrightarrow> fine p \<Longrightarrow> fine q \<and> accepted q = accepted p @ ts"
  by (induction rule: schedule.induct) (auto simp: submit_accepts submit_fine moves_fine moves_accepted)

lemma schedule_in_order:
  "schedule ts p q \<Longrightarrow> fine p \<Longrightarrow> \<exists>rest. accepted p @ ts = begun q @ rest"
  using schedule_spec in_order by metis

end

definition pool_fine :: "int pool \<Rightarrow> bool" where
  "pool_fine p \<longleftrightarrow> p_running p \<and> pool_reachable 8 p"

lemma worker_running: "ThreadPool_worker i p = Some p' \<Longrightarrow> p_running p' = p_running p \<and> submitted p' = submitted p"
  by (erule worker_cases) simp_all

lemma pool_any_move:
  assumes "pool_moves p p' \<or> (\<exists>i. ThreadPool_worker i p = Some p')"
  shows "pool_step p p' \<and> p_running p' = p_running p \<and> submitted p' = submitted p"
proof -
  have "pool_step p p'" using assms by (auto simp: pool_moves_def intro: pool_step.intros)
  moreover have "p_running p' = p_running p \<and> submitted p' = submitted p"
    using assms worker_running
    by (auto simp: pool_moves_def notify_one_def wake_up_def Let_def split: option.splits if_splits)
  ultimately show ?thesis by simp
qed

interpretation pool8: task_executor ThreadPool_enqueue
    "\<lambda>p p'. pool_moves p p' \<or> (\<exists>i. ThreadPool_worker i p = Some p')" submitted started pool_fine
proof unfold_locales
  show "submitted (ThreadPool_enqueue t p) = submitted p @ [t]" for t and p :: "int pool"
    by (simp add: ThreadPool_enqueue_def)
  show "pool_fine p \<Longrightarrow> pool_fine (ThreadPool_enqueue t p)" for t p
    using pool_reachable.step [of 8 p "ThreadPool_enqueue t p"] pool_step.enqueue [of p t]
    by (simp add: pool_fine_def) (simp add: ThreadPool_enqueue_def)
  show "pool_moves p p' \<or> (\<exists>i. ThreadPool_worker i p = Some p') \<Longrightarrow> submitted p' = submitted p" for p p'
    by (simp add: pool_any_move)
  show "pool_fine p \<Longrightarrow> pool_moves p p' \<or> (\<exists>i. ThreadPool_worker i p = Some p') \<Longrightarrow> pool_fine p'" for p p'
    using pool_any_move [of p p'] by (auto simp: pool_fine_def intro: pool_reachable.step)
  show "pool_fine p \<Longrightarrow> \<exists>rest. submitted p = started p @ rest" for p
    using reachable_inv [of 8 p] by (auto simp: pool_fine_def pool_inv_defs)
qed

fun reported_fds :: "epoll_log list \<Rightarrow> int list" where
  "reported_fds [] = []"
| "reported_fds (Reported fd f # es) = fd # reported_fds es"
| "reported_fds (_ # es) = reported_fds es"

lemma reported_append [simp]: "reported_fds (xs @ ys) = reported_fds xs @ reported_fds ys"
  by (induction xs rule: reported_fds.induct) auto

definition tasks_match :: "epoll_server \<Rightarrow> bool" where
  "tasks_match s \<longleftrightarrow> pool_fine (threadPool s) \<and> submitted (threadPool s) = reported_fds (e_log s)"

lemma close_fd_reported [simp]: "reported_fds (e_log (close_fd fd s)) = reported_fds (e_log s)"
  by (simp add: close_fd_def)

lemma close_all_reported [simp]: "reported_fds (e_log (fold close_fd xs s)) = reported_fds (e_log s)"
  by (induction xs arbitrary: s) simp_all

lemma new_fd_frame: "new_fd c s = (fd, s') \<Longrightarrow> e_log s' = e_log s \<and> threadPool s' = threadPool s"
  by (auto simp: new_fd_def open_fd_def split: if_splits)

lemma match_finish:
  assumes "tasks_match s" "i < length (p_workers (threadPool s))" "p_workers (threadPool s) ! i = Running fd"
  shows "tasks_match (finish_task i s)"
proof -
  obtain p where p: "ThreadPool_worker i (threadPool s) = Some p"
    using assms(2,3) by (auto simp: ThreadPool_worker_def)
  then show ?thesis
    using assms(1) pool8.moves_fine [of "threadPool s" p] pool8.moves_accepted [of "threadPool s" p]
    by (auto simp: tasks_match_def)
qed

lemma match_cong:
  "tasks_match s \<Longrightarrow> threadPool s' = threadPool s \<Longrightarrow> reported_fds (e_log s') = reported_fds (e_log s)
   \<Longrightarrow> tasks_match s'"
  by (simp add: tasks_match_def)

lemma match_step: "epoll_step s s' \<Longrightarrow> tasks_match s \<Longrightarrow> tasks_match s'"
proof (induction rule: epoll_step.induct)
  case (wait s nfds)
  then show ?case by (auto simp: EpollServer_epollLoop_def tasks_match_def split: sum.split)
next
  case (event s acc nonblock ctl)
  obtain cfd s1 where c: "new_fd acc (s\<lparr>events := tl (events s)\<rparr>) = (cfd, s1)" by fastforce
  have "tasks_match (EpollServer_handleNewConnection acc nonblock ctl (s\<lparr>events := tl (events s)\<rparr>))"
    using event new_fd_frame [OF c] c
    by (auto simp: EpollServer_handleNewConnection_def tasks_match_def Let_def)
  then show ?case using event
    by (auto simp: EpollServer_event_def tasks_match_def Let_def pool8.submit_fine pool8.submit_accepts
        split: list.split)
next
  case (insertClient s)
  then show ?case by (auto simp: EpollServer_insertClient_def tasks_match_def Let_def split: option.split)
next
  case (pool s p)
  then show ?case
    using pool8.moves_fine [of "threadPool s" p] pool8.moves_accepted [of "threadPool s" p]
    by (simp add: tasks_match_def)
next
  case (task_read i s fd res)
  then show ?case
    by (auto simp: EpollServer_handleReadEvent_def split: read_result.split intro!: match_finish)
      (simp_all add: tasks_match_def)
next
  case (task_close i s fd)
  then show ?case
    by (auto simp: EpollServer_finishClose_def EpollServer_closeConnection_def Let_def
        intro!: match_finish) (simp_all add: tasks_match_def)
next
  case (stop s)
  then show ?case
    by (auto simp: EpollServer_stop_def Let_def tasks_match_def)
qed

lemma match_reachable: "epoll_reachable s0 s \<Longrightarrow> tasks_match s0 \<Longrightarrow> tasks_match s"
  by (induction rule: epoll_reachable.induct) (auto intro: match_step)

section \<open>Running a schedule\<close>

datatype epoll_act = DoWait "int list" | DoEvent int | DoInsert | DoTake nat | DoRead nat string | DoClose nat | DoStop

fun epoll_do :: "epoll_act \<Rightarrow> epoll_server \<Rightarrow> epoll_server option" where
  "epoll_do (DoWait fds) s =
     (if e_running s \<and> \<not> loop_done s \<and> events s = [] \<and> accepting s = None \<and>
         list_all (\<lambda>fd. fd \<in> watched s) fds
      then Some (EpollServer_epollLoop (Inr (map (\<lambda>fd. (fd, True)) fds)) s) else None)"
| "epoll_do (DoEvent acc) s = (if accepting s = None then Some (EpollServer_event acc 0 0 s) else None)"
| "epoll_do DoInsert s = (if accepting s \<noteq> None then Some (EpollServer_insertClient s) else None)"
| "epoll_do (DoTake i) s =
     (if i < length (p_workers (threadPool s)) \<and> p_workers (threadPool s) ! i = Ready
      then map_option (\<lambda>p. s\<lparr>threadPool := p\<rparr>) (ThreadPool_worker i (threadPool s)) else None)"
| "epoll_do (DoRead i d) s =
     (if i < length (p_workers (threadPool s)) \<and> closing s i = None
      then case p_workers (threadPool s) ! i of
        Running fd \<Rightarrow> Some (EpollServer_handleReadEvent i (ReadData d) fd s) | _ \<Rightarrow> None
      else None)"
| "epoll_do (DoClose i) s =
     (if i < length (p_workers (threadPool s)) \<and> closing s i \<noteq> None
      then case p_workers (threadPool s) ! i of
        Running fd \<Rightarrow> Some (EpollServer_finishClose i fd s) | _ \<Rightarrow> None
      else None)"
| "epoll_do DoStop s =
     (if events s = [] \<and> accepting s = None then Some (EpollServer_stop s) else None)"

fun epoll_run :: "epoll_act list \<Rightarrow> epoll_server \<Rightarrow> epoll_server option" where
  "epoll_run [] s = Some s"
| "epoll_run (a # as) s = (case epoll_do a s of None \<Rightarrow> None | Some s' \<Rightarrow> epoll_run as s')"

lemma epoll_do_step: "epoll_do a s = Some s' \<Longrightarrow> epoll_step s s'"
proof (cases a)
  case (DoWait fds)
  assume "epoll_do a s = Some s'"
  with DoWait show ?thesis
    by (auto simp: list_all_iff split: if_splits intro!: epoll_step.wait)
next
  case (DoTake i)
  assume "epoll_do a s = Some s'"
  with DoTake obtain p where "s' = s\<lparr>threadPool := p\<rparr>" "pool_moves (threadPool s) p"
    by (auto simp: pool_moves_def split: if_splits)
  then show ?thesis by (auto intro: epoll_step.pool)
qed (auto split: if_splits worker.splits intro: epoll_step.intros)

lemma epoll_run_reachable:
  "epoll_run as s = Some s' \<Longrightarrow> epoll_reachable s0 s \<Longrightarrow> epoll_reachable s0 s'"
proof (induction as arbitrary: s)
  case (Cons a as)
  then obtain s1 where "epoll_do a s = Some s1" "epoll_run as s1 = Some s'"
    by (auto split: option.splits)
  then show ?case using Cons epoll_reachable.step [OF Cons.prems(2) epoll_do_step] by blast
qed simp

definition example_env :: start_env where
  "example_env = \<lparr>s_socket = 3, s_setsockopt = 0, s_bind = 0, s_listen = 0, s_getfl = 2,
     s_setfl = (\<lambda>_. 0), s_epoll = 4, s_ctl = 0\<rparr>"

definition example_server :: epoll_server where
  "example_server = snd (EpollServer_start example_env ''0.0.0.0''
     (configured False True [0 \<mapsto> 0, 1 \<mapsto> 1, 2 \<mapsto> 2] 3))"

lemma example_started:
  "EpollServer_start example_env ''0.0.0.0'' (configured False True [0 \<mapsto> 0, 1 \<mapsto> 1, 2 \<mapsto> 2] 3) =
   (True, example_server)"
proof -
  have "fst (EpollServer_start example_env ''0.0.0.0'' (configured False True [0 \<mapsto> 0, 1 \<mapsto> 1, 2 \<mapsto> 2] 3))"
    by code_simp
  then show ?thesis by (simp add: example_server_def prod_eq_iff)
qed

section \<open>Properties\<close>

text \<open>A start that fails, at whichever of its calls, has closed every descriptor it opened and left the
  server stopped; a start that succeeds holds exactly two new descriptors, the listening socket and
  the epoll instance.\<close>

theorem start_descriptors:
  "case EpollServer_start env ip (configured con msg tab n) of (b, s) \<Rightarrow>
   if b then e_running s \<and> listenFd s \<noteq> epollFd s \<and>
     dom (fd_table s) = dom tab \<union> {listenFd s, epollFd s} \<and> {listenFd s, epollFd s} \<inter> dom tab = {}
   else fd_table s = tab \<and> \<not> e_running s"
proof -
  obtain b s where "EpollServer_start env ip (configured con msg tab n) = (b, s)" by fastforce
  with start_cases [OF this] show ?thesis by (auto simp: configured_defs)
qed




definition reuse_schedule :: "epoll_act list" where
  "reuse_schedule =
     [DoWait [3], DoEvent 5, DoInsert, DoWait [5], DoEvent 0, DoWait [5], DoEvent 0,
      DoTake 0, DoTake 1, DoRead 0 '''', DoRead 1 '''', DoClose 0,
      DoWait [3], DoEvent 5, DoInsert, DoClose 1]"

definition reuse_end :: epoll_server where
  "reuse_end = the (epoll_run reuse_schedule example_server)"

lemma reuse_reachable: "epoll_reachable example_server reuse_end"
proof -
  have "epoll_run reuse_schedule example_server \<noteq> None" by code_simp
  then have "epoll_run reuse_schedule example_server = Some reuse_end"
    by (auto simp: reuse_end_def)
  then show ?thesis by (rule epoll_run_reachable [OF _ epoll_reachable.init])
qed



end
