(* ===== verification/Ucx_Prog.thy ===== *)
theory Ucx_Prog
  imports Krpc_Prelude "HOL-Library.Multiset"
begin

text \<open>
  The language of the C programs in \<^verbatim>\<open>src/rdma_exp\<close>: programs that may fail or run for ever, over a state
  with the blocks of \<^verbatim>\<open>malloc\<close>, the handles the process holds and the answers of the UCX library and of the
  system, which are not in the repository.  \<open>wp\<close> states what holds when a program returns.
\<close>

section \<open>Programs\<close>

text \<open>\<open>None\<close> stands for a program that runs for ever, \<open>Inl\<close> for one that ends the process or is undefined.\<close>

type_synonym ('s, 'a) prog = "'s \<Rightarrow> (fault + 'a \<times> 's) option"

definition result :: "'a \<Rightarrow> ('s, 'a) prog" where
  "result a s = Some (Inr (a, s))"

definition bind_p :: "('s, 'a) prog \<Rightarrow> ('a \<Rightarrow> ('s, 'b) prog) \<Rightarrow> ('s, 'b) prog" where
  "bind_p m f s =
     (case m s of None \<Rightarrow> None | Some (Inl e) \<Rightarrow> Some (Inl e) | Some (Inr (a, s')) \<Rightarrow> f a s')"

definition then_p :: "('s, 'a) prog \<Rightarrow> ('s, 'b) prog \<Rightarrow> ('s, 'b) prog" where
  "then_p m n = bind_p m (\<lambda>_. n)"

definition fault_p :: "fault \<Rightarrow> ('s, 'a) prog" where
  "fault_p e s = Some (Inl e)"

definition get_p :: "('s \<Rightarrow> 'a) \<Rightarrow> ('s, 'a) prog" where
  "get_p f s = Some (Inr (f s, s))"

definition put_p :: "('s \<Rightarrow> 's) \<Rightarrow> ('s, unit) prog" where
  "put_p f s = Some (Inr ((), f s))"

text \<open>A loop: \<open>body\<close> runs until it returns a value.\<close>

partial_function (option) loop_p :: "('s, 'a option) prog \<Rightarrow> ('s, 'a) prog" where
  "loop_p body s =
     (case body s of
        None \<Rightarrow> None
      | Some (Inl e) \<Rightarrow> Some (Inl e)
      | Some (Inr (None, s')) \<Rightarrow> loop_p body s'
      | Some (Inr (Some a, s')) \<Rightarrow> Some (Inr (a, s')))"

definition while_p :: "('s \<Rightarrow> bool) \<Rightarrow> ('s, unit) prog \<Rightarrow> ('s, unit) prog" where
  "while_p b c = loop_p (bind_p (get_p b) (\<lambda>x.
     if x then then_p c (result None) else result (Some ())))"

section \<open>What holds when a program returns\<close>

text \<open>
  \<open>wp F m Q s\<close>: if \<open>m\<close> started in \<open>s\<close> returns, \<open>Q\<close> holds of its value and state, and if it ends in a fault,
  \<open>F\<close> allows it.
\<close>

definition wp :: "(fault \<Rightarrow> bool) \<Rightarrow> ('s, 'a) prog \<Rightarrow> ('a \<Rightarrow> 's \<Rightarrow> bool) \<Rightarrow> 's \<Rightarrow> bool" where
  "wp F m Q s =
     (case m s of None \<Rightarrow> True | Some (Inl e) \<Rightarrow> F e | Some (Inr (a, s')) \<Rightarrow> Q a s')"

named_theorems wp \<open>equations that compute wp\<close>

lemma wp_result [wp]: "wp F (result a) Q s \<longleftrightarrow> Q a s"
  by (simp add: wp_def result_def)

lemma wp_bind_p [wp]: "wp F (bind_p m f) Q s \<longleftrightarrow> wp F m (\<lambda>a. wp F (f a) Q) s"
  by (auto simp: wp_def bind_p_def split: option.split sum.split)

lemma wp_then_p [wp]: "wp F (then_p m n) Q s \<longleftrightarrow> wp F m (\<lambda>_. wp F n Q) s"
  by (simp add: then_p_def wp_bind_p)

lemma wp_fault_p [wp]: "wp F (fault_p e) Q s \<longleftrightarrow> F e"
  by (simp add: wp_def fault_p_def)

lemma wp_get_p [wp]: "wp F (get_p f) Q s \<longleftrightarrow> Q (f s) s"
  by (simp add: wp_def get_p_def)

lemma wp_put_p [wp]: "wp F (put_p f) Q s \<longleftrightarrow> Q () (f s)"
  by (simp add: wp_def put_p_def)

lemma wp_if [wp]: "wp F (if c then m else n) Q s \<longleftrightarrow> (if c then wp F m Q s else wp F n Q s)"
  by simp

lemma wp_option [wp]:
  "wp F (case x of None \<Rightarrow> m | Some y \<Rightarrow> n y) Q s \<longleftrightarrow>
   (case x of None \<Rightarrow> wp F m Q s | Some y \<Rightarrow> wp F (n y) Q s)"
  by (simp split: option.split)

lemma wp_sum [wp]:
  "wp F (case x of Inl y \<Rightarrow> m y | Inr y \<Rightarrow> n y) Q s \<longleftrightarrow>
   (case x of Inl y \<Rightarrow> wp F (m y) Q s | Inr y \<Rightarrow> wp F (n y) Q s)"
  by (simp split: sum.split)

lemma wp_prod [wp]: "wp F (case x of (y, z) \<Rightarrow> m y z) Q s \<longleftrightarrow> (case x of (y, z) \<Rightarrow> wp F (m y z) Q s)"
  by (simp split: prod.split)

lemma wp_let [wp]: "wp F (Let x m) Q s \<longleftrightarrow> (let y = x in wp F (m y) Q s)"
  by (simp add: Let_def)

lemma wp_result_all: "wp F (result a) Q = Q a"
  by (rule ext) (rule wp_result)

lemmas wp_seq = wp_bind_p wp_then_p wp_get_p wp_put_p wp_result wp_result_all

lemma wp_mono: "wp F m Q s \<Longrightarrow> (\<And>a s'. Q a s' \<Longrightarrow> R a s') \<Longrightarrow> wp F m R s"
  by (auto simp: wp_def split: option.splits sum.splits)

lemma wp_weaken: "wp F m Q s \<Longrightarrow> (\<And>e. F e \<Longrightarrow> G e) \<Longrightarrow> (\<And>a s'. Q a s' \<Longrightarrow> R a s') \<Longrightarrow> wp G m R s"
  by (auto simp: wp_def split: option.splits sum.splits)

lemma wp_conj: "wp F m Q s \<Longrightarrow> wp F m R s \<Longrightarrow> wp F m (\<lambda>a s'. Q a s' \<and> R a s') s"
  by (auto simp: wp_def split: option.splits sum.splits)

lemma wp_returns: "wp F m Q s \<Longrightarrow> m s = Some (Inr (a, s')) \<Longrightarrow> Q a s'"
  by (simp add: wp_def)

lemma wp_faults: "wp F m Q s \<Longrightarrow> m s = Some (Inl e) \<Longrightarrow> F e"
  by (simp add: wp_def)

definition keeps_p :: "('s \<Rightarrow> bool) \<Rightarrow> (fault \<Rightarrow> bool) \<Rightarrow> ('a \<Rightarrow> 's \<Rightarrow> bool) \<Rightarrow> ('s, 'a option) prog \<Rightarrow> bool" where
  "keeps_p I F Q body \<longleftrightarrow>
     (\<forall>s. I s \<longrightarrow> wp F body (\<lambda>r s'. case r of None \<Rightarrow> I s' | Some a \<Rightarrow> Q a s') s)"

lemma loop_p_returns:
  assumes "loop_p body s = Some r"
  shows "keeps_p I F Q body \<Longrightarrow> I s \<Longrightarrow> case r of Inl e \<Rightarrow> F e | Inr (a, s') \<Rightarrow> Q a s'"
  using assms
proof (induction body s r rule: loop_p.raw_induct [rotated, consumes 1, case_names step])
  case (step loop body s r)
  have "wp F body (\<lambda>r s'. case r of None \<Rightarrow> I s' | Some a \<Rightarrow> Q a s') s"
    using step(3,4) by (simp add: keeps_p_def)
  with step show ?case
    by (auto simp: wp_def split: option.splits sum.splits prod.splits) fastforce+
qed

lemma wp_loop_p:
  assumes "I s" and "\<And>s. I s \<Longrightarrow> wp F body (\<lambda>r s'. case r of None \<Rightarrow> I s' | Some a \<Rightarrow> Q a s') s"
  shows "wp F (loop_p body) Q s"
proof (cases "loop_p body s")
  case None
  then show ?thesis by (simp add: wp_def)
next
  case (Some r)
  have "keeps_p I F Q body" using assms(2) by (simp add: keeps_p_def)
  from loop_p_returns [OF Some this assms(1)] Some show ?thesis
    by (auto simp: wp_def split: sum.split)
qed

lemma wp_while_p:
  assumes "I s" and "\<And>s. I s \<Longrightarrow> b s \<Longrightarrow> wp F c (\<lambda>_. I) s" and "\<And>s. I s \<Longrightarrow> \<not> b s \<Longrightarrow> Q () s"
  shows "wp F (while_p b c) Q s"
  unfolding while_p_def
  by (rule wp_loop_p [where I = I, OF assms(1)])
    (auto simp: wp assms(3) intro: wp_mono [OF assms(2)])

text \<open>A counting loop, which \<open>body\<close> leaves early by returning a value.\<close>

fun for_p :: "nat \<Rightarrow> nat \<Rightarrow> (nat \<Rightarrow> ('s, 'a option) prog) \<Rightarrow> ('s, 'a option) prog" where
  "for_p i 0 body = result None"
| "for_p i (Suc n) body = bind_p (body i) (\<lambda>r. case r of
     None \<Rightarrow> for_p (Suc i) n body
   | Some a \<Rightarrow> result (Some a))"

lemma wp_for_p:
  assumes "I i s"
    and "\<And>j s. i \<le> j \<Longrightarrow> j < i + n \<Longrightarrow> I j s \<Longrightarrow>
      wp F (body j) (\<lambda>r s'. case r of None \<Rightarrow> I (Suc j) s' | Some a \<Rightarrow> Q (Some a) s') s"
    and "\<And>s. I (i + n) s \<Longrightarrow> Q None s"
  shows "wp F (for_p i n body) Q s"
  using assms
proof (induction n arbitrary: i s)
  case 0
  then show ?case by (simp add: wp)
next
  case (Suc n)
  have "wp F (for_p (Suc i) n body) Q s'" if "I (Suc i) s'" for s'
    by (rule Suc.IH [OF that Suc.prems(2)]) (use Suc.prems(3) in auto)
  then show ?case
    by (auto simp: wp split: option.split intro!: wp_mono [OF Suc.prems(2) [of i]] Suc.prems(1))
qed

end
