(* ===== verification/Ucx_Api.thy ===== *)
theory Ucx_Api
  imports Ucx_Prog
begin

text \<open>
  What the programs of \<^verbatim>\<open>src/rdma_exp\<close> use of the C library, the system and UCX.  UCX and the system are a
  parameter: a function \<open>L\<close> from the calls, with their arguments, to answers, over a state of its
  own.  The calls themselves keep account of the blocks and of the handles: one that uses or releases
  something the process does not hold is undefined.
\<close>

section \<open>Calls and answers\<close>

text \<open>
  The results of type \<^verbatim>\<open>ucs_status_ptr_t\<close>: done at once, failed with a status, which is negative, or a
  request.
\<close>

datatype ucs_ptr = PtrNull | PtrErr nat | PtrReq nat

definition ucs_err :: "nat \<Rightarrow> int" where
  "ucs_err e = - 1 - int e"

lemma ucs_err_neg [simp]: "ucs_err e < 0" "ucs_err e \<noteq> 0"
  by (simp_all add: ucs_err_def)

datatype sockaddr = Sockaddr bool "string option" "16 word"
  \<comment> \<open>whether IPv6; the address, \<open>None\<close> for the wildcard; the port\<close>

datatype ep_target = ToAddress string | ToSockaddr sockaddr | ToConnRequest nat

datatype (plugins only: size) ucx_call =
    Malloc nat | Calloc nat | Alloca nat
  | GetAddrInfo "string option" string bool | SockOpen | SockConnect int | SetSockOpt int | SockBind int
  | SockListen int | SockAccept int | SockSend int string | SockRecv int nat | SockPoll int | FdClose int
  | InetPton bool string | EpollCreate | EpollCtl int int | EpollWait int | Sleep nat
  | ConfigRead | ConfigRelease | UcpInit "string list" | UcpCleanup nat
  | WorkerCreate nat | WorkerQuery nat | WorkerReleaseAddress nat | WorkerDestroy nat
  | WorkerProgress nat | WorkerWait nat | WorkerGetEfd nat | WorkerArm nat | SetAmHandler nat
  | EpCreate nat ep_target | EpClose nat bool | EpFlush nat
  | ListenerCreate nat sockaddr | ListenerQuery nat | ListenerReject nat nat | ListenerDestroy nat
  | ConnRequestQuery nat
  | TagSend nat string nat | TagProbe nat nat | TagMsgRecv nat nat nat | TagRecv nat nat nat
  | StreamSend nat string | StreamRecv nat nat | AmSend nat nat string | AmRecvData nat string nat
  | CheckStatus nat | RequestFree nat

text \<open>
  What \<^verbatim>\<open>ucp_worker_progress\<close> finds: a request that is complete, an endpoint that failed, a client at a
  listener, an active message (length of its header, its length, its data or, under the rendezvous
  protocol, the descriptor of its data).
\<close>

datatype ucx_event =
    Completed nat int
  | EpFailed nat int
  | ConnRequest nat nat
  | AmArrived nat nat string bool

record answer =
  a_status :: int
  a_handle :: nat
  a_ptr :: ucs_ptr
  a_data :: string
  a_num :: int
  a_events :: "ucx_event list"

type_synonym 'u ucx_lib = "ucx_call \<Rightarrow> 'u \<Rightarrow> answer \<times> 'u"

definition UCS_OK :: int where "UCS_OK = 0"
definition UCS_INPROGRESS :: int where "UCS_INPROGRESS = 1"
definition UCS_ERR_NO_MESSAGE :: int where "UCS_ERR_NO_MESSAGE = -1"
definition UCS_ERR_BUSY :: int where "UCS_ERR_BUSY = -15"
definition UCS_ERR_UNSUPPORTED :: int where "UCS_ERR_UNSUPPORTED = -22"

section \<open>The state of a process\<close>

datatype resource =
    RSock int | REpoll int | RConfig | RContext nat | RWorker nat | RAddress nat | REp nat
  | RListener nat | RRequest nat

text \<open>
  \<open>heap\<close> has an entry per \<^verbatim>\<open>malloc\<close>, \<open>None\<close> once it is freed; \<open>live\<close> are the handles held; \<open>cbs\<close> the
  callbacks of the requests under way, \<open>am_workers\<close> the workers with a handler for active messages;
  \<open>calls\<close>, \<open>received\<close> and \<open>printed\<close> are what the process asked for, was sent
  and printed, \<open>vars\<close> its variables.
\<close>

record ('u, 'c, 'p) world =
  lib :: 'u
  live :: "resource multiset"
  heap :: "string option list"
  cbs :: "nat \<rightharpoonup> 'c"
  am_workers :: "nat set"
  calls :: "ucx_call list"
  received :: "string list"
  printed :: "string list"
  vars :: 'p

definition heap_at :: "string option list \<Rightarrow> nat \<Rightarrow> string option" where
  "heap_at h b = (if b < length h then h ! b else None)"

definition ask :: "'u ucx_lib \<Rightarrow> ucx_call \<Rightarrow> (('u, 'c, 'p) world, answer) prog" where
  "ask L c w = (case L c (lib w) of (a, u) \<Rightarrow> Some (Inr (a, w\<lparr>lib := u, calls := calls w @ [c]\<rparr>)))"

definition vars_p :: "('p \<Rightarrow> 'p) \<Rightarrow> (('u, 'c, 'p) world, unit) prog" where
  "vars_p f = put_p (\<lambda>w. w\<lparr>vars := f (vars w)\<rparr>)"

definition print_p :: "string \<Rightarrow> (('u, 'c, 'p) world, unit) prog" where
  "print_p s = put_p (\<lambda>w. w\<lparr>printed := printed w @ [s]\<rparr>)"

section \<open>Memory\<close>

text \<open>A pointer is null or the start of a block; \<open>take\<close>, \<open>drop\<close> stand for pointer arithmetic.\<close>

type_synonym ptr = "nat option"

definition fit :: "nat \<Rightarrow> string \<Rightarrow> string" where
  "fit n d = take n (d @ replicate n NUL)"

definition malloc :: "'u ucx_lib \<Rightarrow> nat \<Rightarrow> (('u, 'c, 'p) world, ptr) prog" where
  \<comment> \<open>null when the system answers with an error, and for more than \<^verbatim>\<open>PTRDIFF_MAX\<close> bytes; the contents are what the system left there\<close>
  "malloc L n = bind_p (ask L (Malloc n)) (\<lambda>a.
     if a_status a \<noteq> 0 \<or> 2 ^ 63 \<le> n then result None
     else bind_p (get_p (\<lambda>w. length (heap w))) (\<lambda>b.
       then_p (put_p (\<lambda>w. w\<lparr>heap := heap w @ [Some (fit n (a_data a))]\<rparr>)) (result (Some b))))"

definition calloc :: "'u ucx_lib \<Rightarrow> nat \<Rightarrow> (('u, 'c, 'p) world, ptr) prog" where
  "calloc L n = bind_p (ask L (Calloc n)) (\<lambda>a.
     if a_status a \<noteq> 0 \<or> 2 ^ 63 \<le> n then result None
     else bind_p (get_p (\<lambda>w. length (heap w))) (\<lambda>b.
       then_p (put_p (\<lambda>w. w\<lparr>heap := heap w @ [Some (replicate n NUL)]\<rparr>)) (result (Some b))))"

definition free_p :: "ptr \<Rightarrow> (('u, 'c, 'p) world, unit) prog" where
  "free_p p = (case p of
     None \<Rightarrow> result ()
   | Some b \<Rightarrow> bind_p (get_p (\<lambda>w. heap_at (heap w) b)) (\<lambda>c.
       if c = None then fault_p (Undefined ''free of a dead block'')
       else put_p (\<lambda>w. w\<lparr>heap := (heap w)[b := None]\<rparr>)))"

definition load_p :: "ptr \<Rightarrow> nat \<Rightarrow> nat \<Rightarrow> (('u, 'c, 'p) world, string) prog" where
  "load_p p off n = (case p of
     None \<Rightarrow> fault_p (Undefined ''null pointer'')
   | Some b \<Rightarrow> bind_p (get_p (\<lambda>w. heap_at (heap w) b)) (\<lambda>c. case c of
       None \<Rightarrow> fault_p (Undefined ''dangling pointer'')
     | Some bs \<Rightarrow> if off + n \<le> length bs then result (take n (drop off bs))
                  else fault_p (Undefined ''read past the end'')))"

definition store_p :: "ptr \<Rightarrow> nat \<Rightarrow> string \<Rightarrow> (('u, 'c, 'p) world, unit) prog" where
  "store_p p off d = (case p of
     None \<Rightarrow> fault_p (Undefined ''null pointer'')
   | Some b \<Rightarrow> bind_p (get_p (\<lambda>w. heap_at (heap w) b)) (\<lambda>c. case c of
       None \<Rightarrow> fault_p (Undefined ''dangling pointer'')
     | Some bs \<Rightarrow> if off + length d \<le> length bs
                  then put_p (\<lambda>w. w\<lparr>heap := (heap w)[b := Some (take off bs @ d @ drop (off + length d) bs)]\<rparr>)
                  else fault_p (Undefined ''write past the end'')))"

text \<open>What UCX writes into a buffer it was given.\<close>

definition deliver_p :: "ptr \<Rightarrow> string \<Rightarrow> (('u, 'c, 'p) world, unit) prog" where
  "deliver_p p d = then_p (store_p p 0 d) (put_p (\<lambda>w. w\<lparr>received := received w @ [d]\<rparr>))"

section \<open>Handles\<close>

definition needs :: "resource \<Rightarrow> (('u, 'c, 'p) world, unit) prog" where
  "needs r = bind_p (get_p (\<lambda>w. r \<in># live w)) (\<lambda>ok.
     if ok then result () else fault_p (Undefined ''stale handle''))"

definition acquire :: "resource \<Rightarrow> (('u, 'c, 'p) world, unit) prog" where
  "acquire r = put_p (\<lambda>w. w\<lparr>live := add_mset r (live w)\<rparr>)"

definition release :: "resource \<Rightarrow> (('u, 'c, 'p) world, unit) prog" where
  "release r = then_p (needs r) (put_p (\<lambda>w. w\<lparr>live := live w - {#r#}\<rparr>))"

text \<open>A call that creates a handle when it answers \<open>UCS_OK\<close>, one that only answers, one that destroys.\<close>

definition create_p ::
    "'u ucx_lib \<Rightarrow> ucx_call \<Rightarrow> (nat \<Rightarrow> resource) \<Rightarrow> (('u, 'c, 'p) world, int \<times> nat) prog" where
  "create_p L c R = bind_p (ask L c) (\<lambda>a.
     if a_status a = UCS_OK then then_p (acquire (R (a_handle a))) (result (UCS_OK, a_handle a))
     else result (a_status a, 0))"

definition query_p :: "'u ucx_lib \<Rightarrow> ucx_call \<Rightarrow> resource \<Rightarrow> (('u, 'c, 'p) world, answer) prog" where
  "query_p L c r = then_p (needs r) (ask L c)"

definition destroy_p :: "'u ucx_lib \<Rightarrow> ucx_call \<Rightarrow> resource \<Rightarrow> (('u, 'c, 'p) world, unit) prog" where
  "destroy_p L c r = then_p (release r) (then_p (ask L c) (result ()))"

text \<open>A call that starts a request; \<open>cb\<close> is the callback it registers.\<close>

definition request_p ::
    "'u ucx_lib \<Rightarrow> ucx_call \<Rightarrow> resource \<Rightarrow> 'c option \<Rightarrow> (('u, 'c, 'p) world, answer) prog" where
  "request_p L c r cb = bind_p (query_p L c r) (\<lambda>a.
     case a_ptr a of
       PtrReq q \<Rightarrow> then_p (acquire (RRequest q)) (then_p (put_p (\<lambda>w. w\<lparr>cbs := (cbs w)(q := cb)\<rparr>)) (result a))
     | _ \<Rightarrow> result a)"

section \<open>Progress\<close>

text \<open>
  The callbacks of the program run inside \<^verbatim>\<open>ucp_worker_progress\<close>: that of a request once, that of a failed
  endpoint or of a listener while the program holds that object, that of active messages on a worker
  it was set on.
\<close>

datatype 'c cb_event =
    OnComplete 'c nat int
  | OnEpFailed nat int
  | OnConnRequest nat nat
  | OnAm nat nat string bool

type_synonym ('u, 'c, 'p) handler = "'c cb_event \<Rightarrow> (('u, 'c, 'p) world, unit) prog"

fun run_event :: "('u, 'c, 'p) handler \<Rightarrow> nat \<Rightarrow> ucx_event \<Rightarrow> (('u, 'c, 'p) world, unit) prog" where
  "run_event H wk (Completed q s) = bind_p (get_p (\<lambda>w. cbs w q)) (\<lambda>c. case c of
     None \<Rightarrow> result ()
   | Some cb \<Rightarrow> then_p (put_p (\<lambda>w. w\<lparr>cbs := (cbs w)(q := None)\<rparr>)) (H (OnComplete cb q s)))"
| "run_event H wk (EpFailed e s) = bind_p (get_p (\<lambda>w. REp e \<in># live w)) (\<lambda>held.
     if held then H (OnEpFailed e s) else result ())"
| "run_event H wk (ConnRequest l c) = bind_p (get_p (\<lambda>w. RListener l \<in># live w)) (\<lambda>held.
     if held then H (OnConnRequest l c) else result ())"
| "run_event H wk (AmArrived hl n d rndv) = bind_p (get_p (\<lambda>w. wk \<in> am_workers w)) (\<lambda>set.
     if set then H (OnAm hl n (if rndv then d else fit n d) rndv) else result ())"

fun run_events :: "('u, 'c, 'p) handler \<Rightarrow> nat \<Rightarrow> ucx_event list \<Rightarrow> (('u, 'c, 'p) world, unit) prog" where
  "run_events H wk [] = result ()"
| "run_events H wk (e # es) = then_p (run_event H wk e) (run_events H wk es)"

definition ucp_worker_progress ::
    "'u ucx_lib \<Rightarrow> ('u, 'c, 'p) handler \<Rightarrow> nat \<Rightarrow> (('u, 'c, 'p) world, int) prog" where
  "ucp_worker_progress L H wk = bind_p (query_p L (WorkerProgress wk) (RWorker wk)) (\<lambda>a.
     then_p (run_events H wk (a_events a)) (result (a_num a)))"

definition ucp_request_check_status :: "'u ucx_lib \<Rightarrow> nat \<Rightarrow> (('u, 'c, 'p) world, int) prog" where
  "ucp_request_check_status L q = bind_p (query_p L (CheckStatus q) (RRequest q)) (\<lambda>a. result (a_status a))"

definition ucp_request_free :: "'u ucx_lib \<Rightarrow> nat \<Rightarrow> (('u, 'c, 'p) world, unit) prog" where
  "ucp_request_free L q = destroy_p L (RequestFree q) (RRequest q)"

text \<open>\<^verbatim>\<open>do { ucp_worker_progress } while (status == UCS_INPROGRESS)\<close>\<close>

definition poll_request_p ::
    "'u ucx_lib \<Rightarrow> ('u, 'c, 'p) handler \<Rightarrow> nat \<Rightarrow> nat \<Rightarrow> (('u, 'c, 'p) world, int) prog" where
  "poll_request_p L H wk q = loop_p (then_p (ucp_worker_progress L H wk)
     (bind_p (ucp_request_check_status L q) (\<lambda>st.
        result (if st = UCS_INPROGRESS then None else Some st))))"

section \<open>Reasoning\<close>

lemmas [wp] = vars_p_def print_p_def malloc_def calloc_def free_p_def load_p_def store_p_def deliver_p_def needs_def
  acquire_def release_def create_p_def query_p_def destroy_p_def ucp_request_check_status_def
  ucp_request_free_def

lemma wp_ucs_ptr [wp]:
  "wp F (case x of PtrNull \<Rightarrow> m | PtrErr e \<Rightarrow> n e | PtrReq q \<Rightarrow> k q) Q s \<longleftrightarrow>
   (case x of PtrNull \<Rightarrow> wp F m Q s | PtrErr e \<Rightarrow> wp F (n e) Q s | PtrReq q \<Rightarrow> wp F (k q) Q s)"
  by (simp split: ucs_ptr.split)

lemma wp_ask: "(\<And>a u. Q a (w\<lparr>lib := u, calls := calls w @ [c]\<rparr>)) \<Longrightarrow> wp F (ask L c) Q w"
  by (auto simp: wp_def ask_def split: prod.split)

text \<open>The blocks in use, as a map.\<close>

lemma heap_at_append [simp]: "heap_at (h @ [x]) = (heap_at h)(length h := x)"
  by (rule ext) (simp add: heap_at_def nth_append)

lemma heap_at_update [simp]:
  "heap_at h b = Some c \<Longrightarrow> heap_at (h[b := x]) = (heap_at h)(b := x)"
  by (rule ext) (auto simp: heap_at_def split: if_splits)

lemma heap_at_append2 [simp]:
  "heap_at (h @ [x, y]) = (heap_at h)(length h := x, Suc (length h) := y)"
  using heap_at_append [of "h @ [x]" y] by simp

lemma heap_at_beyond [simp]: "length h \<le> b \<Longrightarrow> heap_at h b = None"
  by (simp add: heap_at_def)

lemma heap_at_list [simp]:
  "heap_at [] = Map.empty" "heap_at (x # xs) 0 = x" "heap_at (x # xs) (Suc n) = heap_at xs n"
  by (auto simp: heap_at_def)

lemma heap_at_unused [simp]: "heap_at h b = None \<Longrightarrow> (heap_at h)(b := None) = heap_at h"
  by (simp add: fun_upd_idem)

lemma heap_at_scratch [simp]:
  "b \<noteq> l \<Longrightarrow> heap_at h l = None \<Longrightarrow> (heap_at h)(b := x, l := None) = (heap_at h)(b := x)"
  by (rule ext) simp

lemma heap_at_length: "heap_at h b = Some d \<Longrightarrow> b < length h"
  by (simp add: heap_at_def split: if_splits)

lemma length_fit [simp]: "length (fit n d) = n"
  by (simp add: fit_def)

lemma fit_id [simp]: "length d = n \<Longrightarrow> fit n d = d"
  by (simp add: fit_def)

text \<open>The handle of a request, if there is one, and the callback that stays registered.\<close>

fun ptr_live :: "ucs_ptr \<Rightarrow> resource multiset" where
  "ptr_live (PtrReq q) = {#RRequest q#}"
| "ptr_live _ = {#}"

fun ptr_cbs :: "ucs_ptr \<Rightarrow> 'c option \<Rightarrow> (nat \<rightharpoonup> 'c) \<Rightarrow> (nat \<rightharpoonup> 'c)" where
  "ptr_cbs (PtrReq q) cb m = m(q := cb)"
| "ptr_cbs _ cb m = m"

lemma ptr_live_others [simp]:
  "RWorker k \<notin># ptr_live p" "REp e \<notin># ptr_live p" "RListener l \<notin># ptr_live p"
  by (cases p; simp)+

lemma wp_request:
  assumes "r \<in># live w"
    "\<And>a u. Q a (w\<lparr>lib := u, calls := calls w @ [c], live := ptr_live (a_ptr a) + live w,
       cbs := ptr_cbs (a_ptr a) cb (cbs w)\<rparr>)"
  shows "wp F (request_p L c r cb) Q w"
proof -
  have "wp F (case a_ptr a of
        PtrReq q \<Rightarrow> then_p (acquire (RRequest q))
          (then_p (put_p (\<lambda>w. w\<lparr>cbs := (cbs w)(q := cb)\<rparr>)) (result a))
      | _ \<Rightarrow> result a) Q (w\<lparr>lib := u, calls := calls w @ [c]\<rparr>)" for a u
    using assms(2) [of a u] by (cases "a_ptr a") (simp_all add: wp)
  then show ?thesis
    using assms(1) by (auto simp: request_p_def wp simp del: wp_ucs_ptr intro!: wp_ask)
qed

text \<open>The calls that send data over UCX.\<close>

definition sends_data :: "ucx_call \<Rightarrow> bool" where
  [simp]: "sends_data c \<longleftrightarrow>
     (case c of TagSend ep d tag \<Rightarrow> True | StreamSend ep d \<Rightarrow> True | AmSend ep i d \<Rightarrow> True | _ \<Rightarrow> False)"

definition data_calls :: "ucx_call list \<Rightarrow> ucx_call list" where
  "data_calls = filter sends_data"

lemma data_calls_simps [simp]:
  "data_calls [] = []" "data_calls (xs @ ys) = data_calls xs @ data_calls ys"
  "data_calls (c # cs) = (if sends_data c then c # data_calls cs else data_calls cs)"
  by (simp_all add: data_calls_def)

text \<open>
  What the loops around \<^verbatim>\<open>ucp_worker_progress\<close> need of a program's callbacks: run in a state that is \<open>ok\<close>,
  they leave one, with the same handles and the same \<open>view\<close>.  Neither depends on the handles held, the
  view not on calls that send no data.
\<close>

locale ucx_callbacks =
  fixes H :: "('u, 'c, 'p) handler" and F :: "fault \<Rightarrow> bool"
    and ok :: "('u, 'c, 'p) world \<Rightarrow> bool" and view :: "('u, 'c, 'p) world \<Rightarrow> 'v"
  assumes view_lib: "view (w\<lparr>lib := u\<rparr>) = view w"
    and view_live: "view (w\<lparr>live := l\<rparr>) = view w"
    and view_cbs: "view (w\<lparr>cbs := m\<rparr>) = view w"
    and view_calls: "data_calls cs = data_calls (calls w) \<Longrightarrow> view (w\<lparr>calls := cs\<rparr>) = view w"
    and ok_lib: "ok (w\<lparr>lib := u\<rparr>) = ok w"
    and ok_live: "ok (w\<lparr>live := l\<rparr>) = ok w"
    and ok_calls: "ok (w\<lparr>calls := cs\<rparr>) = ok w"
    and ok_cbs: "ok w \<Longrightarrow> m \<subseteq>\<^sub>m cbs w \<Longrightarrow> ok (w\<lparr>cbs := m\<rparr>)"
    and complete_keeps: "ok w \<Longrightarrow> cbs w q = Some cb \<Longrightarrow>
      wp F (H (OnComplete cb q s)) (\<lambda>_ w'. ok w' \<and> live w' = live w \<and> view w' = view w)
        (w\<lparr>cbs := (cbs w)(q := None)\<rparr>)"
    and failed_keeps: "ok w \<Longrightarrow> REp e \<in># live w \<Longrightarrow>
      wp F (H (OnEpFailed e s)) (\<lambda>_ w'. ok w' \<and> live w' = live w \<and> view w' = view w) w"
    and conn_keeps: "ok w \<Longrightarrow> RListener i \<in># live w \<Longrightarrow>
      wp F (H (OnConnRequest i r)) (\<lambda>_ w'. ok w' \<and> live w' = live w \<and> view w' = view w) w"
    and am_keeps: "ok w \<Longrightarrow> wk \<in> am_workers w \<Longrightarrow>
      wp F (H (OnAm hl n d rndv)) (\<lambda>_ w'. ok w' \<and> live w' = live w \<and> view w' = view w) w"
begin

lemmas [simp] = view_lib view_live view_cbs view_calls ok_lib ok_live ok_calls ok_cbs

lemma event_keeps:
  "ok w \<Longrightarrow> wp F (run_event H wk e) (\<lambda>_ w'. ok w' \<and> live w' = live w \<and> view w' = view w) w"
  by (cases e) (auto simp: wp complete_keeps failed_keeps conn_keeps am_keeps split: option.split)

lemma events_keep:
  "ok w \<Longrightarrow> wp F (run_events H wk es) (\<lambda>_ w'. ok w' \<and> live w' = live w \<and> view w' = view w) w"
proof (induction es arbitrary: w)
  case Nil
  then show ?case by (simp add: wp)
next
  case (Cons e es)
  show ?case
    by (auto simp: wp intro!: wp_mono [OF event_keeps [OF Cons.prems]] wp_mono [OF Cons.IH])
qed

lemma progress:
  assumes "ok w" "RWorker wk \<in># live w"
    "\<And>r w'. ok w' \<Longrightarrow> live w' = live w \<Longrightarrow> view w' = view w \<Longrightarrow> Q r w'"
  shows "wp F (ucp_worker_progress L H wk) Q w"
  using assms(1,2)
  by (auto simp: wp ucp_worker_progress_def intro!: wp_ask wp_mono [OF events_keep] assms(3))

text \<open>Spinning until a condition holds.\<close>

lemma spin:
  assumes "ok w" "RWorker wk \<in># live w"
    "\<And>w'. ok w' \<Longrightarrow> live w' = live w \<Longrightarrow> view w' = view w \<Longrightarrow> \<not> b w' \<Longrightarrow> Q () w'"
  shows "wp F (while_p b (then_p (ucp_worker_progress L H wk) (result ()))) Q w"
  by (rule wp_while_p [where I = "\<lambda>w'. ok w' \<and> live w' = live w \<and> view w' = view w"])
    (auto simp: wp assms(1,2) intro!: progress assms(3))

text \<open>Progress until a request without a callback is no longer in progress.\<close>

lemma poll_request:
  assumes "ok w" "RWorker wk \<in># live w" "RRequest q \<in># live w"
    "\<And>r w'. ok w' \<Longrightarrow> live w' = live w \<Longrightarrow> view w' = view w \<Longrightarrow> r \<noteq> UCS_INPROGRESS \<Longrightarrow> Q r w'"
  shows "wp F (poll_request_p L H wk q) Q w"
  unfolding poll_request_p_def
  by (rule wp_loop_p [where I = "\<lambda>w'. ok w' \<and> live w' = live w \<and> view w' = view w"])
    (auto simp: wp assms(1-3) intro!: progress wp_ask assms(4))

end

end
