(* ===== verification/Ucx_Util.thy ===== *)
theory Ucx_Util
  imports Ucx_Api
begin

text \<open>
  \<^verbatim>\<open>src/rdma_exp/hello_world_util.h\<close> and \<^verbatim>\<open>src/rdma_exp/ucp_util.h\<close>, as the makefile builds them, without
  CUDA: the memory types, the socket set-up of both sides, the barrier, the test string, and closing an
  endpoint.
\<close>

section \<open>Memory types\<close>

datatype ucs_memory_type =
  UCS_MEMORY_TYPE_HOST | UCS_MEMORY_TYPE_CUDA | UCS_MEMORY_TYPE_CUDA_MANAGED | UCS_MEMORY_TYPE_LAST

definition check_mem_type_support :: "ucs_memory_type \<Rightarrow> bool" where
  "check_mem_type_support mem_type = (case mem_type of
     UCS_MEMORY_TYPE_HOST \<Rightarrow> True
   | UCS_MEMORY_TYPE_CUDA \<Rightarrow> False
   | UCS_MEMORY_TYPE_CUDA_MANAGED \<Rightarrow> False
   | _ \<Rightarrow> False)"

definition parse_mem_type :: "string \<Rightarrow> ucs_memory_type" where
  "parse_mem_type opt_arg =
     (if opt_arg = ''host'' then UCS_MEMORY_TYPE_HOST
      else if opt_arg = ''cuda'' \<and> check_mem_type_support UCS_MEMORY_TYPE_CUDA then UCS_MEMORY_TYPE_CUDA
      else if opt_arg = ''cuda-managed'' \<and> check_mem_type_support UCS_MEMORY_TYPE_CUDA_MANAGED
      then UCS_MEMORY_TYPE_CUDA_MANAGED
      else UCS_MEMORY_TYPE_LAST)"

text \<open>\<open>mt\<close> is the global \<^verbatim>\<open>test_mem_type\<close>.\<close>

definition mem_type_malloc :: "'u ucx_lib \<Rightarrow> ucs_memory_type \<Rightarrow> nat \<Rightarrow> (('u, 'c, 'p) world, ptr) prog" where
  "mem_type_malloc L mt n = (case mt of UCS_MEMORY_TYPE_HOST \<Rightarrow> malloc L n | _ \<Rightarrow> result None)"

definition mem_type_free :: "ucs_memory_type \<Rightarrow> ptr \<Rightarrow> (('u, 'c, 'p) world, unit) prog" where
  "mem_type_free mt p = (case mt of UCS_MEMORY_TYPE_HOST \<Rightarrow> free_p p | _ \<Rightarrow> result ())"

text \<open>\<open>src + soff\<close> is copied to \<open>dst + doff\<close>.\<close>

definition mem_type_memcpy ::
    "ucs_memory_type \<Rightarrow> ptr \<Rightarrow> nat \<Rightarrow> ptr \<Rightarrow> nat \<Rightarrow> nat \<Rightarrow> (('u, 'c, 'p) world, unit) prog" where
  "mem_type_memcpy mt dst doff src soff n = (case mt of
     UCS_MEMORY_TYPE_HOST \<Rightarrow> bind_p (load_p src soff n) (\<lambda>d. store_p dst doff d)
   | _ \<Rightarrow> result ())"

definition mem_type_memset :: "ucs_memory_type \<Rightarrow> ptr \<Rightarrow> char \<Rightarrow> nat \<Rightarrow> (('u, 'c, 'p) world, unit) prog" where
  "mem_type_memset mt dst v n = (case mt of
     UCS_MEMORY_TYPE_HOST \<Rightarrow> store_p dst 0 (replicate n v)
   | _ \<Rightarrow> result ())"

text \<open>A copy from the start of a block to a local array, which holds \<open>old\<close>.\<close>

definition mem_type_read :: "ucs_memory_type \<Rightarrow> string \<Rightarrow> ptr \<Rightarrow> nat \<Rightarrow> (('u, 'c, 'p) world, string) prog" where
  "mem_type_read mt old src n = (case mt of UCS_MEMORY_TYPE_HOST \<Rightarrow> load_p src 0 n | _ \<Rightarrow> result old)"

text \<open>A copy into a block, from memory that is not one of the program's blocks.\<close>

definition mem_type_write :: "ucs_memory_type \<Rightarrow> ptr \<Rightarrow> string \<Rightarrow> (('u, 'c, 'p) world, unit) prog" where
  "mem_type_write mt dst d = (case mt of UCS_MEMORY_TYPE_HOST \<Rightarrow> store_p dst 0 d | _ \<Rightarrow> result ())"

section \<open>Sockets\<close>

definition sock_open :: "'u ucx_lib \<Rightarrow> (('u, 'c, 'p) world, int) prog" where
  "sock_open L = bind_p (ask L SockOpen) (\<lambda>a.
     if a_num a < 0 then result (-1) else then_p (acquire (RSock (a_num a))) (result (a_num a)))"

definition sock_accept :: "'u ucx_lib \<Rightarrow> int \<Rightarrow> (('u, 'c, 'p) world, int) prog" where
  "sock_accept L fd = bind_p (query_p L (SockAccept fd) (RSock fd)) (\<lambda>a.
     if a_num a < 0 then result (-1) else then_p (acquire (RSock (a_num a))) (result (a_num a)))"

definition sock_close :: "'u ucx_lib \<Rightarrow> int \<Rightarrow> (('u, 'c, 'p) world, unit) prog" where
  "sock_close L fd = destroy_p L (FdClose fd) (RSock fd)"

text \<open>The loop over the \<open>n\<close> addresses \<^verbatim>\<open>getaddrinfo\<close> found; without a server name, listen and accept.\<close>

fun connect_addrs :: "'u ucx_lib \<Rightarrow> bool \<Rightarrow> nat \<Rightarrow> (('u, 'c, 'p) world, int) prog" where
  "connect_addrs L is_client 0 = result (-1)"
| "connect_addrs L is_client (Suc n) = bind_p (sock_open L) (\<lambda>sockfd.
     if sockfd < 0 then connect_addrs L is_client n
     else if is_client then
       bind_p (query_p L (SockConnect sockfd) (RSock sockfd)) (\<lambda>a.
         if a_num a = 0 then result sockfd
         else then_p (sock_close L sockfd) (connect_addrs L is_client n))
     else
       bind_p (query_p L (SetSockOpt sockfd) (RSock sockfd)) (\<lambda>a.
         if a_num a < 0 then then_p (sock_close L sockfd) (result (-1))
         else bind_p (query_p L (SockBind sockfd) (RSock sockfd)) (\<lambda>a.
           if a_num a = 0 then
             bind_p (query_p L (SockListen sockfd) (RSock sockfd)) (\<lambda>a.
               if a_num a < 0 then then_p (sock_close L sockfd) (result (-1))
               else bind_p (sock_accept L sockfd) (\<lambda>connfd.
                 then_p (sock_close L sockfd) (result connfd)))
           else then_p (sock_close L sockfd) (connect_addrs L is_client n))))"

definition connect_common ::
    "'u ucx_lib \<Rightarrow> string option \<Rightarrow> 16 word \<Rightarrow> bool \<Rightarrow> (('u, 'c, 'p) world, int) prog" where
  \<comment> \<open>\<open>af\<close>: whether the family is IPv6; the answer to \<^verbatim>\<open>getaddrinfo\<close> has the number of addresses as its handle\<close>
  "connect_common L server server_port af =
     bind_p (ask L (GetAddrInfo server (show_nat (unat server_port)) af)) (\<lambda>a.
       if a_num a < 0 then result (-1)
       else connect_addrs L (server \<noteq> None) (a_handle a))"

text \<open>\<open>progress_cb\<close> runs after every poll, until one finds the peer's word.\<close>

definition barrier :: "'u ucx_lib \<Rightarrow> int \<Rightarrow> (('u, 'c, 'p) world, unit) prog \<Rightarrow> (('u, 'c, 'p) world, int) prog" where
  "barrier L oob_sock progress_cb =
     bind_p (query_p L (SockSend oob_sock (replicate 4 NUL)) (RSock oob_sock)) (\<lambda>a.
       if a_num a < 0 then result (a_num a)
       else then_p
         (loop_p (bind_p (query_p L (SockPoll oob_sock) (RSock oob_sock)) (\<lambda>a.
            then_p progress_cb (result (if a_num a \<noteq> 1 then None else Some ())))))
         (bind_p (query_p L (SockRecv oob_sock 4) (RSock oob_sock)) (\<lambda>a.
            result (if a_num a = 4 then 0 else 1))))"

section \<open>The test string\<close>

text \<open>The capital letters over and over; \<^verbatim>\<open>calloc\<close> provides the terminator.\<close>

fun test_letters :: "nat \<Rightarrow> nat \<Rightarrow> string" where
  "test_letters i 0 = []"
| "test_letters i (Suc n) = char_of (65 + i mod 26) # test_letters (i + 1) n"

definition test_string :: "nat \<Rightarrow> string" where
  "test_string n = test_letters 0 (n - 1) @ replicate (min n 1) NUL"

text \<open>A \<^verbatim>\<open>size_t\<close> or \<^verbatim>\<open>long\<close> passed for an \<^verbatim>\<open>int\<close>.\<close>

definition int_of_size :: "nat \<Rightarrow> int" where
  "int_of_size n = sint (word_of_nat n :: 32 word)"

lemma int_of_size_bounds: "- (2 ^ 31) \<le> int_of_size n" "int_of_size n \<le> int n"
  using sint_greater_eq [of "word_of_nat n :: 32 word"]
  by (simp_all add: int_of_size_def signed_of_nat signed_take_bit_int_less_eq_self_iff)

lemma nat_int_of_size: "nat (int_of_size n) \<le> n"
  using int_of_size_bounds(2) [of n] by linarith

lemma int_of_size_small: "n < 2 ^ 31 \<Longrightarrow> int_of_size n = int n"
  by (simp add: int_of_size_def signed_of_nat signed_take_bit_int_eq_self)

definition generate_test_string ::
    "'u ucx_lib \<Rightarrow> ucs_memory_type \<Rightarrow> ptr \<Rightarrow> nat \<Rightarrow> int \<Rightarrow> (('u, 'c, 'p) world, int) prog" where
  "generate_test_string L mt str off n =
     bind_p (calloc L (size_of_int n)) (\<lambda>tmp_str.
       if tmp_str = None then result (-1)
       else then_p (store_p tmp_str 0 (test_letters 0 (nat (n - 1))))
         (then_p (mem_type_memcpy mt str off tmp_str 0 (size_of_int n))
           (then_p (free_p tmp_str) (result 0))))"

text \<open>\<^verbatim>\<open>atol\<close> saturates, and \<^verbatim>\<open>atoi\<close> of the C library truncates its result.\<close>

definition c_atol :: "string \<Rightarrow> int" where
  "c_atol s = max (- (2 ^ 63)) (min (2 ^ 63 - 1) (atoi s))"

definition c_atoi :: "string \<Rightarrow> int" where
  "c_atoi s = sint (word_of_int (c_atol s) :: 32 word)"

lemma c_atol_bounds: "- (2 ^ 63) \<le> c_atol s" "c_atol s < 2 ^ 63"
  by (simp_all add: c_atol_def)

lemma c_atoi_small: "- (2 ^ 31) \<le> atoi s \<Longrightarrow> atoi s < 2 ^ 31 \<Longrightarrow> c_atoi s = atoi s"
  by (simp add: c_atoi_def c_atol_def signed_of_int signed_take_bit_int_eq_self)

lemma c_atoi_bounds: "- (2 ^ 31) \<le> c_atoi s" "c_atoi s < 2 ^ 31"
  using sint_greater_eq [of "word_of_int (c_atol s) :: 32 word"] sint_less [of "word_of_int (c_atol s) :: 32 word"]
  by (simp_all add: c_atoi_def)

section \<open>Printing, endpoints and sending\<close>

text \<open>\<^verbatim>\<open>printf("%s", s)\<close> of a block reads up to its terminator.\<close>

definition printf_s :: "string \<Rightarrow> (('u, 'c, 'p) world, unit) prog" where
  "printf_s s = (if NUL \<in> set s then print_p (c_str_to_string s) else fault_p (Undefined ''read past the end''))"

text \<open>An endpoint of a worker, and a tagged message on one.\<close>

definition ucp_ep_create :: "'u ucx_lib \<Rightarrow> nat \<Rightarrow> ep_target \<Rightarrow> (('u, 'c, 'p) world, int \<times> nat) prog" where
  "ucp_ep_create L wk target = then_p (needs (RWorker wk)) (create_p L (EpCreate wk target) REp)"

definition ucp_tag_send_nbx :: "'u ucx_lib \<Rightarrow> nat \<Rightarrow> string \<Rightarrow> nat \<Rightarrow> 'c \<Rightarrow> (('u, 'c, 'p) world, ucs_ptr) prog" where
  "ucp_tag_send_nbx L ep data tag cb =
     bind_p (request_p L (TagSend ep data tag) (REp ep) (Some cb)) (\<lambda>a. result (a_ptr a))"

section \<open>Closing an endpoint\<close>

definition ep_close ::
    "'u ucx_lib \<Rightarrow> ('u, 'c, 'p) handler \<Rightarrow> nat \<Rightarrow> nat \<Rightarrow> bool \<Rightarrow> (('u, 'c, 'p) world, unit) prog" where
  \<comment> \<open>a status that is not \<open>UCS_OK\<close> is only printed\<close>
  "ep_close L H ucp_worker ep force =
     bind_p (request_p L (EpClose ep force) (REp ep) None) (\<lambda>a.
       then_p (release (REp ep)) (case a_ptr a of
         PtrReq close_req \<Rightarrow>
           bind_p (poll_request_p L H ucp_worker close_req) (\<lambda>status. ucp_request_free L close_req)
       | PtrErr e \<Rightarrow> result ()
       | PtrNull \<Rightarrow> result ()))"

lemmas [wp] = mem_type_malloc_def mem_type_free_def mem_type_memcpy_def mem_type_memset_def mem_type_read_def mem_type_write_def
  sock_open_def sock_accept_def sock_close_def printf_s_def ucp_ep_create_def ucp_tag_send_nbx_def

section \<open>What they leave\<close>

text \<open>Everything but the handles, the log of calls and the library's state is as before.\<close>

definition untouched :: "('u, 'c, 'p) world \<Rightarrow> ('u, 'c, 'p) world \<Rightarrow> bool" where
  "untouched w w' \<longleftrightarrow> heap w' = heap w \<and> cbs w' = cbs w \<and> am_workers w' = am_workers w \<and>
     received w' = received w \<and> printed w' = printed w \<and> vars w' = vars w"

lemma untouched_refl [simp]: "untouched w w"
  by (simp add: untouched_def)

lemma untouched_trans: "untouched w w' \<Longrightarrow> untouched w' w'' \<Longrightarrow> untouched w w''"
  by (simp add: untouched_def)

lemma untouched_simps [simp]:
  "untouched w (w'\<lparr>lib := u\<rparr>) = untouched w w'"
  "untouched w (w'\<lparr>calls := cs\<rparr>) = untouched w w'"
  "untouched w (w'\<lparr>live := l\<rparr>) = untouched w w'"
  "untouched (w\<lparr>lib := u\<rparr>) w' = untouched w w'"
  "untouched (w\<lparr>calls := cs\<rparr>) w' = untouched w w'"
  "untouched (w\<lparr>live := l\<rparr>) w' = untouched w w'"
  by (simp_all add: untouched_def)

lemma connect_addrs_rule:
  "wp F (connect_addrs L c n) (\<lambda>fd w'. untouched w w' \<and> data_calls (calls w') = data_calls (calls w) \<and>
     (if fd < 0 then live w' = live w else live w' = add_mset (RSock fd) (live w))) w"
proof (induction n arbitrary: c w)
  case 0
  then show ?case by (simp add: wp)
next
  case (Suc n)
  show ?case
    by (auto simp: wp intro!: wp_ask wp_mono [OF Suc.IH] split: if_splits)
qed

lemma connect_common_rule:
  assumes "\<And>fd w'. untouched w w' \<Longrightarrow> data_calls (calls w') = data_calls (calls w) \<Longrightarrow>
    live w' = (if fd < 0 then {#} else {#RSock fd#}) + live w \<Longrightarrow> Q fd w'"
  shows "wp F (connect_common L server port af) Q w"
  unfolding connect_common_def
  by (auto simp: wp intro!: wp_ask wp_mono [OF connect_addrs_rule] assms split: if_splits)

context ucx_callbacks
begin

lemma ep_close_rule:
  assumes "ok w" "REp ep \<in># live w" "RWorker wk \<in># live w"
    "\<And>w'. ok w' \<Longrightarrow> live w' = live w - {#REp ep#} \<Longrightarrow> view w' = view w \<Longrightarrow> Q () w'"
  shows "wp F (ep_close L H wk ep force) Q w"
  unfolding ep_close_def
  using assms(1-3)
  by (auto simp: wp split: ucs_ptr.split intro!: wp_ask wp_request poll_request assms(4)
      dest!: multi_member_split [of "REp ep"])

lemma barrier_rule:
  assumes "ok w" "RWorker wk \<in># live w" "RSock fd \<in># live w"
    "\<And>r w'. ok w' \<Longrightarrow> live w' = live w \<Longrightarrow> view w' = view w \<Longrightarrow> Q r w'"
  shows "wp F (barrier L fd (then_p (ucp_worker_progress L H wk) (result ()))) Q w"
  unfolding barrier_def
  using assms(1-3)
  by (auto simp: wp intro!: wp_ask assms(4) progress
      wp_loop_p [where I = "\<lambda>w'. ok w' \<and> live w' = live w \<and> view w' = view w"])

end

lemma test_letters_length [simp]: "length (test_letters i n) = n"
  by (induction n arbitrary: i) simp_all

lemma letter_not_NUL: "char_of (65 + i mod 26) \<noteq> NUL" for i :: nat
proof
  assume "char_of (65 + i mod 26) = NUL"
  then have "(of_char (char_of (65 + i mod 26)) :: nat) = of_char NUL" by simp
  then show False by (simp add: of_char_of)
qed

lemma test_letters_NUL: "NUL \<notin> set (test_letters i n)"
  by (induction n arbitrary: i) (auto dest: sym simp: letter_not_NUL)

lemma test_string_length [simp]: "length (test_string n) = n"
  by (simp add: test_string_def)

lemma test_string_NUL: "0 < n \<Longrightarrow> NUL \<in> set (test_string n)"
  by (simp add: test_string_def min_def)

lemma test_string_text: "0 < n \<Longrightarrow> c_str_to_string (test_string n) = test_letters 0 (n - 1)"
  by (simp add: test_string_def c_str_to_string_def takeWhile_neq_append test_letters_NUL min_def)

text \<open>The test string is written at \<open>off\<close>, or memory is short and nothing changes.\<close>

lemma generate_test_string_rule:
  assumes "heap_at (heap w) b \<noteq> None" "- (2 ^ 31) \<le> n" "off + nat n \<le> length (the (heap_at (heap w) b))"
    and "\<And>w'. untouched w w' \<Longrightarrow> live w' = live w \<Longrightarrow> data_calls (calls w') = data_calls (calls w) \<Longrightarrow> Q (-1) w'"
    and "\<And>w' d. untouched (w\<lparr>heap := heap w'\<rparr>) w' \<Longrightarrow> live w' = live w \<Longrightarrow>
      data_calls (calls w') = data_calls (calls w) \<Longrightarrow>
      heap_at (heap w') = (heap_at (heap w))(b \<mapsto> take off (the (heap_at (heap w) b)) @ test_string (nat n) @
        drop (off + nat n) (the (heap_at (heap w) b))) \<Longrightarrow>
      Q 0 w'"
  shows "wp F (generate_test_string L UCS_MEMORY_TYPE_HOST (Some b) off n) Q w"
proof (cases "0 \<le> n")
  case True
  then obtain k where k: "n = int k" by (metis nonneg_int_cases)
  have "b < length (heap w)" "nat (int k - 1) = k - 1" "k - (k - 1) = min k 1" "k - 1 + min k 1 = k"
    using assms(1) by (auto dest: heap_at_length)
  then show ?thesis
    unfolding generate_test_string_def k
    using assms(1,3) k
    by (auto simp: wp untouched_def test_string_def intro!: wp_ask assms(4,5))
next
  case False
  then have "2 ^ 63 \<le> size_of_int n" using size_of_int_neg [OF assms(2)] by simp
  then show ?thesis
    unfolding generate_test_string_def
    by (auto simp: wp untouched_def intro!: wp_ask assms(4))
qed

end
