(* ===== verification/Ucx_Hello.thy ===== *)
theory Ucx_Hello
  imports Ucx_Util Getopt
begin

text \<open>
  \<^verbatim>\<open>src/rdma_exp/ucp_hello_world.c\<close>: a client and a server that exchange their UCX addresses, the server's over a
  TCP socket and the client's in a tagged message, after which the server sends a test string.
\<close>

section \<open>Globals and callbacks\<close>

datatype ucp_test_mode_t = TEST_MODE_PROBE | TEST_MODE_WAIT | TEST_MODE_EVENTFD

datatype failure_mode_t =
  FAILURE_MODE_NONE | FAILURE_MODE_SEND | FAILURE_MODE_RECV | FAILURE_MODE_KEEPALIVE

text \<open>
  \<open>err_mode_peer\<close>: whether \<^verbatim>\<open>ucp_err_mode\<close> is \<^verbatim>\<open>UCP_ERR_HANDLING_MODE_PEER\<close>; \<open>ipv6\<close>: the same of \<^verbatim>\<open>ai_family\<close>.
  \<open>completed\<close> are the requests whose \<^verbatim>\<open>ucx_context\<close> has its flag set; \<^verbatim>\<open>request_init\<close> clears the flag of a new
  one.
\<close>

record hello_vars =
  ucp_test_mode :: ucp_test_mode_t
  err_mode_peer :: bool
  failure_mode :: failure_mode_t
  ep_status :: int
  server_port :: "16 word"
  ipv6 :: bool
  test_string_length :: int
  print_config :: bool
  test_mem_type :: ucs_memory_type
  completed :: "nat set"

definition hello_start :: hello_vars where
  "hello_start = \<lparr>ucp_test_mode = TEST_MODE_PROBE, err_mode_peer = False, failure_mode = FAILURE_MODE_NONE,
     ep_status = UCS_OK, server_port = 13337, ipv6 = False, test_string_length = 16, print_config = False,
     test_mem_type = UCS_MEMORY_TYPE_HOST, completed = {}\<rparr>"

definition hello_tag :: nat where "hello_tag = 0x1337a880"

definition addr_msg_str :: string where "addr_msg_str = ''UCX address message''"
definition data_msg_str :: string where "data_msg_str = ''UCX data message''"

datatype hello_cb = Send_Handler string | Recv_Handler

type_synonym 'u hello = "('u, hello_cb, hello_vars) world"

definition set_completed :: "nat \<Rightarrow> ('u hello, unit) prog" where
  "set_completed q = vars_p (\<lambda>v. v\<lparr>completed := insert q (completed v)\<rparr>)"

text \<open>
  The callbacks.  \<^verbatim>\<open>failure_handler\<close> stores through its argument, which is \<^verbatim>\<open>&ep_status\<close>: the user data of an
  endpoint takes the place of a null handler argument.
\<close>

fun hello_handler :: "hello_cb cb_event \<Rightarrow> ('u hello, unit) prog" where
  "hello_handler (OnComplete (Send_Handler str) request status) = set_completed request"
| "hello_handler (OnComplete Recv_Handler request status) = set_completed request"
| "hello_handler (OnEpFailed ep status) = vars_p (\<lambda>v. v\<lparr>ep_status := status\<rparr>)"
| "hello_handler (OnConnRequest l c) = result ()"
| "hello_handler (OnAm hl n d rndv) = result ()"

section \<open>The message of an address and of a string\<close>

text \<open>\<^verbatim>\<open>struct msg\<close>: eight bytes with the length, in the byte order of the host, and the data.\<close>

fun le_bytes :: "nat \<Rightarrow> nat \<Rightarrow> string" where
  "le_bytes 0 n = []"
| "le_bytes (Suc k) n = char_of (n mod 256) # le_bytes k (n div 256)"

fun from_le :: "string \<Rightarrow> nat" where
  "from_le [] = 0"
| "from_le (c # cs) = of_char c + 256 * from_le cs"

definition set_msg_data_len :: "ucs_memory_type \<Rightarrow> ptr \<Rightarrow> nat \<Rightarrow> ('u hello, unit) prog" where
  "set_msg_data_len mt msg data_len = (case mt of
     UCS_MEMORY_TYPE_HOST \<Rightarrow> store_p msg 0 (le_bytes 8 data_len)
   | _ \<Rightarrow> result ())"

section \<open>Waiting\<close>

definition hello_progress :: "'u ucx_lib \<Rightarrow> nat \<Rightarrow> ('u hello, unit) prog" where
  "hello_progress L wk = then_p (ucp_worker_progress L hello_handler wk) (result ())"

definition ucx_wait :: "'u ucx_lib \<Rightarrow> nat \<Rightarrow> ucs_ptr \<Rightarrow> ('u hello, int) prog" where
  "ucx_wait L ucp_worker request = (case request of
     PtrNull \<Rightarrow> result UCS_OK
   | PtrErr e \<Rightarrow> result (ucs_err e)
   | PtrReq q \<Rightarrow>
       then_p (while_p (\<lambda>w. q \<notin> completed (vars w)) (hello_progress L ucp_worker))
         (then_p (vars_p (\<lambda>v. v\<lparr>completed := completed v - {q}\<rparr>))
           (bind_p (ucp_request_check_status L q) (\<lambda>status.
              then_p (ucp_request_free L q) (result status)))))"

text \<open>A negative descriptor makes \<^verbatim>\<open>epoll_ctl\<close> and \<^verbatim>\<open>close\<close> fail with \<open>EBADF\<close>.\<close>

definition epoll_close :: "'u ucx_lib \<Rightarrow> int \<Rightarrow> ('u hello, unit) prog" where
  "epoll_close L fd = (if fd < 0 then result () else destroy_p L (FdClose fd) (REpoll fd))"

definition test_poll_wait :: "'u ucx_lib \<Rightarrow> nat \<Rightarrow> ('u hello, int) prog" where
  "test_poll_wait L ucp_worker =
     bind_p (query_p L (WorkerGetEfd ucp_worker) (RWorker ucp_worker)) (\<lambda>a.
       if a_status a \<noteq> UCS_OK then result UCS_ERR_NO_MESSAGE
       else
         let epoll_fd = a_num a in
         bind_p (ask L EpollCreate) (\<lambda>a.
         let epoll_fd_local = (if a_num a < 0 then -1 else a_num a) in
         then_p (if 0 \<le> epoll_fd_local then acquire (REpoll epoll_fd_local) else result ())
         (bind_p (if epoll_fd_local < 0 then result (-1)
                  else bind_p (ask L (EpollCtl epoll_fd_local epoll_fd)) (\<lambda>a. result (a_num a))) (\<lambda>err.
         if err < 0 then then_p (epoll_close L epoll_fd_local) (result UCS_ERR_NO_MESSAGE)
         else bind_p (query_p L (WorkerArm ucp_worker) (RWorker ucp_worker)) (\<lambda>a.
           if a_status a = UCS_ERR_BUSY then then_p (epoll_close L epoll_fd_local) (result UCS_OK)
           else if a_status a \<noteq> UCS_OK then then_p (epoll_close L epoll_fd_local) (result UCS_ERR_NO_MESSAGE)
           else then_p
             (loop_p (bind_p (ask L (EpollWait epoll_fd_local)) (\<lambda>a.
                \<comment> \<open>\<open>a_status\<close> is \<^verbatim>\<open>errno\<close>, 4 being \<open>EINTR\<close>\<close>
                result (if a_num a = -1 \<and> a_status a = 4 then None else Some ()))))
             (then_p (epoll_close L epoll_fd_local) (result UCS_OK)))))))"

definition ep_close_err_mode :: "'u ucx_lib \<Rightarrow> nat \<Rightarrow> nat \<Rightarrow> ('u hello, unit) prog" where
  "ep_close_err_mode L ucp_worker ucp_ep =
     bind_p (get_p (\<lambda>w. err_mode_peer (vars w))) (\<lambda>force. ep_close L hello_handler ucp_worker ucp_ep force)"

definition flush_ep :: "'u ucx_lib \<Rightarrow> nat \<Rightarrow> nat \<Rightarrow> ('u hello, int) prog" where
  "flush_ep L worker ep =
     bind_p (request_p L (EpFlush ep) (REp ep) None) (\<lambda>a. case a_ptr a of
       PtrNull \<Rightarrow> result UCS_OK
     | PtrErr e \<Rightarrow> result (ucs_err e)
     | PtrReq q \<Rightarrow> bind_p (poll_request_p L hello_handler worker q) (\<lambda>status.
         then_p (ucp_request_free L q) (result status)))"

text \<open>A tagged message that arrived: received, all \<open>n\<close> bytes of it, into a block, and looked for.\<close>

definition ucp_tag_msg_recv_nbx ::
    "'u ucx_lib \<Rightarrow> nat \<Rightarrow> ptr \<Rightarrow> nat \<Rightarrow> nat \<Rightarrow> 'c \<Rightarrow> (('u, 'c, 'p) world, ucs_ptr) prog" where
  "ucp_tag_msg_recv_nbx L wk msg n msg_tag cb =
     bind_p (request_p L (TagMsgRecv wk msg_tag n) (RWorker wk) (Some cb)) (\<lambda>a.
       then_p (deliver_p msg (fit n (a_data a))) (result (a_ptr a)))"

definition ucp_tag_probe_nb :: "'u ucx_lib \<Rightarrow> nat \<Rightarrow> nat \<Rightarrow> (('u, 'c, 'p) world, (nat \<times> nat) option) prog" where
  \<comment> \<open>the message and its length\<close>
  "ucp_tag_probe_nb L wk tag =
     bind_p (query_p L (TagProbe wk tag) (RWorker wk)) (\<lambda>a.
       result (case a_ptr a of PtrReq m \<Rightarrow> Some (m, nat (a_num a)) | _ \<Rightarrow> None))"

lemmas [wp] = set_completed_def set_msg_data_len_def epoll_close_def ucp_tag_msg_recv_nbx_def
  ucp_tag_probe_nb_def

section \<open>The client\<close>

text \<open>The loop that waits for the server's message: the message and its length, or that the run failed.\<close>

definition client_probe :: "'u ucx_lib \<Rightarrow> nat \<Rightarrow> ('u hello, (nat \<times> nat) option) prog" where
  "client_probe L ucp_worker = loop_p
     (bind_p (get_p vars) (\<lambda>v.
      if ep_status v \<noteq> UCS_OK then result (Some None)
      else bind_p (ucp_tag_probe_nb L ucp_worker hello_tag) (\<lambda>msg_tag.
        if msg_tag \<noteq> None then result (Some msg_tag)
        else bind_p (ucp_worker_progress L hello_handler ucp_worker) (\<lambda>n.
          if n \<noteq> 0 then result None
          else if ucp_test_mode v = TEST_MODE_WAIT then
            bind_p (query_p L (WorkerWait ucp_worker) (RWorker ucp_worker)) (\<lambda>a.
              result (if a_status a \<noteq> UCS_OK then Some None else None))
          else if ucp_test_mode v = TEST_MODE_EVENTFD then
            bind_p (test_poll_wait L ucp_worker) (\<lambda>status.
              result (if status \<noteq> UCS_OK then Some None else None))
          else result None))))"

definition client_send_address :: "'u ucx_lib \<Rightarrow> nat \<Rightarrow> nat \<Rightarrow> string \<Rightarrow> ('u hello, int) prog" where
  \<comment> \<open>the first part, up to the release of the message; \<open>-1\<close> when it cannot be allocated\<close>
  "client_send_address L ucp_worker server_ep local_addr =
     (let msg_len = 8 + length local_addr in
      bind_p (malloc L msg_len) (\<lambda>msg.
      if msg = None then result (-1)
      else then_p (store_p msg 0 (replicate msg_len NUL))
        (then_p (store_p msg 0 (le_bytes 8 (length local_addr)))
        (then_p (store_p msg 8 local_addr)
        (bind_p (load_p msg 0 msg_len) (\<lambda>data.
         bind_p (ucp_tag_send_nbx L server_ep data hello_tag (Send_Handler addr_msg_str)) (\<lambda>request.
         bind_p (ucx_wait L ucp_worker request) (\<lambda>status.
         then_p (free_p msg) (result status)))))))))"

definition client_receive :: "'u ucx_lib \<Rightarrow> nat \<Rightarrow> nat \<times> nat \<Rightarrow> ('u hello, int) prog" where
  \<comment> \<open>the last part: receive the message, print the string\<close>
  "client_receive L ucp_worker m = (case m of (msg_tag, info_length) \<Rightarrow>
     bind_p (get_p vars) (\<lambda>v.
     bind_p (mem_type_malloc L (test_mem_type v) info_length) (\<lambda>msg.
     if msg = None then result (-1)
     else bind_p (ucp_tag_msg_recv_nbx L ucp_worker msg info_length msg_tag Recv_Handler) (\<lambda>request.
       bind_p (ucx_wait L ucp_worker request) (\<lambda>status.
       if status \<noteq> UCS_OK then then_p (mem_type_free (test_mem_type v) msg) (result (-1))
       else bind_p (calloc L (nat (test_string_length v))) (\<lambda>str.
         if str = None then then_p (mem_type_free (test_mem_type v) msg) (result (-1))
         else then_p (mem_type_memcpy (test_mem_type v) str 0 msg 8 (nat (test_string_length v)))
           (bind_p (load_p str 0 (nat (test_string_length v))) (\<lambda>s.
            then_p (printf_s s) (then_p (free_p str)
              (then_p (mem_type_free (test_mem_type v) msg) (result 0)))))))))))"

definition run_ucx_client :: "'u ucx_lib \<Rightarrow> nat \<Rightarrow> string \<Rightarrow> ptr \<Rightarrow> nat \<Rightarrow> ('u hello, int) prog" where
  "run_ucx_client L ucp_worker local_addr peer_addr peer_addr_len =
     bind_p (load_p peer_addr 0 peer_addr_len) (\<lambda>address.
     bind_p (ucp_ep_create L ucp_worker (ToAddress address)) (\<lambda>(status, server_ep).
     if status \<noteq> UCS_OK then result (-1)
     else bind_p (client_send_address L ucp_worker server_ep local_addr) (\<lambda>status.
       if status \<noteq> UCS_OK then then_p (ep_close_err_mode L ucp_worker server_ep) (result (-1))
       else bind_p (get_p vars) (\<lambda>v.
         if failure_mode v = FAILURE_MODE_RECV then fault_p Killed
         else bind_p (client_probe L ucp_worker) (\<lambda>m. case m of
           None \<Rightarrow> then_p (ep_close_err_mode L ucp_worker server_ep) (result (-1))
         | Some m \<Rightarrow>
             if failure_mode v = FAILURE_MODE_KEEPALIVE then fault_p Killed
             else bind_p (client_receive L ucp_worker m) (\<lambda>ret.
               then_p (ep_close_err_mode L ucp_worker server_ep) (result ret)))))))"

section \<open>The server\<close>

definition server_probe :: "'u ucx_lib \<Rightarrow> nat \<Rightarrow> ('u hello, nat \<times> nat) prog" where
  \<comment> \<open>the loop that waits for the client's message\<close>
  "server_probe L ucp_worker = loop_p (then_p (hello_progress L ucp_worker)
     (ucp_tag_probe_nb L ucp_worker hello_tag))"

text \<open>The client's address: the block it is in and its length, or the result with which the server returns.\<close>

definition server_receive_address :: "'u ucx_lib \<Rightarrow> nat \<Rightarrow> ('u hello, int + ptr \<times> nat) prog" where
  "server_receive_address L ucp_worker =
     bind_p (server_probe L ucp_worker) (\<lambda>(msg_tag, info_length).
     bind_p (malloc L info_length) (\<lambda>msg.
     if msg = None then result (Inl (-1))
     else bind_p (ucp_tag_msg_recv_nbx L ucp_worker msg info_length msg_tag Recv_Handler) (\<lambda>request.
       bind_p (ucx_wait L ucp_worker request) (\<lambda>status.
       if status \<noteq> UCS_OK then then_p (free_p msg) (result (Inl (-1)))
       else bind_p (get_p vars) (\<lambda>v.
         if failure_mode v = FAILURE_MODE_SEND then then_p (free_p msg) (fault_p Killed)
         else bind_p (load_p msg 0 8) (\<lambda>data_len.
           let peer_addr_len = from_le data_len in
           bind_p (malloc L peer_addr_len) (\<lambda>peer_addr.
           if peer_addr = None then then_p (free_p msg) (result (Inl (-1)))
           else bind_p (load_p msg 8 peer_addr_len) (\<lambda>address.
             then_p (store_p peer_addr 0 address)
               (then_p (free_p msg) (result (Inr (peer_addr, peer_addr_len))))))))))))"

definition wait_ep_failed :: "'u ucx_lib \<Rightarrow> nat \<Rightarrow> ('u hello, unit) prog" where
  "wait_ep_failed L ucp_worker =
     while_p (\<lambda>w. ep_status (vars w) = UCS_OK) (hello_progress L ucp_worker)"

text \<open>The second half, with an endpoint: send the string.\<close>

definition server_send_string :: "'u ucx_lib \<Rightarrow> nat \<Rightarrow> nat \<Rightarrow> ('u hello, int) prog" where
  "server_send_string L ucp_worker client_ep =
     bind_p (get_p vars) (\<lambda>v.
     let msg_len = nat (8 + test_string_length v); mt = test_mem_type v in
     bind_p (mem_type_malloc L mt msg_len) (\<lambda>msg.
     if msg = None then result (-1)
     else then_p (mem_type_memset mt msg NUL msg_len)
       (then_p (set_msg_data_len mt msg (msg_len - 8))
       (bind_p (generate_test_string L mt msg 8 (int_of_size (nat (test_string_length v)))) (\<lambda>ret.
        if ret < 0 then then_p (mem_type_free mt msg) (result ret)
        else then_p (if failure_mode v = FAILURE_MODE_RECV then then_p (ask L (Sleep 5)) (result ()) else result ())
          (then_p (hello_progress L ucp_worker)
          (bind_p (load_p msg 0 msg_len) (\<lambda>data.
           bind_p (ucp_tag_send_nbx L client_ep data hello_tag (Send_Handler data_msg_str)) (\<lambda>request.
           bind_p (ucx_wait L ucp_worker request) (\<lambda>status.
           if status \<noteq> UCS_OK then
             (if failure_mode v \<noteq> FAILURE_MODE_NONE then then_p (mem_type_free mt msg) (result (-1))
              else then_p (wait_ep_failed L ucp_worker) (then_p (mem_type_free mt msg) (result 0)))
           else
             then_p (if failure_mode v = FAILURE_MODE_KEEPALIVE then wait_ep_failed L ucp_worker else result ())
               (bind_p (flush_ep L ucp_worker client_ep) (\<lambda>status.
                then_p (mem_type_free mt msg) (result 0)))))))))))))"

definition run_ucx_server :: "'u ucx_lib \<Rightarrow> nat \<Rightarrow> ('u hello, int) prog" where
  "run_ucx_server L ucp_worker =
     bind_p (server_receive_address L ucp_worker) (\<lambda>r. case r of
       Inl ret \<Rightarrow> result ret
     | Inr (peer_addr, peer_addr_len) \<Rightarrow>
         bind_p (load_p peer_addr 0 peer_addr_len) (\<lambda>address.
         bind_p (ucp_ep_create L ucp_worker (ToAddress address)) (\<lambda>(status, client_ep).
         bind_p (get_p vars) (\<lambda>v.
           if status \<noteq> UCS_OK then result (if failure_mode v \<noteq> FAILURE_MODE_NONE then 0 else -1)
           else bind_p (server_send_string L ucp_worker client_ep) (\<lambda>ret.
             then_p (ep_close_err_mode L ucp_worker client_ep) (result ret))))))"

section \<open>The address exchange over TCP\<close>

text \<open>
  The socket and the peer's address, or the value of \<open>ret\<close> and the address to free at the label the
  code jumps to.
\<close>

definition exchange_client :: "'u ucx_lib \<Rightarrow> string \<Rightarrow> ('u hello, int \<times> ptr + int \<times> ptr \<times> nat) prog" where
  "exchange_client L client_target_name =
     bind_p (get_p vars) (\<lambda>v.
     bind_p (connect_common L (Some client_target_name) (server_port v) (ipv6 v)) (\<lambda>oob_sock.
     if oob_sock < 0 then result (Inl (-1, None))
     else bind_p (query_p L (SockRecv oob_sock 8) (RSock oob_sock)) (\<lambda>a.
       if a_num a \<noteq> 8 then result (Inl (a_num a, None))
       else let peer_addr_len = from_le (fit 8 (a_data a)) in
         bind_p (malloc L peer_addr_len) (\<lambda>peer_addr.
         if peer_addr = None then result (Inl (a_num a, None))
         else bind_p (query_p L (SockRecv oob_sock peer_addr_len) (RSock oob_sock)) (\<lambda>a.
           then_p (store_p peer_addr 0 (take peer_addr_len (a_data a)))
             (if a_num a \<noteq> int_of_size peer_addr_len then result (Inl (a_num a, peer_addr))
              else result (Inr (oob_sock, peer_addr, peer_addr_len))))))))"

definition exchange_server :: "'u ucx_lib \<Rightarrow> string \<Rightarrow> ('u hello, int \<times> ptr + int \<times> ptr \<times> nat) prog" where
  "exchange_server L local_addr =
     bind_p (get_p vars) (\<lambda>v.
     bind_p (connect_common L None (server_port v) (ipv6 v)) (\<lambda>oob_sock.
     if oob_sock < 0 then result (Inl (-1, None))
     else bind_p (query_p L (SockSend oob_sock (le_bytes 8 (length local_addr))) (RSock oob_sock)) (\<lambda>a.
       if a_num a \<noteq> 8 then result (Inl (a_num a, None))
       else bind_p (query_p L (SockSend oob_sock local_addr) (RSock oob_sock)) (\<lambda>a.
         if a_num a \<noteq> int_of_size (length local_addr) then result (Inl (a_num a, None))
         else result (Inr (oob_sock, None, 0))))))"

section \<open>The program\<close>

definition parse_cmd_start :: "hello_vars \<Rightarrow> hello_vars" where
  "parse_cmd_start v = v\<lparr>err_mode_peer := False, failure_mode := FAILURE_MODE_NONE\<rparr>"

text \<open>One turn of the loop over the options: a status other than \<open>UCS_OK\<close> is what the function returns.\<close>

definition hello_option ::
    "char \<Rightarrow> string \<Rightarrow> hello_vars \<times> string option \<Rightarrow> int \<times> hello_vars \<times> string option" where
  "hello_option c optarg s = (case s of (v, server_name) \<Rightarrow>
     if c = CHR ''w'' then (UCS_OK, v\<lparr>ucp_test_mode := TEST_MODE_WAIT\<rparr>, server_name)
     else if c = CHR ''f'' then (UCS_OK, v\<lparr>ucp_test_mode := TEST_MODE_EVENTFD\<rparr>, server_name)
     else if c = CHR ''b'' then (UCS_OK, v\<lparr>ucp_test_mode := TEST_MODE_PROBE\<rparr>, server_name)
     else if c = CHR ''e'' then
       (let v = v\<lparr>err_mode_peer := True\<rparr> in
        if optarg = ''recv'' then (UCS_OK, v\<lparr>failure_mode := FAILURE_MODE_RECV\<rparr>, server_name)
        else if optarg = ''send'' then (UCS_OK, v\<lparr>failure_mode := FAILURE_MODE_SEND\<rparr>, server_name)
        else if optarg = ''keepalive'' then (UCS_OK, v\<lparr>failure_mode := FAILURE_MODE_KEEPALIVE\<rparr>, server_name)
        else (UCS_ERR_UNSUPPORTED, v, server_name))
     else if c = CHR ''n'' then (UCS_OK, v, Some optarg)
     else if c = CHR ''6'' then (UCS_OK, v\<lparr>ipv6 := True\<rparr>, server_name)
     else if c = CHR ''p'' then
       (let v = v\<lparr>server_port := word_of_int (c_atoi optarg)\<rparr> in
        (if server_port v \<le> 0 then UCS_ERR_UNSUPPORTED else UCS_OK, v, server_name))
     else if c = CHR ''s'' then
       (let v = v\<lparr>test_string_length := c_atol optarg\<rparr> in
        (if test_string_length v < 0 then UCS_ERR_UNSUPPORTED else UCS_OK, v, server_name))
     else if c = CHR ''m'' then
       (let v = v\<lparr>test_mem_type := parse_mem_type optarg\<rparr> in
        (if test_mem_type v = UCS_MEMORY_TYPE_LAST then UCS_ERR_UNSUPPORTED else UCS_OK, v, server_name))
     else if c = CHR ''c'' then (UCS_OK, v\<lparr>print_config := True\<rparr>, server_name)
     else (UCS_ERR_UNSUPPORTED, v, server_name))"

fun hello_options :: "opt_result list \<Rightarrow> hello_vars \<times> string option \<Rightarrow> int \<times> hello_vars \<times> string option" where
  "hello_options [] s = (UCS_OK, s)"
| "hello_options ((c, optarg) # rs) s =
     (case hello_option c optarg s of (status, s) \<Rightarrow>
        if status \<noteq> UCS_OK then (status, s) else hello_options rs s)"

definition hello_parse_cmd :: "string list \<Rightarrow> hello_vars \<Rightarrow> int \<times> hello_vars \<times> string option" where
  "hello_parse_cmd argv v =
     hello_options (getopt ''wfb6e:n:p:s:m:ch'' (tl argv)) (parse_cmd_start v, None)"

text \<open>From the address exchange to the label \<^verbatim>\<open>err_addr\<close>.\<close>

definition hello_session :: "'u ucx_lib \<Rightarrow> nat \<Rightarrow> string option \<Rightarrow> string \<Rightarrow> ('u hello, int) prog" where
  "hello_session L ucp_worker client_target_name local_addr =
     bind_p (case client_target_name of
         Some host \<Rightarrow> exchange_client L host
       | None \<Rightarrow> exchange_server L local_addr) (\<lambda>x. case x of
       Inl (ret, peer_addr) \<Rightarrow> then_p (free_p peer_addr) (result ret)
     | Inr (oob_sock, peer_addr, peer_addr_len) \<Rightarrow>
         bind_p (if client_target_name \<noteq> None
                 then run_ucx_client L ucp_worker local_addr peer_addr peer_addr_len
                 else run_ucx_server L ucp_worker) (\<lambda>ret.
         bind_p (get_p vars) (\<lambda>v.
         bind_p (if ret = 0 \<and> failure_mode v = FAILURE_MODE_NONE
                 then barrier L oob_sock (hello_progress L ucp_worker) else result ret) (\<lambda>ret.
         then_p (sock_close L oob_sock) (then_p (free_p peer_addr) (result ret))))))"

definition hello_features :: "hello_vars \<Rightarrow> string list" where
  "hello_features v = [''UCP_FEATURE_TAG''] @
     (if ucp_test_mode v = TEST_MODE_WAIT \<or> ucp_test_mode v = TEST_MODE_EVENTFD
      then [''UCP_FEATURE_WAKEUP''] else [])"

definition hello_main :: "'u ucx_lib \<Rightarrow> string list \<Rightarrow> ('u hello, int) prog" where
  "hello_main L argv = bind_p (get_p vars) (\<lambda>v. case hello_parse_cmd argv v of
     (status, v, client_target_name) \<Rightarrow>
       then_p (vars_p (\<lambda>_. v))
       (if status \<noteq> UCS_OK then result (-1)
        else bind_p (ask L ConfigRead) (\<lambda>a.
          if a_status a \<noteq> UCS_OK then result (-1)
          else then_p (acquire RConfig)
            (bind_p (create_p L (UcpInit (hello_features v)) RContext) (\<lambda>(status, ucp_context).
             then_p (destroy_p L ConfigRelease RConfig)
             (if status \<noteq> UCS_OK then result (-1)
              else bind_p (bind_p (then_p (needs (RContext ucp_context)) (create_p L (WorkerCreate ucp_context) RWorker)) (\<lambda>(status, ucp_worker).
                if status \<noteq> UCS_OK then result (-1)
                else bind_p (bind_p (query_p L (WorkerQuery ucp_worker) (RWorker ucp_worker)) (\<lambda>a.
                  if a_status a \<noteq> UCS_OK then result (-1)
                  else then_p (acquire (RAddress ucp_worker))
                    (bind_p (hello_session L ucp_worker client_target_name (a_data a)) (\<lambda>ret.
                     then_p (destroy_p L (WorkerReleaseAddress ucp_worker) (RAddress ucp_worker))
                       (result ret))))) (\<lambda>ret.
                  then_p (destroy_p L (WorkerDestroy ucp_worker) (RWorker ucp_worker)) (result ret)))) (\<lambda>ret.
                then_p (destroy_p L (UcpCleanup ucp_context) (RContext ucp_context)) (result ret))))))))"

end
