(* ===== verification/Ucx_Hello_Run.thy ===== *)
theory Ucx_Hello_Run
  imports Ucx_Hello
begin

text \<open>
  What a run of \<^verbatim>\<open>ucp_hello_world.c\<close> leaves and sends, whatever UCX and the system answer: one lemma per
  function, from the waiting loops up to \<^verbatim>\<open>main\<close>.
\<close>

section \<open>What the callbacks leave\<close>

definition hello_opts :: "hello_vars \<Rightarrow> hello_vars" where
  "hello_opts v = v\<lparr>ep_status := 0, completed := {}\<rparr>"

lemma hello_opts_simps [simp]:
  "hello_opts (v\<lparr>ep_status := e\<rparr>) = hello_opts v" "hello_opts (v\<lparr>completed := c\<rparr>) = hello_opts v"
  by (simp_all add: hello_opts_def)

definition hello_flags :: "hello_vars \<Rightarrow> bool \<times> bool \<times> bool" where
  "hello_flags v = (err_mode_peer v, ipv6 v, print_config v)"

lemma hello_opts_eq_iff:
  "hello_opts v = hello_opts u \<longleftrightarrow> hello_flags v = hello_flags u \<and>
     ucp_test_mode v = ucp_test_mode u \<and>
     failure_mode v = failure_mode u \<and>
     server_port v = server_port u \<and>
     test_string_length v = test_string_length u \<and>
     test_mem_type v = test_mem_type u"
  by (cases v, cases u) (auto simp: hello_opts_def hello_flags_def)

text \<open>All but the handles.\<close>

definition hello_view ::
    "'u hello \<Rightarrow> string option list \<times> hello_vars \<times> ucx_call list \<times> string list \<times> string list" where
  "hello_view w =
     (heap w, hello_opts (vars w), data_calls (calls w), received w, printed w)"

definition hello_ok :: "'u hello \<Rightarrow> bool" where
  \<comment> \<open>the callbacks need nothing of the state\<close>
  "hello_ok w \<longleftrightarrow> True"

interpretation hello: ucx_callbacks hello_handler F hello_ok hello_view for F
proof
  fix w :: "'u hello" and cb q s
  show "wp F (hello_handler (OnComplete cb q s)) (\<lambda>_ w'. hello_ok w' \<and> live w' = live w \<and> hello_view w' = hello_view w)
      (w\<lparr>cbs := (cbs w)(q := None)\<rparr>)"
    by (cases cb) (auto simp: wp set_completed_def hello_view_def hello_ok_def)
qed (auto simp: wp hello_view_def hello_ok_def)

lemma hello_ok [simp]: "hello_ok w"
  by (simp add: hello_ok_def)

lemma hello_progress_rule:
  assumes "RWorker wk \<in># live w" "\<And>w'. live w' = live w \<Longrightarrow> hello_view w' = hello_view w \<Longrightarrow> Q () w'"
  shows "wp F (hello_progress L wk) Q w"
  by (auto simp: hello_progress_def wp assms(1) intro!: hello.progress assms(2))

lemma ucx_wait_rule:
  assumes "RWorker wk \<in># live w" "ptr_live p \<subseteq># live w"
    "\<And>st w'. hello_view w' = hello_view w \<Longrightarrow> live w' = live w - ptr_live p \<Longrightarrow> Q st w'"
  shows "wp F (ucx_wait L wk p) Q w"
proof (cases p)
  case (PtrReq q)
  show ?thesis
    unfolding ucx_wait_def PtrReq ucs_ptr.case wp hello_progress_def
    by (rule hello.spin, simp, rule assms(1))
      (use assms(2) PtrReq in \<open>auto simp: wp hello_view_def intro!: wp_ask assms(3)\<close>)
qed (auto simp: ucx_wait_def wp intro!: assms(3))

lemma wait_ep_failed_rule:
  assumes "RWorker wk \<in># live w" "\<And>w'. live w' = live w \<Longrightarrow> hello_view w' = hello_view w \<Longrightarrow> Q () w'"
  shows "wp F (wait_ep_failed L wk) Q w"
  unfolding wait_ep_failed_def hello_progress_def
  by (auto simp: assms(1) intro!: hello.spin assms(2))

lemma flush_ep_rule:
  assumes "RWorker wk \<in># live w" "REp ep \<in># live w"
    "\<And>st w'. live w' = live w \<Longrightarrow> hello_view w' = hello_view w \<Longrightarrow> Q st w'"
  shows "wp F (flush_ep L wk ep) Q w"
  unfolding flush_ep_def
  using assms(1,2)
  by (auto simp: wp split: ucs_ptr.split intro!: wp_ask wp_request hello.poll_request assms(3))

lemma ep_close_err_mode_rule:
  assumes "REp ep \<in># live w" "RWorker wk \<in># live w"
    "\<And>w'. live w' = live w - {#REp ep#} \<Longrightarrow> hello_view w' = hello_view w \<Longrightarrow> Q () w'"
  shows "wp F (ep_close_err_mode L wk ep) Q w"
  unfolding ep_close_err_mode_def
  by (auto simp: wp intro!: hello.ep_close_rule assms)

lemma epoll_wait_rule:
  assumes "\<And>w'. live w' = live w \<Longrightarrow> hello_view w' = hello_view w \<Longrightarrow> Q () w'"
  shows "wp F (loop_p (bind_p (ask L (EpollWait fd)) (\<lambda>a. result (if P a then None else Some ())))) Q w"
  by (rule wp_loop_p [where I = "\<lambda>w'. live w' = live w \<and> hello_view w' = hello_view w"])
    (auto simp: wp intro!: wp_ask assms)

lemma test_poll_wait_rule:
  assumes "RWorker wk \<in># live w"
    "\<And>st w'. live w' = live w \<Longrightarrow> hello_view w' = hello_view w \<Longrightarrow> Q st w'"
  shows "wp F (test_poll_wait L wk) Q w"
  unfolding test_poll_wait_def Let_def
  using assms(1)
  by (auto simp: wp intro!: wp_ask assms(2) epoll_wait_rule)

text \<open>Nothing leaks and no variable but those of the callbacks changes.\<close>

definition hello_clean :: "'u hello \<Rightarrow> 'u hello \<Rightarrow> bool" where
  "hello_clean w w' \<longleftrightarrow> live w' = live w \<and> heap_at (heap w') = heap_at (heap w) \<and>
     hello_opts (vars w') = hello_opts (vars w)"

lemmas hello_defs = hello_view_def hello_clean_def hello_opts_eq_iff

definition hello_allowed :: "fault \<Rightarrow> bool" where
  \<comment> \<open>the ways a run may end other than by returning\<close>
  "hello_allowed e \<longleftrightarrow> e = Killed \<or> e = Undefined ''read past the end''"

lemma hello_allowed_simps [simp]:
  "hello_allowed Killed" "hello_allowed (Undefined ''read past the end'')"
  by (simp_all add: hello_allowed_def)

lemma length_le_bytes [simp]: "length (le_bytes k n) = k"
  by (induction k arbitrary: n) simp_all

lemma from_le_bytes: "from_le (le_bytes k n) = n mod 256 ^ k"
proof (induction k arbitrary: n)
  case (Suc k)
  then show ?case by (simp add: of_char_of mod_mult2_eq)
qed simp

section \<open>The client\<close>

lemma client_probe_rule:
  assumes "RWorker wk \<in># live w"
    "\<And>m w'. live w' = live w \<Longrightarrow> hello_view w' = hello_view w \<Longrightarrow> Q m w'"
  shows "wp F (client_probe L wk) Q w"
  unfolding client_probe_def
  by (rule wp_loop_p [where I = "\<lambda>w'. live w' = live w \<and> hello_view w' = hello_view w"])
    (auto simp: wp assms(1) split: ucs_ptr.split intro!: wp_ask assms(2) hello.progress test_poll_wait_rule)

text \<open>The message with an address.\<close>

definition msg_bytes :: "string \<Rightarrow> string" where
  "msg_bytes d = le_bytes 8 (length d) @ d"

lemma length_msg_bytes [simp]: "length (msg_bytes d) = 8 + length d"
  by (simp add: msg_bytes_def)

lemma drop_msg_bytes [simp]: "drop 8 (msg_bytes d) = d"
  by (simp add: msg_bytes_def)

lemma from_le_msg_bytes: "length d < 2 ^ 63 \<Longrightarrow> from_le (take 8 (msg_bytes d)) = length d"
  by (simp add: msg_bytes_def from_le_bytes)

lemma client_send_address_rule:
  assumes "RWorker wk \<in># live w" "REp ep \<in># live w"
  shows "wp hello_allowed (client_send_address L wk ep local_addr) (\<lambda>st w'. hello_clean w w' \<and>
    received w' = received w \<and> printed w' = printed w \<and>
    (data_calls (calls w') = data_calls (calls w) \<or>
     data_calls (calls w') = data_calls (calls w) @ [TagSend ep (msg_bytes local_addr) hello_tag])) w"
  unfolding client_send_address_def Let_def
  using assms
  by (auto simp: wp hello_defs msg_bytes_def intro!: wp_ask wp_request ucx_wait_rule)

text \<open>The text printed from a message, when the client expects \<open>k\<close> bytes.\<close>

definition msg_text :: "nat \<Rightarrow> string \<Rightarrow> string" where
  "msg_text k d = c_str_to_string (take k (drop 8 d))"

definition printed_message :: "'u hello \<Rightarrow> 'u hello \<Rightarrow> bool" where
  "printed_message w w' \<longleftrightarrow> (\<exists>d. received w' = received w @ [d] \<and>
     printed w' = printed w @ [msg_text (nat (test_string_length (vars w))) d])"

lemma client_receive_rule:
  assumes "RWorker wk \<in># live w"
  shows "wp hello_allowed (client_receive L wk m) (\<lambda>r w'. hello_clean w w' \<and>
    data_calls (calls w') = data_calls (calls w) \<and>
    (r = -1 \<and> printed w' = printed w \<or> r = 0 \<and> printed_message w w')) w"
  unfolding client_receive_def Let_def
  using assms
  by (auto simp: wp hello_defs msg_text_def printed_message_def intro!: wp_ask wp_request ucx_wait_rule
      split: ucs_memory_type.split prod.split)

text \<open>The client: it sends its address, and what it prints is the text of the one message it received.\<close>

lemma run_ucx_client_rule:
  assumes "RWorker wk \<in># live w" "heap_at (heap w) b \<noteq> None" "length (the (heap_at (heap w) b)) = n"
  shows "wp hello_allowed (run_ucx_client L wk local_addr (Some b) n) (\<lambda>r w'. hello_clean w w' \<and>
    (data_calls (calls w') = data_calls (calls w) \<or> (\<exists>ep. data_calls (calls w') =
       data_calls (calls w) @ [TagSend ep (msg_bytes local_addr) hello_tag])) \<and>
    (r = -1 \<and> printed w' = printed w \<or> r = 0 \<and> printed_message w w')) w"
  unfolding run_ucx_client_def Let_def
  using assms
  by (auto simp: wp hello_defs printed_message_def split: option.split intro!: wp_ask wp_mono [OF client_send_address_rule]
      ep_close_err_mode_rule client_probe_rule wp_mono [OF client_receive_rule])

section \<open>The server\<close>

lemma server_probe_rule:
  assumes "RWorker wk \<in># live w"
    "\<And>m w'. live w' = live w \<Longrightarrow> hello_view w' = hello_view w \<Longrightarrow> Q m w'"
  shows "wp F (server_probe L wk) Q w"
  unfolding server_probe_def
  by (rule wp_loop_p [where I = "\<lambda>w'. live w' = live w \<and> hello_view w' = hello_view w"])
    (auto simp: wp assms(1) split: ucs_ptr.split intro!: wp_ask assms(2) hello_progress_rule)

text \<open>The address a message holds.\<close>

definition msg_payload :: "string \<Rightarrow> string" where
  "msg_payload d = take (from_le (take 8 d)) (drop 8 d)"

lemma server_receive_address_rule:
  assumes "RWorker wk \<in># live w"
  shows "wp hello_allowed (server_receive_address L wk) (\<lambda>r w'. live w' = live w \<and>
    hello_opts (vars w') = hello_opts (vars w) \<and> data_calls (calls w') = data_calls (calls w) \<and>
    printed w' = printed w \<and>
    (case r of
       Inl ret \<Rightarrow> ret = -1 \<and> heap_at (heap w') = heap_at (heap w)
     | Inr (p, n) \<Rightarrow> \<exists>b d. p = Some b \<and> heap_at (heap w) b = None \<and> received w' = received w @ [d] \<and>
         heap_at (heap w') = (heap_at (heap w))(b \<mapsto> msg_payload d) \<and> length (msg_payload d) = n)) w"
  unfolding server_receive_address_def Let_def
  using assms
  by (auto simp: wp hello_defs msg_payload_def intro!: wp_ask wp_request server_probe_rule ucx_wait_rule
      split: prod.split)

text \<open>
  The string is sent once, unless memory is short.  Beyond \<open>2 ^ 31\<close> bytes the length is truncated for
  \<^verbatim>\<open>generate_test_string\<close>, and the message holds something else.
\<close>

definition string_sent :: "int \<Rightarrow> ucx_call list \<Rightarrow> ucx_call list \<Rightarrow> bool" where
  "string_sent n cs cs' \<longleftrightarrow> (\<exists>ep s. data_calls cs' = data_calls cs @ [TagSend ep (msg_bytes s) hello_tag] \<and>
     int (length s) = n \<and> (n < 2 ^ 31 \<longrightarrow> s = test_string (length s)))"

lemma string_sent_cong:
  "n = m \<Longrightarrow> data_calls cs = data_calls ds \<Longrightarrow> data_calls cs' = data_calls ds' \<Longrightarrow>
   string_sent n cs cs' = string_sent m ds ds'"
  by (simp add: string_sent_def)

lemma server_send_string_rule:
  assumes "RWorker wk \<in># live w" "REp ep \<in># live w" "0 \<le> test_string_length (vars w)"
  shows "wp hello_allowed (server_send_string L wk ep) (\<lambda>r w'. hello_clean w w' \<and>
    received w' = received w \<and> printed w' = printed w \<and>
    (r = -1 \<and> data_calls (calls w') = data_calls (calls w) \<or> (r = 0 \<or> r = -1) \<and> string_sent (test_string_length (vars w)) (calls w) (calls w'))) w"
proof (cases "test_mem_type (vars w)")
  case UCS_MEMORY_TYPE_HOST
  obtain k where k: "test_string_length (vars w) = int k" using assms(3) by (metis nonneg_int_cases)
  let ?m = "nat (int_of_size k)"
  have n: "- (2 ^ 31) \<le> int_of_size k" "?m \<le> k" "nat (8 + int k) = 8 + k"
    using int_of_size_bounds [of k] by simp_all
  have sent: "string_sent (int k) (calls w) (calls w')"
    if "data_calls (calls w') = data_calls (calls w) @
      [TagSend ep (le_bytes 8 k @ test_string ?m @ replicate (k - ?m) NUL) hello_tag]" for w' :: "'a hello"
    unfolding string_sent_def
    using that n(2) int_of_size_small [of k]
    by (intro exI [of _ ep] exI [of _ "test_string ?m @ replicate (k - ?m) NUL"]) (simp add: msg_bytes_def)
  show ?thesis
    unfolding server_send_string_def Let_def
    using assms(1,2) n UCS_MEMORY_TYPE_HOST
    by (auto simp: wp hello_defs untouched_def k intro!: wp_ask wp_request ucx_wait_rule generate_test_string_rule
        hello_progress_rule wait_ep_failed_rule flush_ep_rule sent)
qed (auto simp: server_send_string_def Let_def wp hello_defs intro!: wp_ask)

text \<open>
  The server: it sends the string when the client's address could be used.  The block with that
  address is never freed.
\<close>

definition one_more :: "(nat \<rightharpoonup> string) \<Rightarrow> (nat \<rightharpoonup> string) \<Rightarrow> bool" where
  "one_more m m' \<longleftrightarrow> (\<exists>b d. m b = None \<and> m' = m(b \<mapsto> d))"

lemma one_more_upd [simp]: "m b = None \<Longrightarrow> one_more m (m(b \<mapsto> d))"
  by (auto simp: one_more_def)

lemma run_ucx_server_rule:
  assumes "RWorker wk \<in># live w" "0 \<le> test_string_length (vars w)"
  shows "wp hello_allowed (run_ucx_server L wk) (\<lambda>r w'. live w' = live w \<and>
    hello_opts (vars w') = hello_opts (vars w) \<and> printed w' = printed w \<and>
    (r = -1 \<and> heap_at (heap w') = heap_at (heap w) \<and> data_calls (calls w') = data_calls (calls w) \<or>
     (r = 0 \<or> r = -1) \<and> one_more (heap_at (heap w)) (heap_at (heap w')) \<and>
       (data_calls (calls w') = data_calls (calls w) \<or>
        string_sent (test_string_length (vars w)) (calls w) (calls w')))) w"
  unfolding run_ucx_server_def Let_def
  using assms
  by (auto simp: wp hello_defs split: sum.split cong: string_sent_cong intro!: wp_ask
      wp_mono [OF server_receive_address_rule] wp_mono [OF server_send_string_rule] ep_close_err_mode_rule)

section \<open>The address exchange\<close>

text \<open>When it fails after a connection was made, the socket stays open.\<close>

definition leaks_socket :: "resource multiset \<Rightarrow> resource multiset \<Rightarrow> bool" where
  "leaks_socket l l' \<longleftrightarrow> (\<exists>fd. l' = add_mset (RSock fd) l)"

lemma leaks_socketD: "leaks_socket l l' \<Longrightarrow> \<exists>fd. l' = add_mset (RSock fd) l"
  by (simp add: leaks_socket_def)

lemma leaks_socket_add [simp]: "leaks_socket l (add_mset (RSock fd) l)"
  by (auto simp: leaks_socket_def)

definition exchanged ::
    "'u hello \<Rightarrow> 'u hello \<Rightarrow> int \<times> ptr + int \<times> ptr \<times> nat \<Rightarrow> bool" where
  "exchanged w w' x \<longleftrightarrow> vars w' = vars w \<and> received w' = received w \<and> printed w' = printed w \<and>
     data_calls (calls w') = data_calls (calls w) \<and>
     (case x of
        Inl (ret, None) \<Rightarrow> (live w' = live w \<or> leaks_socket (live w) (live w')) \<and> heap_at (heap w') = heap_at (heap w)
      | Inl (ret, Some b) \<Rightarrow> leaks_socket (live w) (live w') \<and> heap_at (heap w') b \<noteq> None \<and>
          (heap_at (heap w'))(b := None) = heap_at (heap w)
      | Inr (fd, None, n) \<Rightarrow> live w' = add_mset (RSock fd) (live w) \<and> heap_at (heap w') = heap_at (heap w)
      | Inr (fd, Some b, n) \<Rightarrow> live w' = add_mset (RSock fd) (live w) \<and> heap_at (heap w') b \<noteq> None \<and>
          (heap_at (heap w'))(b := None) = heap_at (heap w) \<and> length (the (heap_at (heap w') b)) = n)"

lemma exchange_client_rule:
  "wp hello_allowed (exchange_client L host) (\<lambda>x w'. exchanged w w' x \<and>
     (\<forall>fd p n. x = Inr (fd, p, n) \<longrightarrow> p \<noteq> None)) w"
  unfolding exchange_client_def Let_def
  by (auto simp: wp exchanged_def untouched_def split: if_splits intro!: wp_ask connect_common_rule)

lemma exchange_server_rule:
  "wp hello_allowed (exchange_server L addr) (\<lambda>x w'. exchanged w w' x \<and>
     (\<forall>fd p n. x = Inr (fd, p, n) \<longrightarrow> p = None)) w"
  unfolding exchange_server_def Let_def
  by (auto simp: wp exchanged_def untouched_def split: if_splits intro!: wp_ask connect_common_rule)

section \<open>The program\<close>

text \<open>What a session leaves, its result and whether a server ran it.\<close>

definition session_left :: "bool \<Rightarrow> 'u hello \<Rightarrow> 'u hello \<Rightarrow> bool" where
  "session_left is_server w w' \<longleftrightarrow> hello_opts (vars w') = hello_opts (vars w) \<and>
     (live w' = live w \<or> leaks_socket (live w) (live w') \<and> printed w' = printed w) \<and>
     (heap_at (heap w') = heap_at (heap w) \<or> is_server \<and> one_more (heap_at (heap w)) (heap_at (heap w')))"

definition client_result :: "'u hello \<Rightarrow> 'u hello \<Rightarrow> bool" where
  "client_result w w' \<longleftrightarrow> printed w' = printed w \<or> printed_message w w'"

lemma hello_barrier_rule:
  assumes "RWorker wk \<in># live w" "RSock fd \<in># live w"
    "\<And>r w'. live w' = live w \<Longrightarrow> hello_view w' = hello_view w \<Longrightarrow> Q r w'"
  shows "wp F (barrier L fd (hello_progress L wk)) Q w"
  unfolding hello_progress_def
  by (auto simp: assms(1,2) intro!: hello.barrier_rule assms(3))

lemma session_client_rule:
  assumes "RWorker wk \<in># live w"
  shows "wp hello_allowed (hello_session L wk (Some host) addr) (\<lambda>r w'. session_left False w w' \<and>
    client_result w w') w"
  unfolding hello_session_def Let_def
  using assms
  by (auto simp: wp exchanged_def session_left_def client_result_def printed_message_def hello_defs
      split: sum.split option.splits intro!: wp_ask wp_mono [OF exchange_client_rule]
      wp_mono [OF run_ucx_client_rule] hello_barrier_rule)

definition server_result :: "'u hello \<Rightarrow> 'u hello \<Rightarrow> bool" where
  "server_result w w' \<longleftrightarrow> printed w' = printed w \<and> (data_calls (calls w') = data_calls (calls w) \<or>
     string_sent (test_string_length (vars w)) (calls w) (calls w'))"

lemma session_server_rule:
  assumes "RWorker wk \<in># live w" "0 \<le> test_string_length (vars w)"
  shows "wp hello_allowed (hello_session L wk None addr) (\<lambda>r w'. session_left True w w' \<and>
    server_result w w') w"
  unfolding hello_session_def Let_def
  using assms
  by (auto simp: wp exchanged_def session_left_def server_result_def hello_defs cong: string_sent_cong
      split: sum.split option.splits intro!: wp_ask wp_mono [OF exchange_server_rule]
      wp_mono [OF run_ucx_server_rule] hello_barrier_rule)

lemma hello_option_length:
  "hello_option c optarg s = (UCS_OK, s') \<Longrightarrow> 0 \<le> test_string_length (fst s) \<Longrightarrow>
   0 \<le> test_string_length (fst s')"
  by (auto simp: hello_option_def Let_def UCS_OK_def UCS_ERR_UNSUPPORTED_def split: if_splits prod.splits)

lemma hello_options_length:
  "hello_options rs s = (UCS_OK, s') \<Longrightarrow> 0 \<le> test_string_length (fst s) \<Longrightarrow> 0 \<le> test_string_length (fst s')"
  by (induction rs s rule: hello_options.induct)
    (auto split: prod.splits if_splits dest: hello_option_length)

lemma hello_parse_cmd_length:
  "hello_parse_cmd argv v = (UCS_OK, v', name) \<Longrightarrow> 0 \<le> test_string_length v \<Longrightarrow> 0 \<le> test_string_length v'"
  unfolding hello_parse_cmd_def
  using hello_options_length [of _ "(parse_cmd_start v, None)" "(v', name)"]
  by (simp add: parse_cmd_start_def)

text \<open>The handles held: those of before and perhaps a socket.\<close>

definition sock_left :: "resource multiset \<Rightarrow> resource multiset \<Rightarrow> bool" where
  "sock_left l l' \<longleftrightarrow> l' = l \<or> leaks_socket l l'"

lemma sock_left_refl [simp]: "sock_left l l"
  by (simp add: sock_left_def)

lemma sock_left_release:
  assumes "sock_left (add_mset r l) l'"
  shows "r \<in># l'" "sock_left l (l' - {#r#})"
  using assms by (auto simp: sock_left_def leaks_socket_def add_mset_commute [of r])

lemma sock_left_main:
  assumes "sock_left (add_mset a (add_mset b (add_mset c l))) l'"
  shows "a \<in># l' \<and> b \<in># l' - {#a#} \<and> c \<in># l' - {#b, a#} \<and> sock_left l (l' - {#c, b, a#})"
  using sock_left_release [OF assms] sock_left_release [OF sock_left_release(2) [OF assms]]
    sock_left_release [OF sock_left_release(2) [OF sock_left_release(2) [OF assms]]]
  by simp

text \<open>What a run with the options \<open>v\<close> leaves, as a client or as a server.\<close>

definition main_left :: "hello_vars \<Rightarrow> string option \<Rightarrow> 'u hello \<Rightarrow> 'u hello \<Rightarrow> bool" where
  "main_left v name w w' \<longleftrightarrow>
     sock_left (live w) (live w') \<and>
     (heap_at (heap w') = heap_at (heap w) \<or> name = None \<and> one_more (heap_at (heap w)) (heap_at (heap w'))) \<and>
     (if name = None
      then printed w' = printed w \<and> (data_calls (calls w') = data_calls (calls w) \<or>
        string_sent (test_string_length v) (calls w) (calls w'))
      else printed w' = printed w \<or> (\<exists>d. received w' = received w @ [d] \<and>
        printed w' = printed w @ [msg_text (nat (test_string_length v)) d]))"

lemma hello_session_rule:
  assumes "RWorker wk \<in># live w" "0 \<le> test_string_length (vars w)"
  shows "wp hello_allowed (hello_session L wk name addr) (\<lambda>r w'. main_left (vars w) name w w') w"
proof (cases name)
  case None
  show ?thesis
    unfolding None
    by (rule wp_mono [OF session_server_rule [OF assms]])
      (auto simp: main_left_def sock_left_def session_left_def server_result_def)
next
  case (Some host)
  show ?thesis
    unfolding Some
    by (rule wp_mono [OF session_client_rule [OF assms(1)]])
      (auto simp: main_left_def sock_left_def session_left_def client_result_def printed_message_def)
qed

lemma hello_main_rule:
  assumes "hello_parse_cmd argv (vars w) = (st, v, name)" "0 \<le> test_string_length (vars w)"
  shows "wp hello_allowed (hello_main L argv) (\<lambda>r w'. main_left v name w w') w"
proof (cases "st = UCS_OK")
  case True
  then have "0 \<le> test_string_length v" using hello_parse_cmd_length assms by blast
  then show ?thesis
    unfolding hello_main_def
    using assms(1) True
    by (auto simp: wp main_left_def cong: string_sent_cong split: if_splits
        intro!: wp_ask wp_mono [OF hello_session_rule] dest!: sock_left_main)
qed (simp add: hello_main_def wp assms(1) main_left_def)

section \<open>A library that succeeds\<close>

text \<open>
  Every call succeeds at once; \<open>m\<close> is the message that arrives, \<open>k\<close> the number of bytes the first \<^verbatim>\<open>recv\<close>
  delivers.
\<close>

definition ok_answer :: answer where
  "ok_answer = \<lparr>a_status = 0, a_handle = 1, a_ptr = PtrNull, a_data = [], a_num = 0, a_events = []\<rparr>"

definition demo_ucx :: "int \<Rightarrow> string \<Rightarrow> unit ucx_lib" where
  "demo_ucx k m c u = (case c of
     SockOpen \<Rightarrow> (ok_answer\<lparr>a_num := 3\<rparr>, u)
   | SockAccept fd \<Rightarrow> (ok_answer\<lparr>a_num := 4\<rparr>, u)
   | SockSend fd d \<Rightarrow> (ok_answer\<lparr>a_num := int (length d)\<rparr>, u)
   | SockRecv fd n \<Rightarrow> (ok_answer\<lparr>a_num := (if n = 8 then k else int n),
       a_data := (if n = 8 then le_bytes 8 4 else fit n ''addr'')\<rparr>, u)
   | SockPoll fd \<Rightarrow> (ok_answer\<lparr>a_num := 1\<rparr>, u)
   | TagProbe wk tag \<Rightarrow> (ok_answer\<lparr>a_ptr := PtrReq 1, a_num := int (length m)\<rparr>, u)
   | TagMsgRecv wk msg n \<Rightarrow> (ok_answer\<lparr>a_data := m\<rparr>, u)
   | WorkerQuery wk \<Rightarrow> (ok_answer\<lparr>a_data := ''addr''\<rparr>, u)
   | _ \<Rightarrow> (ok_answer, u))"

text \<open>Running a program.\<close>

lemma loop_p_eval:
  "body s = r \<Longrightarrow> loop_p body s = (case r of
     None \<Rightarrow> None | Some (Inl e) \<Rightarrow> Some (Inl e)
   | Some (Inr (None, s')) \<Rightarrow> loop_p body s' | Some (Inr (Some a, s')) \<Rightarrow> Some (Inr (a, s')))"
  by (simp add: loop_p.simps)

lemmas run_p = bind_p_def then_p_def result_def fault_p_def get_p_def put_p_def ask_def loop_p_eval
  while_p_def vars_p_def print_p_def malloc_def calloc_def free_p_def load_p_def store_p_def deliver_p_def needs_def
  acquire_def release_def create_p_def query_p_def destroy_p_def request_p_def ucp_worker_progress_def
  mem_type_malloc_def mem_type_free_def mem_type_memcpy_def mem_type_memset_def sock_open_def sock_accept_def
  sock_close_def connect_common_def barrier_def generate_test_string_def ep_close_def ucp_ep_create_def
  ucp_tag_send_nbx_def ucp_tag_msg_recv_nbx_def ucp_tag_probe_nb_def printf_s_def

lemmas run_hello = run_p set_msg_data_len_def ucx_wait_def flush_ep_def ep_close_err_mode_def hello_progress_def
  client_send_address_def client_probe_def client_receive_def run_ucx_client_def server_probe_def
  server_receive_address_def server_send_string_def run_ucx_server_def exchange_client_def exchange_server_def
  hello_session_def hello_main_def

section \<open>Properties\<close>

definition hello_world :: "'u \<Rightarrow> 'u hello" where
  "hello_world u = \<lparr>lib = u, live = {#}, heap = [], cbs = Map.empty, am_workers = {}, calls = [], received = [],
     printed = [], vars = hello_start\<rparr>"

definition hello_options_of :: "string list \<Rightarrow> hello_vars" where
  "hello_options_of argv = fst (snd (hello_parse_cmd argv hello_start))"

definition hello_peer :: "string list \<Rightarrow> string option" where
  "hello_peer argv = snd (snd (hello_parse_cmd argv hello_start))"

lemma hello_run:
  "wp hello_allowed (hello_main L argv) (\<lambda>r w'. main_left (hello_options_of argv) (hello_peer argv) (hello_world u) w')
     (hello_world u)"
  by (rule hello_main_rule [where st = "fst (hello_parse_cmd argv hello_start)"])
    (simp_all add: hello_world_def hello_start_def hello_options_of_def hello_peer_def)


text \<open>C19: The test string arrives: if the message that a client received is one a server sent, both running
  with the same string length \<open>n\<close>, then a client that prints anything prints the \<open>n - 1\<close> letters
  of the test string.\<close>

theorem hello_string_arrives:
  assumes "hello_main Ls argv_s (hello_world us) = Some (Inr (rs, ws))" "hello_peer argv_s = None"
    and "hello_main Lc argv_c (hello_world uc) = Some (Inr (rc, wc))" "hello_peer argv_c \<noteq> None"
    and "received wc = [d]" "TagSend ep d hello_tag \<in> set (calls ws)"
    and "test_string_length (hello_options_of argv_s) = int n" "test_string_length (hello_options_of argv_c) = int n"
    and "0 < n" "n < 2 ^ 31" "printed wc \<noteq> []"
  shows "printed wc = [test_letters 0 (n - 1)]"
proof -
  have "TagSend ep d hello_tag \<in> set (data_calls (calls ws))" using assms(6) by (simp add: data_calls_def)
  then have "d = msg_bytes (test_string n)"
    using wp_returns [OF hello_run assms(1)] assms(2,7,10)
    by (auto simp: main_left_def string_sent_def hello_world_def)
  moreover have "printed wc = [msg_text n d]"
    using wp_returns [OF hello_run assms(3)] assms(4,5,8,11)
    by (auto simp: main_left_def hello_world_def split: if_splits)
  ultimately show ?thesis
    using test_string_text [OF assms(9)] by (simp add: msg_text_def msg_bytes_def)
qed

lemma demo_options:
  "hello_parse_cmd [''hello'', ''-s'', ''4''] hello_start = (UCS_OK, hello_start\<lparr>test_string_length := 4\<rparr>, None)"
  "hello_parse_cmd [''hello'', ''-n'', ''host'', ''-s'', ''4''] hello_start =
     (UCS_OK, hello_start\<lparr>test_string_length := 4\<rparr>, Some ''host'')"
  by code_simp+

lemma hello_start_sels:
  "failure_mode hello_start = FAILURE_MODE_NONE" "test_mem_type hello_start = UCS_MEMORY_TYPE_HOST"
  "ucp_test_mode hello_start = TEST_MODE_PROBE" "completed hello_start = {}" "ep_status hello_start = UCS_OK"
  "err_mode_peer hello_start = False" "test_string_length hello_start = 16"
  by (simp_all add: hello_start_def)

lemmas run_demo = run_hello demo_options demo_ucx_def ok_answer_def hello_world_def hello_start_sels UCS_OK_def
  Let_def hello_features_def int_of_size_small from_le_bytes from_le_msg_bytes size_of_int_def

lemma demo_server:
  "\<exists>w. hello_main (demo_ucx 8 (msg_bytes ''addr'')) [''hello'', ''-s'', ''4''] (hello_world ()) = Some (Inr (0, w)) \<and>
     TagSend 1 (msg_bytes (test_string 4)) hello_tag \<in> set (calls w)"
  by (simp add: run_demo test_string_def msg_bytes_def [of "_ @ _"])

lemma demo_client:
  "\<exists>w. hello_main (demo_ucx 8 (msg_bytes (test_string 4))) [''hello'', ''-n'', ''host'', ''-s'', ''4''] (hello_world ()) =
       Some (Inr (0, w)) \<and>
     received w = [msg_bytes (test_string 4)] \<and> printed w \<noteq> []"
  by (simp add: run_demo test_string_NUL)

theorem hello_string_arrives_witness:
  "\<exists>w. hello_main (demo_ucx 8 (msg_bytes (test_string 4))) [''hello'', ''-n'', ''host'', ''-s'', ''4''] (hello_world ()) =
     Some (Inr (0, w)) \<and> printed w = [''ABC'']"
proof -
  obtain ws where s: "hello_main (demo_ucx 8 (msg_bytes ''addr'')) [''hello'', ''-s'', ''4''] (hello_world ()) =
      Some (Inr (0, ws))" "TagSend 1 (msg_bytes (test_string 4)) hello_tag \<in> set (calls ws)"
    using demo_server by blast
  obtain wc where c: "hello_main (demo_ucx 8 (msg_bytes (test_string 4)))
      [''hello'', ''-n'', ''host'', ''-s'', ''4''] (hello_world ()) = Some (Inr (0, wc))"
    "received wc = [msg_bytes (test_string 4)]" "printed wc \<noteq> []"
    using demo_client by blast
  have "printed wc = [test_letters 0 (4 - 1)]"
    by (rule hello_string_arrives [OF s(1) _ c(1) _ c(2) s(2)])
      (simp_all add: hello_peer_def hello_options_of_def demo_options c(3))
  moreover have "test_letters 0 (4 - 1) = ''ABC''" by code_simp
  ultimately show ?thesis using c(1) by auto
qed

text \<open>C34: The server trusts the length in the client's message: it reads past the end of the message exactly when
  that length is more than the bytes that follow it.  (The length is one the allocator accepts.)\<close>

theorem server_reads_past_message:
  assumes "length m < 2 ^ 63" "from_le (take 8 m) < 2 ^ 63"
  shows "hello_main (demo_ucx 8 m) [''hello'', ''-s'', ''4''] (hello_world ()) =
      Some (Inl (Undefined ''read past the end'')) \<longleftrightarrow> length m < 8 + from_le (take 8 m)"
  using assms by (simp add: run_demo)

theorem server_reads_past_message_witness:
  "hello_main (demo_ucx 8 (le_bytes 8 100 @ ''ab'')) [''hello'', ''-s'', ''4''] (hello_world ()) =
     Some (Inl (Undefined ''read past the end''))"
  by (subst server_reads_past_message) (simp_all add: from_le_bytes)

text \<open>A client whose TCP connection ends before the server's address has arrived returns the number of
  bytes \<^verbatim>\<open>recv\<close> gave: the exit status is 0, success, when the server closed the connection.  The socket
  stays open.\<close>

theorem lost_handshake_exits_zero:
  assumes "k \<noteq> 8"
  shows "\<exists>w. hello_main (demo_ucx k m) [''hello'', ''-n'', ''host'', ''-s'', ''4''] (hello_world ()) = Some (Inr (k, w)) \<and>
    live w = {#RSock 3#} \<and> printed w = []"
  using assms by (simp add: run_demo)

theorem lost_handshake_exits_zero_witness:
  "\<exists>w. hello_main (demo_ucx 0 []) [''hello'', ''-n'', ''host'', ''-s'', ''4''] (hello_world ()) = Some (Inr (0, w)) \<and>
     live w = {#RSock 3#}"
  using lost_handshake_exits_zero [of 0 "[]"] by auto

end
