(* ===== verification/Ucx_Client_Server.thy ===== *)
theory Ucx_Client_Server
  imports Ucx_Util Getopt
begin

text \<open>
  \<^verbatim>\<open>src/rdma_exp/ucp_example_server.c\<close>: a client that sends test messages over the stream, tag or active
  message interface of UCX and waits for one in return, and a server that serves one client after another.
\<close>

section \<open>The variables\<close>

datatype send_recv_type_t =
  CLIENT_SERVER_SEND_RECV_STREAM | CLIENT_SERVER_SEND_RECV_TAG | CLIENT_SERVER_SEND_RECV_AM

text \<open>
  The stack frame of a \<^verbatim>\<open>send_recv\<close> function, of which at most one runs at a time: the array \<^verbatim>\<open>iov\<close> (buffers with
  their lengths) and the flag of \<^verbatim>\<open>ctx\<close>.  Pointers into a frame are its number; one to a frame that has
  been left dangles.
\<close>

record cs_frame =
  f_id :: nat
  f_iov :: "(ptr \<times> nat) list"
  f_complete :: bool

text \<open>
  The \<open>am_\<close> fields are \<^verbatim>\<open>am_data_desc\<close> (a descriptor is what it describes) and \<^verbatim>\<open>last\<close> of \<^verbatim>\<open>send_recv_am\<close>;
  the \<open>ctx_\<close> fields are \<^verbatim>\<open>context\<close> of \<^verbatim>\<open>run_server\<close>.
\<close>

record cs_vars =
  cs_string_length :: int
  iov_cnt :: int
  cs_server_port :: "16 word"
  cs_ipv6 :: bool
  num_iterations :: int
  connection_closed :: bool
  cs_mem_type :: ucs_memory_type
  am_complete :: "32 word"
  am_is_rndv :: bool
  am_desc :: string
  am_recv_buf :: "nat option"
  am_last :: "32 word"
  ctx_conn :: "nat option"
  ctx_listener :: nat
  frame :: "cs_frame option"
  next_frame :: nat

definition cs_start :: cs_vars where
  "cs_start = \<lparr>cs_string_length = 16, iov_cnt = 1, cs_server_port = 13337, cs_ipv6 = False, num_iterations = 1,
     connection_closed = True, cs_mem_type = UCS_MEMORY_TYPE_HOST, am_complete = 0, am_is_rndv = False,
     am_desc = [], am_recv_buf = None, am_last = 0, ctx_conn = None, ctx_listener = 0, frame = None,
     next_frame = 0\<rparr>"

text \<open>The callbacks of requests, with their \<^verbatim>\<open>user_data\<close>.\<close>

datatype cs_cb =
    Tag_Recv_Cb "nat option" | Stream_Recv_Cb "nat option" | Am_Recv_Cb "nat option" | Send_Cb "nat option"

type_synonym 'u cs = "('u, cs_cb, cs_vars) world"

section \<open>Frames\<close>

definition frame_at :: "nat \<Rightarrow> cs_vars \<Rightarrow> cs_frame option" where
  "frame_at iov v = (case frame v of
     Some fr \<Rightarrow> if f_id fr = iov then Some fr else None
   | None \<Rightarrow> None)"

definition iov_get :: "nat \<Rightarrow> nat \<Rightarrow> ('u cs, ptr \<times> nat) prog" where
  "iov_get iov idx = bind_p (get_p (\<lambda>w. frame_at iov (vars w))) (\<lambda>x. case x of
     None \<Rightarrow> fault_p (Undefined ''dangling pointer'')
   | Some fr \<Rightarrow> if idx < length (f_iov fr) then result (f_iov fr ! idx)
                else fault_p (Undefined ''read past the end''))"

definition iov_set :: "nat \<Rightarrow> nat \<Rightarrow> ptr \<times> nat \<Rightarrow> ('u cs, unit) prog" where
  "iov_set iov idx b = bind_p (get_p (\<lambda>w. frame_at iov (vars w))) (\<lambda>x. case x of
     None \<Rightarrow> fault_p (Undefined ''dangling pointer'')
   | Some fr \<Rightarrow> if idx < length (f_iov fr)
                then vars_p (\<lambda>v. v\<lparr>frame := Some (fr\<lparr>f_iov := (f_iov fr)[idx := b]\<rparr>)\<rparr>)
                else fault_p (Undefined ''write past the end''))"

definition set_complete :: "nat \<Rightarrow> bool \<Rightarrow> ('u cs, unit) prog" where
  "set_complete ctx c = bind_p (get_p (\<lambda>w. frame_at ctx (vars w))) (\<lambda>x. case x of
     None \<Rightarrow> fault_p (Undefined ''dangling pointer'')
   | Some fr \<Rightarrow> vars_p (\<lambda>v. v\<lparr>frame := Some (fr\<lparr>f_complete := c\<rparr>)\<rparr>))"

text \<open>\<^verbatim>\<open>alloca\<close>: a stack that overflows kills the process.\<close>

definition alloca :: "'u ucx_lib \<Rightarrow> nat \<Rightarrow> ('u cs, unit) prog" where
  "alloca L n = bind_p (ask L (Alloca n)) (\<lambda>a. if a_status a \<noteq> 0 then fault_p Killed else result ())"

text \<open>The array of \<^verbatim>\<open>iov_cnt\<close> entries of 16 bytes, set to zero; the size is computed modulo \<open>2 ^ 64\<close>.\<close>

definition frame_enter :: "'u ucx_lib \<Rightarrow> ('u cs, nat) prog" where
  "frame_enter L = bind_p (get_p vars) (\<lambda>v.
     let size = (nat (iov_cnt v) * 16) mod 2 ^ 64; f = next_frame v in
     then_p (alloca L size)
       (then_p (vars_p (\<lambda>v. v\<lparr>frame := Some \<lparr>f_id = f, f_iov = replicate (size div 16) (None, 0),
            f_complete = False\<rparr>, next_frame := Suc f\<rparr>))
         (result f)))"

definition frame_leave :: "int \<Rightarrow> ('u cs, int) prog" where
  "frame_leave ret = then_p (vars_p (\<lambda>v. v\<lparr>frame := None\<rparr>)) (result ret)"

section \<open>Buffers\<close>

definition buffer_free :: "nat \<Rightarrow> ('u cs, unit) prog" where
  "buffer_free iov = bind_p (get_p vars) (\<lambda>v.
     then_p (for_p 0 (nat (iov_cnt v)) (\<lambda>idx. bind_p (iov_get iov idx) (\<lambda>(buf, len).
       then_p (mem_type_free (cs_mem_type v) buf) (result (None :: unit option)))))
     (result ()))"

definition buffer_malloc :: "'u ucx_lib \<Rightarrow> nat \<Rightarrow> ('u cs, int) prog" where
  "buffer_malloc L iov = bind_p (get_p vars) (\<lambda>v.
     let len = nat (cs_string_length v) in
     bind_p (for_p 0 (nat (iov_cnt v)) (\<lambda>idx.
       bind_p (mem_type_malloc L (cs_mem_type v) len) (\<lambda>buf.
       then_p (iov_set iov idx (buf, len))
         (if buf = None then then_p (buffer_free iov) (result (Some (-1))) else result None))))
     (\<lambda>r. result (case r of Some ret \<Rightarrow> ret | None \<Rightarrow> 0)))"

definition fill_buffer :: "'u ucx_lib \<Rightarrow> nat \<Rightarrow> ('u cs, int) prog" where
  "fill_buffer L iov = bind_p (get_p vars) (\<lambda>v.
     bind_p (for_p 0 (nat (iov_cnt v)) (\<lambda>idx. bind_p (iov_get iov idx) (\<lambda>(buf, len).
       bind_p (generate_test_string L (cs_mem_type v) buf 0 (int_of_size len)) (\<lambda>ret.
         result (if ret \<noteq> 0 then Some ret else None)))))
     (\<lambda>r. result (if r \<noteq> None then -1 else 0)))"

text \<open>What UCX reads from the buffers of a message, and how it spreads data over them.\<close>

fun iov_gather :: "nat \<Rightarrow> nat \<Rightarrow> nat \<Rightarrow> ('u cs, string) prog" where
  "iov_gather iov idx 0 = result []"
| "iov_gather iov idx (Suc n) = bind_p (iov_get iov idx) (\<lambda>(buf, len).
     bind_p (load_p buf 0 len) (\<lambda>d.
     bind_p (iov_gather iov (Suc idx) n) (\<lambda>ds. result (d @ ds))))"

fun iov_scatter :: "nat \<Rightarrow> string \<Rightarrow> nat \<Rightarrow> nat \<Rightarrow> ('u cs, unit) prog" where
  "iov_scatter iov d idx 0 = result ()"
| "iov_scatter iov d idx (Suc n) = bind_p (iov_get iov idx) (\<lambda>(buf, len).
     then_p (store_p buf 0 (take len d)) (iov_scatter iov (drop len d) (Suc idx) n))"

definition iov_deliver :: "nat \<Rightarrow> string \<Rightarrow> ('u cs, unit) prog" where
  "iov_deliver iov d = bind_p (get_p (\<lambda>w. nat (iov_cnt (vars w)))) (\<lambda>n.
     then_p (iov_scatter iov d 0 n) (put_p (\<lambda>w. w\<lparr>received := received w @ [d]\<rparr>)))"

section \<open>Callbacks\<close>

definition common_cb :: "nat option \<Rightarrow> ('u cs, unit) prog" where
  "common_cb user_data = (case user_data of
     None \<Rightarrow> result ()
   | Some ctx \<Rightarrow> set_complete ctx True)"

text \<open>The copy of an eager message, which lies in memory of UCX.\<close>

fun am_copy :: "ucs_memory_type \<Rightarrow> nat \<Rightarrow> string \<Rightarrow> nat \<Rightarrow> nat \<Rightarrow> nat \<Rightarrow> ('u cs, unit) prog" where
  "am_copy mt iov d offset idx 0 = result ()"
| "am_copy mt iov d offset idx (Suc n) = bind_p (iov_get iov idx) (\<lambda>(buf, len).
     if offset + len \<le> length d
     then then_p (mem_type_write mt buf (take len (drop offset d))) (am_copy mt iov d (offset + len) (Suc idx) n)
     else fault_p (Undefined ''read past the end''))"

definition ucp_am_data_cb :: "nat \<Rightarrow> nat \<Rightarrow> string \<Rightarrow> bool \<Rightarrow> ('u cs, unit) prog" where
  \<comment> \<open>under rendezvous UCX keeps the descriptor for \<^verbatim>\<open>ucp_am_recv_data_nbx\<close>; the messages on \<^verbatim>\<open>stderr\<close> are left out\<close>
  "ucp_am_data_cb header_length n data rndv = bind_p (get_p vars) (\<lambda>v.
     if 2 ^ 63 \<le> iov_cnt v * cs_string_length v then fault_p (Undefined ''signed overflow'')
     else if int n \<noteq> iov_cnt v * cs_string_length v then result ()
     else then_p (vars_p (\<lambda>v. v\<lparr>am_complete := am_complete v + 1\<rparr>))
       (if rndv then vars_p (\<lambda>v. v\<lparr>am_is_rndv := True, am_desc := data\<rparr>)
        else then_p (vars_p (\<lambda>v. v\<lparr>am_is_rndv := False\<rparr>))
          (case am_recv_buf v of
             None \<Rightarrow> fault_p (Undefined ''null pointer'')
           | Some iov \<Rightarrow> then_p (am_copy (cs_mem_type v) iov data 0 0 (nat (iov_cnt v)))
               (put_p (\<lambda>w. w\<lparr>received := received w @ [data]\<rparr>)))))"

definition server_conn_handle_cb :: "'u ucx_lib \<Rightarrow> nat \<Rightarrow> ('u cs, unit) prog" where
  \<comment> \<open>the answer to the query holds the client's address and port\<close>
  "server_conn_handle_cb L conn_request = bind_p (ask L (ConnRequestQuery conn_request)) (\<lambda>a.
     then_p (if a_status a = UCS_OK
             then print_p (''Server received a connection request from client at address '' @ a_data a @ '':'' @
               show_int (a_num a))
             else result ())
     (bind_p (get_p vars) (\<lambda>v.
        if ctx_conn v = None then vars_p (\<lambda>v. v\<lparr>ctx_conn := Some conn_request\<rparr>)
        else then_p (print_p ''Rejecting a connection request. Only one client at a time is supported.'')
          (bind_p (ask L (ListenerReject (ctx_listener v) conn_request)) (\<lambda>a. result ())))))"

definition err_cb :: "int \<Rightarrow> ('u cs, unit) prog" where
  "err_cb status = then_p (print_p (''error handling callback was invoked with status '' @ show_int status))
     (vars_p (\<lambda>v. v\<lparr>connection_closed := True\<rparr>))"

fun cs_handler :: "'u ucx_lib \<Rightarrow> cs_cb cb_event \<Rightarrow> ('u cs, unit) prog" where
  "cs_handler L (OnComplete (Tag_Recv_Cb user_data) request status) = common_cb user_data"
| "cs_handler L (OnComplete (Stream_Recv_Cb user_data) request status) = common_cb user_data"
| "cs_handler L (OnComplete (Am_Recv_Cb user_data) request status) = common_cb user_data"
| "cs_handler L (OnComplete (Send_Cb user_data) request status) = common_cb user_data"
| "cs_handler L (OnEpFailed ep status) = err_cb status"
| "cs_handler L (OnConnRequest l c) = server_conn_handle_cb L c"
| "cs_handler L (OnAm hl n d rndv) = ucp_am_data_cb hl n d rndv"

definition cs_progress :: "'u ucx_lib \<Rightarrow> nat \<Rightarrow> ('u cs, unit) prog" where
  "cs_progress L wk = then_p (ucp_worker_progress L (cs_handler L) wk) (result ())"

section \<open>Connecting\<close>

definition set_sock_addr :: "'u ucx_lib \<Rightarrow> string option \<Rightarrow> ('u cs, sockaddr) prog" where
  \<comment> \<open>an address \<^verbatim>\<open>inet_pton\<close> does not accept leaves the zero of \<^verbatim>\<open>memset\<close>, the wildcard\<close>
  "set_sock_addr L address_str = bind_p (get_p vars) (\<lambda>v. case address_str of
     None \<Rightarrow> result (Sockaddr (cs_ipv6 v) None (cs_server_port v))
   | Some s \<Rightarrow> bind_p (ask L (InetPton (cs_ipv6 v) s)) (\<lambda>a.
       result (Sockaddr (cs_ipv6 v) (if a_num a = 1 then Some s else None) (cs_server_port v))))"

definition start_client :: "'u ucx_lib \<Rightarrow> nat \<Rightarrow> string \<Rightarrow> ('u cs, int \<times> nat) prog" where
  "start_client L ucp_worker address_str =
     bind_p (set_sock_addr L (Some address_str)) (\<lambda>connect_addr. ucp_ep_create L ucp_worker (ToSockaddr connect_addr))"

definition server_create_ep :: "'u ucx_lib \<Rightarrow> nat \<Rightarrow> nat \<Rightarrow> ('u cs, int \<times> nat) prog" where
  "server_create_ep L data_worker conn_request = ucp_ep_create L data_worker (ToConnRequest conn_request)"

definition start_server :: "'u ucx_lib \<Rightarrow> nat \<Rightarrow> string option \<Rightarrow> ('u cs, int \<times> nat) prog" where
  "start_server L ucp_worker address_str =
     bind_p (set_sock_addr L address_str) (\<lambda>listen_addr.
     bind_p (then_p (needs (RWorker ucp_worker)) (create_p L (ListenerCreate ucp_worker listen_addr) RListener)) (\<lambda>(status, listener).
     if status \<noteq> UCS_OK then result (status, 0)
     else then_p (vars_p (\<lambda>v. v\<lparr>ctx_listener := listener\<rparr>))
       (bind_p (query_p L (ListenerQuery listener) (RListener listener)) (\<lambda>a.
         if a_status a \<noteq> UCS_OK then then_p (destroy_p L (ListenerDestroy listener) (RListener listener)) (result (a_status a, 0))
         else then_p (print_p ''Waiting for connection...'') (result (UCS_OK, listener))))))"

section \<open>One message\<close>

definition print_iov :: "'u ucx_lib \<Rightarrow> nat \<Rightarrow> ('u cs, unit) prog" where
  \<comment> \<open>\<^verbatim>\<open>mem_type_memcpy\<close> copies to the stack; each text is printed with a full stop\<close>
  "print_iov L iov = bind_p (get_p vars) (\<lambda>v.
     let n = nat (cs_string_length v) in
     then_p (alloca L n)
     (then_p (for_p 0 (nat (iov_cnt v)) (\<lambda>idx. bind_p (iov_get iov idx) (\<lambda>(buf, len).
        bind_p (mem_type_read (cs_mem_type v) (replicate n NUL) buf n) (\<lambda>msg.
        then_p (printf_s msg) (result (None :: unit option))))))
     (result ())))"

text \<open>Addition of \<^verbatim>\<open>int\<close>s.\<close>

definition add_int :: "int \<Rightarrow> int \<Rightarrow> ('u cs, int) prog" where
  "add_int a b = (if - (2 ^ 31) \<le> a + b \<and> a + b < 2 ^ 31 then result (a + b)
     else fault_p (Undefined ''signed overflow''))"

definition print_result :: "'u ucx_lib \<Rightarrow> bool \<Rightarrow> nat \<Rightarrow> int \<Rightarrow> ('u cs, unit) prog" where
  "print_result L is_server iov current_iter = bind_p (add_int current_iter 1) (\<lambda>n.
     then_p (if is_server
       then then_p (print_p (''Server: iteration #'' @ show_int n))
         (then_p (print_p ''UCX data message was received'') (print_p ''----- UCP TEST SUCCESS -------''))
       else then_p (print_p (''Client: iteration #'' @ show_int n)) (print_p ''------------------------------''))
     (then_p (print_iov L iov) (print_p ''------------------------------'')))"

definition req_complete :: "nat \<Rightarrow> 'u cs \<Rightarrow> bool" where
  "req_complete ctx w = (case frame_at ctx (vars w) of Some fr \<Rightarrow> f_complete fr | None \<Rightarrow> False)"

definition request_wait :: "'u ucx_lib \<Rightarrow> nat \<Rightarrow> ucs_ptr \<Rightarrow> nat \<Rightarrow> ('u cs, int) prog" where
  "request_wait L ucp_worker request ctx = (case request of
     PtrNull \<Rightarrow> result UCS_OK
   | PtrErr e \<Rightarrow> result (ucs_err e)
   | PtrReq q \<Rightarrow> then_p (while_p (\<lambda>w. \<not> req_complete ctx w) (cs_progress L ucp_worker))
       (bind_p (ucp_request_check_status L q) (\<lambda>status.
        then_p (ucp_request_free L q) (result status))))"

definition request_finalize ::
    "'u ucx_lib \<Rightarrow> nat \<Rightarrow> ucs_ptr \<Rightarrow> bool \<Rightarrow> nat \<Rightarrow> int \<Rightarrow> ('u cs, int) prog" where
  \<comment> \<open>\<open>iov\<close> is the frame, with \<^verbatim>\<open>ctx\<close> and the buffers\<close>
  "request_finalize L ucp_worker request is_server iov current_iter =
     bind_p (request_wait L ucp_worker request iov) (\<lambda>status.
     if status \<noteq> UCS_OK then then_p (buffer_free iov) (result (-1))
     else bind_p (get_p (\<lambda>w. num_iterations (vars w))) (\<lambda>n.
       bind_p (if current_iter = 0 then result True
               else bind_p (add_int n (-1)) (\<lambda>last_iter.
                 if current_iter = last_iter then result True
                 else bind_p (add_int current_iter 1) (\<lambda>k. result (k mod 2000 = 0)))) (\<lambda>print.
       then_p (if print then print_result L is_server iov current_iter else result ())
         (then_p (buffer_free iov) (result 0)))))"

definition fill_request_param :: "'u ucx_lib \<Rightarrow> nat \<Rightarrow> bool \<Rightarrow> ('u cs, int) prog" where
  "fill_request_param L iov is_client = bind_p (buffer_malloc L iov) (\<lambda>ret.
     if ret \<noteq> 0 then result (-1)
     else bind_p (if is_client then fill_buffer L iov else result 0) (\<lambda>ret.
       if ret \<noteq> 0 then then_p (buffer_free iov) (result (-1))
       else then_p (set_complete iov False) (result 0)))"

text \<open>Sending the buffers and receiving into them; what a receive delivers is at most as long as they are.\<close>

definition iov_send :: "'u ucx_lib \<Rightarrow> (string \<Rightarrow> ucx_call) \<Rightarrow> nat \<Rightarrow> nat \<Rightarrow> ('u cs, ucs_ptr) prog" where
  "iov_send L send ep iov = bind_p (get_p (\<lambda>w. nat (iov_cnt (vars w)))) (\<lambda>n.
     bind_p (iov_gather iov 0 n) (\<lambda>d.
     bind_p (request_p L (send d) (REp ep) (Some (Send_Cb (Some iov)))) (\<lambda>a. result (a_ptr a))))"

definition iov_recv :: "'u ucx_lib \<Rightarrow> ucx_call \<Rightarrow> resource \<Rightarrow> cs_cb \<Rightarrow> nat \<Rightarrow> ('u cs, ucs_ptr) prog" where
  "iov_recv L recv r cb iov = bind_p (request_p L recv r (Some cb)) (\<lambda>a.
     bind_p (get_p (\<lambda>w. nat (iov_cnt (vars w) * cs_string_length (vars w)))) (\<lambda>n.
     then_p (case a_ptr a of PtrErr e \<Rightarrow> result () | _ \<Rightarrow> iov_deliver iov (take n (a_data a)))
       (result (a_ptr a))))"

section \<open>The three interfaces\<close>

definition msg_length :: "cs_vars \<Rightarrow> nat" where
  \<comment> \<open>as \<^verbatim>\<open>fill_request_param\<close> sets it\<close>
  "msg_length v = (if iov_cnt v = 1 then nat (cs_string_length v) else nat (iov_cnt v))"

text \<open>\<open>op\<close> starts the transfer.\<close>

definition send_recv_with ::
    "'u ucx_lib \<Rightarrow> nat \<Rightarrow> bool \<Rightarrow> int \<Rightarrow> (nat \<Rightarrow> ('u cs, ucs_ptr) prog) \<Rightarrow> ('u cs, int) prog" where
  "send_recv_with L ucp_worker is_server current_iter op = bind_p (frame_enter L) (\<lambda>iov.
     bind_p (fill_request_param L iov (\<not> is_server)) (\<lambda>ret.
     bind_p (if ret \<noteq> 0 then result (-1)
             else bind_p (op iov) (\<lambda>request. request_finalize L ucp_worker request is_server iov current_iter))
       frame_leave))"

definition send_recv_stream :: "'u ucx_lib \<Rightarrow> nat \<Rightarrow> nat \<Rightarrow> bool \<Rightarrow> int \<Rightarrow> ('u cs, int) prog" where
  "send_recv_stream L ucp_worker ep is_server current_iter =
     send_recv_with L ucp_worker is_server current_iter (\<lambda>iov.
       if \<not> is_server then iov_send L (StreamSend ep) ep iov
       else bind_p (get_p (\<lambda>w. msg_length (vars w))) (\<lambda>n.
         iov_recv L (StreamRecv ep n) (REp ep) (Stream_Recv_Cb (Some iov)) iov))"

definition TAG :: nat where "TAG = 0xCAFE"

definition send_recv_tag :: "'u ucx_lib \<Rightarrow> nat \<Rightarrow> nat \<Rightarrow> bool \<Rightarrow> int \<Rightarrow> ('u cs, int) prog" where
  "send_recv_tag L ucp_worker ep is_server current_iter =
     send_recv_with L ucp_worker is_server current_iter (\<lambda>iov.
       if \<not> is_server then iov_send L (\<lambda>d. TagSend ep d TAG) ep iov
       else bind_p (get_p (\<lambda>w. msg_length (vars w))) (\<lambda>n.
         iov_recv L (TagRecv ucp_worker TAG n) (RWorker ucp_worker) (Tag_Recv_Cb (Some iov)) iov))"

text \<open>The server does not ask for an active message, it waits until the callback has counted one.\<close>

definition am_wait :: "'u ucx_lib \<Rightarrow> nat \<Rightarrow> nat \<Rightarrow> ('u cs, ucs_ptr) prog" where
  "am_wait L ucp_worker iov =
     then_p (vars_p (\<lambda>v. v\<lparr>am_recv_buf := Some iov\<rparr>))
     (then_p (while_p (\<lambda>w. am_last (vars w) = am_complete (vars w)) (cs_progress L ucp_worker))
     (then_p (vars_p (\<lambda>v. v\<lparr>am_last := am_last v + 1\<rparr>))
     (bind_p (get_p vars) (\<lambda>v.
        if am_is_rndv v
        then iov_recv L (AmRecvData ucp_worker (am_desc v) (msg_length v)) (RWorker ucp_worker) (Am_Recv_Cb (Some iov)) iov
        else result PtrNull))))"

definition send_recv_am :: "'u ucx_lib \<Rightarrow> nat \<Rightarrow> nat \<Rightarrow> bool \<Rightarrow> int \<Rightarrow> ('u cs, int) prog" where
  "send_recv_am L ucp_worker ep is_server current_iter =
     send_recv_with L ucp_worker is_server current_iter (\<lambda>iov.
       if is_server then am_wait L ucp_worker iov
       else iov_send L (AmSend ep 0) ep iov)"

definition client_server_communication ::
    "'u ucx_lib \<Rightarrow> nat \<Rightarrow> nat \<Rightarrow> send_recv_type_t \<Rightarrow> bool \<Rightarrow> int \<Rightarrow> ('u cs, int) prog" where
  "client_server_communication L worker ep send_recv_type is_server current_iter = (case send_recv_type of
     CLIENT_SERVER_SEND_RECV_STREAM \<Rightarrow> send_recv_stream L worker ep is_server current_iter
   | CLIENT_SERVER_SEND_RECV_TAG \<Rightarrow> send_recv_tag L worker ep is_server current_iter
   | CLIENT_SERVER_SEND_RECV_AM \<Rightarrow> send_recv_am L worker ep is_server current_iter)"

section \<open>Options\<close>

definition to_lower :: "char \<Rightarrow> char" where
  "to_lower c = (if 65 \<le> (of_char c :: nat) \<and> (of_char c :: nat) \<le> 90 then char_of ((of_char c :: nat) + 32) else c)"

definition strcasecmp_eq :: "string \<Rightarrow> string \<Rightarrow> bool" where
  "strcasecmp_eq a b \<longleftrightarrow> map to_lower a = map to_lower b"

record cs_cmd =
  cmd_server :: "string option"
  cmd_listen :: "string option"
  cmd_mode :: send_recv_type_t

definition parse_comm_type :: "string \<Rightarrow> send_recv_type_t" where
  "parse_comm_type optarg =
     (if strcasecmp_eq optarg ''stream'' then CLIENT_SERVER_SEND_RECV_STREAM
      else if strcasecmp_eq optarg ''tag'' then CLIENT_SERVER_SEND_RECV_TAG
      else if strcasecmp_eq optarg ''am'' then CLIENT_SERVER_SEND_RECV_AM
      else CLIENT_SERVER_SEND_RECV_STREAM)"

text \<open>One turn of the loop over the options: a value other than 0 is what \<^verbatim>\<open>parse_cmd\<close> returns.\<close>

definition cs_option :: "char \<Rightarrow> string \<Rightarrow> cs_vars \<times> cs_cmd \<Rightarrow> int \<times> cs_vars \<times> cs_cmd" where
  "cs_option c optarg s = (case s of (v, cmd) \<Rightarrow>
     if c = CHR ''a'' then (0, v, cmd\<lparr>cmd_server := Some optarg\<rparr>)
     else if c = CHR ''c'' then (0, v, cmd\<lparr>cmd_mode := parse_comm_type optarg\<rparr>)
     else if c = CHR ''l'' then (0, v, cmd\<lparr>cmd_listen := Some optarg\<rparr>)
     else if c = CHR ''p'' then
       (let port = c_atoi optarg in
        if port < 0 \<or> 65535 < port then (-1, v, cmd) else (0, v\<lparr>cs_server_port := word_of_int port\<rparr>, cmd))
     else if c = CHR ''6'' then (0, v\<lparr>cs_ipv6 := True\<rparr>, cmd)
     else if c = CHR ''i'' then (0, v\<lparr>num_iterations := c_atoi optarg\<rparr>, cmd)
     else if c = CHR ''s'' then
       (let v = v\<lparr>cs_string_length := c_atol optarg\<rparr> in
        (if cs_string_length v < 0 then UCS_ERR_UNSUPPORTED else 0, v, cmd))
     else if c = CHR ''v'' then
       (let v = v\<lparr>iov_cnt := c_atol optarg\<rparr> in
        (if iov_cnt v \<le> 0 then UCS_ERR_UNSUPPORTED else 0, v, cmd))
     else if c = CHR ''m'' then
       (let v = v\<lparr>cs_mem_type := parse_mem_type optarg\<rparr> in
        (if cs_mem_type v = UCS_MEMORY_TYPE_LAST then UCS_ERR_UNSUPPORTED else 0, v, cmd))
     else (-1, v, cmd))"

fun cs_options :: "opt_result list \<Rightarrow> cs_vars \<times> cs_cmd \<Rightarrow> int \<times> cs_vars \<times> cs_cmd" where
  "cs_options [] s = (0, s)"
| "cs_options ((c, optarg) # rs) s = (case cs_option c optarg s of (ret, s) \<Rightarrow>
     if ret \<noteq> 0 then (ret, s) else cs_options rs s)"

definition cs_parse_cmd :: "string list \<Rightarrow> cs_vars \<Rightarrow> int \<times> cs_vars \<times> cs_cmd" where
  "cs_parse_cmd argv v = cs_options (getopt ''a:l:p:c:6i:s:v:m:h'' (tl argv))
     (v, \<lparr>cmd_server = None, cmd_listen = None, cmd_mode = CLIENT_SERVER_SEND_RECV_STREAM\<rparr>)"

section \<open>Client and server\<close>

definition init_worker :: "'u ucx_lib \<Rightarrow> nat \<Rightarrow> ('u cs, int \<times> nat) prog" where
  "init_worker L ucp_context =
     bind_p (then_p (needs (RContext ucp_context)) (create_p L (WorkerCreate ucp_context) RWorker)) (\<lambda>(status, wk).
       result (if status \<noteq> UCS_OK then -1 else 0, wk))"

definition register_am_recv_callback :: "'u ucx_lib \<Rightarrow> nat \<Rightarrow> ('u cs, int) prog" where
  "register_am_recv_callback L worker = bind_p (query_p L (SetAmHandler worker) (RWorker worker)) (\<lambda>a.
     then_p (if a_status a = UCS_OK then put_p (\<lambda>w. w\<lparr>am_workers := insert worker (am_workers w)\<rparr>) else result ())
       (result (a_status a)))"

definition client_server_do_work ::
    "'u ucx_lib \<Rightarrow> nat \<Rightarrow> nat \<Rightarrow> send_recv_type_t \<Rightarrow> bool \<Rightarrow> ('u cs, int) prog" where
  "client_server_do_work L ucp_worker ep mode is_server =
     then_p (vars_p (\<lambda>v. v\<lparr>connection_closed := False\<rparr>))
     (bind_p (get_p (\<lambda>w. nat (num_iterations (vars w)))) (\<lambda>n.
      bind_p (for_p 0 n (\<lambda>i.
        bind_p (client_server_communication L ucp_worker ep mode is_server (int i)) (\<lambda>ret.
          result (if ret \<noteq> 0 then Some ret else None)))) (\<lambda>failed. case failed of
        Some ret \<Rightarrow> result ret
      | None \<Rightarrow>
          bind_p (if \<not> is_server \<and> mode = CLIENT_SERVER_SEND_RECV_AM
                  then register_am_recv_callback L ucp_worker else result UCS_OK) (\<lambda>status.
          if status \<noteq> UCS_OK then result (-1)
          else bind_p (add_int (int n) 1) (\<lambda>k.
            bind_p (client_server_communication L ucp_worker ep mode (\<not> is_server) k) (\<lambda>ret.
            if ret \<noteq> 0 then result ret
            else then_p (print_p (if is_server then ''sent FIN message'' else ''received FIN message''))
              (then_p (while_p (\<lambda>w. is_server \<and> \<not> connection_closed (vars w)) (cs_progress L ucp_worker))
                (result 0))))))))"

text \<open>One turn of the server's loop: \<^verbatim>\<open>None\<close>, or the result and, unless it failed, the end of the loop.\<close>

definition serve_client ::
    "'u ucx_lib \<Rightarrow> nat \<Rightarrow> nat \<Rightarrow> send_recv_type_t \<Rightarrow> ('u cs, int option) prog" where
  "serve_client L ucp_worker data_worker mode =
     then_p (while_p (\<lambda>w. ctx_conn (vars w) = None) (cs_progress L ucp_worker))
     (bind_p (get_p (\<lambda>w. ctx_conn (vars w))) (\<lambda>conn.
      bind_p (server_create_ep L data_worker (the conn)) (\<lambda>(status, server_ep).
      if status \<noteq> UCS_OK then result (Some (-1))
      else bind_p (client_server_do_work L data_worker server_ep mode True) (\<lambda>ret.
        then_p (ep_close L (cs_handler L) data_worker server_ep True)
          (if ret \<noteq> 0 then result (Some ret)
           else then_p (vars_p (\<lambda>v. v\<lparr>ctx_conn := None\<rparr>))
             (then_p (print_p ''Waiting for connection...'') (result None)))))))"

definition run_server ::
    "'u ucx_lib \<Rightarrow> nat \<Rightarrow> nat \<Rightarrow> string option \<Rightarrow> send_recv_type_t \<Rightarrow> ('u cs, int) prog" where
  "run_server L ucp_context ucp_worker listen_addr mode =
     bind_p (init_worker L ucp_context) (\<lambda>(ret, data_worker).
     if ret \<noteq> 0 then result ret
     else bind_p
       (bind_p (if mode = CLIENT_SERVER_SEND_RECV_AM then register_am_recv_callback L data_worker
                else result UCS_OK) (\<lambda>status.
        if status \<noteq> UCS_OK then result (-1)
        else then_p (vars_p (\<lambda>v. v\<lparr>ctx_conn := None\<rparr>))
          (bind_p (start_server L ucp_worker listen_addr) (\<lambda>(status, listener).
           if status \<noteq> UCS_OK then result (-1)
           else bind_p (loop_p (serve_client L ucp_worker data_worker mode)) (\<lambda>ret.
             then_p (destroy_p L (ListenerDestroy listener) (RListener listener)) (result ret))))))
       (\<lambda>ret. then_p (destroy_p L (WorkerDestroy data_worker) (RWorker data_worker)) (result ret)))"

definition run_client :: "'u ucx_lib \<Rightarrow> nat \<Rightarrow> string \<Rightarrow> send_recv_type_t \<Rightarrow> ('u cs, int) prog" where
  "run_client L ucp_worker server_addr mode =
     bind_p (start_client L ucp_worker server_addr) (\<lambda>(status, client_ep).
     if status \<noteq> UCS_OK then result (-1)
     else bind_p (client_server_do_work L ucp_worker client_ep mode False) (\<lambda>ret.
       then_p (ep_close L (cs_handler L) ucp_worker client_ep True) (result ret)))"

definition cs_features :: "send_recv_type_t \<Rightarrow> string list" where
  "cs_features mode = (case mode of
     CLIENT_SERVER_SEND_RECV_STREAM \<Rightarrow> [''UCP_FEATURE_STREAM'']
   | CLIENT_SERVER_SEND_RECV_TAG \<Rightarrow> [''UCP_FEATURE_TAG'']
   | CLIENT_SERVER_SEND_RECV_AM \<Rightarrow> [''UCP_FEATURE_AM''])"

definition init_context :: "'u ucx_lib \<Rightarrow> send_recv_type_t \<Rightarrow> ('u cs, int \<times> nat \<times> nat) prog" where
  "init_context L mode = bind_p (create_p L (UcpInit (cs_features mode)) RContext) (\<lambda>(status, ucp_context).
     if status \<noteq> UCS_OK then result (-1, 0, 0)
     else bind_p (init_worker L ucp_context) (\<lambda>(ret, ucp_worker).
       if ret \<noteq> 0 then then_p (destroy_p L (UcpCleanup ucp_context) (RContext ucp_context)) (result (ret, 0, 0))
       else result (ret, ucp_context, ucp_worker)))"

definition cs_main :: "'u ucx_lib \<Rightarrow> string list \<Rightarrow> ('u cs, int) prog" where
  "cs_main L argv = bind_p (get_p vars) (\<lambda>v. case cs_parse_cmd argv v of (ret, v, cmd) \<Rightarrow>
     then_p (vars_p (\<lambda>_. v))
     (if ret \<noteq> 0 then result ret
      else bind_p (init_context L (cmd_mode cmd)) (\<lambda>(ret, ucp_context, ucp_worker).
        if ret \<noteq> 0 then result ret
        else bind_p (case cmd_server cmd of
            None \<Rightarrow> run_server L ucp_context ucp_worker (cmd_listen cmd) (cmd_mode cmd)
          | Some host \<Rightarrow> run_client L ucp_worker host (cmd_mode cmd)) (\<lambda>ret.
          then_p (destroy_p L (WorkerDestroy ucp_worker) (RWorker ucp_worker))
            (then_p (destroy_p L (UcpCleanup ucp_context) (RContext ucp_context)) (result ret))))))"

end
