(* ===== verification/Ucx_Client_Server_Message.thy ===== *)
theory Ucx_Client_Server_Message
  imports Ucx_Client_Server
begin

text \<open>
  What the exchange of one message leaves in \<^verbatim>\<open>ucp_example_server.c\<close>, whatever UCX and the system answer: the
  buffers, the callbacks, then one lemma per function up to \<^verbatim>\<open>client_server_communication\<close>.
\<close>

section \<open>Blocks and buffers\<close>

text \<open>The sizes of the blocks in use.\<close>

definition blocks :: "string option list \<Rightarrow> nat \<Rightarrow> nat option" where
  "blocks h b = map_option length (heap_at h b)"

lemma blocks_append [simp]: "blocks (h @ [x]) = (blocks h)(length h := map_option length x)"
  by (rule ext) (simp add: blocks_def)

lemma blocks_update [simp]:
  "heap_at h b = Some d \<Longrightarrow> blocks (h[b := x]) = (blocks h)(b := map_option length x)"
  by (rule ext) (simp add: blocks_def)

lemma blocks_beyond [simp]: "length h \<le> b \<Longrightarrow> blocks h b = None"
  by (simp add: blocks_def)

lemma blocks_SomeD: "blocks h b = Some n \<Longrightarrow> \<exists>d. heap_at h b = Some d \<and> length d = n"
  by (auto simp: blocks_def)

text \<open>\<open>owned B xs m\<close>: the blocks \<open>m\<close> are those of \<open>B\<close> and, apart from them, the buffers of \<open>xs\<close>.\<close>

fun owned :: "(nat \<rightharpoonup> nat) \<Rightarrow> (ptr \<times> nat) list \<Rightarrow> (nat \<rightharpoonup> nat) \<Rightarrow> bool" where
  "owned B [] m = (m = B)"
| "owned B ((None, n) # xs) m = owned B xs m"
| "owned B ((Some b, n) # xs) m = (m b = Some n \<and> owned B xs (m(b := None)))"

lemma owned_Some: "owned B ((Some b, n) # xs) m = (m b = Some n \<and> owned B xs (m(b := None)))"
  by simp

declare owned.simps(3) [simp del] owned_Some [simp]

lemma owned_Cons:
  "owned B (x # xs) m = (case x of (None, n) \<Rightarrow> owned B xs m | (Some b, n) \<Rightarrow> m b = Some n \<and> owned B xs (m(b := None)))"
  by (auto split: prod.split option.split)

lemma owned_add: "owned B xs m \<Longrightarrow> m b = None \<Longrightarrow> owned B (xs @ [(Some b, n)]) (m(b \<mapsto> n))"
proof (induction xs arbitrary: m)
  case (Cons x xs)
  obtain p l where x: "x = (p, l)" by fastforce
  show ?case
  proof (cases p)
    case (Some c)
    with Cons.prems x have "c \<noteq> b" by auto
    then have "(m(b \<mapsto> n))(c := None) = (m(c := None))(b \<mapsto> n)" by (rule fun_upd_twist [symmetric])
    moreover have "owned B (xs @ [(Some b, n)]) ((m(c := None))(b \<mapsto> n))"
      by (rule Cons.IH) (use Cons.prems x Some in \<open>simp_all add: fun_upd_def\<close>)
    ultimately show ?thesis using Cons.prems x Some \<open>c \<noteq> b\<close> by (simp add: fun_upd_def cong: if_cong)
  qed (use Cons x in simp)
qed (simp add: fun_upd_idem)

lemma owned_nulls: "owned B (xs @ replicate k (None, n)) m = owned B xs m"
proof (induction xs arbitrary: m)
  case Nil
  then show ?case by (induction k) auto
qed (simp add: owned_Cons split: prod.split option.split)

lemma owned_mem: "owned B xs m \<Longrightarrow> (Some b, n) \<in> set xs \<Longrightarrow> m b = Some n"
  by (induction xs arbitrary: m) (auto simp: owned_Cons split: if_splits prod.splits option.splits, fastforce+)

lemma owned_distinct:
  "owned B xs m \<Longrightarrow> i < j \<Longrightarrow> j < length xs \<Longrightarrow> xs ! i = (Some b, n) \<Longrightarrow> xs ! j = (Some c, k) \<Longrightarrow> b \<noteq> c"
proof (induction xs arbitrary: m i j)
  case (Cons x xs)
  show ?case
  proof (cases i)
    case 0
    with Cons.prems have "(Some c, k) \<in> set xs" by (cases j) (auto dest: nth_mem)
    with 0 Cons.prems show ?thesis by (auto dest: owned_mem)
  next
    case (Suc i')
    with Cons.prems Cons.IH [of _ i' "j - 1"] show ?thesis
      by (cases j) (auto simp: owned_Cons split: prod.splits option.splits)
  qed
qed simp

text \<open>A change of the frame's flag or of nothing but the heap.\<close>

lemma frame_at_same [simp]: "frame v = Some fr \<Longrightarrow> frame_at (f_id fr) v = Some fr"
  by (simp add: frame_at_def)

lemma frame_at_Some: "frame_at i v = Some fr \<longleftrightarrow> frame v = Some fr \<and> f_id fr = i"
  by (auto simp: frame_at_def split: option.splits)

definition filled :: "(ptr \<times> nat) list \<Rightarrow> string option list \<Rightarrow> bool" where
  "filled xs h \<longleftrightarrow> (\<forall>(p, n) \<in> set xs. \<exists>b. p = Some b \<and> blocks h b = Some n)"

lemma filledD: "filled xs h \<Longrightarrow> i < length xs \<Longrightarrow> \<exists>b d. xs ! i = (Some b, length d) \<and> heap_at h b = Some d"
  by (auto simp: filled_def blocks_def dest!: nth_mem)

lemma filled_blocks: "blocks h = blocks h' \<Longrightarrow> filled xs h = filled xs h'"
  by (simp add: filled_def)

lemma am_copy_rule:
  assumes "frame (vars w) = Some fr" "filled (f_iov fr) (heap w)" "F (Undefined ''read past the end'')"
    and "\<And>h. blocks h = blocks (heap w) \<Longrightarrow> Q () (w\<lparr>heap := h\<rparr>)"
  shows "wp F (am_copy UCS_MEMORY_TYPE_HOST (f_id fr) d off idx n) Q w"
  using assms
proof (induction n arbitrary: off idx w)
  case 0
  from 0(4) [of "heap w"] show ?case by (simp add: wp)
next
  case (Suc n)
  show ?case
  proof (cases "idx < length (f_iov fr)")
    case True
    obtain b c where bc: "f_iov fr ! idx = (Some b, length c)" "heap_at (heap w) b = Some c"
      using filledD [OF Suc.prems(2) True] by blast
    have "wp F (am_copy UCS_MEMORY_TYPE_HOST (f_id fr) d (off + length c) (Suc idx) n) Q
        (w\<lparr>heap := (heap w)[b := Some e]\<rparr>)" if "length e = length c" for e
    proof -
      have e: "blocks ((heap w)[b := Some e]) = blocks (heap w)"
        using bc that by (auto simp: blocks_def)
      show ?thesis
        by (rule Suc.IH) (use Suc.prems bc e filled_blocks [OF e] in auto)
    qed
    with True bc Suc.prems(1,3) show ?thesis
      by (auto simp: wp iov_get_def)
  qed (use Suc.prems(1,3) in \<open>simp add: wp iov_get_def\<close>)
qed

lemma iov_scatter_rule:
  assumes "frame (vars w) = Some fr" "filled (f_iov fr) (heap w)" "F (Undefined ''read past the end'')"
    and "\<And>h. blocks h = blocks (heap w) \<Longrightarrow> Q () (w\<lparr>heap := h\<rparr>)"
  shows "wp F (iov_scatter (f_id fr) d idx n) Q w"
  using assms
proof (induction n arbitrary: d idx w)
  case 0
  from 0(4) [of "heap w"] show ?case by (simp add: wp)
next
  case (Suc n)
  show ?case
  proof (cases "idx < length (f_iov fr)")
    case True
    obtain b c where bc: "f_iov fr ! idx = (Some b, length c)" "heap_at (heap w) b = Some c"
      using filledD [OF Suc.prems(2) True] by blast
    have "wp F (iov_scatter (f_id fr) (drop (length c) d) (Suc idx) n) Q
        (w\<lparr>heap := (heap w)[b := Some e]\<rparr>)" if "length e = length c" for e
    proof -
      have e: "blocks ((heap w)[b := Some e]) = blocks (heap w)"
        using bc that by (auto simp: blocks_def)
      show ?thesis
        by (rule Suc.IH) (use Suc.prems bc e filled_blocks [OF e] in auto)
    qed
    with True bc Suc.prems(1,3) show ?thesis
      by (auto simp: wp iov_get_def)
  qed (use Suc.prems(1,3) in \<open>simp add: wp iov_get_def\<close>)
qed

section \<open>What the callbacks leave\<close>

text \<open>All that no callback changes.\<close>

definition cs_opts :: "cs_vars \<Rightarrow> cs_vars" where
  "cs_opts v = v\<lparr>connection_closed := False, am_complete := 0, am_is_rndv := False, am_desc := [], ctx_conn := None,
     frame := map_option (\<lambda>fr. fr\<lparr>f_complete := False\<rparr>) (frame v)\<rparr>"

definition cs_view ::
    "'u cs \<Rightarrow> (nat \<Rightarrow> nat option) \<times> cs_vars \<times> nat set \<times> ucx_call list \<times> string list" where
  "cs_view w = (blocks (heap w), cs_opts (vars w), am_workers w, data_calls (calls w),
     if am_workers w = {} then received w else [])"

text \<open>
  The callback of a request under way belongs to the frame in use, whose flag is not set; there is one such request.
  When the buffer for active messages is the frame in use, it has its buffers.
\<close>

definition cbs_ok :: "(nat \<rightharpoonup> cs_cb) \<Rightarrow> cs_frame option \<Rightarrow> bool" where
  "cbs_ok m fr \<longleftrightarrow> (\<forall>q cb. m q = Some cb \<longrightarrow>
     (\<exists>f. fr = Some f \<and> \<not> f_complete f \<and>
       cb \<in> {Tag_Recv_Cb (Some (f_id f)), Stream_Recv_Cb (Some (f_id f)), Am_Recv_Cb (Some (f_id f)), Send_Cb (Some (f_id f))})) \<and>
     (\<forall>q q'. m q \<noteq> None \<longrightarrow> m q' \<noteq> None \<longrightarrow> q = q')"

lemma cbs_ok_empty [simp]: "cbs_ok Map.empty fr"
  by (simp add: cbs_ok_def)

lemma cbs_ok_subset: "cbs_ok m fr \<Longrightarrow> m' \<subseteq>\<^sub>m m \<Longrightarrow> cbs_ok m' fr"
  unfolding cbs_ok_def map_le_def by (metis domIff not_None_eq)

lemma cbs_ok_one: "cbs_ok m fr \<Longrightarrow> m q = Some cb \<Longrightarrow> m(q := None) = Map.empty"
  unfolding cbs_ok_def by (rule ext) (metis fun_upd_apply option.distinct(1))

lemma cbs_ok_complete: "cbs_ok m fr \<Longrightarrow> fr = None \<or> f_complete (the fr) \<Longrightarrow> m = Map.empty"
  unfolding cbs_ok_def by (rule ext) (metis not_None_eq option.sel)

definition cs_ok :: "bool \<Rightarrow> 'u cs \<Rightarrow> bool" where
  "cs_ok am w \<longleftrightarrow> (am_workers w \<noteq> {} \<longrightarrow> am) \<and> cs_mem_type (vars w) = UCS_MEMORY_TYPE_HOST \<and>
     cbs_ok (cbs w) (frame (vars w)) \<and>
     (\<forall>f. am_recv_buf (vars w) = Some f \<longrightarrow> f < next_frame (vars w)) \<and>
     (\<forall>fr. frame (vars w) = Some fr \<and> am_recv_buf (vars w) = Some (f_id fr) \<longrightarrow> filled (f_iov fr) (heap w))"

text \<open>
  The ways a run may end other than by returning: \<open>am\<close>, whether it uses active messages; \<open>wrap\<close>, whether
  the size of the array of buffers exceeds a \<^verbatim>\<open>size_t\<close>.
\<close>

definition cs_allowed :: "bool \<Rightarrow> bool \<Rightarrow> fault \<Rightarrow> bool" where
  "cs_allowed am wrap e \<longleftrightarrow> e = Killed \<or> e = Undefined ''read past the end'' \<or> e = Undefined ''signed overflow'' \<or>
     wrap \<and> e = Undefined ''write past the end'' \<or>
     am \<and> (e = Undefined ''null pointer'' \<or> e = Undefined ''dangling pointer'')"

lemma cs_allowed_simps [simp]:
  "cs_allowed am wrap Killed" "cs_allowed am wrap (Undefined ''read past the end'')"
  "cs_allowed am wrap (Undefined ''signed overflow'')"
  "cs_allowed am True (Undefined ''write past the end'')"
  "cs_allowed True wrap (Undefined ''null pointer'')" "cs_allowed True wrap (Undefined ''dangling pointer'')"
  by (simp_all add: cs_allowed_def)

lemma cs_opts_simps [simp]:
  "cs_opts (v\<lparr>connection_closed := b\<rparr>) = cs_opts v" "cs_opts (v\<lparr>am_complete := c\<rparr>) = cs_opts v"
  "cs_opts (v\<lparr>am_is_rndv := b\<rparr>) = cs_opts v" "cs_opts (v\<lparr>am_desc := d\<rparr>) = cs_opts v"
  "cs_opts (v\<lparr>ctx_conn := x\<rparr>) = cs_opts v"
  by (simp_all add: cs_opts_def)

lemma cs_opts_complete [simp]:
  "frame v = Some fr \<Longrightarrow> cs_opts (v\<lparr>frame := Some (fr\<lparr>f_complete := b\<rparr>)\<rparr>) = cs_opts v"
  by (cases v) (simp add: cs_opts_def)

lemma cs_view_simps [simp]:
  "cs_view (w\<lparr>lib := u\<rparr>) = cs_view w" "cs_view (w\<lparr>live := l\<rparr>) = cs_view w" "cs_view (w\<lparr>cbs := m\<rparr>) = cs_view w"
  "data_calls cs = data_calls (calls w) \<Longrightarrow> cs_view (w\<lparr>calls := cs\<rparr>) = cs_view w"
  "cs_view (w\<lparr>printed := p\<rparr>) = cs_view w"
  "cs_opts v = cs_opts (vars w) \<Longrightarrow> cs_view (w\<lparr>vars := v\<rparr>) = cs_view w"
  by (simp_all add: cs_view_def)

lemma cs_ok_simps [simp]:
  "cs_ok am (w\<lparr>lib := u\<rparr>) = cs_ok am w" "cs_ok am (w\<lparr>live := l\<rparr>) = cs_ok am w"
  "cs_ok am (w\<lparr>calls := cs\<rparr>) = cs_ok am w"
  "cs_ok am (w\<lparr>printed := p\<rparr>) = cs_ok am w"
  "cs_mem_type v = cs_mem_type (vars w) \<Longrightarrow> frame v = frame (vars w) \<Longrightarrow> am_recv_buf v = am_recv_buf (vars w) \<Longrightarrow>
     next_frame v = next_frame (vars w) \<Longrightarrow> cs_ok am (w\<lparr>vars := v\<rparr>) = cs_ok am w"
  by (simp_all add: cs_ok_def)

lemma common_cb_rule:
  assumes "cs_ok am w" "cbs w q = Some cb" "cb \<in> {Tag_Recv_Cb x, Stream_Recv_Cb x, Am_Recv_Cb x, Send_Cb x}"
  shows "wp F (common_cb x) (\<lambda>_ w'. cs_ok am w' \<and> live w' = live w \<and> cs_view w' = cs_view w)
      (w\<lparr>cbs := (cbs w)(q := None)\<rparr>)"
proof -
  obtain fr where fr: "frame (vars w) = Some fr" "x = Some (f_id fr)"
    using assms by (auto simp: cs_ok_def cbs_ok_def)
  have "(cbs w)(q := None) = Map.empty" using assms(1,2) cbs_ok_one unfolding cs_ok_def by blast
  with fr assms(1) show ?thesis
    by (auto simp: wp common_cb_def set_complete_def cs_ok_def cs_view_def filled_def)
qed

lemma err_cb_rule:
  "cs_ok am w \<Longrightarrow> wp F (err_cb s) (\<lambda>_ w'. cs_ok am w' \<and> live w' = live w \<and> cs_view w' = cs_view w \<and> cbs w' = cbs w \<and>
    frame (vars w') = frame (vars w)) w"
  by (simp add: wp err_cb_def)

lemma server_conn_handle_cb_rule:
  "cs_ok am w \<Longrightarrow> wp F (server_conn_handle_cb L c) (\<lambda>_ w'. cs_ok am w' \<and> live w' = live w \<and> cs_view w' = cs_view w \<and> cbs w' = cbs w \<and>
    frame (vars w') = frame (vars w)) w"
  unfolding server_conn_handle_cb_def
  by (auto simp: wp intro!: wp_ask)

lemma ucp_am_data_cb_rule:
  assumes "cs_ok am w" "wk \<in> am_workers w"
  shows "wp (cs_allowed am wrap) (ucp_am_data_cb hl n d rndv)
    (\<lambda>_ w'. cs_ok am w' \<and> live w' = live w \<and> cs_view w' = cs_view w \<and> cbs w' = cbs w \<and>
    frame (vars w') = frame (vars w)) w"
proof (cases "am_recv_buf (vars w)")
  case None
  then show ?thesis
    using assms unfolding ucp_am_data_cb_def
    by (auto simp: wp cs_ok_def cs_view_def)
next
  case (Some iov)
  have am: "am" using assms by (auto simp: cs_ok_def)
  show ?thesis
  proof (cases "frame_at iov (vars w)")
    case None
    have dangling: "wp (cs_allowed True wrap) (am_copy mt iov d 0 0 k) Q w'"
      if "frame_at iov (vars w') = None" "0 < k" for mt k Q and w' :: "'a cs"
      using that by (cases k) (auto simp: wp iov_get_def)
    show ?thesis
      using assms Some None unfolding ucp_am_data_cb_def
      by (cases "0 < nat (iov_cnt (vars w))")
        (auto simp: wp cs_ok_def cs_view_def frame_at_def split: option.splits intro!: dangling)
  next
    case fr: (Some fr)
    then have [simp]: "iov = f_id fr" and f: "frame (vars w) = Some fr" by (simp_all add: frame_at_Some)
    show ?thesis
      using assms Some f am unfolding ucp_am_data_cb_def
      by (auto simp: wp cs_ok_def cs_view_def filled_def intro!: am_copy_rule)
  qed
qed

interpretation cs: ucx_callbacks "cs_handler L" "cs_allowed am wrap" "cs_ok am" cs_view for L am wrap
proof
  fix w :: "'a cs" and cb q s
  show "cs_ok am w \<Longrightarrow> cbs w q = Some cb \<Longrightarrow>
      wp (cs_allowed am wrap) (cs_handler L (OnComplete cb q s))
        (\<lambda>_ w'. cs_ok am w' \<and> live w' = live w \<and> cs_view w' = cs_view w) (w\<lparr>cbs := (cbs w)(q := None)\<rparr>)"
    by (cases cb) (auto intro!: common_cb_rule)
next
  fix w :: "'a cs" and m
  show "cs_ok am w \<Longrightarrow> m \<subseteq>\<^sub>m cbs w \<Longrightarrow> cs_ok am (w\<lparr>cbs := m\<rparr>)"
    by (auto simp: cs_ok_def intro: cbs_ok_subset)
qed (auto intro: wp_mono [OF err_cb_rule] wp_mono [OF server_conn_handle_cb_rule] wp_mono [OF ucp_am_data_cb_rule])

text \<open>Without a request under way no callback of one runs.\<close>

definition cs_still :: "bool \<Rightarrow> 'u cs \<Rightarrow> bool" where
  "cs_still am w \<longleftrightarrow> cs_ok am w \<and> cbs w = Map.empty \<and> (\<forall>fr. frame (vars w) = Some fr \<longrightarrow> \<not> f_complete fr)"

interpretation still: ucx_callbacks "cs_handler L" "cs_allowed am wrap" "cs_still am" cs_view for L am wrap
  by unfold_locales (auto simp: cs_still_def map_le_def dom_def fun_eq_iff
      intro: wp_mono [OF err_cb_rule] wp_mono [OF server_conn_handle_cb_rule] wp_mono [OF ucp_am_data_cb_rule])

lemma cs_progress_rule:
  assumes "cs_ok am w" "RWorker wk \<in># live w"
    "\<And>w'. cs_ok am w' \<Longrightarrow> live w' = live w \<Longrightarrow> cs_view w' = cs_view w \<Longrightarrow> Q () w'"
  shows "wp (cs_allowed am wrap) (cs_progress L wk) Q w"
  by (auto simp: cs_progress_def wp intro!: cs.progress assms)

lemma cs_spin:
  assumes "cs_ok am w" "RWorker wk \<in># live w"
    "\<And>w'. cs_ok am w' \<Longrightarrow> live w' = live w \<Longrightarrow> cs_view w' = cs_view w \<Longrightarrow> \<not> b w' \<Longrightarrow> Q () w'"
  shows "wp (cs_allowed am wrap) (while_p b (cs_progress L wk)) Q w"
  unfolding cs_progress_def
  by (rule cs.spin) (auto intro: assms)

section \<open>The buffers of a message\<close>

text \<open>Nothing changes but the heap, the frame in use, the state of the library and calls that send no data.\<close>

definition quiet :: "'u cs \<Rightarrow> 'u cs \<Rightarrow> bool" where
  "quiet w w' \<longleftrightarrow> live w' = live w \<and> cbs w' = cbs w \<and> am_workers w' = am_workers w \<and> received w' = received w \<and>
     data_calls (calls w') = data_calls (calls w) \<and> (vars w')\<lparr>frame := None\<rparr> = (vars w)\<lparr>frame := None\<rparr>"

lemma quiet_refl [simp]: "quiet w w"
  by (simp add: quiet_def)

lemma quiet_trans: "quiet w w' \<Longrightarrow> quiet w' w'' \<Longrightarrow> quiet w w''"
  by (simp add: quiet_def)

lemma quiet_simps [simp]:
  "quiet w (w'\<lparr>lib := u\<rparr>) = quiet w w'" "quiet w (w'\<lparr>heap := h\<rparr>) = quiet w w'"
  "quiet w (w'\<lparr>printed := p\<rparr>) = quiet w w'"
  "data_calls cs = data_calls (calls w') \<Longrightarrow> quiet w (w'\<lparr>calls := cs\<rparr>) = quiet w w'"
  "v\<lparr>frame := None\<rparr> = (vars w')\<lparr>frame := None\<rparr> \<Longrightarrow> quiet w (w'\<lparr>vars := v\<rparr>) = quiet w w'"
  by (simp_all add: quiet_def)

lemma quiet_vars:
  assumes "quiet w w'"
  shows "cs_string_length (vars w') = cs_string_length (vars w)" "iov_cnt (vars w') = iov_cnt (vars w)"
    "cs_mem_type (vars w') = cs_mem_type (vars w)" "am_recv_buf (vars w') = am_recv_buf (vars w)"
    "next_frame (vars w') = next_frame (vars w)" "num_iterations (vars w') = num_iterations (vars w)"
proof -
  have *: "f (vars w') = f (vars w)" if "\<And>v. f (v\<lparr>frame := None\<rparr>) = f v" for f :: "cs_vars \<Rightarrow> 'z"
    using assms that [of "vars w'"] that [of "vars w"] by (simp add: quiet_def)
  show "cs_string_length (vars w') = cs_string_length (vars w)" "iov_cnt (vars w') = iov_cnt (vars w)"
    "cs_mem_type (vars w') = cs_mem_type (vars w)" "am_recv_buf (vars w') = am_recv_buf (vars w)"
    "next_frame (vars w') = next_frame (vars w)" "num_iterations (vars w') = num_iterations (vars w)"
    by (rule *, simp)+
qed

definition heap_only :: "'u cs \<Rightarrow> 'u cs \<Rightarrow> bool" where
  "heap_only w w' \<longleftrightarrow> (\<exists>h. w' = w\<lparr>heap := h\<rparr>)"

lemma heap_only_simps [simp]: "heap_only w w" "heap_only w w' \<Longrightarrow> heap_only w (w'\<lparr>heap := h\<rparr>)"
  using exI [of "\<lambda>h. w = w\<lparr>heap := h\<rparr>" "heap w"] by (auto simp: heap_only_def)

lemma heap_only_vars: "heap_only w w' \<Longrightarrow> vars w' = vars w"
  by (auto simp: heap_only_def)

lemma buffer_free_rule:
  assumes "frame (vars w) = Some fr" "cs_mem_type (vars w) = UCS_MEMORY_TYPE_HOST"
    "owned B (f_iov fr) (blocks (heap w))" "length (f_iov fr) \<le> nat (iov_cnt (vars w))"
    "F (Undefined ''read past the end'')"
    and "\<And>h. blocks h = B \<Longrightarrow> Q () (w\<lparr>heap := h\<rparr>)"
  shows "wp F (buffer_free (f_id fr)) Q w"
proof -
  let ?I = "\<lambda>i w'. heap_only w w' \<and> owned B (drop i (f_iov fr)) (blocks (heap w'))"
  have step: "wp F (bind_p (iov_get (f_id fr) i) (\<lambda>(buf, len).
      then_p (mem_type_free UCS_MEMORY_TYPE_HOST buf) (result (None :: unit option))))
    (\<lambda>r s'. case r of None \<Rightarrow> ?I (Suc i) s' | Some a \<Rightarrow> R (Some a) s') w'" if "?I i w'" for i w' R
  proof (cases "i < length (f_iov fr)")
    case True
    obtain p n where pn: "f_iov fr ! i = (p, n)" by fastforce
    have "drop i (f_iov fr) = (p, n) # drop (Suc i) (f_iov fr)" using Cons_nth_drop_Suc [OF True] pn by simp
    with that True pn assms(1) show ?thesis
      by (cases p) (auto simp: wp iov_get_def heap_only_vars dest!: blocks_SomeD)
  qed (use that assms(1,5) in \<open>auto simp: wp iov_get_def heap_only_vars\<close>)
  have end_ok: "Q () w'" if "heap_only w w'" "B = blocks (heap w')" for w'
    using that assms(6) by (auto simp: heap_only_def)
  have "wp F (for_p 0 (nat (iov_cnt (vars w))) (\<lambda>idx. bind_p (iov_get (f_id fr) idx) (\<lambda>(buf, len).
      then_p (mem_type_free UCS_MEMORY_TYPE_HOST buf) (result (None :: unit option)))))
    (\<lambda>_. Q ()) w"
    by (rule wp_for_p [where I = ?I]) (use assms(3,4) in \<open>auto intro!: step end_ok\<close>)
  then show ?thesis
    by (simp add: buffer_free_def assms(2) wp_seq)
qed

text \<open>Memory for the first \<open>i\<close> of the \<open>m\<close> entries.\<close>

definition malloced :: "(nat \<rightharpoonup> nat) \<Rightarrow> nat \<Rightarrow> nat \<Rightarrow> nat \<Rightarrow> nat \<Rightarrow> 'u cs \<Rightarrow> bool" where
  "malloced B len m f i w \<longleftrightarrow> i \<le> m \<and> (\<exists>xs. length xs = i \<and> owned B xs (blocks (heap w)) \<and>
     (\<forall>x \<in> set xs. fst x \<noteq> None \<and> snd x = len) \<and>
     frame (vars w) = Some \<lparr>f_id = f, f_iov = xs @ replicate (m - i) (None, 0), f_complete = False\<rparr>)"

lemma malloced_next:
  assumes "malloced B len m f i w" "i < m" "length d = len"
  shows "malloced B len m f (Suc i) (w\<lparr>lib := u, calls := cs, heap := heap w @ [Some d],
    vars := (vars w)\<lparr>frame := Some (the (frame (vars w))\<lparr>f_iov := (f_iov (the (frame (vars w))))[i := (Some (length (heap w)), len)]\<rparr>)\<rparr>\<rparr>)"
proof -
  obtain xs where xs: "length xs = i" "owned B xs (blocks (heap w))" "\<forall>x \<in> set xs. fst x \<noteq> None \<and> snd x = len"
    "frame (vars w) = Some \<lparr>f_id = f, f_iov = xs @ replicate (m - i) (None, 0), f_complete = False\<rparr>"
    using assms(1) by (auto simp: malloced_def)
  have "replicate (m - i) (None :: ptr, 0 :: nat) = (None, 0) # replicate (m - Suc i) (None, 0)"
    using assms(2) by (simp flip: replicate_Suc add: Suc_diff_Suc)
  with xs assms(2,3) owned_add [OF xs(2), of "length (heap w)" len] show ?thesis
    unfolding malloced_def
    by (intro conjI exI [of _ "xs @ [(Some (length (heap w)), len)]"]) (auto simp: list_update_append)
qed

lemma malloced_fails:
  assumes "malloced B len m f i w" "i < m" "m \<le> nat (iov_cnt (vars w))" "cs_mem_type (vars w) = UCS_MEMORY_TYPE_HOST"
    "F (Undefined ''read past the end'')"
    "data_calls cs = data_calls (calls w)"
    and "\<And>w' fr. blocks (heap w') = B \<Longrightarrow> frame (vars w') = Some fr \<Longrightarrow> f_id fr = f \<Longrightarrow> quiet w w' \<Longrightarrow> Q () w'"
  shows "wp F (buffer_free f) Q (w\<lparr>lib := u, calls := cs,
    vars := (vars w)\<lparr>frame := Some (the (frame (vars w))\<lparr>f_iov := (f_iov (the (frame (vars w))))[i := (None, len)]\<rparr>)\<rparr>\<rparr>)"
proof -
  obtain xs where xs: "length xs = i" "owned B xs (blocks (heap w))"
    "frame (vars w) = Some \<lparr>f_id = f, f_iov = xs @ replicate (m - i) (None, 0), f_complete = False\<rparr>"
    using assms(1) by (auto simp: malloced_def)
  have *: "replicate (m - i) (None :: ptr, 0 :: nat) = (None, 0) # replicate (m - Suc i) (None, 0)"
    using assms(2) by (simp flip: replicate_Suc add: Suc_diff_Suc)
  have "owned B (xs @ (None, len) # replicate (m - Suc i) (None, 0)) (blocks (heap w))"
    using xs(2) owned_nulls [of B "xs @ [(None, len)]" "m - Suc i" 0] owned_nulls [of B xs 1 len] by simp
  with xs(1,3) assms(2-7) * show ?thesis
    by (intro buffer_free_rule [where fr = "\<lparr>f_id = f, f_iov = xs @ (None, len) # replicate (m - Suc i) (None, 0), f_complete = False\<rparr>" and B = B, simplified])
      (auto simp: list_update_append)
qed

lemma malloced_frame:
  "malloced B len m f i w \<Longrightarrow> \<exists>fr. frame (vars w) = Some fr \<and> f_id fr = f \<and> length (f_iov fr) = m"
  by (auto simp: malloced_def)

lemma malloced_step:
  assumes "malloced B len m f i w'" "quiet w w'" "i < nat (iov_cnt (vars w))" "m \<le> nat (iov_cnt (vars w))"
    "m < nat (iov_cnt (vars w)) \<Longrightarrow> F (Undefined ''write past the end'')" "F (Undefined ''read past the end'')"
    "cs_mem_type (vars w) = UCS_MEMORY_TYPE_HOST"
    and "\<And>w' fr. quiet w w' \<Longrightarrow> frame (vars w') = Some fr \<Longrightarrow> f_id fr = f \<Longrightarrow> blocks (heap w') = B \<Longrightarrow> Q (Some (-1)) w'"
    and "\<And>w'. quiet w w' \<Longrightarrow> malloced B len m f (Suc i) w' \<Longrightarrow> Q None w'"
  shows "wp F (bind_p (malloc L len) (\<lambda>buf. then_p (iov_set f i (buf, len))
      (if buf = None then then_p (buffer_free f) (result (Some (-1))) else result None))) Q w'"
proof -
  obtain fr where fr: "frame (vars w') = Some fr" "f_id fr = f" "length (f_iov fr) = m"
    using malloced_frame assms(1) by blast
  note v = quiet_vars [OF assms(2)]
  show ?thesis
  proof (cases "i < m")
    case True
    have "wp F (buffer_free f) (\<lambda>_. Q (Some (-1))) (w'\<lparr>lib := u, calls := calls w' @ [Malloc len],
        vars := (vars w')\<lparr>frame := Some (fr\<lparr>f_iov := (f_iov fr)[i := (None, len)]\<rparr>)\<rparr>\<rparr>)" for u
      using malloced_fails [OF assms(1) True, where cs = "calls w' @ [Malloc len]" and F = F and Q = "\<lambda>_. Q (Some (-1))" and u = u]
        fr v assms(2,4,6,7) quiet_trans assms(8) by (auto simp: quiet_def)
    moreover have "Q None (w'\<lparr>lib := u, calls := calls w' @ [Malloc len], heap := heap w' @ [Some (fit len d)],
        vars := (vars w')\<lparr>frame := Some (fr\<lparr>f_iov := (f_iov fr)[i := (Some (length (heap w')), len)]\<rparr>)\<rparr>\<rparr>)" for u d
      using malloced_next [OF assms(1) True, where d = "fit len d"] fr assms(2)
      by (intro assms(9)) simp_all
    ultimately show ?thesis
      using fr True by (auto simp: wp_seq wp iov_set_def intro!: wp_ask)
  next
    case False
    then have "m < nat (iov_cnt (vars w))" using assms(3) by simp
    with fr False assms(5) show ?thesis
      by (auto simp: wp iov_set_def intro!: wp_ask)
  qed
qed

lemma buffer_malloc_rule:
  assumes "frame (vars w) = Some \<lparr>f_id = f, f_iov = replicate m (None, 0), f_complete = False\<rparr>"
    "m \<le> nat (iov_cnt (vars w))" "m < nat (iov_cnt (vars w)) \<Longrightarrow> F (Undefined ''write past the end'')"
    "F (Undefined ''read past the end'')" "cs_mem_type (vars w) = UCS_MEMORY_TYPE_HOST"
    and "\<And>w' fr. quiet w w' \<Longrightarrow> frame (vars w') = Some fr \<Longrightarrow> f_id fr = f \<Longrightarrow> blocks (heap w') = blocks (heap w) \<Longrightarrow> Q (-1) w'"
    and "\<And>w'. quiet w w' \<Longrightarrow>
      malloced (blocks (heap w)) (nat (cs_string_length (vars w))) (nat (iov_cnt (vars w))) f (nat (iov_cnt (vars w))) w' \<Longrightarrow> Q 0 w'"
  shows "wp F (buffer_malloc L f) Q w"
proof -
  let ?len = "nat (cs_string_length (vars w))" and ?n = "nat (iov_cnt (vars w))"
  have start: "malloced (blocks (heap w)) ?len m f 0 w"
    using assms(1) by (simp add: malloced_def)
  have m: "m = ?n" if "malloced (blocks (heap w)) ?len m f ?n w'" for w' :: "'a cs"
    using that assms(2) by (auto simp: malloced_def)
  have "wp F (for_p 0 ?n (\<lambda>idx. bind_p (malloc L ?len) (\<lambda>buf. then_p (iov_set f idx (buf, ?len))
      (if buf = None then then_p (buffer_free f) (result (Some (-1))) else result None))))
    (\<lambda>r. Q (case r of Some ret \<Rightarrow> ret | None \<Rightarrow> 0)) w"
    by (rule wp_for_p [where I = "\<lambda>i w'. quiet w w' \<and> malloced (blocks (heap w)) ?len m f i w'"])
      (use start assms(2-5) m in \<open>auto intro!: malloced_step [where w = w] assms(6,7)\<close>)
  then show ?thesis
    by (simp add: buffer_malloc_def Let_def wp_seq assms(5) mem_type_malloc_def)
qed

text \<open>All buffers are there; what they hold; whether that is the test string, whose length is cut off beyond \<open>2 ^ 31\<close>.\<close>

definition ready :: "(nat \<rightharpoonup> nat) \<Rightarrow> nat \<Rightarrow> 'u cs \<Rightarrow> bool" where
  "ready B f w \<longleftrightarrow> (\<exists>ys. frame (vars w) = Some \<lparr>f_id = f, f_iov = ys, f_complete = False\<rparr> \<and>
     owned B ys (blocks (heap w)) \<and> length ys = nat (iov_cnt (vars w)) \<and>
     (\<forall>x \<in> set ys. fst x \<noteq> None \<and> snd x = nat (cs_string_length (vars w))))"

definition iov_contents :: "'u cs \<Rightarrow> string list" where
  "iov_contents w = map (\<lambda>x. the (heap_at (heap w) (the (fst x)))) (f_iov (the (frame (vars w))))"

definition text_of :: "nat \<Rightarrow> string \<Rightarrow> bool" where
  "text_of n d \<longleftrightarrow> length d = n \<and> (n < 2 ^ 31 \<longrightarrow> d = test_string n)"

lemma malloced_ready:
  assumes "malloced B (nat (cs_string_length (vars w))) (nat (iov_cnt (vars w))) f (nat (iov_cnt (vars w))) w'" "quiet w w'"
  shows "ready B f w'"
  using assms(1) quiet_vars [OF assms(2)] by (auto simp: malloced_def ready_def)

lemma readyD:
  assumes "ready B f w" "i < nat (iov_cnt (vars w))"
  obtains fr b d where "frame (vars w) = Some fr" "f_id fr = f" "length (f_iov fr) = nat (iov_cnt (vars w))"
    "f_iov fr ! i = (Some b, nat (cs_string_length (vars w)))"
    "heap_at (heap w) b = Some d" "length d = nat (cs_string_length (vars w))" "iov_contents w ! i = d"
proof -
  obtain ys where ys: "frame (vars w) = Some \<lparr>f_id = f, f_iov = ys, f_complete = False\<rparr>"
    "owned B ys (blocks (heap w))" "length ys = nat (iov_cnt (vars w))"
    "\<forall>x \<in> set ys. fst x \<noteq> None \<and> snd x = nat (cs_string_length (vars w))"
    using assms(1) by (auto simp: ready_def)
  have "ys ! i \<in> set ys" using ys(3) assms(2) by simp
  then obtain b where b: "ys ! i = (Some b, nat (cs_string_length (vars w)))"
    using ys(4) by (metis not_None_eq prod.collapse)
  then obtain d where "heap_at (heap w) b = Some d" "length d = nat (cs_string_length (vars w))"
    using owned_mem [OF ys(2)] \<open>ys ! i \<in> set ys\<close> blocks_SomeD by metis
  with ys b assms(2) that show ?thesis by (simp add: iov_contents_def)
qed

lemma iov_contents_length: "ready B f w \<Longrightarrow> length (iov_contents w) = nat (iov_cnt (vars w))"
  by (auto simp: ready_def iov_contents_def)

lemma ready_filled: "ready B f w \<Longrightarrow> \<exists>fr. frame (vars w) = Some fr \<and> f_id fr = f \<and> filled (f_iov fr) (heap w)"
proof -
  assume "ready B f w"
  then obtain ys where ys: "frame (vars w) = Some \<lparr>f_id = f, f_iov = ys, f_complete = False\<rparr>"
    "owned B ys (blocks (heap w))" "\<forall>x \<in> set ys. fst x \<noteq> None"
    by (auto simp: ready_def)
  have "\<exists>b. p = Some b \<and> blocks (heap w) b = Some n" if x: "(p, n) \<in> set ys" for p n
  proof -
    obtain b where "p = Some b" using ys(3) x by (metis fst_conv not_None_eq)
    moreover from this x have "blocks (heap w) b = Some n" by (intro owned_mem [OF ys(2)]) simp
    ultimately show ?thesis by blast
  qed
  then have "filled ys (heap w)" by (simp add: filled_def split_beta)
  with ys(1) show ?thesis by (intro exI [of _ "\<lparr>f_id = f, f_iov = ys, f_complete = False\<rparr>"]) simp
qed

text \<open>Writing one of them.\<close>

lemma ready_write:
  assumes "ready B f w" "i < nat (iov_cnt (vars w))" "f_iov (the (frame (vars w))) ! i = (Some b, n)"
    "quiet w w'" "frame (vars w') = frame (vars w)" "heap_at (heap w') = (heap_at (heap w))(b \<mapsto> d)" "length d = n"
  shows "ready B f w' \<and> iov_contents w' = (iov_contents w)[i := d]"
proof -
  obtain ys where ys: "frame (vars w) = Some \<lparr>f_id = f, f_iov = ys, f_complete = False\<rparr>"
    "owned B ys (blocks (heap w))" "length ys = nat (iov_cnt (vars w))"
    "\<forall>x \<in> set ys. fst x \<noteq> None \<and> snd x = nat (cs_string_length (vars w))"
    using assms(1) by (auto simp: ready_def)
  have "(Some b, n) \<in> set ys" using ys(1,3) assms(2,3) by (auto simp: in_set_conv_nth intro!: exI [of _ i])
  then have "blocks (heap w) b = Some n" by (rule owned_mem [OF ys(2)])
  then have "blocks (heap w') = blocks (heap w)"
    using assms(6,7) by (auto simp: blocks_def fun_eq_iff)
  moreover have "the (fst (ys ! j)) \<noteq> b" if "j < length ys" "j \<noteq> i" for j
  proof -
    have "fst (ys ! j) \<noteq> None" using ys(4) that(1) nth_mem by blast
    then obtain c k where c: "ys ! j = (Some c, k)" by (cases "ys ! j") auto
    have "ys ! i = (Some b, n)" "i < length ys" using ys(1,3) assms(2,3) by simp_all
    with owned_distinct [OF ys(2), of i j b n c k] owned_distinct [OF ys(2), of j i c k b n] that c
    have "c \<noteq> b" by (cases "i < j") auto
    with c show ?thesis by simp
  qed
  ultimately show ?thesis
    using ys assms(2,3,5,6) quiet_vars [OF assms(4)]
    by (auto simp: ready_def iov_contents_def intro!: nth_equalityI simp: nth_list_update)
qed

lemma fill_buffer_rule:
  assumes "ready B f w" "cs_mem_type (vars w) = UCS_MEMORY_TYPE_HOST"
    and "\<And>w'. quiet w w' \<Longrightarrow> ready B f w' \<Longrightarrow> Q (-1) w'"
    and "\<And>w'. quiet w w' \<Longrightarrow> ready B f w' \<Longrightarrow> \<forall>d \<in> set (iov_contents w'). text_of (nat (cs_string_length (vars w))) d \<Longrightarrow> Q 0 w'"
  shows "wp F (fill_buffer L f) Q w"
proof -
  let ?len = "nat (cs_string_length (vars w))" and ?n = "nat (iov_cnt (vars w))"
  let ?I = "\<lambda>i w'. quiet w w' \<and> ready B f w' \<and> (\<forall>d \<in> set (take i (iov_contents w')). text_of ?len d)"
  have step: "wp F (bind_p (iov_get f i) (\<lambda>(buf, len). bind_p (generate_test_string L UCS_MEMORY_TYPE_HOST buf 0 (int_of_size len))
      (\<lambda>ret. result (if ret \<noteq> 0 then Some ret else None))))
    (\<lambda>r s'. case r of None \<Rightarrow> ?I (Suc i) s' | Some a \<Rightarrow> Q (if Some a \<noteq> None then -1 else 0) s') w'"
    if I: "?I i w'" and i: "i < ?n" for i w'
  proof -
    have i': "i < nat (iov_cnt (vars w'))" using i quiet_vars [of w w'] I by simp
    obtain fr b d where b: "frame (vars w') = Some fr" "f_id fr = f" "length (f_iov fr) = nat (iov_cnt (vars w'))"
        "f_iov fr ! i = (Some b, ?len)" "heap_at (heap w') b = Some d" "length d = ?len"
      using I i' quiet_vars [of w w'] by (metis readyD)
    have le: "nat (int_of_size ?len) \<le> ?len" "- (2 ^ 31) \<le> int_of_size ?len"
      by (rule nat_int_of_size, rule int_of_size_bounds)
    have next_ok: "?I (Suc i) w''" if u: "untouched (w'\<lparr>heap := heap w''\<rparr>) w''" "live w'' = live w'"
        "data_calls (calls w'') = data_calls (calls w')"
        "heap_at (heap w'') = (heap_at (heap w'))(b \<mapsto> test_string (nat (int_of_size ?len)) @ drop (nat (int_of_size ?len)) d)" for w''
    proof -
      let ?e = "test_string (nat (int_of_size ?len)) @ drop (nat (int_of_size ?len)) d"
      have q: "quiet w' w''" "frame (vars w'') = frame (vars w')" using u by (simp_all add: untouched_def quiet_def)
      have e: "text_of ?len ?e" using le b(6) int_of_size_small [of ?len] by (auto simp: text_of_def)
      then have "length ?e = ?len" by (simp add: text_of_def)
      from ready_write [where B = B and f = f, OF _ i' _ q u(4) this] I b
      have "ready B f w'' \<and> iov_contents w'' = (iov_contents w')[i := ?e]" by simp
      moreover have "take (Suc i) ((iov_contents w')[i := ?e]) = take i (iov_contents w') @ [?e]"
        using iov_contents_length [of B f w'] I i' by (simp add: take_Suc_conv_app_nth)
      ultimately show ?thesis using I e quiet_trans [OF _ q(1)] by auto
    qed
    have "quiet w w''" "ready B f w''" if "untouched w' w''" "live w'' = live w'" "data_calls (calls w'') = data_calls (calls w')" for w''
      using that I by (auto simp: untouched_def quiet_def ready_def)
    with next_ok assms(3) b i' le show ?thesis
      by (auto simp: wp iov_get_def intro!: generate_test_string_rule)
  qed
  have "wp F (for_p 0 ?n (\<lambda>idx. bind_p (iov_get f idx) (\<lambda>(buf, len).
      bind_p (generate_test_string L UCS_MEMORY_TYPE_HOST buf 0 (int_of_size len)) (\<lambda>ret. result (if ret \<noteq> 0 then Some ret else None)))))
    (\<lambda>r. Q (if r \<noteq> None then -1 else 0)) w"
    by (rule wp_for_p [where I = ?I])
      (use assms(1) step in \<open>auto simp: iov_contents_length quiet_vars intro!: assms(4)\<close>)
  then show ?thesis
    by (simp add: fill_buffer_def Let_def wp_seq assms(2))
qed

lemma iov_gather_rule:
  assumes "ready B f w" "F (Undefined ''read past the end'')" "Q (concat (take n (drop idx (iov_contents w)))) w"
    "idx + n \<le> nat (iov_cnt (vars w))"
  shows "wp F (iov_gather f idx n) Q w"
  using assms
proof (induction n arbitrary: idx Q)
  case (Suc n)
  have idx: "idx < nat (iov_cnt (vars w))" using Suc.prems(4) by simp
  obtain fr b d where b: "frame (vars w) = Some fr" "f_id fr = f" "length (f_iov fr) = nat (iov_cnt (vars w))"
    "f_iov fr ! idx = (Some b, nat (cs_string_length (vars w)))"
    "heap_at (heap w) b = Some d" "length d = nat (cs_string_length (vars w))" "iov_contents w ! idx = d"
    using readyD [OF Suc.prems(1) idx] by metis
  have "take (Suc n) (drop idx (iov_contents w)) = d # take n (drop (Suc idx) (iov_contents w))"
    using b(7) idx iov_contents_length [OF Suc.prems(1)] by (simp add: Cons_nth_drop_Suc [symmetric])
  then have "wp F (iov_gather f (Suc idx) n) (\<lambda>ds. Q (d @ ds)) w"
    using Suc.prems by (intro Suc.IH) simp_all
  with b idx show ?case
    by (auto simp: wp wp_result_all iov_get_def)
qed (simp add: wp)

section \<open>One message\<close>

text \<open>The options and what was sent and received over UCX.\<close>

definition cs_conf :: "cs_vars \<Rightarrow> cs_vars" where
  "cs_conf v = v\<lparr>connection_closed := False, am_complete := 0, am_is_rndv := False, am_desc := [], am_recv_buf := None,
     am_last := 0, ctx_conn := None, ctx_listener := 0, frame := None, next_frame := 0\<rparr>"

lemma cs_conf_simps [simp]:
  "cs_conf (v\<lparr>connection_closed := b\<rparr>) = cs_conf v" "cs_conf (v\<lparr>am_recv_buf := x\<rparr>) = cs_conf v"
  "cs_conf (v\<lparr>am_last := n\<rparr>) = cs_conf v" "cs_conf (v\<lparr>ctx_conn := x\<rparr>) = cs_conf v"
  "cs_conf (v\<lparr>ctx_listener := i\<rparr>) = cs_conf v"
  "cs_conf (v\<lparr>frame := fr\<rparr>) = cs_conf v" "cs_conf (v\<lparr>next_frame := k\<rparr>) = cs_conf v"
  by (simp_all add: cs_conf_def)

lemma cs_conf_vars:
  assumes "cs_conf v = cs_conf u"
  shows "cs_string_length v = cs_string_length u" "iov_cnt v = iov_cnt u" "cs_mem_type v = cs_mem_type u"
    "num_iterations v = num_iterations u"
proof -
  have *: "f v = f u" if "\<And>v. f (cs_conf v) = f v" for f :: "cs_vars \<Rightarrow> 'z"
    using assms that [of v] that [of u] by simp
  show "cs_string_length v = cs_string_length u" "iov_cnt v = iov_cnt u" "cs_mem_type v = cs_mem_type u"
    "num_iterations v = num_iterations u"
    by (rule *, simp add: cs_conf_def)+
qed

definition traffic :: "'u cs \<Rightarrow> ucx_call list \<times> string list" where
  "traffic w = (data_calls (calls w), if am_workers w = {} then received w else [])"

definition kept :: "'u cs \<Rightarrow> 'u cs \<Rightarrow> bool" where
  "kept w w' \<longleftrightarrow> cs_conf (vars w') = cs_conf (vars w) \<and> am_workers w' = am_workers w"

lemma kept_refl [simp]: "kept w w"
  by (simp add: kept_def)

lemma kept_vars [simp]: "cs_conf v = cs_conf (vars w') \<Longrightarrow> kept w (w'\<lparr>vars := v\<rparr>) = kept w w'"
  by (simp add: kept_def)

lemma traffic_vars [simp]: "traffic (w\<lparr>vars := v\<rparr>) = traffic w"
  by (simp add: traffic_def)

lemma kept_trans: "kept w w' \<Longrightarrow> kept w' w'' \<Longrightarrow> kept w w''"
  by (simp add: kept_def)

lemma view_kept:
  assumes "cs_view w' = cs_view w"
  shows "kept w w'" "traffic w' = traffic w" "blocks (heap w') = blocks (heap w)"
    "am_recv_buf (vars w') = am_recv_buf (vars w)" "next_frame (vars w') = next_frame (vars w)"
    "map_option f_iov (frame (vars w')) = map_option f_iov (frame (vars w))"
    "map_option f_id (frame (vars w')) = map_option f_id (frame (vars w))"
proof -
  have o: "cs_opts (vars w') = cs_opts (vars w)" using assms by (simp add: cs_view_def)
  have *: "f (vars w') = f (vars w)" if "\<And>v. f (cs_opts v) = f v" for f :: "cs_vars \<Rightarrow> 'z"
    using o that [of "vars w'"] that [of "vars w"] by simp
  show "kept w w'" using * [of cs_conf] assms by (simp add: kept_def cs_view_def cs_opts_def cs_conf_def)
  show "traffic w' = traffic w" "blocks (heap w') = blocks (heap w)"
    using assms by (auto simp: cs_view_def traffic_def)
  show "am_recv_buf (vars w') = am_recv_buf (vars w)" "next_frame (vars w') = next_frame (vars w)"
    "map_option f_iov (frame (vars w')) = map_option f_iov (frame (vars w))"
    "map_option f_id (frame (vars w')) = map_option f_id (frame (vars w))"
    by (rule *, simp add: cs_opts_def option.map_comp comp_def)+
qed

lemma quiet_kept:
  assumes "quiet w w'"
  shows "kept w w'" "traffic w' = traffic w" "live w' = live w" "cbs w' = cbs w"
proof -
  have "cs_conf ((vars w')\<lparr>frame := None\<rparr>) = cs_conf ((vars w)\<lparr>frame := None\<rparr>)"
    using assms by (simp only: quiet_def)
  then have "cs_conf (vars w') = cs_conf (vars w)" by simp
  with assms show "kept w w'" "traffic w' = traffic w" "live w' = live w" "cbs w' = cbs w"
    by (auto simp: quiet_def kept_def traffic_def)
qed

text \<open>The buffers of the frame in use, whether its flag is set or not.\<close>

definition bufs :: "(nat \<rightharpoonup> nat) \<Rightarrow> nat \<Rightarrow> 'u cs \<Rightarrow> bool" where
  "bufs B f w \<longleftrightarrow> (\<exists>fr. frame (vars w) = Some fr \<and> f_id fr = f \<and> owned B (f_iov fr) (blocks (heap w)) \<and>
     length (f_iov fr) = nat (iov_cnt (vars w)) \<and>
     (\<forall>x \<in> set (f_iov fr). fst x \<noteq> None \<and> snd x = nat (cs_string_length (vars w))))"

lemma ready_bufs: "ready B f w \<Longrightarrow> bufs B f w"
  by (auto simp: ready_def bufs_def)

lemma bufs_view:
  fixes w w' :: "'u cs"
  assumes "cs_view w' = cs_view w" "bufs B f w"
  shows "bufs B f w'"
proof -
  obtain fr where fr: "frame (vars w) = Some fr" "f_id fr = f" "owned B (f_iov fr) (blocks (heap w))"
    "length (f_iov fr) = nat (iov_cnt (vars w))"
    "\<forall>x \<in> set (f_iov fr). fst x \<noteq> None \<and> snd x = nat (cs_string_length (vars w))"
    using assms(2) by (auto simp: bufs_def)
  note v = view_kept [OF assms(1)]
  obtain fr' where "frame (vars w') = Some fr'" "f_iov fr' = f_iov fr" "f_id fr' = f"
    using v(6,7) fr(1,2) by (cases "frame (vars w')") auto
  with fr v(1,3) show ?thesis
    by (simp add: bufs_def kept_def cs_conf_vars [of "vars w'" "vars w"])
qed

lemma bufs_quiet: "quiet w w' \<Longrightarrow> heap w' = heap w \<Longrightarrow> frame (vars w') = frame (vars w) \<Longrightarrow> bufs B f w \<Longrightarrow> bufs B f w'"
  by (simp add: bufs_def quiet_vars)

lemma bufs_at:
  assumes "bufs B f w" "i < nat (iov_cnt (vars w))"
  obtains fr b d where "frame (vars w) = Some fr" "f_id fr = f" "i < length (f_iov fr)"
    "f_iov fr ! i = (Some b, nat (cs_string_length (vars w)))" "heap_at (heap w) b = Some d"
    "length d = nat (cs_string_length (vars w))"
proof -
  obtain fr where fr: "frame (vars w) = Some fr" "f_id fr = f" "owned B (f_iov fr) (blocks (heap w))"
    "length (f_iov fr) = nat (iov_cnt (vars w))"
    "\<forall>x \<in> set (f_iov fr). fst x \<noteq> None \<and> snd x = nat (cs_string_length (vars w))"
    using assms(1) by (auto simp: bufs_def)
  have m: "f_iov fr ! i \<in> set (f_iov fr)" using fr(4) assms(2) by simp
  then obtain b where b: "f_iov fr ! i = (Some b, nat (cs_string_length (vars w)))"
    using fr(5) by (metis not_None_eq prod.collapse)
  then have "blocks (heap w) b = Some (nat (cs_string_length (vars w)))"
    using owned_mem [OF fr(3)] m by metis
  with fr b assms(2) that show ?thesis by (metis blocks_SomeD)
qed

lemma print_iov_rule:
  assumes "bufs B f w" "cs_mem_type (vars w) = UCS_MEMORY_TYPE_HOST"
    and "\<And>w'. quiet w w' \<Longrightarrow> heap w' = heap w \<Longrightarrow> frame (vars w') = frame (vars w) \<Longrightarrow> Q () w'"
  shows "wp (cs_allowed am wrap) (print_iov L f) Q w"
proof -
  let ?n = "nat (cs_string_length (vars w))"
  let ?I = "\<lambda>w'. quiet w w' \<and> heap w' = heap w \<and> frame (vars w') = frame (vars w)"
  have step: "wp (cs_allowed am wrap) (bind_p (iov_get f i) (\<lambda>(buf, len). bind_p (mem_type_read UCS_MEMORY_TYPE_HOST (replicate ?n NUL) buf ?n)
      (\<lambda>msg. then_p (printf_s msg) (result (None :: unit option)))))
    (\<lambda>r s'. case r of None \<Rightarrow> ?I s' | Some a \<Rightarrow> R (Some a) s') w'"
    if I: "?I w'" and i: "i < nat (iov_cnt (vars w))" for i R w'
  proof -
    have "bufs B f w'" using I assms(1) bufs_quiet by blast
    from bufs_at [OF this, of i] i quiet_vars [of w w'] I
    obtain fr b d where b: "frame (vars w') = Some fr" "f_id fr = f" "i < length (f_iov fr)"
      "f_iov fr ! i = (Some b, ?n)" "heap_at (heap w') b = Some d" "length d = ?n"
      by metis
    moreover have "frame (vars w) = Some fr" "heap_at (heap w) b = Some d" using I b by simp_all
    ultimately show ?thesis using I by (auto simp: wp iov_get_def)
  qed
  have "wp (cs_allowed am wrap) (for_p 0 (nat (iov_cnt (vars w))) (\<lambda>i. bind_p (iov_get f i) (\<lambda>(buf, len).
      bind_p (mem_type_read UCS_MEMORY_TYPE_HOST (replicate ?n NUL) buf ?n) (\<lambda>msg. then_p (printf_s msg) (result (None :: unit option))))))
    (\<lambda>_. Q ()) w'" if "?I w'" for w'
    by (rule wp_for_p [where I = "\<lambda>_. ?I"]) (use that in \<open>auto intro!: step assms(3)\<close>)
  then show ?thesis
    by (auto simp: print_iov_def Let_def assms(2) wp_seq alloca_def wp_if wp_fault_p intro!: wp_ask)
qed

lemma print_result_rule:
  assumes "bufs B f w" "cs_mem_type (vars w) = UCS_MEMORY_TYPE_HOST"
    and "\<And>w'. quiet w w' \<Longrightarrow> heap w' = heap w \<Longrightarrow> frame (vars w') = frame (vars w) \<Longrightarrow> Q () w'"
  shows "wp (cs_allowed am wrap) (print_result L is_server f i) Q w"
proof -
  have *: "wp (cs_allowed am wrap) (print_iov L f) (\<lambda>_. wp (cs_allowed am wrap) (print_p s) Q) (w\<lparr>printed := p\<rparr>)" for p s
  proof (rule print_iov_rule [of B])
    show "bufs B f (w\<lparr>printed := p\<rparr>)" using assms(1) by (simp add: bufs_def)
    fix w' assume "quiet (w\<lparr>printed := p\<rparr>) w'" "heap w' = heap (w\<lparr>printed := p\<rparr>)"
      "frame (vars w') = frame (vars (w\<lparr>printed := p\<rparr>))"
    then have "quiet w w'" "heap w' = heap w" "frame (vars w') = frame (vars w)" by (simp_all add: quiet_def)
    then show "wp (cs_allowed am wrap) (print_p s) Q w'" by (simp add: wp assms(3))
  qed (simp add: assms(2))
  show ?thesis
    unfolding print_result_def add_int_def print_p_def [of "CHR ''S'' # _"] print_p_def [of "CHR ''C'' # _"]
      print_p_def [of "CHR ''U'' # _"]
    using * by (simp add: wp_seq wp_if wp_fault_p print_p_def)
qed

text \<open>A transfer was started, with the result \<open>p\<close>.\<close>

definition flying :: "bool \<Rightarrow> (nat \<rightharpoonup> nat) \<Rightarrow> nat \<Rightarrow> ucs_ptr \<Rightarrow> 'u cs \<Rightarrow> bool" where
  "flying am B f p w \<longleftrightarrow> cs_ok am w \<and> bufs B f w \<and> ptr_live p \<subseteq># live w \<and>
     ((\<forall>q. p \<noteq> PtrReq q) \<longrightarrow> cbs w = Map.empty)"

lemma request_wait_rule:
  assumes "flying am B f p w" "RWorker wk \<in># live w"
    and "\<And>st w'. cs_ok am w' \<Longrightarrow> cs_view w' = cs_view w \<Longrightarrow> live w' = live w - ptr_live p \<Longrightarrow> cbs w' = Map.empty \<Longrightarrow>
      (\<forall>e. p = PtrErr e \<longrightarrow> st \<noteq> UCS_OK) \<Longrightarrow> Q st w'"
  shows "wp (cs_allowed am wrap) (request_wait L wk p f) Q w"
proof (cases p)
  case (PtrReq q)
  have "wp (cs_allowed am wrap) (bind_p (ucp_request_check_status L q) (\<lambda>st. then_p (ucp_request_free L q) (result st))) Q w'"
    if w': "cs_ok am w'" "live w' = live w" "cs_view w' = cs_view w" "\<not> \<not> req_complete f w'" for w'
  proof -
    have "cbs w' = Map.empty"
      using w'(1,4) cbs_ok_complete [of "cbs w'" "frame (vars w')"]
      by (auto simp: cs_ok_def req_complete_def frame_at_def split: option.splits if_splits)
    with w' PtrReq assms(1) show ?thesis
      by (auto simp: wp flying_def intro!: wp_ask assms(3))
  qed
  with PtrReq assms(1,2) show ?thesis
    by (auto simp: request_wait_def wp_seq flying_def intro!: cs_spin)
qed (use assms in \<open>auto simp: request_wait_def wp flying_def UCS_OK_def\<close>)

definition spent :: "(nat \<rightharpoonup> nat) \<Rightarrow> 'u cs \<Rightarrow> 'u cs \<Rightarrow> bool" where
  "spent B w w' \<longleftrightarrow> kept w w' \<and> traffic w' = traffic w \<and> blocks (heap w') = B \<and> cbs w' = Map.empty \<and>
     am_recv_buf (vars w') = am_recv_buf (vars w) \<and> next_frame (vars w') = next_frame (vars w)"

lemma spent_free:
  fixes w w' w'' :: "'u cs"
  assumes "cs_view w' = cs_view w" "quiet w' w''" "cbs w' = Map.empty" "blocks h = B"
  shows "spent B w (w''\<lparr>heap := h\<rparr>)"
  using view_kept [OF assms(1)] quiet_kept [OF assms(2)] quiet_vars [OF assms(2)] assms(3,4)
  by (auto simp: spent_def kept_def traffic_def)

lemma free_bufs_rule:
  assumes "bufs B f w" "cs_mem_type (vars w) = UCS_MEMORY_TYPE_HOST" "\<And>h. blocks h = B \<Longrightarrow> Q () (w\<lparr>heap := h\<rparr>)"
  shows "wp (cs_allowed am wrap) (buffer_free f) Q w"
proof -
  obtain fr where "frame (vars w) = Some fr" "f_id fr = f" "owned B (f_iov fr) (blocks (heap w))"
    "length (f_iov fr) = nat (iov_cnt (vars w))"
    using assms(1) by (auto simp: bufs_def)
  then show ?thesis
    using buffer_free_rule [of w fr B "cs_allowed am wrap" Q] assms(2,3) by simp
qed

lemma request_finalize_rule:
  fixes w :: "'u cs"
  assumes "flying am B f p w" "RWorker wk \<in># live w"
    and "\<And>r w'. spent B w w' \<Longrightarrow> live w' = live w - ptr_live p \<Longrightarrow> r = 0 \<or> r = -1 \<Longrightarrow>
      (\<forall>e. p = PtrErr e \<longrightarrow> r = -1) \<Longrightarrow> Q r w'"
  shows "wp (cs_allowed am wrap) (request_finalize L wk p is_server f i) Q w"
  unfolding request_finalize_def wp_bind_p
proof (rule request_wait_rule [OF assms(1,2)])
  fix st and w' :: "'u cs"
  assume w': "cs_ok am w'" "cs_view w' = cs_view w" "live w' = live w - ptr_live p" "cbs w' = Map.empty"
    and st: "\<forall>e. p = PtrErr e \<longrightarrow> st \<noteq> UCS_OK"
  have b: "bufs B f w'" "cs_mem_type (vars w') = UCS_MEMORY_TYPE_HOST"
    using bufs_view [OF w'(2)] assms(1) w'(1) by (simp_all add: flying_def cs_ok_def)
  have free: "wp (cs_allowed am wrap) (buffer_free f) (\<lambda>_. wp (cs_allowed am wrap) (result r) Q) w''"
    if "quiet w' w''" "heap w'' = heap w'" "frame (vars w'') = frame (vars w')" "r = 0 \<or> r = -1"
      "\<forall>e. p = PtrErr e \<longrightarrow> r = -1" for r w''
  proof (rule free_bufs_rule)
    show "bufs B f w''" using bufs_quiet that(1-3) b(1) by blast
    show "cs_mem_type (vars w'') = UCS_MEMORY_TYPE_HOST" using quiet_vars [OF that(1)] b(2) by simp
    show "wp (cs_allowed am wrap) (result r) Q (w''\<lparr>heap := h\<rparr>)" if "blocks h = B" for h
      using spent_free [OF w'(2) \<open>quiet w' w''\<close> w'(4) that] w'(3) quiet_kept [OF \<open>quiet w' w''\<close>] \<open>r = 0 \<or> r = -1\<close>
        \<open>\<forall>e. p = PtrErr e \<longrightarrow> r = -1\<close>
      by (auto simp: wp intro!: assms(3))
  qed
  show "wp (cs_allowed am wrap) (if st \<noteq> UCS_OK then then_p (buffer_free f) (result (-1))
     else bind_p (get_p (\<lambda>w. num_iterations (vars w))) (\<lambda>n.
       bind_p (if i = 0 then result True
               else bind_p (add_int n (-1)) (\<lambda>last_iter.
                 if i = last_iter then result True
                 else bind_p (add_int i 1) (\<lambda>k. result (k mod 2000 = 0)))) (\<lambda>print.
       then_p (if print then print_result L is_server f i else result ()) (then_p (buffer_free f) (result 0))))) Q w'"
    using st free b by (auto simp: wp_seq wp_if wp_fault_p add_int_def intro!: print_result_rule)
qed

text \<open>Between two messages; a frame with its buffers, before a transfer.\<close>

definition idle :: "bool \<Rightarrow> 'u cs \<Rightarrow> bool" where
  "idle am w \<longleftrightarrow> cs_ok am w \<and> frame (vars w) = None"

lemma idle_cbs: "idle am w \<Longrightarrow> cbs w = Map.empty"
  using cbs_ok_complete by (auto simp: idle_def cs_ok_def)

lemma idle_leave:
  assumes "idle am w" "kept w w'" "cbs w' = Map.empty" "\<forall>i. am_recv_buf (vars w') = Some i \<longrightarrow> i < next_frame (vars w')"
  shows "idle am (w'\<lparr>vars := (vars w')\<lparr>frame := None\<rparr>\<rparr>)"
  using assms cs_conf_vars [of "vars w'" "vars w"] by (auto simp: idle_def cs_ok_def kept_def)

definition started :: "bool \<Rightarrow> (nat \<rightharpoonup> nat) \<Rightarrow> nat \<Rightarrow> 'u cs \<Rightarrow> bool" where
  "started am B f w \<longleftrightarrow> cs_still am w \<and> ready B f w \<and> f < next_frame (vars w)"

lemma frame_enter_rule:
  assumes "\<And>u cs m. data_calls cs = data_calls (calls w) \<Longrightarrow> m \<le> nat (iov_cnt (vars w)) \<Longrightarrow>
      (m < nat (iov_cnt (vars w)) \<Longrightarrow> 2 ^ 60 \<le> iov_cnt (vars w)) \<Longrightarrow>
      Q (next_frame (vars w)) (w\<lparr>lib := u, calls := cs, vars := (vars w)\<lparr>frame := Some \<lparr>f_id = next_frame (vars w),
        f_iov = replicate m (None, 0), f_complete = False\<rparr>, next_frame := Suc (next_frame (vars w))\<rparr>\<rparr>)"
  shows "wp (cs_allowed am wrap) (frame_enter L) Q w"
proof -
  let ?n = "nat (iov_cnt (vars w))" and ?m = "(nat (iov_cnt (vars w)) * 16 mod 2 ^ 64) div 16"
  have m: "?m = ?n mod 2 ^ 60" using mod_mult_mult2 [of ?n 16 "2 ^ 60"] by simp
  have le: "?m \<le> ?n" unfolding m by (rule mod_less_eq_dividend)
  have big: "2 ^ 60 \<le> iov_cnt (vars w)" if "?m < ?n"
    using that unfolding m by (cases "?n < 2 ^ 60") auto
  show ?thesis
    unfolding frame_enter_def alloca_def Let_def
    by (auto simp: wp_seq wp_if wp_fault_p vars_p_def intro!: wp_ask assms le big)
qed

lemma fill_request_param_rule:
  assumes "frame (vars w) = Some \<lparr>f_id = f, f_iov = replicate m (None, 0), f_complete = False\<rparr>"
    "m \<le> nat (iov_cnt (vars w))" "m < nat (iov_cnt (vars w)) \<Longrightarrow> wrap" "cs_mem_type (vars w) = UCS_MEMORY_TYPE_HOST"
    and "\<And>w'. quiet w w' \<Longrightarrow> blocks (heap w') = blocks (heap w) \<Longrightarrow> Q (-1) w'"
    and "\<And>w'. quiet w w' \<Longrightarrow> ready (blocks (heap w)) f w' \<Longrightarrow>
      (is_client \<Longrightarrow> \<forall>d \<in> set (iov_contents w'). text_of (nat (cs_string_length (vars w))) d) \<Longrightarrow> Q 0 w'"
  shows "wp (cs_allowed am wrap) (fill_request_param L f is_client) Q w"
proof -
  have free: "wp (cs_allowed am wrap) (buffer_free f) (\<lambda>_. Q (-1)) w'"
    if "quiet w w'" "ready (blocks (heap w)) f w'" for w'
    by (rule free_bufs_rule [OF ready_bufs [OF that(2)]])
      (use that quiet_vars [OF that(1)] assms(4) in \<open>auto simp: wp intro!: assms(5)\<close>)
  have complete: "wp (cs_allowed am wrap) (set_complete f False) (\<lambda>_. Q 0) w'"
    if q: "quiet w w'" and r: "ready (blocks (heap w)) f w'" and t: "is_client \<Longrightarrow> \<forall>d \<in> set (iov_contents w'). text_of (nat (cs_string_length (vars w))) d"
    for w'
  proof -
    obtain ys where fr: "frame (vars w') = Some \<lparr>f_id = f, f_iov = ys, f_complete = False\<rparr>"
      using r by (auto simp: ready_def)
    have *: "w'\<lparr>vars := (vars w')\<lparr>frame := Some \<lparr>f_id = f, f_iov = ys, f_complete = False\<rparr>\<rparr>\<rparr> = w'"
      using fr by (cases w', cases "vars w'") simp
    have "Q 0 (w'\<lparr>vars := (vars w')\<lparr>frame := Some \<lparr>f_id = f, f_iov = ys, f_complete = False\<rparr>\<rparr>\<rparr>)"
      unfolding * by (rule assms(6) [OF q r t])
    with fr show ?thesis by (simp add: set_complete_def wp frame_at_def)
  qed
  have filled: "wp (cs_allowed am wrap) (if is_client then fill_buffer L f else result 0)
      (\<lambda>ret. wp (cs_allowed am wrap) (if ret \<noteq> 0 then then_p (buffer_free f) (result (-1)) else then_p (set_complete f False) (result 0)) Q) w'"
    if w': "quiet w w'" "ready (blocks (heap w)) f w'" for w'
  proof -
    have v: "cs_string_length (vars w') = cs_string_length (vars w)" "cs_mem_type (vars w') = UCS_MEMORY_TYPE_HOST"
      using quiet_vars [OF w'(1)] assms(4) by simp_all
    show ?thesis
      using w' v by (auto simp: wp_seq wp_if intro!: fill_buffer_rule [where B = "blocks (heap w)"] free complete
          intro: quiet_trans)
  qed
  show ?thesis
    unfolding fill_request_param_def wp_bind_p
  proof (rule buffer_malloc_rule [OF assms(1,2)])
    fix w' assume "quiet w w'" "malloced (blocks (heap w)) (nat (cs_string_length (vars w))) (nat (iov_cnt (vars w))) f
      (nat (iov_cnt (vars w))) w'"
    then show "wp (cs_allowed am wrap) (if (0 :: int) \<noteq> 0 then result (-1)
        else bind_p (if is_client then fill_buffer L f else result 0) (\<lambda>ret.
          if ret \<noteq> 0 then then_p (buffer_free f) (result (-1)) else then_p (set_complete f False) (result 0))) Q w'"
      using filled [OF _ malloced_ready] by (simp only: wp_bind_p refl not_True_eq_False if_False)
  qed (use assms(3-5) in \<open>auto simp: wp\<close>)
qed

text \<open>On the way from \<open>frame_enter\<close> to \<open>frame_leave\<close>.\<close>

lemma entered:
  fixes w :: "'u cs"
  assumes "idle am w" "data_calls cs = data_calls (calls w)"
    and "quiet (w\<lparr>lib := u, calls := cs, vars := (vars w)\<lparr>frame := fr, next_frame := Suc (next_frame (vars w))\<rparr>\<rparr>) w1"
  shows "kept w w1 \<and> traffic w1 = traffic w \<and> live w1 = live w \<and> cbs w1 = Map.empty \<and>
    cs_mem_type (vars w1) = UCS_MEMORY_TYPE_HOST \<and> (am_workers w1 \<noteq> {} \<longrightarrow> am) \<and>
    (\<forall>x. am_recv_buf (vars w1) = Some x \<longrightarrow> x < next_frame (vars w)) \<and> next_frame (vars w1) = Suc (next_frame (vars w))"
proof -
  let ?w0 = "w\<lparr>lib := u, calls := cs, vars := (vars w)\<lparr>frame := fr, next_frame := Suc (next_frame (vars w))\<rparr>\<rparr>"
  have w0: "kept w ?w0" "traffic ?w0 = traffic w" "live ?w0 = live w" "cbs ?w0 = Map.empty"
    "cs_mem_type (vars ?w0) = UCS_MEMORY_TYPE_HOST" "am_workers ?w0 \<noteq> {} \<longrightarrow> am"
    "\<forall>x. am_recv_buf (vars ?w0) = Some x \<longrightarrow> x < next_frame (vars w)" "next_frame (vars ?w0) = Suc (next_frame (vars w))"
    using assms(1,2) idle_cbs [OF assms(1)] by (auto simp: kept_def traffic_def idle_def cs_ok_def)
  show ?thesis
    using kept_trans [OF w0(1) quiet_kept(1) [OF assms(3)]] quiet_kept [OF assms(3)] quiet_vars [OF assms(3)] w0
    by (auto simp: kept_def)
qed

text \<open>\<open>T\<close> relates the result of starting the transfer to what was sent and received.\<close>

lemma send_recv_with_rule:
  fixes w :: "'u cs"
  assumes w: "idle am w" "RWorker wk \<in># live w" "2 ^ 60 \<le> iov_cnt (vars w) \<Longrightarrow> wrap"
    and op: "\<And>B f w1. started am B f w1 \<Longrightarrow> kept w w1 \<Longrightarrow> traffic w1 = traffic w \<Longrightarrow> live w1 = live w \<Longrightarrow>
      (\<not> is_server \<Longrightarrow> \<forall>d \<in> set (iov_contents w1). text_of (nat (cs_string_length (vars w))) d) \<Longrightarrow>
      wp (cs_allowed am wrap) (op f) (\<lambda>p w2. flying am B f p w2 \<and> kept w1 w2 \<and> live w2 = ptr_live p + live w1 \<and>
        T p (traffic w2)) w1"
    and Q: "\<And>r w'. idle am w' \<Longrightarrow> kept w w' \<Longrightarrow> blocks (heap w') = blocks (heap w) \<Longrightarrow> live w' = live w \<Longrightarrow>
      r = -1 \<and> traffic w' = traffic w \<or>
      (r = 0 \<or> r = -1) \<and> (\<exists>p. T p (traffic w') \<and> (\<forall>e. p = PtrErr e \<longrightarrow> r = -1)) \<Longrightarrow> Q r w'"
  shows "wp (cs_allowed am wrap) (send_recv_with L wk is_server i op) Q w"
  unfolding send_recv_with_def wp_bind_p
proof (rule frame_enter_rule)
  fix u cs m
  let ?f = "next_frame (vars w)"
  let ?w0 = "w\<lparr>lib := u, calls := cs, vars := (vars w)\<lparr>frame := Some \<lparr>f_id = ?f, f_iov = replicate m (None, 0),
    f_complete = False\<rparr>, next_frame := Suc ?f\<rparr>\<rparr>"
  assume cs: "data_calls cs = data_calls (calls w)" and m: "m \<le> nat (iov_cnt (vars w))"
    "m < nat (iov_cnt (vars w)) \<Longrightarrow> 2 ^ 60 \<le> iov_cnt (vars w)"
  have base: "kept w w1 \<and> traffic w1 = traffic w \<and> live w1 = live w \<and> cbs w1 = Map.empty \<and>
      cs_mem_type (vars w1) = UCS_MEMORY_TYPE_HOST \<and> (am_workers w1 \<noteq> {} \<longrightarrow> am) \<and>
      (\<forall>x. am_recv_buf (vars w1) = Some x \<longrightarrow> x < ?f) \<and> next_frame (vars w1) = Suc ?f"
    if "quiet ?w0 w1" for w1
    using entered [OF w(1) cs that] .
  have leave: "wp (cs_allowed am wrap) (frame_leave r) Q w'"
    if "kept w w'" "cbs w' = Map.empty" "blocks (heap w') = blocks (heap w)" "live w' = live w"
      "\<forall>x. am_recv_buf (vars w') = Some x \<longrightarrow> x < next_frame (vars w')"
      "r = -1 \<and> traffic w' = traffic w \<or> (r = 0 \<or> r = -1) \<and> (\<exists>p. T p (traffic w') \<and> (\<forall>e. p = PtrErr e \<longrightarrow> r = -1))"
    for r w'
    using idle_leave [OF w(1) that(1,2,5)] that(1,3,4,6)
    by (auto simp: frame_leave_def wp intro!: Q)
  show "wp (cs_allowed am wrap) (fill_request_param L ?f (\<not> is_server))
      (\<lambda>ret. wp (cs_allowed am wrap) (if ret \<noteq> 0 then result (-1) else bind_p (op ?f) (\<lambda>request. request_finalize L wk request is_server ?f i))
        (\<lambda>a. wp (cs_allowed am wrap) (frame_leave a) Q)) ?w0"
  proof (rule fill_request_param_rule [where m = m and f = ?f])
    fix w1 assume q: "quiet ?w0 w1" "blocks (heap w1) = blocks (heap ?w0)"
    show "wp (cs_allowed am wrap) (if (-1 :: int) \<noteq> 0 then result (-1) else bind_p (op ?f) (\<lambda>request. request_finalize L wk request is_server ?f i))
        (\<lambda>a. wp (cs_allowed am wrap) (frame_leave a) Q) w1"
      using base [OF q(1)] q(2) by (auto simp: wp_result intro!: leave less_SucI)
  next
    fix w1 assume q: "quiet ?w0 w1" "ready (blocks (heap ?w0)) ?f w1"
      and t: "\<not> is_server \<Longrightarrow> \<forall>d \<in> set (iov_contents w1). text_of (nat (cs_string_length (vars ?w0))) d"
    have k: "kept w w1" "traffic w1 = traffic w" "live w1 = live w" "cbs w1 = Map.empty"
      using base [OF q(1)] by auto
    have s: "started am (blocks (heap w)) ?f w1"
      using base [OF q(1)] q(2) by (auto simp: started_def cs_still_def cs_ok_def ready_def)
    have fin: "wp (cs_allowed am wrap) (request_finalize L wk p is_server ?f i) (\<lambda>a. wp (cs_allowed am wrap) (frame_leave a) Q) w2"
      if w2: "flying am (blocks (heap w)) ?f p w2" "kept w1 w2" "live w2 = ptr_live p + live w1" "T p (traffic w2)" for p w2
    proof (rule request_finalize_rule [OF w2(1)])
      show "RWorker wk \<in># live w2" using w2(3) k(3) w(2) by simp
      fix r :: int and w' :: "'u cs"
      assume s: "spent (blocks (heap w)) w2 w'" "live w' = live w2 - ptr_live p" "r = 0 \<or> r = -1" "\<forall>e. p = PtrErr e \<longrightarrow> r = -1"
      show "wp (cs_allowed am wrap) (frame_leave r) Q w'"
        by (rule leave) (use s w2 k kept_trans [OF kept_trans [OF k(1) w2(2)]] in \<open>auto simp: spent_def flying_def cs_ok_def\<close>)
    qed
    show "wp (cs_allowed am wrap) (if (0 :: int) \<noteq> 0 then result (-1) else bind_p (op ?f) (\<lambda>request. request_finalize L wk request is_server ?f i))
        (\<lambda>a. wp (cs_allowed am wrap) (frame_leave a) Q) w1"
      by (simp only: wp_bind_p refl not_True_eq_False if_False, rule wp_mono [OF op [OF s k(1-3)]])
        (use t fin in auto)
  qed (use m w in \<open>auto simp: idle_def cs_ok_def\<close>)
qed

lemma started_flying:
  assumes "started am B f w" "cb \<in> {Tag_Recv_Cb (Some f), Stream_Recv_Cb (Some f), Am_Recv_Cb (Some f), Send_Cb (Some f)}"
  shows "flying am B f p (w\<lparr>lib := u, calls := cs, live := ptr_live p + live w, cbs := ptr_cbs p (Some cb) (cbs w)\<rparr>)"
proof -
  obtain ys where ys: "frame (vars w) = Some \<lparr>f_id = f, f_iov = ys, f_complete = False\<rparr>"
    using assms(1) by (auto simp: started_def ready_def)
  have "cbs_ok (ptr_cbs p (Some cb) Map.empty) (frame (vars w))"
    using ys assms(2) by (cases p) (auto simp: cbs_ok_def)
  moreover have "(\<forall>q. p \<noteq> PtrReq q) \<longrightarrow> ptr_cbs p (Some cb) Map.empty = Map.empty"
    by (cases p) auto
  moreover have "bufs B f w" using assms(1) by (simp add: started_def ready_bufs)
  ultimately show ?thesis
    using assms(1) by (auto simp: flying_def started_def cs_still_def cs_ok_def bufs_def)
qed

lemma iov_send_rule:
  assumes "started am B f w" "REp ep \<in># live w" "\<And>d. data_calls [send d] = [send d]"
  shows "wp (cs_allowed am wrap) (iov_send L send ep f) (\<lambda>p w2. flying am B f p w2 \<and> kept w w2 \<and>
    live w2 = ptr_live p + live w \<and> traffic w2 = (fst (traffic w) @ [send (concat (iov_contents w))], snd (traffic w))) w"
proof -
  have r: "ready B f w" using assms(1) by (simp add: started_def)
  have "take (nat (iov_cnt (vars w))) (iov_contents w) = iov_contents w"
    using iov_contents_length [OF r] by simp
  moreover have "data_calls (calls w @ [send d]) = data_calls (calls w) @ [send d]" for d
    using assms(3) by (simp add: data_calls_def)
  ultimately show ?thesis
    using assms(1,2) unfolding iov_send_def
    by (auto simp: wp_seq simp del: data_calls_simps(3) intro!: iov_gather_rule [OF r] wp_request started_flying)
      (auto simp: kept_def traffic_def)
qed

text \<open>A transfer received at most one message, and one if it did not fail at once.\<close>

definition got :: "(ucx_call list \<times> string list) \<Rightarrow> bool \<Rightarrow> ucs_ptr \<Rightarrow> (ucx_call list \<times> string list) \<Rightarrow> bool" where
  "got t watched p t' \<longleftrightarrow> fst t' = fst t \<and>
     (watched \<longrightarrow> (\<exists>d. snd t' = snd t @ [d]) \<or> (\<exists>e. p = PtrErr e) \<and> snd t' = snd t)"

lemma flying_heap:
  assumes "flying am B f p w" "blocks h = blocks (heap w)"
  shows "flying am B f p (w\<lparr>heap := h\<rparr>)"
  using assms by (auto simp: flying_def cs_ok_def bufs_def filled_def)

lemma iov_recv_rule:
  assumes "started am B f w" "r \<in># live w" "data_calls [recv] = []"
    "cb \<in> {Tag_Recv_Cb (Some f), Stream_Recv_Cb (Some f), Am_Recv_Cb (Some f)}"
  shows "wp (cs_allowed am wrap) (iov_recv L recv r cb f) (\<lambda>p w2. flying am B f p w2 \<and> kept w w2 \<and>
    live w2 = ptr_live p + live w \<and> got (traffic w) (am_workers w = {}) p (traffic w2)) w"
  unfolding iov_recv_def wp_bind_p
proof (rule wp_request [OF assms(2)])
  fix a u
  let ?w = "w\<lparr>lib := u, calls := calls w @ [recv], live := ptr_live (a_ptr a) + live w,
    cbs := ptr_cbs (a_ptr a) (Some cb) (cbs w)\<rparr>"
  have f: "flying am B f (a_ptr a) ?w" by (rule started_flying [OF assms(1)]) (use assms(4) in blast)
  have "data_calls (calls w @ [recv]) = data_calls (calls w)" using assms(3) by (simp add: data_calls_def)
  then have k: "kept w ?w" "traffic ?w = traffic w" by (auto simp: kept_def traffic_def)
  obtain fr where fr: "frame (vars ?w) = Some fr" "f_id fr = f" "filled (f_iov fr) (heap ?w)"
    using ready_filled [of B f w] assms(1) by (auto simp: started_def)
  have "wp (cs_allowed am wrap) (iov_deliver f d) (\<lambda>_ w2. flying am B f (a_ptr a) w2 \<and> kept w w2 \<and>
      live w2 = ptr_live (a_ptr a) + live w \<and> got (traffic w) (am_workers w = {}) (a_ptr a) (traffic w2)) ?w" for d
    unfolding iov_deliver_def
    using fr f k flying_heap [OF f]
    by (auto simp: wp_seq kept_def traffic_def got_def flying_def cs_ok_def bufs_def intro!: iov_scatter_rule [of ?w fr _ _ d, simplified])
  then show "wp (cs_allowed am wrap) (get_p (\<lambda>w. nat (iov_cnt (vars w) * cs_string_length (vars w))))
      (\<lambda>n. wp (cs_allowed am wrap) (then_p (case a_ptr a of PtrErr e \<Rightarrow> result () | _ \<Rightarrow> iov_deliver f (take n (a_data a))) (result (a_ptr a)))
        (\<lambda>p w2. flying am B f p w2 \<and> kept w w2 \<and> live w2 = ptr_live p + live w \<and> got (traffic w) (am_workers w = {}) p (traffic w2))) ?w"
    using f k by (cases "a_ptr a") (auto simp: wp_seq got_def)
qed

lemma am_wait_rule:
  fixes w :: "'u cs"
  assumes "started am B f w" "RWorker wk \<in># live w"
  shows "wp (cs_allowed am wrap) (am_wait L wk f) (\<lambda>p w2. flying am B f p w2 \<and> kept w w2 \<and>
    live w2 = ptr_live p + live w \<and> fst (traffic w2) = fst (traffic w)) w"
proof -
  obtain fr where "frame (vars w) = Some fr" "f_id fr = f" "filled (f_iov fr) (heap w)"
    using ready_filled [of B f w] assms(1) by (auto simp: started_def)
  then have still: "cs_still am (w\<lparr>vars := (vars w)\<lparr>am_recv_buf := Some f\<rparr>\<rparr>)"
    using assms(1) by (simp add: started_def cs_still_def cs_ok_def)
  have turn: "started am B f (w'\<lparr>vars := (vars w')\<lparr>am_last := n\<rparr>\<rparr>) \<and> kept w w' \<and> traffic w' = traffic w"
    if w': "cs_still am w'" "cs_view w' = cs_view (w\<lparr>vars := (vars w)\<lparr>am_recv_buf := Some f\<rparr>\<rparr>)" for w' n
  proof -
    note v = view_kept [OF w'(2)]
    have "bufs B f w'"
      by (rule bufs_view [OF w'(2)]) (use assms(1) ready_bufs [of B f w] in \<open>auto simp: started_def bufs_def\<close>)
    then have "ready B f w'" using w'(1) by (auto simp: cs_still_def ready_def bufs_def) (metis cs_frame.surjective old.unit.exhaust)
    moreover have "kept w w'" using v(1) by (simp add: kept_def)
    ultimately show ?thesis
      using w'(1) v assms(1) by (auto simp: started_def cs_still_def ready_def)
  qed
  show ?thesis
    unfolding am_wait_def cs_progress_def vars_p_def wp_seq
  proof (rule still.spin [OF still])
    fix w' :: "'u cs"
    assume w': "cs_still am w'" "live w' = live (w\<lparr>vars := (vars w)\<lparr>am_recv_buf := Some f\<rparr>\<rparr>)"
      "cs_view w' = cs_view (w\<lparr>vars := (vars w)\<lparr>am_recv_buf := Some f\<rparr>\<rparr>)"
    let ?w = "w'\<lparr>vars := (vars w')\<lparr>am_last := am_last (vars w') + 1\<rparr>\<rparr>"
    have t: "started am B f ?w" "kept w ?w" "traffic ?w = traffic w" "live ?w = live w"
      using turn [OF w'(1,3)] w'(2) by simp_all
    have null: "flying am B f PtrNull ?w"
      using t(1) by (auto simp: flying_def started_def cs_still_def ready_bufs)
    have recv: "wp (cs_allowed am wrap) (iov_recv L (AmRecvData wk d n) (RWorker wk) (Am_Recv_Cb (Some f)) f)
      (\<lambda>p w2. flying am B f p w2 \<and> kept w w2 \<and> live w2 = ptr_live p + live w \<and> fst (traffic w2) = fst (traffic w)) ?w" for d n
      by (rule wp_mono [OF iov_recv_rule [OF t(1)]]) (use assms(2) t kept_trans [OF t(2)] in \<open>auto simp: got_def\<close>)
    show "wp (cs_allowed am wrap) (if am_is_rndv (vars ?w)
        then iov_recv L (AmRecvData wk (am_desc (vars ?w)) (msg_length (vars ?w))) (RWorker wk) (Am_Recv_Cb (Some f)) f
        else result PtrNull)
      (\<lambda>p w2. flying am B f p w2 \<and> kept w w2 \<and> live w2 = ptr_live p + live w \<and> fst (traffic w2) = fst (traffic w)) ?w"
      using recv null t by (simp add: wp_result)
  qed (use assms(2) in simp)
qed

text \<open>The call with which a side sends its buffers.\<close>

definition send_call :: "send_recv_type_t \<Rightarrow> nat \<Rightarrow> string \<Rightarrow> ucx_call" where
  "send_call mode ep d = (case mode of
     CLIENT_SERVER_SEND_RECV_STREAM \<Rightarrow> StreamSend ep d
   | CLIENT_SERVER_SEND_RECV_TAG \<Rightarrow> TagSend ep d TAG
   | CLIENT_SERVER_SEND_RECV_AM \<Rightarrow> AmSend ep 0 d)"

text \<open>The data of a message of \<open>n\<close> buffers.\<close>

definition test_data :: "nat \<Rightarrow> nat \<Rightarrow> string \<Rightarrow> bool" where
  "test_data n len d \<longleftrightarrow> (\<exists>ds. length ds = n \<and> d = concat ds \<and> (\<forall>d \<in> set ds. text_of len d))"

definition exchanged_one :: "send_recv_type_t \<Rightarrow> nat \<Rightarrow> bool \<Rightarrow> int \<Rightarrow> 'u cs \<Rightarrow> 'u cs \<Rightarrow> bool" where
  "exchanged_one mode ep is_server r w w' \<longleftrightarrow>
     r = -1 \<and> traffic w' = traffic w \<or>
     (r = 0 \<or> r = -1) \<and>
       (if is_server
        then fst (traffic w') = fst (traffic w) \<and>
          (mode \<noteq> CLIENT_SERVER_SEND_RECV_AM \<longrightarrow> am_workers w = {} \<longrightarrow>
            (\<exists>d. snd (traffic w') = snd (traffic w) @ [d]) \<or> r \<noteq> 0 \<and> snd (traffic w') = snd (traffic w))
        else \<exists>d. test_data (nat (iov_cnt (vars w))) (nat (cs_string_length (vars w))) d \<and>
          traffic w' = (fst (traffic w) @ [send_call mode ep d], snd (traffic w)))"

lemma client_server_communication_rule:
  assumes w: "idle am w" "RWorker wk \<in># live w" "REp ep \<in># live w" "2 ^ 60 \<le> iov_cnt (vars w) \<Longrightarrow> wrap"
    and Q: "\<And>r w'. idle am w' \<Longrightarrow> kept w w' \<Longrightarrow> blocks (heap w') = blocks (heap w) \<Longrightarrow> live w' = live w \<Longrightarrow>
      exchanged_one mode ep is_server r w w' \<Longrightarrow> Q r w'"
  shows "wp (cs_allowed am wrap) (client_server_communication L wk ep mode is_server i) Q w"
proof -
  let ?T = "\<lambda>p t. if is_server
    then if mode = CLIENT_SERVER_SEND_RECV_AM then fst t = fst (traffic w) else got (traffic w) (am_workers w = {}) p t
    else \<exists>d. test_data (nat (iov_cnt (vars w))) (nat (cs_string_length (vars w))) d \<and>
      t = (fst (traffic w) @ [send_call mode ep d], snd (traffic w))"
  have result_ok: "wp (cs_allowed am wrap) (send_recv_with L wk is_server i op) Q w"
    if op: "\<And>B f w1. started am B f w1 \<Longrightarrow> kept w w1 \<Longrightarrow> traffic w1 = traffic w \<Longrightarrow> live w1 = live w \<Longrightarrow>
      (\<not> is_server \<Longrightarrow> \<forall>d \<in> set (iov_contents w1). text_of (nat (cs_string_length (vars w))) d) \<Longrightarrow>
      wp (cs_allowed am wrap) (op f) (\<lambda>p w2. flying am B f p w2 \<and> kept w1 w2 \<and> live w2 = ptr_live p + live w1 \<and>
        ?T p (traffic w2)) w1" for op
    by (rule send_recv_with_rule [where T = ?T, OF w(1,2,4) op])
      (auto simp: exchanged_one_def got_def split: if_splits intro!: Q)
  have data: "test_data (nat (iov_cnt (vars w))) (nat (cs_string_length (vars w))) (concat (iov_contents w1))"
    if "started am B f w1" "kept w w1" "\<forall>d \<in> set (iov_contents w1). text_of (nat (cs_string_length (vars w))) d" for B f w1
    using that iov_contents_length [of B f w1] cs_conf_vars [of "vars w1" "vars w"]
    unfolding test_data_def by (intro exI [of _ "iov_contents w1"]) (simp add: started_def kept_def)
  show ?thesis
  proof (cases mode)
    case CLIENT_SERVER_SEND_RECV_STREAM
    show ?thesis
      unfolding client_server_communication_def CLIENT_SERVER_SEND_RECV_STREAM send_recv_type_t.case send_recv_stream_def
      by (rule result_ok)
        (use w CLIENT_SERVER_SEND_RECV_STREAM data in \<open>auto simp: wp_seq wp_if kept_def send_call_def
          intro!: wp_mono [OF iov_send_rule] wp_mono [OF iov_recv_rule]\<close>)
  next
    case CLIENT_SERVER_SEND_RECV_TAG
    show ?thesis
      unfolding client_server_communication_def CLIENT_SERVER_SEND_RECV_TAG send_recv_type_t.case send_recv_tag_def
      by (rule result_ok)
        (use w CLIENT_SERVER_SEND_RECV_TAG data in \<open>auto simp: wp_seq wp_if kept_def send_call_def
          intro!: wp_mono [OF iov_send_rule] wp_mono [OF iov_recv_rule]\<close>)
  next
    case CLIENT_SERVER_SEND_RECV_AM
    show ?thesis
      unfolding client_server_communication_def CLIENT_SERVER_SEND_RECV_AM send_recv_type_t.case send_recv_am_def
      by (rule result_ok)
        (use w CLIENT_SERVER_SEND_RECV_AM data in \<open>auto simp: wp_seq wp_if send_call_def
          intro!: wp_mono [OF iov_send_rule] wp_mono [OF am_wait_rule]\<close>)
  qed
qed

end
