(* ===== verification/Ucx_Client_Server_Run.thy ===== *)
theory Ucx_Client_Server_Run
  imports Ucx_Client_Server_Message
begin

text \<open>
  What a run of \<^verbatim>\<open>ucp_example_server.c\<close> leaves and sends: the exchanges with one peer, the client, the
  server's loop and \<^verbatim>\<open>main\<close>, and the properties of the program.
\<close>

section \<open>The exchanges with one peer\<close>

text \<open>What was sent: \<open>k\<close> messages of test data on one endpoint.\<close>

definition sent_more :: "send_recv_type_t \<Rightarrow> nat \<Rightarrow> cs_vars \<Rightarrow> nat \<Rightarrow> ucx_call list \<Rightarrow> ucx_call list \<Rightarrow> bool" where
  "sent_more mode ep v k cs cs' \<longleftrightarrow> (\<exists>ds. length ds = k \<and> cs' = cs @ map (send_call mode ep) ds \<and>
     (\<forall>d \<in> set ds. test_data (nat (iov_cnt v)) (nat (cs_string_length v)) d))"

lemma sent_more_0 [simp]: "sent_more mode ep v 0 cs cs' \<longleftrightarrow> cs' = cs"
  by (auto simp: sent_more_def)

lemma sent_more_Suc:
  "sent_more mode ep v k cs cs' \<Longrightarrow> test_data (nat (iov_cnt v)) (nat (cs_string_length v)) d \<Longrightarrow>
   sent_more mode ep v (Suc k) cs (cs' @ [send_call mode ep d])"
  unfolding sent_more_def by (elim exE) (rule_tac x = "ds @ [d]" in exI, auto)

lemma sent_more_conf: "cs_conf v = cs_conf u \<Longrightarrow> sent_more mode ep v k cs cs' = sent_more mode ep u k cs cs'"
  by (simp add: sent_more_def cs_conf_vars [of v u])

text \<open>What was received: \<open>k\<close> messages, over the stream and tag interfaces.\<close>

definition received_more :: "send_recv_type_t \<Rightarrow> 'u cs \<Rightarrow> nat \<Rightarrow> string list \<Rightarrow> string list \<Rightarrow> bool" where
  "received_more mode w k ds ds' \<longleftrightarrow>
     (mode \<noteq> CLIENT_SERVER_SEND_RECV_AM \<longrightarrow> am_workers w = {} \<longrightarrow> (\<exists>rs. length rs = k \<and> ds' = ds @ rs))"

lemma received_more_0: "ds' = ds \<Longrightarrow> received_more mode w 0 ds ds'"
  by (simp add: received_more_def)

lemma received_more_trans:
  "received_more mode w k ds ds' \<Longrightarrow> am_workers w' = am_workers w \<Longrightarrow> received_more mode w' j ds' ds'' \<Longrightarrow>
   received_more mode w (k + j) ds ds''"
  unfolding received_more_def by (metis append_assoc length_append)

text \<open>The state after a part of the exchanges: \<open>k\<close> messages sent and \<open>j\<close> received since \<open>w\<close>.\<close>

definition worked :: "bool \<Rightarrow> send_recv_type_t \<Rightarrow> nat \<Rightarrow> 'u cs \<Rightarrow> nat \<Rightarrow> nat \<Rightarrow> 'u cs \<Rightarrow> bool" where
  "worked am mode ep w k j w' \<longleftrightarrow> idle am w' \<and> cs_conf (vars w') = cs_conf (vars w) \<and>
     blocks (heap w') = blocks (heap w) \<and> live w' = live w \<and>
     (am_workers w' = am_workers w \<or> mode = CLIENT_SERVER_SEND_RECV_AM) \<and>
     sent_more mode ep (vars w) k (fst (traffic w)) (fst (traffic w')) \<and>
     received_more mode w j (snd (traffic w)) (snd (traffic w'))"

lemma worked_start: "idle am w \<Longrightarrow> worked am mode ep w 0 0 w"
  by (simp add: worked_def received_more_0)

lemma worked_conf: "worked am mode ep w k j w' \<Longrightarrow> cs_conf (vars w') = cs_conf (vars w)"
  by (simp add: worked_def)

lemma worked_turn:
  assumes "worked am mode ep w k j w'" "idle am w''" "kept w' w''" "blocks (heap w'') = blocks (heap w')"
    "live w'' = live w'" "exchanged_one mode ep is_server r w' w''"
  shows "\<exists>k' j'. worked am mode ep w k' j' w'' \<and>
    (if is_server then k' = k \<and> (j' = j \<or> j' = Suc j) else j' = j \<and> (k' = k \<or> k' = Suc k)) \<and>
    (r = 0 \<longrightarrow> k' + j' = Suc (k + j)) \<and> (r = 0 \<or> r = -1)"
proof -
  have v: "nat (iov_cnt (vars w')) = nat (iov_cnt (vars w))" "nat (cs_string_length (vars w')) = nat (cs_string_length (vars w))"
    using assms(1) cs_conf_vars [of "vars w'" "vars w"] by (simp_all add: worked_def)
  have am: "mode \<noteq> CLIENT_SERVER_SEND_RECV_AM \<Longrightarrow> am_workers w' = am_workers w" "am_workers w'' = am_workers w'"
    using assms(1,3) by (auto simp: worked_def kept_def)
  have same: "worked am mode ep w k j w''" if "traffic w'' = traffic w'"
    using assms(1-5) that by (auto simp: worked_def kept_def)
  have sent: "worked am mode ep w (Suc k) j w''"
    if "test_data (nat (iov_cnt (vars w'))) (nat (cs_string_length (vars w'))) d"
      "traffic w'' = (fst (traffic w') @ [send_call mode ep d], snd (traffic w'))" for d
    using assms(1-5) that sent_more_Suc [of mode ep "vars w" k "fst (traffic w)" "fst (traffic w')" d] v
    by (auto simp: worked_def kept_def)
  have unwatched: "worked am mode ep w k i w''"
    if "fst (traffic w'') = fst (traffic w')" "mode = CLIENT_SERVER_SEND_RECV_AM \<or> am_workers w' \<noteq> {}" for i
    using assms(1-5) that am by (auto simp: worked_def kept_def received_more_def)
  have received: "worked am mode ep w k (Suc j) w''"
    if "fst (traffic w'') = fst (traffic w')" "snd (traffic w'') = snd (traffic w') @ [d]" for d
    using assms(1-5) that am by (auto simp: worked_def kept_def received_more_def)
  have r: "r = 0 \<or> r = -1" using assms(6) by (auto simp: exchanged_one_def)
  show ?thesis
  proof (cases "traffic w'' = traffic w' \<and> r = -1")
    case True
    then show ?thesis using same by (intro exI [of _ k] exI [of _ j]) simp
  next
    case False
    show ?thesis
    proof (cases is_server)
      case True
      with False assms(6) have t: "fst (traffic w'') = fst (traffic w')"
        "mode = CLIENT_SERVER_SEND_RECV_AM \<or> am_workers w' \<noteq> {} \<or> (\<exists>d. snd (traffic w'') = snd (traffic w') @ [d]) \<or>
           r = -1 \<and> traffic w'' = traffic w'"
        by (auto simp: exchanged_one_def prod_eq_iff)
      then have "worked am mode ep w k (Suc j) w''" using unwatched received False by blast
      with True r show ?thesis by (intro exI [of _ k] exI [of _ "Suc j"]) simp
    next
      case False
      with \<open>\<not> (traffic w'' = traffic w' \<and> r = -1)\<close> assms(6) obtain d where
        "test_data (nat (iov_cnt (vars w'))) (nat (cs_string_length (vars w'))) d"
        "traffic w'' = (fst (traffic w') @ [send_call mode ep d], snd (traffic w'))"
        by (auto simp: exchanged_one_def)
      with sent False r show ?thesis by (intro exI [of _ "Suc k"] exI [of _ j]) simp
    qed
  qed
qed

text \<open>One more exchange.\<close>

lemma worked_communication:
  fixes w w' :: "'u cs"
  assumes "worked am mode ep w k j w'" "RWorker wk \<in># live w" "REp ep \<in># live w" "2 ^ 60 \<le> iov_cnt (vars w) \<Longrightarrow> wrap"
    and "\<And>r k' j' w''. worked am mode ep w k' j' w'' \<Longrightarrow>
      (if is_server then k' = k \<and> (j' = j \<or> j' = Suc j) else j' = j \<and> (k' = k \<or> k' = Suc k)) \<Longrightarrow>
      (r = 0 \<longrightarrow> k' + j' = Suc (k + j)) \<Longrightarrow> r = 0 \<or> r = -1 \<Longrightarrow> Q r w''"
  shows "wp (cs_allowed am wrap) (client_server_communication L wk ep mode is_server i) Q w'"
proof (rule client_server_communication_rule)
  show "idle am w'" "RWorker wk \<in># live w'" "REp ep \<in># live w'" using assms(1-3) by (auto simp: worked_def)
  show "2 ^ 60 \<le> iov_cnt (vars w') \<Longrightarrow> wrap"
    using assms(4) cs_conf_vars [OF worked_conf [OF assms(1)]] by simp
  fix r and w'' :: "'u cs"
  assume "idle am w''" "kept w' w''" "blocks (heap w'') = blocks (heap w')" "live w'' = live w'"
    "exchanged_one mode ep is_server r w' w''"
  from worked_turn [OF assms(1) this] show "Q r w''" using assms(5) by blast
qed

lemma worked_view:
  fixes w w' w'' :: "'u cs"
  assumes "worked am mode ep w k j w'" "cs_ok am w''" "cs_view w'' = cs_view w'" "live w'' = live w'"
  shows "worked am mode ep w k j w''"
  using assms view_kept [OF assms(3)] by (auto simp: worked_def kept_def idle_def)

lemma register_rule:
  assumes "worked am mode ep w k j w'" "RWorker wk \<in># live w" "am" "mode = CLIENT_SERVER_SEND_RECV_AM"
    and "\<And>r w''. worked am mode ep w k j w'' \<Longrightarrow> Q r w''"
  shows "wp F (register_am_recv_callback L wk) Q w'"
proof -
  have "worked am mode ep w k j (w'\<lparr>lib := u, calls := calls w' @ [SetAmHandler wk], am_workers := a\<rparr>)" for u a
    using assms(1,3,4) by (auto simp: worked_def idle_def cs_ok_def traffic_def received_more_def)
  moreover have "worked am mode ep w k j (w'\<lparr>lib := u, calls := calls w' @ [SetAmHandler wk]\<rparr>)" for u
    using assms(1) by (auto simp: worked_def idle_def traffic_def split: if_splits)
  moreover have "RWorker wk \<in># live w'" using assms(1,2) by (simp add: worked_def)
  ultimately show ?thesis
    using assms(5) by (auto simp: register_am_recv_callback_def wp intro!: wp_ask)
qed

lemma register_then:
  assumes "worked am mode ep w k j w'" "RWorker wk \<in># live w" "c \<Longrightarrow> am \<and> mode = CLIENT_SERVER_SEND_RECV_AM"
    and "\<And>w''. worked am mode ep w k j w'' \<Longrightarrow> Q (-1) w''" "\<And>w''. worked am mode ep w k j w'' \<Longrightarrow> wp F fin Q w''"
  shows "wp F (bind_p (if c then register_am_recv_callback L wk else result UCS_OK)
    (\<lambda>status. if status \<noteq> UCS_OK then result (-1) else fin)) Q w'"
  using assms by (cases c) (auto simp: wp_seq wp_if intro!: register_rule)

text \<open>How many of the \<open>n\<close> messages and the acknowledgement were exchanged.\<close>

definition work_done :: "bool \<Rightarrow> nat \<Rightarrow> int \<Rightarrow> nat \<Rightarrow> nat \<Rightarrow> bool" where
  "work_done is_server n r k j \<longleftrightarrow> (r = 0 \<or> r = -1) \<and>
     (if is_server then k \<le> 1 \<and> j \<le> n \<and> (0 < k \<longrightarrow> j = n) else j \<le> 1 \<and> k \<le> n \<and> (0 < j \<longrightarrow> k = n)) \<and>
     (r = 0 \<longrightarrow> k + j = Suc n)"

text \<open>After \<open>i\<close> turns of the loop; a server receives in them, a client sends.\<close>

definition turned :: "bool \<Rightarrow> send_recv_type_t \<Rightarrow> nat \<Rightarrow> bool \<Rightarrow> 'u cs \<Rightarrow> nat \<Rightarrow> 'u cs \<Rightarrow> bool" where
  "turned am mode ep is_server w i w' \<longleftrightarrow> worked am mode ep w (if is_server then 0 else i) (if is_server then i else 0) w'"

lemma work_turn:
  fixes w :: "'u cs"
  assumes w: "RWorker wk \<in># live w" "REp ep \<in># live w" "2 ^ 60 \<le> iov_cnt (vars w) \<Longrightarrow> wrap"
    and Q: "\<And>r k j w'. worked am mode ep w k j w' \<Longrightarrow> work_done is_server (nat (num_iterations (vars w))) r k j \<Longrightarrow> Q r w'"
    and i: "turned am mode ep is_server w i w'" "i < nat (num_iterations (vars w))"
  shows "wp (cs_allowed am wrap) (bind_p (client_server_communication L wk ep mode is_server (int i)) (\<lambda>ret. result (if ret \<noteq> 0 then Some ret else None)))
    (\<lambda>r s'. case r of None \<Rightarrow> turned am mode ep is_server w (Suc i) s' | Some a \<Rightarrow> Q a s') w'"
  unfolding wp_seq
proof (rule worked_communication [OF i(1) [unfolded turned_def] w])
  fix r :: int and k' j' and w'' :: "'u cs"
  assume "worked am mode ep w k' j' w''"
    "if is_server then k' = (if is_server then 0 else i) \<and> (j' = (if is_server then i else 0) \<or> j' = Suc (if is_server then i else 0))
     else j' = (if is_server then i else 0) \<and> (k' = (if is_server then 0 else i) \<or> k' = Suc (if is_server then 0 else i))"
    "r = 0 \<longrightarrow> k' + j' = Suc ((if is_server then 0 else i) + (if is_server then i else 0))" "r = 0 \<or> r = - 1"
  with i(2) show "case (if r \<noteq> 0 then Some r else None) of None \<Rightarrow> turned am mode ep is_server w (Suc i) w'' | Some a \<Rightarrow> Q a w''"
    by (cases "r = 0"; cases is_server) (auto intro!: Q [of k' j'] simp: work_done_def turned_def)
qed

text \<open>The message in the other direction, after which a server waits until the client has gone.\<close>

lemma work_close:
  fixes w :: "'u cs"
  assumes "worked am mode ep w k j w'" "RWorker wk \<in># live w" "\<And>w''. worked am mode ep w k j w'' \<Longrightarrow> Q w''"
  shows "wp (cs_allowed am wrap) (while_p (\<lambda>w. is_server \<and> \<not> connection_closed (vars w)) (cs_progress L wk)) (\<lambda>_. Q) (w'\<lparr>printed := p\<rparr>)"
proof (rule cs_spin)
  show "cs_ok am (w'\<lparr>printed := p\<rparr>)" "RWorker wk \<in># live (w'\<lparr>printed := p\<rparr>)"
    using assms(1,2) by (auto simp: worked_def idle_def)
  fix w'' :: "'u cs"
  assume "cs_ok am w''" "live w'' = live (w'\<lparr>printed := p\<rparr>)" "cs_view w'' = cs_view (w'\<lparr>printed := p\<rparr>)"
  then show "Q w''" using worked_view [OF assms(1)] by (auto intro: assms(3))
qed

lemma work_fin:
  fixes w :: "'u cs"
  assumes w: "RWorker wk \<in># live w" "REp ep \<in># live w" "2 ^ 60 \<le> iov_cnt (vars w) \<Longrightarrow> wrap"
    and Q: "\<And>r k j w'. worked am mode ep w k j w' \<Longrightarrow> work_done is_server (nat (num_iterations (vars w))) r k j \<Longrightarrow> Q r w'"
    and i: "turned am mode ep is_server w (nat (num_iterations (vars w))) w'"
  shows "wp (cs_allowed am wrap) (client_server_communication L wk ep mode (\<not> is_server) i) (\<lambda>ret. wp (cs_allowed am wrap) (if ret \<noteq> 0 then result ret
    else then_p (print_p (if is_server then ''sent FIN message'' else ''received FIN message''))
      (then_p (while_p (\<lambda>w. is_server \<and> \<not> connection_closed (vars w)) (cs_progress L wk)) (result 0))) Q) w'"
proof (rule worked_communication [OF i [unfolded turned_def] w])
  let ?n = "nat (num_iterations (vars w))"
  fix r :: int and k' j' and w'' :: "'u cs"
  assume a: "worked am mode ep w k' j' w''"
    "if \<not> is_server then k' = (if is_server then 0 else ?n) \<and> (j' = (if is_server then ?n else 0) \<or> j' = Suc (if is_server then ?n else 0))
     else j' = (if is_server then ?n else 0) \<and> (k' = (if is_server then 0 else ?n) \<or> k' = Suc (if is_server then 0 else ?n))"
    "r = 0 \<longrightarrow> k' + j' = Suc ((if is_server then 0 else ?n) + (if is_server then ?n else 0))" "r = 0 \<or> r = - 1"
  then have d: "work_done is_server ?n r k' j'"
    by (cases is_server) (auto simp: work_done_def)
  show "wp (cs_allowed am wrap) (if r \<noteq> 0 then result r
    else then_p (print_p (if is_server then ''sent FIN message'' else ''received FIN message''))
      (then_p (while_p (\<lambda>w. is_server \<and> \<not> connection_closed (vars w)) (cs_progress L wk)) (result 0))) Q w''"
  proof (cases "r = 0")
    case True
    with d have "Q 0 w3" if "worked am mode ep w k' j' w3" for w3 using Q [OF that] by simp
    with True work_close [OF a(1) w(1)] show ?thesis by (simp add: wp_seq print_p_def)
  qed (simp add: wp_seq Q [OF a(1) d])
qed

lemma client_server_do_work_rule:
  fixes w :: "'u cs"
  assumes w: "idle am w" "RWorker wk \<in># live w" "REp ep \<in># live w" "2 ^ 60 \<le> iov_cnt (vars w) \<Longrightarrow> wrap"
    "mode = CLIENT_SERVER_SEND_RECV_AM \<Longrightarrow> am"
    and Q: "\<And>r k j w'. worked am mode ep w k j w' \<Longrightarrow> work_done is_server (nat (num_iterations (vars w))) r k j \<Longrightarrow> Q r w'"
  shows "wp (cs_allowed am wrap) (client_server_do_work L wk ep mode is_server) Q w"
proof -
  let ?F = "cs_allowed am wrap" and ?n = "nat (num_iterations (vars w))" and ?I = "turned am mode ep is_server w"
  let ?rest = "bind_p (if \<not> is_server \<and> mode = CLIENT_SERVER_SEND_RECV_AM
      then register_am_recv_callback L wk else result UCS_OK) (\<lambda>status.
    if status \<noteq> UCS_OK then result (-1)
    else bind_p (add_int (int ?n) 1) (\<lambda>k. bind_p (client_server_communication L wk ep mode (\<not> is_server) k) (\<lambda>ret.
      if ret \<noteq> 0 then result ret
      else then_p (print_p (if is_server then ''sent FIN message'' else ''received FIN message''))
        (then_p (while_p (\<lambda>w. is_server \<and> \<not> connection_closed (vars w)) (cs_progress L wk)) (result 0)))))"
  have start: "?I 0 (w\<lparr>vars := (vars w)\<lparr>connection_closed := False\<rparr>\<rparr>)"
    using w(1) by (simp add: turned_def worked_def idle_def received_more_0)
  have rest: "wp ?F ?rest Q w'" if "?I ?n w'" for w'
  proof -
    have failed: "Q (-1) w''" if "?I ?n w''" for w''
      by (rule Q [OF that [unfolded turned_def]]) (simp add: work_done_def)
    show ?thesis
      by (rule register_then [OF that [unfolded turned_def] w(2)], fold turned_def)
        (use w(5) failed work_fin [OF w(2-4) Q] in \<open>auto simp: add_int_def wp_seq wp_if wp_fault_p\<close>)
  qed
  let ?body = "\<lambda>i. bind_p (client_server_communication L wk ep mode is_server (int i)) (\<lambda>ret. result (if ret \<noteq> 0 then Some ret else None))"
  have loop: "wp ?F (for_p 0 ?n ?body) (\<lambda>failed w'. case failed of Some ret \<Rightarrow> Q ret w' | None \<Rightarrow> R w')
      (w\<lparr>vars := (vars w)\<lparr>connection_closed := False\<rparr>\<rparr>)" if R: "\<And>w'. ?I ?n w' \<Longrightarrow> R w'" for R
  proof (rule wp_for_p [where I = ?I, OF start])
    show "wp ?F (?body i) (\<lambda>r s'. case r of None \<Rightarrow> ?I (Suc i) s' | Some a \<Rightarrow>
        (case Some a of Some ret \<Rightarrow> Q ret s' | None \<Rightarrow> R s')) w'" if "?I i w'" "i < 0 + ?n" for i w'
      using work_turn [OF w(2-4) Q that(1)] that(2) by (simp only: option.case add_0)
    show "case None of Some ret \<Rightarrow> Q ret w' | None \<Rightarrow> R w'" if "?I (0 + ?n) w'" for w'
      using R that by (simp only: option.case add_0)
  qed
  have n: "num_iterations (vars (w\<lparr>vars := (vars w)\<lparr>connection_closed := False\<rparr>\<rparr>)) = num_iterations (vars w)" by simp
  show ?thesis
    unfolding client_server_do_work_def wp_then_p vars_p_def wp_put_p wp_bind_p [of _ "get_p _"] wp_get_p
      wp_bind_p [of _ "for_p _ _ _"] n
    by (rule wp_mono [OF loop [OF rest]]) (simp_all only: wp_option wp_result)
qed


section \<open>The client\<close>

text \<open>The same state but for handles, calls that send no data and the state of the library.\<close>

definition alike :: "'u cs \<Rightarrow> 'u cs \<Rightarrow> bool" where
  "alike w w' \<longleftrightarrow> cs_conf (vars w') = cs_conf (vars w) \<and> traffic w' = traffic w \<and> am_workers w' = am_workers w \<and>
     blocks (heap w') = blocks (heap w)"

lemma alike_refl [simp]: "alike w w"
  by (simp add: alike_def)

lemma alike_trans: "alike w w' \<Longrightarrow> alike w' w'' \<Longrightarrow> alike w w''"
  by (simp add: alike_def)

lemma alike_simps [simp]:
  "alike w (w'\<lparr>lib := u\<rparr>) = alike w w'" "alike w (w'\<lparr>live := l\<rparr>) = alike w w'" "alike w (w'\<lparr>printed := p\<rparr>) = alike w w'"
  "data_calls cs = data_calls (calls w') \<Longrightarrow> alike w (w'\<lparr>calls := cs\<rparr>) = alike w w'"
  "cs_conf v = cs_conf (vars w') \<Longrightarrow> alike w (w'\<lparr>vars := v\<rparr>) = alike w w'"
  by (simp_all add: alike_def traffic_def)

lemma idle_simps [simp]:
  "idle am (w\<lparr>lib := u\<rparr>) = idle am w" "idle am (w\<lparr>live := l\<rparr>) = idle am w" "idle am (w\<lparr>printed := p\<rparr>) = idle am w"
  "idle am (w\<lparr>calls := cs\<rparr>) = idle am w"
  "cs_mem_type v = cs_mem_type (vars w) \<Longrightarrow> frame v = frame (vars w) \<Longrightarrow> am_recv_buf v = am_recv_buf (vars w) \<Longrightarrow>
     next_frame v = next_frame (vars w) \<Longrightarrow> idle am (w\<lparr>vars := v\<rparr>) = idle am w"
  by (simp_all add: idle_def)

lemma view_idle:
  fixes w w' :: "'u cs"
  assumes "cs_view w' = cs_view w" "cs_ok am w'" "idle am w"
  shows "idle am w' \<and> alike w w'"
  using view_kept [OF assms(1)] assms(2,3) by (simp add: idle_def alike_def kept_def)

text \<open>The exchanges of \<open>w1\<close>, which is like \<open>w\<close>, seen from \<open>w\<close> once the endpoint is closed.\<close>

lemma worked_return:
  fixes w w1 w2 w3 :: "'u cs"
  assumes "worked am mode ep w1 k j w2" "alike w w1" "cs_ok am w3" "cs_view w3 = cs_view w2" "live w3 = live w"
  shows "worked am mode ep w k j w3"
proof -
  have i: "idle am w3" "alike w2 w3"
    using view_idle [OF assms(4,3)] assms(1) by (simp_all add: worked_def)
  have "received_more mode w j (snd (traffic w)) (snd (traffic w3))"
    using assms(1,2) i(2) by (simp add: worked_def alike_def received_more_def)
  moreover have "sent_more mode ep (vars w) k (fst (traffic w)) (fst (traffic w3))"
    using assms(1,2) i(2) sent_more_conf [of "vars w1" "vars w"] by (simp add: worked_def alike_def)
  ultimately show ?thesis
    using assms(1,2,5) i by (auto simp: worked_def alike_def)
qed

lemma set_sock_addr_rule:
  assumes "\<And>a u cs. data_calls cs = data_calls (calls w) \<Longrightarrow> Q a (w\<lparr>lib := u, calls := cs\<rparr>)" "\<And>a. Q a w"
  shows "wp F (set_sock_addr L address) Q w"
  unfolding set_sock_addr_def using assms by (auto simp: wp split: option.split intro!: wp_ask)

lemma ep_create_rule:
  assumes "RWorker wk \<in># live w"
    "\<And>st ep u. st \<noteq> UCS_OK \<Longrightarrow> Q (st, 0) (w\<lparr>lib := u, calls := calls w @ [EpCreate wk target]\<rparr>)"
    "\<And>ep u. Q (UCS_OK, ep) (w\<lparr>lib := u, calls := calls w @ [EpCreate wk target], live := add_mset (REp ep) (live w)\<rparr>)"
  shows "wp F (ucp_ep_create L wk target) Q w"
  using assms by (auto simp: wp intro!: wp_ask)

lemma work_on_endpoint:
  fixes w w1 :: "'u cs"
  assumes "idle am w1" "alike w w1" "live w1 = add_mset (REp ep) (live w)" "RWorker wk \<in># live w"
    "2 ^ 60 \<le> iov_cnt (vars w) \<Longrightarrow> wrap" "mode = CLIENT_SERVER_SEND_RECV_AM \<Longrightarrow> am"
    and "\<And>r k j w'. worked am mode ep w k j w' \<Longrightarrow> work_done is_server (nat (num_iterations (vars w))) r k j \<Longrightarrow> Q r w'"
  shows "wp (cs_allowed am wrap) (client_server_do_work L wk ep mode is_server)
    (\<lambda>ret. wp (cs_allowed am wrap) (ep_close L (cs_handler L) wk ep force) (\<lambda>_. Q ret)) w1"
proof (rule client_server_do_work_rule [OF assms(1)])
  have v: "iov_cnt (vars w1) = iov_cnt (vars w)" "num_iterations (vars w1) = num_iterations (vars w)"
    using assms(2) cs_conf_vars [of "vars w1" "vars w"] by (simp_all add: alike_def)
  show "2 ^ 60 \<le> iov_cnt (vars w1) \<Longrightarrow> wrap" using assms(5) v by simp
  fix r k j and w2 :: "'u cs"
  assume w2: "worked am mode ep w1 k j w2" "work_done is_server (nat (num_iterations (vars w1))) r k j"
  show "wp (cs_allowed am wrap) (ep_close L (cs_handler L) wk ep force) (\<lambda>_. Q r) w2"
  proof (rule cs.ep_close_rule)
    show "cs_ok am w2" "REp ep \<in># live w2" "RWorker wk \<in># live w2"
      using w2(1) assms(3,4) by (auto simp: worked_def idle_def)
    fix w3 :: "'u cs"
    assume w3: "cs_ok am w3" "live w3 = live w2 - {#REp ep#}" "cs_view w3 = cs_view w2"
    have "live w3 = live w" using w3(2) w2(1) assms(3) by (simp add: worked_def)
    from worked_return [OF w2(1) assms(2) w3(1,3) this] w2(2) v show "Q r w3" by (auto intro: assms(7))
  qed
qed (use assms(3,4,6) in auto)

lemma run_client_rule:
  fixes w :: "'u cs"
  assumes w: "idle am w" "RWorker wk \<in># live w" "2 ^ 60 \<le> iov_cnt (vars w) \<Longrightarrow> wrap" "mode = CLIENT_SERVER_SEND_RECV_AM \<Longrightarrow> am"
    and Q: "\<And>ep r k j w'. worked am mode ep w k j w' \<Longrightarrow> work_done False (nat (num_iterations (vars w))) r k j \<Longrightarrow> Q r w'"
  shows "wp (cs_allowed am wrap) (run_client L wk host mode) Q w"
proof -
  have failed: "Q (-1) w'" if "idle am w'" "alike w w'" "live w' = live w" for w'
    by (rule Q [where k = 0 and j = 0])
      (use that in \<open>auto simp: worked_def alike_def received_more_def work_done_def\<close>)
  have work: "wp (cs_allowed am wrap) (client_server_do_work L wk ep mode False)
      (\<lambda>ret. wp (cs_allowed am wrap) (then_p (ep_close L (cs_handler L) wk ep True) (result ret)) Q) w1"
    if "idle am w1" "alike w w1" "live w1 = add_mset (REp ep) (live w)" for w1 ep
    unfolding wp_then_p wp_result_all by (rule work_on_endpoint [OF that w(2-4)]) (auto intro: Q)
  show ?thesis
    unfolding run_client_def start_client_def
    using w(1,2) by (auto simp: wp_bind_p wp_result wp_if wp_prod intro!: set_sock_addr_rule ep_create_rule failed work)
qed

section \<open>The server\<close>

text \<open>
  What the server sent are acknowledgements, with the data of a test message, and over the stream and tag
  interfaces there are at least \<open>num_iterations\<close> messages received for each of them.
\<close>

definition acknowledged :: "send_recv_type_t \<Rightarrow> cs_vars \<Rightarrow> bool \<Rightarrow> ucx_call list \<times> string list \<Rightarrow> ucx_call list \<times> string list \<Rightarrow> bool" where
  "acknowledged mode v watched t t' \<longleftrightarrow> (\<exists>cs. fst t' = fst t @ cs \<and>
     (\<forall>c \<in> set cs. \<exists>ep d. c = send_call mode ep d \<and> test_data (nat (iov_cnt v)) (nat (cs_string_length v)) d) \<and>
     (watched \<longrightarrow> mode \<noteq> CLIENT_SERVER_SEND_RECV_AM \<longrightarrow>
       (\<exists>rs. snd t' = snd t @ rs \<and> nat (num_iterations v) * length cs \<le> length rs)))"

definition served :: "bool \<Rightarrow> send_recv_type_t \<Rightarrow> 'u cs \<Rightarrow> 'u cs \<Rightarrow> bool" where
  "served am mode w w' \<longleftrightarrow> idle am w' \<and> cs_conf (vars w') = cs_conf (vars w) \<and>
     blocks (heap w') = blocks (heap w) \<and> live w' = live w \<and>
     (am_workers w' = am_workers w \<or> mode = CLIENT_SERVER_SEND_RECV_AM) \<and>
     acknowledged mode (vars w) (am_workers w = {}) (traffic w) (traffic w')"

lemma acknowledged_refl [simp]: "acknowledged mode v b t t"
  unfolding acknowledged_def by (intro exI [of _ "[]"]) simp

lemma served_start: "idle am w \<Longrightarrow> served am mode w w"
  by (simp add: served_def)

lemma served_alike:
  "served am mode w w' \<Longrightarrow> idle am w'' \<Longrightarrow> alike w' w'' \<Longrightarrow> live w'' = live w' \<Longrightarrow> served am mode w w''"
  by (auto simp: served_def alike_def)

lemma served_worked:
  assumes "served am mode w w'" "worked am mode ep w' k j w''" "work_done True (nat (num_iterations (vars w))) r k j"
  shows "served am mode w w''"
proof -
  let ?n = "nat (num_iterations (vars w))" and ?ok = "\<lambda>c. \<exists>ep d. c = send_call mode ep d \<and>
    test_data (nat (iov_cnt (vars w))) (nat (cs_string_length (vars w))) d"
  obtain cs where cs: "fst (traffic w') = fst (traffic w) @ cs" "\<forall>c \<in> set cs. ?ok c"
    and rs: "am_workers w = {} \<Longrightarrow> mode \<noteq> CLIENT_SERVER_SEND_RECV_AM \<Longrightarrow>
      \<exists>rs. snd (traffic w') = snd (traffic w) @ rs \<and> ?n * length cs \<le> length rs"
    using assms(1) by (auto simp: served_def acknowledged_def)
  have v: "cs_conf (vars w') = cs_conf (vars w)" using assms(1) by (simp add: served_def)
  obtain ds where ds: "length ds = k" "fst (traffic w'') = fst (traffic w') @ map (send_call mode ep) ds"
    "\<forall>d \<in> set ds. test_data (nat (iov_cnt (vars w))) (nat (cs_string_length (vars w))) d"
    using assms(2) sent_more_conf [OF v] by (auto simp: worked_def sent_more_def)
  have kj: "k = 0 \<or> k = 1 \<and> j = ?n" using assms(3) by (auto simp: work_done_def)
  have "\<exists>rs. snd (traffic w'') = snd (traffic w) @ rs \<and> ?n * length (cs @ map (send_call mode ep) ds) \<le> length rs"
    if m: "am_workers w = {}" "mode \<noteq> CLIENT_SERVER_SEND_RECV_AM"
  proof -
    obtain xs where xs: "snd (traffic w') = snd (traffic w) @ xs" "?n * length cs \<le> length xs"
      using rs [OF m] by blast
    have "am_workers w' = {}" using assms(1) m by (auto simp: served_def)
    then obtain ys where "snd (traffic w'') = snd (traffic w') @ ys" "length ys = j"
      using assms(2) m(2) by (auto simp: worked_def received_more_def)
    with xs kj ds(1) show ?thesis by (intro exI [of _ "xs @ ys"]) (auto simp: distrib_left)
  qed
  moreover have "\<forall>c \<in> set (cs @ map (send_call mode ep) ds). ?ok c" using cs(2) ds(3) by auto
  moreover have "fst (traffic w'') = fst (traffic w) @ (cs @ map (send_call mode ep) ds)" using cs(1) ds(2) by simp
  ultimately have "acknowledged mode (vars w) (am_workers w = {}) (traffic w) (traffic w'')"
    unfolding acknowledged_def by blast
  then show ?thesis
    using assms(1,2) v by (auto simp: served_def worked_def)
qed

lemma serve_client_rule:
  fixes w w' :: "'u cs"
  assumes w: "served am mode w w'" "RWorker wk \<in># live w" "RWorker dw \<in># live w"
    "2 ^ 60 \<le> iov_cnt (vars w) \<Longrightarrow> wrap" "mode = CLIENT_SERVER_SEND_RECV_AM \<Longrightarrow> am"
  shows "wp (cs_allowed am wrap) (serve_client L wk dw mode) (\<lambda>r w''. served am mode w w'' \<and> (r = None \<or> r = Some (-1))) w'"
proof -
  let ?F = "cs_allowed am wrap" and ?Q = "\<lambda>r w''. served am mode w w'' \<and> (r = None \<or> r = Some (-1))"
  have v: "iov_cnt (vars w') = iov_cnt (vars w)" "num_iterations (vars w') = num_iterations (vars w)" "live w' = live w"
    using w(1) cs_conf_vars [of "vars w'" "vars w"] by (simp_all add: served_def)
  have work: "wp ?F (client_server_do_work L dw ep mode True) (\<lambda>ret. wp ?F (then_p (ep_close L (cs_handler L) dw ep True)
      (if ret \<noteq> 0 then result (Some ret)
       else then_p (vars_p (\<lambda>v. v\<lparr>ctx_conn := None\<rparr>)) (then_p (print_p ''Waiting for connection...'') (result None)))) ?Q) w1"
    if w1: "idle am w1" "alike w' w1" "live w1 = add_mset (REp ep) (live w')" for w1 ep
    unfolding wp_then_p [of _ "ep_close _ _ _ _ _"]
  proof (rule work_on_endpoint [OF w1])
    fix r k j and w2 :: "'u cs"
    assume "worked am mode ep w' k j w2" and d: "work_done True (nat (num_iterations (vars w'))) r k j"
    then have "served am mode w w2" using served_worked [OF w(1)] v(2) by simp
    moreover from this have "served am mode w (w2\<lparr>vars := (vars w2)\<lparr>ctx_conn := None\<rparr>, printed := p\<rparr>)" for p
      by (rule served_alike) (use \<open>served am mode w w2\<close> in \<open>auto simp: served_def\<close>)
    ultimately show "wp ?F (if r \<noteq> 0 then result (Some r)
       else then_p (vars_p (\<lambda>v. v\<lparr>ctx_conn := None\<rparr>)) (then_p (print_p ''Waiting for connection...'') (result None))) ?Q w2"
      using d by (auto simp: wp work_done_def)
  qed (use w v in auto)
  show ?thesis
    unfolding serve_client_def server_create_ep_def wp_then_p [of _ "while_p _ _"]
  proof (rule cs_spin)
    show "cs_ok am w'" "RWorker wk \<in># live w'" using w(1,2) by (auto simp: served_def idle_def)
    fix w1 :: "'u cs"
    assume w1: "cs_ok am w1" "live w1 = live w'" "cs_view w1 = cs_view w'"
    then have a: "idle am w1" "alike w' w1" using view_idle [OF w1(3,1)] w(1) by (auto simp: served_def)
    have s: "served am mode w (w1\<lparr>lib := u, calls := calls w1 @ [EpCreate dw t]\<rparr>)" for u t
      by (rule served_alike [OF w(1)]) (use a w1(2) in auto)
    show "wp ?F (bind_p (get_p (\<lambda>w. ctx_conn (vars w))) (\<lambda>conn. bind_p (ucp_ep_create L dw (ToConnRequest (the conn)))
        (\<lambda>(status, server_ep). if status \<noteq> UCS_OK then result (Some (-1))
          else bind_p (client_server_do_work L dw server_ep mode True) (\<lambda>ret. then_p (ep_close L (cs_handler L) dw server_ep True)
            (if ret \<noteq> 0 then result (Some ret)
             else then_p (vars_p (\<lambda>v. v\<lparr>ctx_conn := None\<rparr>)) (then_p (print_p ''Waiting for connection...'') (result None))))))) ?Q w1"
      using w(3) v(3) w1(2) a s by (auto simp: wp_bind_p wp_get_p wp_result wp_if wp_prod intro!: ep_create_rule work)
  qed
qed

lemma served_rebase:
  "served am mode w1 w' \<Longrightarrow> alike w w1 \<Longrightarrow> idle am w'' \<Longrightarrow> alike w' w'' \<Longrightarrow> live w'' = live w \<Longrightarrow> served am mode w w''"
  using cs_conf_vars [of "vars w1" "vars w"]
  by (auto simp: served_def alike_def acknowledged_def)

lemma alike_live [simp]: "alike w (w\<lparr>live := l\<rparr>)" "alike (w\<lparr>live := l\<rparr>) w' = alike w w'"
  by (simp_all add: alike_def traffic_def)

lemma register_served:
  assumes "served am mode w w'" "RWorker wk \<in># live w" "am" "mode = CLIENT_SERVER_SEND_RECV_AM"
    and "\<And>r w''. served am mode w w'' \<Longrightarrow> Q r w''"
  shows "wp F (register_am_recv_callback L wk) Q w'"
proof -
  have "served am mode w (w'\<lparr>lib := u, calls := calls w' @ [SetAmHandler wk], am_workers := a\<rparr>)" for u a
    using assms(1,3,4) by (auto simp: served_def idle_def cs_ok_def traffic_def acknowledged_def)
  moreover have "served am mode w (w'\<lparr>lib := u, calls := calls w' @ [SetAmHandler wk]\<rparr>)" for u
    by (rule served_alike [OF assms(1)]) (use assms(1) in \<open>auto simp: served_def\<close>)
  moreover have "RWorker wk \<in># live w'" using assms(1,2) by (simp add: served_def)
  ultimately show ?thesis
    using assms(5) by (auto simp: register_am_recv_callback_def wp intro!: wp_ask)
qed

lemma start_server_rule:
  assumes "idle am w" "RWorker wk \<in># live w"
    and "\<And>st w'. st \<noteq> UCS_OK \<Longrightarrow> idle am w' \<Longrightarrow> alike w w' \<Longrightarrow> live w' = live w \<Longrightarrow> Q (st, 0) w'"
    and "\<And>i w'. idle am w' \<Longrightarrow> alike w w' \<Longrightarrow> live w' = add_mset (RListener i) (live w) \<Longrightarrow> Q (UCS_OK, i) w'"
  shows "wp F (start_server L wk address) Q w"
proof -
  have "wp F (bind_p (then_p (needs (RWorker wk)) (create_p L (ListenerCreate wk addr) RListener)) (\<lambda>(status, listener).
     if status \<noteq> UCS_OK then result (status, 0)
     else then_p (vars_p (\<lambda>v. v\<lparr>ctx_listener := listener\<rparr>))
       (bind_p (query_p L (ListenerQuery listener) (RListener listener)) (\<lambda>a.
         if a_status a \<noteq> UCS_OK then then_p (destroy_p L (ListenerDestroy listener) (RListener listener)) (result (a_status a, 0))
         else then_p (print_p ''Waiting for connection...'') (result (UCS_OK, listener)))))) Q w'"
    if "idle am w'" "alike w w'" "live w' = live w" for addr w'
    using that assms(2) by (auto simp: wp intro!: wp_ask assms(3,4))
  then show ?thesis
    unfolding start_server_def wp_bind_p [of _ "set_sock_addr _ _"]
    using assms(1) by (intro set_sock_addr_rule) simp_all
qed

lemma destroy_rule:
  "r \<in># live w \<Longrightarrow> (\<And>u. Q () (w\<lparr>live := live w - {#r#}, lib := u, calls := calls w @ [c]\<rparr>)) \<Longrightarrow> wp F (destroy_p L c r) Q w"
  by (auto simp: wp intro!: wp_ask)

lemma create_rule:
  assumes "\<And>st u. st \<noteq> UCS_OK \<Longrightarrow> Q (st, 0) (w\<lparr>lib := u, calls := calls w @ [c]\<rparr>)"
    "\<And>i u. Q (UCS_OK, i) (w\<lparr>lib := u, calls := calls w @ [c], live := add_mset (R i) (live w)\<rparr>)"
  shows "wp F (create_p L c R) Q w"
  using assms by (auto simp: wp intro!: wp_ask)

lemma init_worker_rule:
  assumes "RContext ctx \<in># live w"
    "\<And>u. Q (-1, 0) (w\<lparr>lib := u, calls := calls w @ [WorkerCreate ctx]\<rparr>)"
    "\<And>i u. Q (0, i) (w\<lparr>lib := u, calls := calls w @ [WorkerCreate ctx], live := add_mset (RWorker i) (live w)\<rparr>)"
  shows "wp F (init_worker L ctx) Q w"
  using assms by (auto simp: init_worker_def wp_seq wp_prod needs_def wp_if intro!: create_rule)

lemma stop_data_worker:
  fixes w :: "'u cs"
  assumes Q: "\<And>w'. served am mode w w' \<Longrightarrow> Q (-1) w'" and that: "served am mode (w\<lparr>live := add_mset (RWorker dw) (live w)\<rparr>) w'"
  shows "wp F (destroy_p L (WorkerDestroy dw) (RWorker dw)) (\<lambda>_. Q (-1)) w'"
proof (rule destroy_rule)
  show "RWorker dw \<in># live w'" using that by (simp add: served_def)
  show "Q (-1) (w'\<lparr>live := live w' - {#RWorker dw#}, lib := u, calls := calls w' @ [WorkerDestroy dw]\<rparr>)" for u
    by (rule Q, rule served_rebase [OF that]) (use that in \<open>auto simp: served_def\<close>)
qed

text \<open>The loop over the clients, and what follows it.\<close>

lemma serve_clients_rule:
  fixes w :: "'u cs"
  assumes w: "idle am w" "RWorker wk \<in># live w"
    "2 ^ 60 \<le> iov_cnt (vars w) \<Longrightarrow> wrap" "mode = CLIENT_SERVER_SEND_RECV_AM \<Longrightarrow> am"
    and Q: "\<And>w'. served am mode w w' \<Longrightarrow> Q (-1) w'"
    and s: "served am mode (w\<lparr>live := add_mset (RWorker dw) (live w)\<rparr>) w0" "idle am w1" "alike w0 w1" "live w1 = add_mset (RListener l) (live w0)"
  shows "wp (cs_allowed am wrap) (loop_p (serve_client L wk dw mode)) (\<lambda>ret. wp (cs_allowed am wrap) (destroy_p L (ListenerDestroy l) (RListener l))
      (\<lambda>_. wp (cs_allowed am wrap) (destroy_p L (WorkerDestroy dw) (RWorker dw)) (\<lambda>_. Q ret))) w1"
proof (rule wp_loop_p)
  let ?c = "w\<lparr>live := add_mset (RListener l) (add_mset (RWorker dw) (live w))\<rparr>"
  show "served am mode ?c w1"
    by (rule served_rebase [OF s(1) _ s(2,3)]) (use s in \<open>auto simp: served_def\<close>)
  fix w' assume sv: "served am mode ?c w'"
  have out: "wp (cs_allowed am wrap) (destroy_p L (ListenerDestroy l) (RListener l)) (\<lambda>_. wp (cs_allowed am wrap) (destroy_p L (WorkerDestroy dw) (RWorker dw)) (\<lambda>_. Q (-1))) w''"
    if o: "served am mode ?c w''" for w''
  proof (rule destroy_rule)
    show "RListener l \<in># live w''" using o by (simp add: served_def)
    show "wp (cs_allowed am wrap) (destroy_p L (WorkerDestroy dw) (RWorker dw)) (\<lambda>_. Q (-1))
        (w''\<lparr>live := live w'' - {#RListener l#}, lib := u, calls := calls w'' @ [ListenerDestroy l]\<rparr>)" for u
      by (rule stop_data_worker [where w = w and am = am and mode = mode], erule Q, rule served_rebase [OF o]) (use o in \<open>auto simp: served_def\<close>)
  qed
  show "wp (cs_allowed am wrap) (serve_client L wk dw mode) (\<lambda>r s'. case r of None \<Rightarrow> served am mode ?c s'
    | Some ret \<Rightarrow> wp (cs_allowed am wrap) (destroy_p L (ListenerDestroy l) (RListener l))
        (\<lambda>_. wp (cs_allowed am wrap) (destroy_p L (WorkerDestroy dw) (RWorker dw)) (\<lambda>_. Q ret)) s') w'"
    by (rule wp_mono [OF serve_client_rule [OF sv]]) (use w out in auto)
qed

text \<open>From the start of the listener on.\<close>

lemma listen_rule:
  fixes w :: "'u cs"
  assumes w: "idle am w" "RWorker wk \<in># live w"
    "2 ^ 60 \<le> iov_cnt (vars w) \<Longrightarrow> wrap" "mode = CLIENT_SERVER_SEND_RECV_AM \<Longrightarrow> am"
    and Q: "\<And>w'. served am mode w w' \<Longrightarrow> Q (-1) w'"
    and s: "served am mode (w\<lparr>live := add_mset (RWorker dw) (live w)\<rparr>) w0"
  shows "wp (cs_allowed am wrap) (if status \<noteq> UCS_OK then result (-1)
      else then_p (vars_p (\<lambda>v. v\<lparr>ctx_conn := None\<rparr>)) (bind_p (start_server L wk address) (\<lambda>(status, listener).
        if status \<noteq> UCS_OK then result (-1)
        else bind_p (loop_p (serve_client L wk dw mode)) (\<lambda>ret. then_p (destroy_p L (ListenerDestroy listener) (RListener listener)) (result ret)))))
      (\<lambda>ret. wp (cs_allowed am wrap) (then_p (destroy_p L (WorkerDestroy dw) (RWorker dw)) (result ret)) Q) w0"
proof -
  have s': "idle am (w0\<lparr>vars := (vars w0)\<lparr>ctx_conn := None\<rparr>\<rparr>)" "RWorker wk \<in># live w0"
    "served am mode (w\<lparr>live := add_mset (RWorker dw) (live w)\<rparr>) (w0\<lparr>vars := (vars w0)\<lparr>ctx_conn := None\<rparr>\<rparr>)"
    using s w(2) by (auto simp: served_def)
  have failed: "wp (cs_allowed am wrap) (destroy_p L (WorkerDestroy dw) (RWorker dw)) (\<lambda>_. Q (-1)) w'"
    if "idle am w'" "alike (w0\<lparr>vars := (vars w0)\<lparr>ctx_conn := None\<rparr>\<rparr>) w'" "live w' = live w0" for w'
    by (rule stop_data_worker [where w = w and am = am and mode = mode], erule Q, rule served_alike [OF s'(3)]) (use that in auto)
  have listening: "wp (cs_allowed am wrap) (loop_p (serve_client L wk dw mode)) (\<lambda>ret. wp (cs_allowed am wrap) (then_p (destroy_p L (ListenerDestroy l) (RListener l)) (result ret))
      (\<lambda>ret. wp (cs_allowed am wrap) (destroy_p L (WorkerDestroy dw) (RWorker dw)) (\<lambda>_. Q ret))) w'"
    if "idle am w'" "alike (w0\<lparr>vars := (vars w0)\<lparr>ctx_conn := None\<rparr>\<rparr>) w'" "live w' = add_mset (RListener l) (live w0)" for w' l
    unfolding wp_then_p wp_result_all by (rule serve_clients_rule [OF w(1,2) _ _ _ s'(3) that(1,2)], erule w(3), erule w(4), erule Q) (use that in auto)
  have stop: "wp (cs_allowed am wrap) (destroy_p L (WorkerDestroy dw) (RWorker dw)) (\<lambda>_. Q (-1)) w0"
    by (rule stop_data_worker [where w = w and am = am and mode = mode], erule Q, rule s)
  show ?thesis
    unfolding wp_then_p [of _ "destroy_p L (WorkerDestroy dw) _"] wp_result_all
    using s' stop by (auto simp: wp_bind_p wp_then_p [of _ "put_p _"] wp_put_p wp_result wp_if wp_prod vars_p_def
        intro!: start_server_rule failed listening)
qed

lemma run_server_rule:
  fixes w :: "'u cs"
  assumes w: "idle am w" "RWorker wk \<in># live w" "RContext ctx \<in># live w"
    "2 ^ 60 \<le> iov_cnt (vars w) \<Longrightarrow> wrap" "mode = CLIENT_SERVER_SEND_RECV_AM \<Longrightarrow> am"
    and Q: "\<And>w'. served am mode w w' \<Longrightarrow> Q (-1) w'"
  shows "wp (cs_allowed am wrap) (run_server L ctx wk address mode) Q w"
proof -
  let ?F = "cs_allowed am wrap" and ?b = "\<lambda>dw. w\<lparr>live := add_mset (RWorker dw) (live w)\<rparr>"
  have start: "wp ?F (bind_p (if mode = CLIENT_SERVER_SEND_RECV_AM then register_am_recv_callback L dw else result UCS_OK) f) R w1"
    if "served am mode (?b dw) w1" "\<And>st w0. served am mode (?b dw) w0 \<Longrightarrow> wp ?F (f st) R w0" for dw f R w1
    using that w(5) by (auto simp: wp_bind_p wp_if wp_result intro!: register_served)
  show ?thesis
    unfolding run_server_def wp_bind_p [of _ "init_worker _ _"]
  proof (rule init_worker_rule [OF w(3)])
    fix u
    show "wp ?F (case (-1, 0) of (ret, data_worker) \<Rightarrow> if ret \<noteq> 0 then result ret else f ret data_worker) Q
        (w\<lparr>lib := u, calls := calls w @ [WorkerCreate ctx]\<rparr>)" for f
      using w(1) by (auto simp: wp_result intro!: Q served_alike [OF served_start])
    fix dw
    have b: "served am mode (?b dw) (w\<lparr>lib := u, calls := calls w @ [WorkerCreate ctx], live := add_mset (RWorker dw) (live w)\<rparr>)"
      by (rule served_rebase [OF served_start]) (use w(1) in auto)
    show "wp ?F (case (0, dw) of (ret, dw) \<Rightarrow> if ret \<noteq> 0 then result ret else bind_p
       (bind_p (if mode = CLIENT_SERVER_SEND_RECV_AM then register_am_recv_callback L dw else result UCS_OK) (\<lambda>status.
        if status \<noteq> UCS_OK then result (-1)
        else then_p (vars_p (\<lambda>v. v\<lparr>ctx_conn := None\<rparr>)) (bind_p (start_server L wk address) (\<lambda>(status, listener).
           if status \<noteq> UCS_OK then result (-1)
           else bind_p (loop_p (serve_client L wk dw mode)) (\<lambda>ret.
             then_p (destroy_p L (ListenerDestroy listener) (RListener listener)) (result ret))))))
       (\<lambda>ret. then_p (destroy_p L (WorkerDestroy dw) (RWorker dw)) (result ret))) Q
      (w\<lparr>lib := u, calls := calls w @ [WorkerCreate ctx], live := add_mset (RWorker dw) (live w)\<rparr>)"
      unfolding prod.case refl wp_bind_p [of _ "bind_p _ _"]
      by (simp only: refl not_True_eq_False if_False wp_bind_p [of _ "bind_p _ _"]) (rule start [OF b], rule listen_rule [OF w(1,2)], erule w(4), erule w(5), erule Q)
  qed
qed

section \<open>The options\<close>

definition options_ok :: "cs_vars \<Rightarrow> bool" where
  "options_ok v \<longleftrightarrow> cs_mem_type v = UCS_MEMORY_TYPE_HOST \<and> 0 \<le> cs_string_length v \<and> cs_string_length v < 2 ^ 63 \<and>
     0 < iov_cnt v \<and> iov_cnt v < 2 ^ 63 \<and> - (2 ^ 31) \<le> num_iterations v \<and> num_iterations v < 2 ^ 31"

lemma parse_mem_type_host: "parse_mem_type s = UCS_MEMORY_TYPE_HOST \<or> parse_mem_type s = UCS_MEMORY_TYPE_LAST"
  by (simp add: parse_mem_type_def check_mem_type_support_def)

text \<open>All that no option changes.\<close>

definition not_options :: "cs_vars \<Rightarrow> cs_vars" where
  "not_options v = v\<lparr>cs_string_length := 0, iov_cnt := 0, cs_server_port := 0, cs_ipv6 := False, num_iterations := 0,
     cs_mem_type := UCS_MEMORY_TYPE_HOST\<rparr>"

lemma cs_option_ok:
  assumes "cs_option c optarg (v, cmd) = (ret, v', cmd')"
  shows "not_options v' = not_options v" "ret = 0 \<Longrightarrow> options_ok v \<Longrightarrow> options_ok v'" "ret \<in> {0, -1, -22}"
proof -
  have host: "parse_mem_type optarg \<noteq> UCS_MEMORY_TYPE_LAST \<Longrightarrow> parse_mem_type optarg = UCS_MEMORY_TYPE_HOST"
    using parse_mem_type_host by blast
  show "not_options v' = not_options v"
    using assms by (simp add: cs_option_def Let_def split: if_split_asm) (auto simp: not_options_def)
  show "ret \<in> {0, -1, -22}"
    using assms by (simp add: cs_option_def Let_def UCS_ERR_UNSUPPORTED_def split: if_split_asm)
  show "options_ok v'" if "ret = 0" "options_ok v"
    using assms that host c_atol_bounds [of optarg] c_atoi_bounds [of optarg]
    by (simp add: cs_option_def Let_def UCS_ERR_UNSUPPORTED_def split: if_split_asm) (auto simp: options_ok_def)
qed

lemma cs_options_ok:
  "cs_options rs (v, cmd) = (ret, v', cmd') \<Longrightarrow>
   not_options v' = not_options v \<and> (ret = 0 \<longrightarrow> options_ok v \<longrightarrow> options_ok v') \<and> ret \<in> {0, -1, -22}"
proof (induction rs arbitrary: v cmd)
  case (Cons r rs)
  obtain c optarg where r: "r = (c, optarg)" by fastforce
  obtain ret1 v1 cmd1 where o: "cs_option c optarg (v, cmd) = (ret1, v1, cmd1)" by (metis prod_cases3)
  from Cons.prems r o have e: "if ret1 \<noteq> 0 then (ret1, v1, cmd1) = (ret, v', cmd') else cs_options rs (v1, cmd1) = (ret, v', cmd')"
    by (simp split: if_splits)
  show ?case
  proof (cases "ret1 = 0")
    case True
    with e have "cs_options rs (v1, cmd1) = (ret, v', cmd')" by simp
    from Cons.IH [OF this] cs_option_ok [OF o] True show ?thesis by simp
  qed (use e cs_option_ok [OF o] in simp)
qed simp

lemma cs_parse_cmd_ok:
  "cs_parse_cmd argv v = (ret, v', cmd) \<Longrightarrow>
   not_options v' = not_options v \<and> (ret = 0 \<longrightarrow> options_ok v \<longrightarrow> options_ok v') \<and> ret \<in> {0, -1, -22}"
  unfolding cs_parse_cmd_def by (rule cs_options_ok)

section \<open>The program\<close>

definition cs_world :: "'u \<Rightarrow> 'u cs" where
  "cs_world u = \<lparr>lib = u, live = {#}, heap = [], cbs = Map.empty, am_workers = {}, calls = [], received = [],
     printed = [], vars = cs_start\<rparr>"

text \<open>What \<^verbatim>\<open>parse_cmd\<close> returns, the variables and the choices after it.\<close>

definition cs_status :: "string list \<Rightarrow> int" where
  "cs_status argv = fst (cs_parse_cmd argv cs_start)"

definition cs_options_of :: "string list \<Rightarrow> cs_vars" where
  "cs_options_of argv = fst (snd (cs_parse_cmd argv cs_start))"

definition cs_cmd_of :: "string list \<Rightarrow> cs_cmd" where
  "cs_cmd_of argv = snd (snd (cs_parse_cmd argv cs_start))"

lemma cs_parse_cmd_start: "cs_parse_cmd argv cs_start = (cs_status argv, cs_options_of argv, cs_cmd_of argv)"
  by (simp add: cs_status_def cs_options_of_def cs_cmd_of_def)

definition client_end :: "send_recv_type_t \<Rightarrow> cs_vars \<Rightarrow> int \<Rightarrow> 'u cs \<Rightarrow> bool" where
  "client_end mode v r w \<longleftrightarrow> (\<exists>ep k j. sent_more mode ep v k [] (data_calls (calls w)) \<and>
     (mode \<noteq> CLIENT_SERVER_SEND_RECV_AM \<longrightarrow> length (received w) = j) \<and> work_done False (nat (num_iterations v)) r k j)"

definition server_end :: "send_recv_type_t \<Rightarrow> cs_vars \<Rightarrow> 'u cs \<Rightarrow> bool" where
  "server_end mode v w \<longleftrightarrow> acknowledged mode v True ([], []) (data_calls (calls w), received w)"

definition run_end :: "string list \<Rightarrow> int \<Rightarrow> 'u cs \<Rightarrow> bool" where
  "run_end argv r w \<longleftrightarrow> live w = {#} \<and> heap_at (heap w) = Map.empty \<and>
     (if cs_status argv \<noteq> 0 then r = cs_status argv \<and> data_calls (calls w) = []
      else if cmd_server (cs_cmd_of argv) = None then r = -1 \<and> server_end (cmd_mode (cs_cmd_of argv)) (cs_options_of argv) w
      else client_end (cmd_mode (cs_cmd_of argv)) (cs_options_of argv) r w)"

lemma heap_at_blocks: "blocks h = Map.empty \<Longrightarrow> heap_at h = Map.empty"
  by (auto simp: blocks_def fun_eq_iff)

lemma ended_early:
  "cs_status argv = 0 \<Longrightarrow> live w = {#} \<Longrightarrow> heap w = [] \<Longrightarrow> data_calls (calls w) = [] \<Longrightarrow> received w = [] \<Longrightarrow> run_end argv (-1) w"
  by (auto simp: run_end_def server_end_def client_end_def work_done_def fun_eq_iff intro!: exI [of _ 0])

text \<open>The state once the context and the worker are there.\<close>

definition ready_to_run :: "bool \<Rightarrow> cs_vars \<Rightarrow> 'u cs \<Rightarrow> bool" where
  "ready_to_run am v w \<longleftrightarrow> idle am w \<and> cs_conf (vars w) = cs_conf v \<and> heap w = [] \<and> am_workers w = {} \<and>
     data_calls (calls w) = [] \<and> received w = []"

lemma served_end:
  assumes "served am mode w w'" "ready_to_run am v w"
  shows "blocks (heap w') = Map.empty" "server_end mode v w'" "live w' = live w"
proof -
  have v: "cs_conf (vars w) = cs_conf v" using assms(2) by (simp add: ready_to_run_def)
  show "blocks (heap w') = Map.empty" "live w' = live w"
    using assms by (auto simp: served_def ready_to_run_def blocks_def fun_eq_iff)
  show "server_end mode v w'"
    using assms cs_conf_vars [OF v]
    by (auto simp: served_def ready_to_run_def server_end_def acknowledged_def traffic_def)
qed

lemma worked_end:
  assumes "worked am mode ep w k j w'" "ready_to_run am v w" "work_done False (nat (num_iterations (vars w))) r k j"
  shows "blocks (heap w') = Map.empty" "client_end mode v r w'" "live w' = live w"
proof -
  have v: "cs_conf (vars w) = cs_conf v" using assms(2) by (simp add: ready_to_run_def)
  show "blocks (heap w') = Map.empty" "live w' = live w"
    using assms by (auto simp: worked_def ready_to_run_def blocks_def fun_eq_iff)
  show "client_end mode v r w'"
    unfolding client_end_def
    using assms sent_more_conf [OF v] cs_conf_vars [OF v]
    by (intro exI [of _ ep] exI [of _ k] exI [of _ j]) (auto simp: worked_def ready_to_run_def traffic_def received_more_def)
qed

lemma cs_main_end:
  fixes w :: "'u cs"
  assumes w: "ready_to_run am v w" "live w = {#RWorker wk, RContext ctx#}"
    and v: "cs_status argv = 0" "v = cs_options_of argv" "am = (cmd_mode (cs_cmd_of argv) = CLIENT_SERVER_SEND_RECV_AM)"
      "wrap = (2 ^ 60 \<le> iov_cnt v)"
  shows "wp (cs_allowed am wrap) (case cmd_server (cs_cmd_of argv) of
      None \<Rightarrow> run_server L ctx wk (cmd_listen (cs_cmd_of argv)) (cmd_mode (cs_cmd_of argv))
    | Some host \<Rightarrow> run_client L wk host (cmd_mode (cs_cmd_of argv)))
    (\<lambda>r. wp (cs_allowed am wrap) (destroy_p L (WorkerDestroy wk) (RWorker wk))
      (\<lambda>_. wp (cs_allowed am wrap) (destroy_p L (UcpCleanup ctx) (RContext ctx)) (\<lambda>_. run_end argv r))) w"
proof -
  let ?F = "cs_allowed am wrap"
  have i: "idle am w" "2 ^ 60 \<le> iov_cnt (vars w) \<Longrightarrow> wrap"
    using w(1) v(4) cs_conf_vars [of "vars w" v] by (simp_all add: ready_to_run_def)
  have destroy: "wp ?F (destroy_p L (WorkerDestroy wk) (RWorker wk))
      (\<lambda>_. wp ?F (destroy_p L (UcpCleanup ctx) (RContext ctx)) (\<lambda>_. run_end argv r)) w'"
    if "live w' = live w" "run_end argv r (w'\<lparr>live := {#}\<rparr>)" for r w'
    using that w(2) by (intro destroy_rule) (auto simp: run_end_def server_end_def client_end_def)
  show ?thesis
  proof (cases "cmd_server (cs_cmd_of argv)")
    case None
    show ?thesis
      unfolding None option.case
    proof (rule run_server_rule)
      fix w' :: "'u cs" assume s: "served am (cmd_mode (cs_cmd_of argv)) w w'"
      show "wp ?F (destroy_p L (WorkerDestroy wk) (RWorker wk))
          (\<lambda>_. wp ?F (destroy_p L (UcpCleanup ctx) (RContext ctx)) (\<lambda>_. run_end argv (-1))) w'"
        by (rule destroy) (use served_end [OF s w(1)] v None heap_at_blocks in \<open>auto simp: run_end_def server_end_def\<close>)
    qed (use i w(2) v(3) in auto)
  next
    case (Some host)
    show ?thesis
      unfolding Some option.case
    proof (rule run_client_rule)
      fix ep r k j and w' :: "'u cs"
      assume s: "worked am (cmd_mode (cs_cmd_of argv)) ep w k j w'" "work_done False (nat (num_iterations (vars w))) r k j"
      show "wp ?F (destroy_p L (WorkerDestroy wk) (RWorker wk))
          (\<lambda>_. wp ?F (destroy_p L (UcpCleanup ctx) (RContext ctx)) (\<lambda>_. run_end argv r)) w'"
        by (rule destroy) (use worked_end [OF s(1) w(1) s(2)] v Some heap_at_blocks in \<open>auto simp: run_end_def client_end_def\<close>)
    qed (use i w(2) v(3) in auto)
  qed
qed

lemma init_context_rule:
  assumes "\<And>w'. live w' = live w \<Longrightarrow> heap w' = heap w \<Longrightarrow> data_calls (calls w') = data_calls (calls w) \<Longrightarrow>
      received w' = received w \<Longrightarrow> Q (-1, 0, 0) w'"
    and "\<And>u cs ctx wk. data_calls cs = data_calls (calls w) \<Longrightarrow>
      Q (0, ctx, wk) (w\<lparr>lib := u, calls := cs, live := add_mset (RWorker wk) (add_mset (RContext ctx) (live w))\<rparr>)"
  shows "wp F (init_context L mode) Q w"
  unfolding init_context_def
  using assms by (auto simp: wp_bind_p wp_then_p wp_result wp_if wp_prod intro!: create_rule init_worker_rule destroy_rule)

lemma cs_main_rule:
  "wp (cs_allowed (cmd_mode (cs_cmd_of argv) = CLIENT_SERVER_SEND_RECV_AM) (2 ^ 60 \<le> iov_cnt (cs_options_of argv)))
    (cs_main L argv) (run_end argv) (cs_world u)"
proof -
  let ?F = "cs_allowed (cmd_mode (cs_cmd_of argv) = CLIENT_SERVER_SEND_RECV_AM) (2 ^ 60 \<le> iov_cnt (cs_options_of argv))"
    and ?v = "cs_options_of argv" and ?mode = "cmd_mode (cs_cmd_of argv)"
  have v: "not_options ?v = not_options cs_start" "cs_status argv = 0 \<Longrightarrow> options_ok ?v"
    using cs_parse_cmd_ok [OF cs_parse_cmd_start [of argv]]
    by (auto simp: options_ok_def cs_start_def)
  have f: "frame ?v = None" "am_recv_buf ?v = None"
    using arg_cong [OF v(1), of frame] arg_cong [OF v(1), of am_recv_buf] by (simp_all add: not_options_def cs_start_def)
  have ready: "ready_to_run (?mode = CLIENT_SERVER_SEND_RECV_AM) ?v (cs_world u\<lparr>vars := ?v, lib := u', calls := cs, live := l\<rparr>)"
    if "cs_status argv = 0" "data_calls cs = []" for u' cs l
    using f v(2) that by (auto simp: ready_to_run_def idle_def cs_ok_def cs_world_def options_ok_def)
  have run: "wp ?F (case cmd_server (cs_cmd_of argv) of
      None \<Rightarrow> run_server L ctx wk (cmd_listen (cs_cmd_of argv)) ?mode | Some host \<Rightarrow> run_client L wk host ?mode)
    (\<lambda>r. wp ?F (then_p (destroy_p L (WorkerDestroy wk) (RWorker wk))
      (then_p (destroy_p L (UcpCleanup ctx) (RContext ctx)) (result r))) (run_end argv))
    (cs_world u\<lparr>vars := ?v, lib := u', calls := cs, live := {#RWorker wk, RContext ctx#}\<rparr>)"
    if "cs_status argv = 0" "data_calls cs = []" for u' cs wk ctx
    unfolding wp_then_p wp_result_all by (rule cs_main_end [OF ready [OF that]]) (simp_all add: that)
  show ?thesis
  proof (cases "cs_status argv = 0")
    case True
    have early: "wp ?F (if (-1 :: int) \<noteq> 0 then result (-1) else f) (run_end argv) w'"
      if "live w' = {#}" "heap w' = []" "data_calls (calls w') = []" "received w' = []" for f w'
      using ended_early [OF True that] by (simp add: wp_result)
    have "wp ?F (init_context L ?mode) (\<lambda>x. wp ?F (case x of (ret, ucp_context, ucp_worker) \<Rightarrow>
        if ret \<noteq> 0 then result ret
        else bind_p (case cmd_server (cs_cmd_of argv) of
            None \<Rightarrow> run_server L ucp_context ucp_worker (cmd_listen (cs_cmd_of argv)) ?mode
          | Some host \<Rightarrow> run_client L ucp_worker host ?mode) (\<lambda>ret.
          then_p (destroy_p L (WorkerDestroy ucp_worker) (RWorker ucp_worker))
            (then_p (destroy_p L (UcpCleanup ucp_context) (RContext ucp_context)) (result ret)))) (run_end argv))
      (cs_world u\<lparr>vars := ?v\<rparr>)"
      by (rule init_context_rule) (use early run True in \<open>simp_all add: cs_world_def wp_bind_p wp_result ended_early\<close>)
    with True show ?thesis
      by (simp add: cs_main_def wp_bind_p [of _ "get_p _"] wp_get_p wp_then_p [of _ "put_p _"] vars_p_def wp_put_p
          cs_world_def cs_parse_cmd_start wp_bind_p [of _ "init_context _ _"])
  qed (simp add: cs_main_def wp cs_world_def cs_parse_cmd_start run_end_def fun_eq_iff)
qed

end
