(* ===== verification/Ucx_Experiments.thy ===== *)
theory Ucx_Experiments
  imports Ucx_Hello_Run Ucx_Client_Server_Run
begin

text \<open>
  The properties of \<^verbatim>\<open>ucp_example_server.c\<close>, with a library that answers from a script, and a comparison of
  its options with those of \<^verbatim>\<open>ucp_hello_world.c\<close>.
\<close>

section \<open>A library with a script\<close>

text \<open>
  The library counts the calls of \<^verbatim>\<open>ucp_worker_progress\<close>; each finds the next events of \<open>evs\<close>.  Fresh memory holds
  \<open>g\<close>, a message received holds \<open>m\<close>, everything succeeds at once until the script has come to its end, when no
  endpoint can be created any more.
\<close>

definition script_ucx :: "ucx_event list list \<Rightarrow> string \<Rightarrow> string \<Rightarrow> nat ucx_lib" where
  "script_ucx evs g m c u = (case c of
     WorkerProgress wk \<Rightarrow> (ok_answer\<lparr>a_events := (if u < length evs then evs ! u else [])\<rparr>, Suc u)
   | Malloc n \<Rightarrow> (ok_answer\<lparr>a_data := g\<rparr>, u)
   | StreamRecv ep n \<Rightarrow> (ok_answer\<lparr>a_data := m\<rparr>, u)
   | TagRecv wk tag n \<Rightarrow> (ok_answer\<lparr>a_data := m\<rparr>, u)
   | EpCreate wk target \<Rightarrow> (if u < length evs then ok_answer else ok_answer\<lparr>a_status := UCS_ERR_UNSUPPORTED\<rparr>, u)
   | InetPton v6 s \<Rightarrow> (ok_answer\<lparr>a_num := 1\<rparr>, u)
   | _ \<Rightarrow> (ok_answer, u))"

lemma for_p_more: "0 < n \<Longrightarrow> for_p i n body = bind_p (body i) (\<lambda>r. case r of
    None \<Rightarrow> for_p (Suc i) (n - 1) body | Some a \<Rightarrow> result (Some a))"
  by (cases n) simp_all

lemmas run_cs = run_p mem_type_read_def mem_type_write_def frame_at_def iov_get_def iov_set_def set_complete_def
  alloca_def frame_enter_def frame_leave_def buffer_free_def buffer_malloc_def fill_buffer_def iov_deliver_def
  common_cb_def ucp_am_data_cb_def server_conn_handle_cb_def err_cb_def cs_progress_def set_sock_addr_def start_client_def
  server_create_ep_def start_server_def print_iov_def add_int_def print_result_def req_complete_def request_wait_def
  request_finalize_def fill_request_param_def iov_send_def iov_recv_def send_recv_with_def send_recv_stream_def
  send_recv_tag_def am_wait_def send_recv_am_def client_server_communication_def init_worker_def
  register_am_recv_callback_def client_server_do_work_def serve_client_def run_server_def run_client_def
  init_context_def cs_main_def

lemma cs_start_sels:
  "cs_string_length cs_start = 16" "iov_cnt cs_start = 1" "num_iterations cs_start = 1"
  "cs_mem_type cs_start = UCS_MEMORY_TYPE_HOST" "am_complete cs_start = 0" "am_is_rndv cs_start = False"
  "am_recv_buf cs_start = None" "am_last cs_start = 0" "ctx_conn cs_start = None" "frame cs_start = None"
  "next_frame cs_start = 0" "cs_ipv6 cs_start = False" "ctx_listener cs_start = 0"
  by (simp_all add: cs_start_def)

lemma demo_cs_options:
  "cs_parse_cmd [''cs'', ''-i'', ''2'', ''-s'', ''4''] cs_start =
     (0, cs_start\<lparr>num_iterations := 2, cs_string_length := 4\<rparr>,
      \<lparr>cmd_server = None, cmd_listen = None, cmd_mode = CLIENT_SERVER_SEND_RECV_STREAM\<rparr>)"
  "cs_parse_cmd [''cs'', ''-a'', ''host'', ''-i'', ''2'', ''-s'', ''4''] cs_start =
     (0, cs_start\<lparr>num_iterations := 2, cs_string_length := 4\<rparr>,
      \<lparr>cmd_server = Some ''host'', cmd_listen = None, cmd_mode = CLIENT_SERVER_SEND_RECV_STREAM\<rparr>)"
  "cs_parse_cmd [''cs'', ''-c'', ''AM'', ''-i'', ''2'', ''-s'', ''4''] cs_start =
     (0, cs_start\<lparr>num_iterations := 2, cs_string_length := 4\<rparr>,
      \<lparr>cmd_server = None, cmd_listen = None, cmd_mode = CLIENT_SERVER_SEND_RECV_AM\<rparr>)"
  by code_simp+

lemmas run_cs_demo = run_cs demo_cs_options script_ucx_def ok_answer_def cs_world_def cs_start_sels UCS_OK_def Let_def
  int_of_size_small size_of_int_def UCS_ERR_UNSUPPORTED_def

lemma demo_cs_client:
  "\<exists>w. cs_main (script_ucx [[]] [] ''FIN'') [''cs'', ''-a'', ''host'', ''-i'', ''2'', ''-s'', ''4''] (cs_world 0) = Some (Inr (0, w))"
  by (simp add: run_cs_demo for_p_more test_string_def)

lemma demo_cs_server:
  "\<exists>w. cs_main (script_ucx [[ConnRequest 1 7], [EpFailed 1 0], [ConnRequest 1 8]] [] [CHR ''x'', NUL]) [''cs'', ''-i'', ''2'', ''-s'', ''4''] (cs_world 0) =
     Some (Inr (-1, w)) \<and> data_calls (calls w) \<noteq> []"
  by (simp add: run_cs_demo for_p_more test_string_def)

section \<open>Properties\<close>


text \<open>The data of a message whose buffers each hold the test string.\<close>

definition whole_test_data :: "cs_vars \<Rightarrow> string" where
  "whole_test_data v = concat (replicate (nat (iov_cnt v)) (test_string (nat (cs_string_length v))))"

lemma test_data_whole:
  assumes "test_data (nat (iov_cnt v)) (nat (cs_string_length v)) d" "cs_string_length v < 2 ^ 31"
  shows "d = whole_test_data v"
proof -
  obtain ds where ds: "length ds = nat (iov_cnt v)" "d = concat ds" "\<forall>d \<in> set ds. text_of (nat (cs_string_length v)) d"
    using assms(1) by (auto simp: test_data_def)
  have "ds = replicate (length ds) (test_string (nat (cs_string_length v)))"
    using ds(3) assms(2) by (intro replicate_eqI) (auto simp: text_of_def)
  with ds show ?thesis by (simp add: whole_test_data_def)
qed





text \<open>The texts a server shows: what it prints right after the line that reports success.\<close>

fun shown :: "string list \<Rightarrow> string list" where
  "shown (a # b # xs) = (if a = ''----- UCP TEST SUCCESS -------'' then b # shown xs else shown (b # xs))"
| "shown xs = []"

text \<open>C33: Two active messages that arrive in one call of \<^verbatim>\<open>ucp_worker_progress\<close> are taken for one: the second is
  copied over the first in the same buffer, and the server, which has counted both, shows for the second
  iteration the memory of a new buffer as \<^verbatim>\<open>malloc\<close> left it, reports success and answers.\<close>

theorem am_burst_loses_message:
  assumes "length g = 4" "length m1 = 4" "length m2 = 4" "NUL \<in> set g" "NUL \<in> set m2"
  shows "\<exists>w. cs_main (script_ucx [[ConnRequest 1 7], [AmArrived 0 4 m1 False, AmArrived 0 4 m2 False], [EpFailed 1 0],
        [ConnRequest 1 8]] g []) [''cs'', ''-c'', ''AM'', ''-i'', ''2'', ''-s'', ''4''] (cs_world 0) = Some (Inr (-1, w)) \<and>
    received w = [m1, m2] \<and> shown (printed w) = [c_str_to_string m2, c_str_to_string g] \<and>
    data_calls (calls w) = [AmSend 1 0 (test_string 4)]"
  using assms by (simp add: run_cs_demo for_p_more test_string_def)

theorem am_burst_loses_message_witness:
  "\<exists>w. cs_main (script_ucx [[ConnRequest 1 7], [AmArrived 0 4 (''ab'' @ [NUL, NUL]) False, AmArrived 0 4 (''cd'' @ [NUL, NUL]) False],
        [EpFailed 1 0], [ConnRequest 1 8]] (''???'' @ [NUL]) []) [''cs'', ''-c'', ''AM'', ''-i'', ''2'', ''-s'', ''4''] (cs_world 0) =
      Some (Inr (-1, w)) \<and> shown (printed w) = [''cd'', ''???'']"
proof -
  have "c_str_to_string (''cd'' @ [NUL, NUL]) = ''cd''" "c_str_to_string (''???'' @ [NUL]) = ''???''" by code_simp+
  then show ?thesis
    using am_burst_loses_message [of "''???'' @ [NUL]" "''ab'' @ [NUL, NUL]" "''cd'' @ [NUL, NUL]"] by auto
qed

text \<open>An active message of the expected length that arrives when no transfer is under way is copied through the
  pointer \<^verbatim>\<open>recv_buf\<close>, which still points to the array of the last one, on a stack frame that is gone.\<close>

theorem am_late_message_dangles:
  assumes "length g = 4" "length m1 = 4" "length m2 = 4" "length m3 = 4" "NUL \<in> set m1" "NUL \<in> set m2"
  shows "cs_main (script_ucx [[ConnRequest 1 7], [AmArrived 0 4 m1 False], [AmArrived 0 4 m2 False], [AmArrived 0 4 m3 False]] g [])
      [''cs'', ''-c'', ''AM'', ''-i'', ''2'', ''-s'', ''4''] (cs_world 0) = Some (Inl (Undefined ''dangling pointer''))"
  using assms by (simp add: run_cs_demo for_p_more test_string_def)

theorem am_late_message_dangles_witness:
  "cs_main (script_ucx [[ConnRequest 1 7], [AmArrived 0 4 (''ab'' @ [NUL, NUL]) False], [AmArrived 0 4 (''cd'' @ [NUL, NUL]) False],
      [AmArrived 0 4 (''ef'' @ [NUL, NUL]) False]] (replicate 4 NUL) [])
      [''cs'', ''-c'', ''AM'', ''-i'', ''2'', ''-s'', ''4''] (cs_world 0) = Some (Inl (Undefined ''dangling pointer''))"
  by (rule am_late_message_dangles) simp_all

text \<open>The handles of the requests a listener has turned away.\<close>

definition rejected :: "ucx_call list \<Rightarrow> nat list" where
  "rejected cs = concat (map (\<lambda>c. case c of ListenerReject l r \<Rightarrow> [r] | _ \<Rightarrow> []) cs)"

lemma conn_requests_rejected:
  assumes "RListener l \<in># live w" "ctx_conn (vars w) = Some c"
  shows "wp F (run_events (cs_handler L) wk (map (ConnRequest l) cs))
    (\<lambda>_ w'. ctx_conn (vars w') = Some c \<and> rejected (calls w') = rejected (calls w) @ cs) w"
  using assms
proof (induction cs arbitrary: w)
  case Nil
  then show ?case by (simp add: wp)
next
  case (Cons d cs)
  have "wp F (run_events (cs_handler L) wk (map (ConnRequest l) cs))
      (\<lambda>_ w'. ctx_conn (vars w') = Some c \<and> rejected (calls w') = rejected (calls w) @ d # cs) w1"
    if "live w1 = live w" "vars w1 = vars w" "rejected (calls w1) = rejected (calls w) @ [d]" for w1
    using Cons.IH [of w1] Cons.prems that by simp
  then show ?case
    using Cons.prems
    by (auto simp: wp server_conn_handle_cb_def rejected_def intro!: wp_ask)
qed

text \<open>C28: The server takes one client at a time: of the connection requests that arrive when none is pending, the
  first is kept and every later one rejected, in order.\<close>

theorem conn_requests_first_wins:
  assumes "run_events (cs_handler L) wk (map (ConnRequest l) (c # cs)) w = Some (Inr ((), w'))"
    and "RListener l \<in># live w" "ctx_conn (vars w) = None"
  shows "ctx_conn (vars w') = Some c \<and> rejected (calls w') = rejected (calls w) @ cs"
proof -
  have "wp (\<lambda>_. True) (run_events (cs_handler L) wk (map (ConnRequest l) cs))
      (\<lambda>_ w'. ctx_conn (vars w') = Some c \<and> rejected (calls w') = rejected (calls w) @ cs) w1"
    if "live w1 = live w" "ctx_conn (vars w1) = Some c" "rejected (calls w1) = rejected (calls w)" for w1
    using conn_requests_rejected [of l w1 c] assms(2) that by simp
  then have "wp (\<lambda>_. True) (run_events (cs_handler L) wk (map (ConnRequest l) (c # cs)))
      (\<lambda>_ w'. ctx_conn (vars w') = Some c \<and> rejected (calls w') = rejected (calls w) @ cs) w"
    using assms(2,3)
    by (auto simp: wp server_conn_handle_cb_def rejected_def intro!: wp_ask)
  from wp_returns [OF this assms(1)] show ?thesis .
qed

theorem conn_requests_first_wins_witness:
  "\<exists>w'. run_events (cs_handler (script_ucx [] [] [])) 1 (map (ConnRequest 2) [7, 8, 9]) (cs_world 0\<lparr>live := {#RListener 2#}\<rparr>) =
     Some (Inr ((), w')) \<and> ctx_conn (vars w') = Some 7 \<and> rejected (calls w') = [8, 9]"
proof -
  have "\<exists>w'. run_events (cs_handler (script_ucx [] [] [])) 1 (map (ConnRequest 2) [7, 8, 9]) (cs_world 0\<lparr>live := {#RListener 2#}\<rparr>) =
      Some (Inr ((), w'))"
    by (simp add: run_cs_demo)
  then obtain w' where w: "run_events (cs_handler (script_ucx [] [] [])) 1 (map (ConnRequest 2) [7, 8, 9])
      (cs_world 0\<lparr>live := {#RListener 2#}\<rparr>) = Some (Inr ((), w'))" ..
  from conn_requests_first_wins [OF w] w show ?thesis
    by (simp add: cs_world_def cs_start_sels rejected_def)
qed

section \<open>The options\<close>

text \<open>C35: Both programs take a port: the example server refuses one outside \<open>0 .. 65535\<close>, the hello program
  keeps the number modulo \<open>65536\<close> and refuses it if that is 0, so that it listens on another
  port than the one asked for.\<close>

theorem ports_checked_and_wrapped:
  "(fst (cs_parse_cmd [p, ''-p'', s] cs_start) = 0 \<longleftrightarrow> 0 \<le> c_atoi s \<and> c_atoi s \<le> 65535) \<and>
    (fst (hello_parse_cmd [p, ''-p'', s] hello_start) = UCS_OK \<longleftrightarrow> c_atoi s mod 65536 \<noteq> 0) \<and>
    uint (server_port (fst (snd (hello_parse_cmd [p, ''-p'', s] hello_start)))) = c_atoi s mod 65536"
proof -
  have "opt_kind ''a:l:p:c:6i:s:v:m:h'' (CHR ''p'') = Some True" "opt_kind ''wfb6e:n:p:s:m:ch'' (CHR ''p'') = Some True"
    by code_simp+
  then have g: "getopt ''a:l:p:c:6i:s:v:m:h'' [''-p'', s] = [(CHR ''p'', s)]" "getopt ''wfb6e:n:p:s:m:ch'' [''-p'', s] = [(CHR ''p'', s)]"
    by simp_all
  have w: "(word_of_int n :: 16 word) = 0 \<longleftrightarrow> n mod 65536 = 0" for n
    by transfer (simp add: take_bit_eq_mod)
  have u: "uint (word_of_int n :: 16 word) = n mod 65536" for n
    by transfer (simp add: take_bit_eq_mod)
  have "UCS_ERR_UNSUPPORTED \<noteq> UCS_OK" by (simp add: UCS_ERR_UNSUPPORTED_def UCS_OK_def)
  moreover have "fst (cs_parse_cmd [p, ''-p'', s] cs_start) = (if c_atoi s < 0 \<or> 65535 < c_atoi s then -1 else 0)"
    by (simp add: cs_parse_cmd_def g cs_option_def Let_def)
  moreover have "hello_parse_cmd [p, ''-p'', s] hello_start = (let port = word_of_int (c_atoi s) in
      (if port = 0 then UCS_ERR_UNSUPPORTED else UCS_OK, (parse_cmd_start hello_start)\<lparr>server_port := port\<rparr>, None))"
    by (simp add: hello_parse_cmd_def g hello_option_def Let_def)
  ultimately show ?thesis by (auto simp: Let_def w u)
qed

text \<open>C27: The command line leaves the variables well typed: \<^verbatim>\<open>parse_cmd\<close> returns 0, -1 or
  \<^verbatim>\<open>UCS_ERR_UNSUPPORTED\<close>; if 0, every number is one its C type holds, the length is not negative, the number of
  buffers positive and the kind of memory the one this build has; nothing but the options has changed.\<close>

theorem parse_cmd_typed:
  assumes "cs_parse_cmd argv cs_start = (ret, v, cmd)"
  shows "ret \<in> {0, -1, UCS_ERR_UNSUPPORTED} \<and> not_options v = not_options cs_start \<and> (ret = 0 \<longrightarrow> options_ok v)"
proof -
  have "options_ok cs_start" by (simp add: options_ok_def cs_start_def)
  then show ?thesis
    using cs_parse_cmd_ok [OF assms] by (simp add: UCS_ERR_UNSUPPORTED_def)
qed

theorem parse_cmd_typed_witness:
  "options_ok (cs_start\<lparr>num_iterations := 2, cs_string_length := 4\<rparr>)"
  using parse_cmd_typed [OF demo_cs_options(1)] by simp

end
