(* ===== verification/Ucx_Returns.thy ===== *)
theory Ucx_Returns
  imports Ucx_Experiments
begin

text \<open>
  When the programs of \<^verbatim>\<open>src/rdma_exp\<close> come to an end: \<open>yields P m\<close> says that \<open>m\<close> does not run for ever, whatever
  the state, and that what it returns satisfies \<open>P\<close>.
\<close>

section \<open>Programs that do not run for ever\<close>

definition yields :: "('a \<Rightarrow> bool) \<Rightarrow> ('s, 'a) prog \<Rightarrow> bool" where
  "yields P m \<longleftrightarrow> (\<forall>s. case m s of None \<Rightarrow> False | Some (Inl e) \<Rightarrow> True | Some (Inr (a, s')) \<Rightarrow> P a)"

abbreviation ends :: "('s, 'a) prog \<Rightarrow> bool" where
  "ends m \<equiv> yields (\<lambda>_. True) m"

named_theorems ends \<open>programs that end\<close>

lemma yields_bind_p: "yields P m \<Longrightarrow> (\<And>a. P a \<Longrightarrow> yields Q (f a)) \<Longrightarrow> yields Q (bind_p m f)"
  by (fastforce simp: yields_def bind_p_def split: option.splits sum.splits)

lemma ends_bind_p [ends]: "ends m \<Longrightarrow> (\<And>a. yields Q (f a)) \<Longrightarrow> yields Q (bind_p m f)"
  by (rule yields_bind_p)

lemma ends_then_p [ends]: "ends m \<Longrightarrow> yields Q n \<Longrightarrow> yields Q (then_p m n)"
  unfolding then_p_def by (rule ends_bind_p)

lemma yields_result [ends]: "P a \<Longrightarrow> yields P (result a)"
  by (simp add: yields_def result_def)

lemma yields_fault_p [ends]: "yields P (fault_p e)"
  by (simp add: yields_def fault_p_def)

lemma ends_get_p [ends]: "ends (get_p f)"
  by (simp add: yields_def get_p_def)

lemma ends_put_p [ends]: "ends (put_p f)"
  by (simp add: yields_def put_p_def)

lemma yields_if [ends]: "(c \<Longrightarrow> yields P m) \<Longrightarrow> (\<not> c \<Longrightarrow> yields P n) \<Longrightarrow> yields P (if c then m else n)"
  by simp

lemma yields_option [ends]:
  "yields P m \<Longrightarrow> (\<And>y. yields P (n y)) \<Longrightarrow> yields P (case x of None \<Rightarrow> m | Some y \<Rightarrow> n y)"
  by (simp split: option.split)

lemma yields_prod [ends]: "(\<And>y z. yields P (m y z)) \<Longrightarrow> yields P (case x of (y, z) \<Rightarrow> m y z)"
  by (simp split: prod.split)

lemma yields_let [ends]: "yields P (m x) \<Longrightarrow> yields P (Let x m)"
  by simp

lemma ends_mode [ends]:
  "(x = CLIENT_SERVER_SEND_RECV_STREAM \<Longrightarrow> yields P k) \<Longrightarrow> (x = CLIENT_SERVER_SEND_RECV_TAG \<Longrightarrow> yields P m) \<Longrightarrow>
   (x = CLIENT_SERVER_SEND_RECV_AM \<Longrightarrow> yields P n) \<Longrightarrow>
   yields P (case x of CLIENT_SERVER_SEND_RECV_STREAM \<Rightarrow> k | CLIENT_SERVER_SEND_RECV_TAG \<Rightarrow> m | CLIENT_SERVER_SEND_RECV_AM \<Rightarrow> n)"
  by (simp split: send_recv_type_t.split)

lemma ends_for_p [ends]: "(\<And>j. ends (body j)) \<Longrightarrow> ends (for_p i n body)"
  by (induction n arbitrary: i) (auto intro!: ends)

lemma ends_while_False [ends]: "ends (while_p (\<lambda>w. False \<and> b w) c)"
  by (simp add: yields_def while_p_def loop_p.simps bind_p_def get_p_def result_def)

lemma ends_ask [ends]: "ends (ask L c)"
  by (simp add: yields_def ask_def split: prod.split)

lemmas api_defs = vars_p_def print_p_def malloc_def calloc_def free_p_def load_p_def store_p_def needs_def
  acquire_def release_def create_p_def query_p_def destroy_p_def

lemma ends_api [ends]:
  "ends (vars_p f)" "ends (print_p t)" "ends (malloc L n)" "ends (calloc L n)" "ends (free_p p)"
  "ends (load_p p off n)" "ends (store_p p off d)" "ends (needs r)" "ends (acquire r)" "ends (release r)"
  "ends (create_p L c R)" "ends (query_p L c r)" "ends (destroy_p L c r)"
  by (auto simp: api_defs intro!: ends)

section \<open>A client whose requests never wait\<close>

text \<open>UCX may complete a transfer before the call that starts it returns.\<close>

definition immediate :: "'u ucx_lib \<Rightarrow> bool" where
  "immediate L \<longleftrightarrow> (\<forall>c u q. a_ptr (fst (L c u)) \<noteq> PtrReq q)"

abbreviation no_request :: "ucs_ptr \<Rightarrow> bool" where
  "no_request p \<equiv> \<forall>q. p \<noteq> PtrReq q"

lemma immediate_ask: "immediate L \<Longrightarrow> yields (\<lambda>a. no_request (a_ptr a)) (ask L c)"
  by (auto simp: yields_def ask_def immediate_def split: prod.split) (metis fst_conv)

lemma immediate_request: "immediate L \<Longrightarrow> yields (\<lambda>a. no_request (a_ptr a)) (request_p L c r cb)"
  unfolding request_p_def query_p_def
  by (rule yields_bind_p [of "\<lambda>a. no_request (a_ptr a)"])
    (auto intro!: ends immediate_ask split: ucs_ptr.split)

lemma ends_memory [ends]:
  "ends (mem_type_malloc L mt n)" "ends (mem_type_free mt p)" "ends (mem_type_memcpy mt p off q off' n)"
  "ends (mem_type_read mt d p n)" "ends (generate_test_string L mt p off k)" "ends (printf_s t)" "ends (alloca L n)"
  by (auto simp: mem_type_malloc_def mem_type_free_def mem_type_memcpy_def mem_type_read_def generate_test_string_def
      printf_s_def alloca_def intro!: ends split: ucs_memory_type.split)

lemma ends_frames [ends]:
  "ends (iov_get iov i)" "ends (iov_set iov i b)" "ends (set_complete iov c)" "ends (frame_enter L)" "ends (frame_leave r)"
  by (auto simp: iov_get_def iov_set_def set_complete_def frame_enter_def frame_leave_def intro!: ends)

lemma ends_buffers [ends]:
  "ends (buffer_free iov)" "ends (buffer_malloc L iov)" "ends (fill_buffer L iov)"
  by (auto simp: buffer_free_def [abs_def] buffer_malloc_def fill_buffer_def intro!: ends)

lemma ends_gather [ends]: "ends (iov_gather iov i n)"
  by (induction n arbitrary: i) (auto intro!: ends)

lemma ends_scatter [ends]: "ends (iov_scatter iov d i n)"
  by (induction n arbitrary: d i) (auto intro!: ends)

lemma ends_message [ends]:
  "ends (iov_deliver iov d)" "ends (add_int a b)" "ends (print_iov L iov)" "ends (print_result L srv iov k)"
  "ends (fill_request_param L iov cl)"
  by (auto simp: iov_deliver_def add_int_def print_iov_def print_result_def fill_request_param_def intro!: ends)

lemma ends_finalize: "no_request p \<Longrightarrow> ends (request_finalize L wk p srv iov k)"
  by (cases p) (auto simp: request_finalize_def request_wait_def intro!: ends)

lemma immediate_send: "immediate L \<Longrightarrow> yields no_request (iov_send L call ep iov)"
  unfolding iov_send_def
  by (rule ends_bind_p [OF ends_get_p], rule ends_bind_p [OF ends_gather], rule yields_bind_p [OF immediate_request])
    (auto intro!: ends)

lemma immediate_recv: "immediate L \<Longrightarrow> yields no_request (iov_recv L c r cb iov)"
  unfolding iov_recv_def
  by (rule yields_bind_p [OF immediate_request], assumption) (auto intro!: ends split: ucs_ptr.split)

lemma ends_transfer: "(\<And>iov. yields no_request (op iov)) \<Longrightarrow> ends (send_recv_with L wk srv k op)"
  unfolding send_recv_with_def
  by (auto intro!: ends yields_bind_p [of no_request] ends_finalize)

lemma ends_communication:
  "immediate L \<Longrightarrow> mode \<noteq> CLIENT_SERVER_SEND_RECV_AM \<or> \<not> srv \<Longrightarrow> ends (client_server_communication L wk ep mode srv k)"
  by (auto simp: client_server_communication_def send_recv_stream_def send_recv_tag_def send_recv_am_def
      intro!: ends ends_transfer immediate_send immediate_recv)

lemma ends_do_work:
  assumes "immediate L" "mode \<noteq> CLIENT_SERVER_SEND_RECV_AM"
  shows "ends (client_server_do_work L wk ep mode False)"
  unfolding client_server_do_work_def using assms(2)
  by (auto intro!: ends ends_communication [OF assms(1)])

lemma ends_close: "immediate L \<Longrightarrow> ends (ep_close L H wk ep force)"
  unfolding ep_close_def
  by (rule yields_bind_p [OF immediate_request], assumption) (auto intro!: ends split: ucs_ptr.split)

lemma ends_connect [ends]: "ends (set_sock_addr L s)" "ends (ucp_ep_create L wk target)" "ends (init_worker L ctx)"
    "ends (init_context L mode)"
  by (auto simp: set_sock_addr_def ucp_ep_create_def init_worker_def init_context_def intro!: ends)

lemma ends_client:
  assumes "immediate L" "mode \<noteq> CLIENT_SERVER_SEND_RECV_AM"
  shows "ends (run_client L wk host mode)"
  unfolding run_client_def start_client_def
  by (auto intro!: ends ends_do_work [OF assms] ends_close [OF assms(1)])



end
