(* ===== verification/Tpch_Generator.thy ===== *)
theory Tpch_Generator
  imports Krpc_Prelude
begin

text \<open>
  \<^verbatim>\<open>src/rdma_exp/generate_tpch.c\<close>: it fills a DuckDB file with test data.  DuckDB is a parameter: a function
  from calls to success or failure, over a state of its own.
\<close>

datatype duckdb_call =
  DbOpen string | DbConnect | DbQuery string | DbDisconnect | DbClose

type_synonym 'u duckdb = "duckdb_call \<Rightarrow> 'u \<Rightarrow> bool \<times> 'u"

text \<open>The exit status, the calls in order, and DuckDB's state.\<close>

definition generate_tpch_main :: "'u duckdb \<Rightarrow> 'u \<Rightarrow> int \<times> duckdb_call list \<times> 'u" where
  "generate_tpch_main db u =
     (case db (DbOpen ''tpch.duckdb'') u of (opened, u) \<Rightarrow>
      if \<not> opened then (1, [DbOpen ''tpch.duckdb''], u)
      else case db DbConnect u of (connected, u) \<Rightarrow>
      if \<not> connected then (1, [DbOpen ''tpch.duckdb'', DbConnect], u)
      else case db (DbQuery ''INSTALL tpch;'') u of (state, u) \<Rightarrow>
      case db (DbQuery ''LOAD tpch;'') u of (state, u) \<Rightarrow>
      case db (DbQuery ''CALL dbgen(sf=1);'') u of (state, u) \<Rightarrow>
      let cs = [DbOpen ''tpch.duckdb'', DbConnect, DbQuery ''INSTALL tpch;'', DbQuery ''LOAD tpch;'',
        DbQuery ''CALL dbgen(sf=1);''] in
      if \<not> state then (1, cs, u)
      else case db DbDisconnect u of (_, u) \<Rightarrow>
      case db DbClose u of (_, u) \<Rightarrow> (0, cs @ [DbDisconnect, DbClose], u))"

text \<open>Success closes what was opened; a failure after the database was opened leaves it open.\<close>

lemma generate_tpch_closes:
  assumes "generate_tpch_main db u = (r, cs, u')"
  shows "r \<in> {0, 1} \<and> (r = 0 \<longleftrightarrow> DbClose \<in> set cs) \<and> (DbClose \<in> set cs \<longleftrightarrow> DbDisconnect \<in> set cs)"
  using assms by (auto simp: generate_tpch_main_def Let_def split: prod.splits if_splits)

text \<open>What installing and loading the extension answer is not looked at.\<close>

lemma generate_tpch_last_query:
  assumes "\<And>c v. db c v = (c \<notin> failing, v)" "DbOpen ''tpch.duckdb'' \<notin> failing" "DbConnect \<notin> failing"
  shows "fst (generate_tpch_main db u) = 0 \<longleftrightarrow> DbQuery ''CALL dbgen(sf=1);'' \<notin> failing"
  using assms by (simp add: generate_tpch_main_def Let_def)

end
