(* ===== verification/Spec2Isabelle.thy ===== *)
theory Spec2Isabelle
  imports Example_Programs Drpc_Provider Epoll_Server Ucx_Returns Tpch_Generator
begin

text \<open>
  DuckOut: the Krpc framework and the Drpc library.

  The program.  DuckOut is a small C++ RPC system.  A Krpc server (\<^verbatim>\<open>src/src/Krpcprovider.cc\<close>) publishes
  protobuf services: it enters them in its tables and registers one ZooKeeper node per method, whose
  data is the address it listens on.  A Krpc client (\<^verbatim>\<open>src/src/Krpcchannel.cc\<close>) looks the node up,
  connects, and sends one request: a varint with the size of a header message, the header (service,
  method, size of the arguments) and the arguments.  The server finds the method in its tables, runs
  it and sends the serialized response back, unframed.  Both read their configuration
  (\<^verbatim>\<open>Krpcconfig.cc\<close>) at start-up (\<^verbatim>\<open>Krpcapplication.cc\<close>).  Beside it stand an epoll server with a thread
  pool (\<^verbatim>\<open>epollServer.cc\<close>, \<^verbatim>\<open>include/EpollServer.h\<close>), which is to replace muduo under the server, and Drpc
  (\<^verbatim>\<open>src/Drpc\<close>), a library with its own channel, controller and configuration reader.
  A user service with its server and its benchmark client (\<^verbatim>\<open>src/example\<close>) uses Krpc.  \<^verbatim>\<open>src/rdma_exp\<close> holds the
  C programs with which UCX was tried out as a transport.

  The theories, from the bottom up.
  \<^item> \<open>Krpc_Prelude\<close>: how a C++ function ends (\<open>fault\<close>), \<^verbatim>\<open>std::string\<close>, C strings, \<^verbatim>\<open>atoi\<close>, \<^verbatim>\<open>%d\<close>, map insertion.
    A \<^verbatim>\<open>std::string\<close> and a buffer are lists of \<open>char\<close>, a \<open>char\<close> being a byte.
  \<^item> \<open>Krpc_Config\<close>, \<open>Drpc_Config\<close>: \<^verbatim>\<open>Krpcconfig.cc\<close> and \<^verbatim>\<open>DrpcConfig.cpp\<close>.  The file is its text; \<^verbatim>\<open>fgets\<close> with
    its 1024 byte buffer and \<^verbatim>\<open>std::getline\<close> are modelled.  Both readers meet the interface
    \<open>config_loader\<close>; the lemmas say what a lookup returns for a file of well-formed lines, that loading
    never fails, what \<open>Trim\<close> does, and that the two readers agree on ordinary files.
  \<^item> \<open>Krpc_Controller\<close>, \<open>Drpc_Controller\<close>: the per-call controllers, \<^verbatim>\<open>Krpccontroller.cc\<close> and
    \<^verbatim>\<open>DrpcController.cpp\<close>, two instances of the interface \<open>rpc_controller\<close>.
  \<^item> \<open>Posix_Sockets\<close>: the socket calls over a descriptor table \<open>kern\<close> (open descriptors and a log of what
    the process did); what POSIX leaves open (which descriptor, how many bytes, which error) is an
    argument of each call.
  \<^item> \<open>Protobuf_Api\<close>: the protobuf runtime, which is not in the repository, as records of functions with the
    laws of its documented wire format (\<open>coded_stream\<close>, \<open>wire_format\<close>, \<open>message_format\<close>), and a base-128 instance.
  \<^item> \<open>Rpc_Header\<close>: the generated header message, \<^verbatim>\<open>Krpcheader.pb.cc\<close>.
  \<^item> \<open>Pb_Messages\<close>: what the generated messages of \<^verbatim>\<open>user.pb.cc\<close> have in common: parsing field by field, the interface
    \<open>generated_message\<close> and the round trip that follows from it.
  \<^item> \<open>Zk_Client\<close>: the ZooKeeper wrapper, \<^verbatim>\<open>zookeeperutil.cc\<close>.  The C client is a parameter with the laws
    \<open>zookeeper_store\<close>; the wrapper gives the interface \<open>service_registry\<close>.
  \<^item> \<open>Krpc_Provider\<close>: \<^verbatim>\<open>Krpcprovider.cc\<close>: \<open>NotifyService\<close> (tables), \<open>Run\<close> (registration), \<open>OnMessage\<close>,
    \<open>SendRpcResponse\<close>, and the specification \<open>dispatch\<close> that \<open>OnMessage\<close> refines on a complete request.
  \<^item> \<open>Krpc_Channel\<close>: \<^verbatim>\<open>Krpcchannel.cc\<close>: the lookup, connecting, and \<open>CallMethod\<close>, with the
    outcome of every system call in the record \<open>call_env\<close>.
  \<^item> \<open>Remote_Call\<close>: what the server's registration and the client's lookup give together.
  \<^item> \<open>User_Messages\<close>, \<open>User_Service\<close>: the seven messages and the service classes of \<^verbatim>\<open>user.pb.cc\<close>, and the service of
    \<^verbatim>\<open>callee/Kserver.cc\<close>; the provider answers its requests with the values of the methods.
  \<^item> \<open>User_Client\<close>, \<open>Example_Programs\<close>: \<^verbatim>\<open>caller/Kclient.cc\<close>, and both programs run against each other.
  \<^item> \<open>Drpc_Provider\<close>: \<^verbatim>\<open>DrpcService.cpp\<close>, a second provider, proved equal to the first.
  \<^item> \<open>Drpc_Service\<close>, \<open>Drpc_Channel\<close>: the message interface of \<^verbatim>\<open>DrpcService.h\<close> (\<open>message_codec\<close>), the greeter example, and
    \<^verbatim>\<open>DrpcChannel.cpp\<close>.  Its loops run against a script, a finite list of what each turn meets
    (a cancellation, bytes taken, an error); a loop is \<open>None\<close> when the script is used up, and the
    termination theorems say how long a script is long enough.
  \<^item> \<open>Getopt\<close>, \<open>Rpc_Application\<close>: \<^verbatim>\<open>getopt\<close>, which three programs share; the command line and the singletons of both libraries.
  \<^item> \<open>Thread_Pool\<close>: the pool of \<^verbatim>\<open>EpollServer.h\<close> as a step relation: each critical section, each
    notification and each wake-up is a step, in any interleaving.  \<open>pool_inv\<close> is its invariant,
    \<open>steps_left\<close> the measure that shows that the destructor drains the queue.
  \<^item> \<open>Epoll_Server\<close>: the server object and the tasks it hands the pool (through the interface
    \<open>task_executor\<close>), as a step relation and as an executable run.
  \<^item> \<open>Ucx_Prog\<close>, \<open>Ucx_Api\<close>: the language of the C programs: programs that may fail or run for ever over a state with
    blocks of memory, handles and the calls made, with a weakest precondition \<open>wp\<close>.  UCX and the
    system are a function from calls to answers; every use of a block or a handle that is not held is a
    fault.  \<open>ucx_callbacks\<close> is the interface between \<^verbatim>\<open>ucp_worker_progress\<close> and the callbacks it runs.
  \<^item> \<open>Ucx_Util\<close>: \<^verbatim>\<open>hello_world_util.h\<close> and \<^verbatim>\<open>ucp_util.h\<close>.
  \<^item> \<open>Ucx_Hello\<close>, \<open>Ucx_Hello_Run\<close>: \<^verbatim>\<open>ucp_hello_world.c\<close>; the lemmas follow a run from the address exchange to the
    end and say what is left in memory, which handles are open, and what was sent and printed.
  \<^item> \<open>Ucx_Client_Server\<close>, \<open>Ucx_Client_Server_Message\<close>, \<open>Ucx_Client_Server_Run\<close>: \<^verbatim>\<open>ucp_example_server.c\<close>: its definitions,
    one message (buffers, callbacks, request), and whole runs of client and server.
  \<^item> \<open>Ucx_Experiments\<close>: their properties, with a library that answers from a script.
  \<^item> \<open>Ucx_Returns\<close>: when a client must come to an end.
  \<^item> \<open>Tpch_Generator\<close>: \<^verbatim>\<open>generate_tpch.c\<close>.

  Conventions.  A function that can throw, exit or run into undefined behaviour has a result in
  \<open>'a res\<close>; an early return is a branch.  \<open>int\<close> fields are \<open>int\<close> where the code only compares
  them, and words where wrapping shows (ports, sizes, protobuf numbers, the
  counters of active messages).  Log and
  print statements have no counterpart, except that a call which the caller can observe
  (a send, a close) is in the log of \<open>kern\<close>.  A loop that need not end is a \<open>partial_function\<close> in the option monad,
  and the theorems about it first show that it returns; only the UCX programs, whose peers may
  stay silent, may wait for ever, and the theorems about them say what holds once they return.

  A parse that fails leaves the object as it was in the model; protobuf leaves it unspecified, and no caller
  reads it.

  Not modelled: muduo, glog, and the ZooKeeper, protobuf, UCX and DuckDB libraries (parameters, above);
  descriptors, reflection and arenas of the generated code; \<^verbatim>\<open>Communication.cc\<close>, \<^verbatim>\<open>Communication.h\<close> and
  \<^verbatim>\<open>ucpconnection.h\<close>, every line of which is commented out, and \<^verbatim>\<open>ucpconnection.cc\<close> and
  \<^verbatim>\<open>DrpcServer.cpp\<close>, which are empty; \<^verbatim>\<open>DrpcServer.h\<close> and \<^verbatim>\<open>callee/dserver.cpp\<close>, which use a class that is declared and
  defined nowhere; \<^verbatim>\<open>KrpcLogger.h\<close>, which only calls glog; the test, which asserts \<^verbatim>\<open>true\<close>.  Of the UCX programs
  the usage texts, the messages on \<^verbatim>\<open>stderr\<close>, the texts of socket addresses and the branches for CUDA,
  which the makefile does not enable, are left out.
\<close>

section \<open>A remote call\<close>


definition client_env :: "zstore \<Rightarrow> (zstore, unit) call_env" where
  "client_env z = example_call_env []\<lparr>env_z := z\<rparr>"

lemma client_env_simps [simp]:
  "env_starts (client_env z)" "env_zk (client_env z) = zstore_api" "env_z (client_env z) = z"
  "env_stack (client_env z) = replicate 64 NUL" "env_connect (client_env z) = None"
  "env_fd (client_env z) = 3" "env_send (client_env z) = IoN 100" "env_recv (client_env z) = Inr ''abab''"
  by (simp_all add: client_env_def example_call_env_def env_starts_def)


end
